(* ===== verification/CCM_Prelude.thy ===== *)
theory CCM_Prelude
  imports Main "HOL-Library.AList"
begin

text \<open>
  Shared vocabulary of the development.

  \<^item> Go error values (\<open>gerr\<close>): the sentinel errors and error structs the code
    inspects with \<open>errors.As\<close> and \<open>errors.Is\<close>, and \<open>fmt.Errorf\<close>
    values with their format string and arguments. \<open>Wrapf\<close> is an \<open>Errorf\<close> with
    a \<open>%w\<close> verb, so that the chain can be walked.
  \<^item> Results (\<open>'a res\<close>): a Go call returns a value (\<open>Ok\<close>), returns a non-nil
    error (\<open>Err\<close>), or panics (\<open>Panic\<close>: nil dereference, index out of range).
  \<^item> \<open>('s, 'a) eff\<close>: a computation that reads and writes a state \<open>'s\<close> and
    yields a result. The combinators below are the control flow the code uses:
    \<open>bindE\<close> is ``if err != nil { return err }'', \<open>handleE\<close> inspects the error,
    \<open>forE\<close> and \<open>foldE\<close> are range loops that stop at the first error.
  \<^item> Generic lemmas on these combinators, on lists and on association lists.
\<close>

named_theorems res_simps "evaluation rules of the result combinators"
named_theorems eff_simps "evaluation rules of the effect combinators"
named_theorems eff_ok "how a computation that succeeded ran"
named_theorems no_panic "functions that never panic"
named_theorems safe_intros "rules for computations that never panic"

section \<open>Errors and results\<close>

datatype kube_reason = KubeNotFound | KubeConflict | KubeServerTimeout | KubeOther

datatype gerr =
    LbNotFound string int
  | LinodeError int string
  | KubeError kube_reason string
  | InstanceNotFound
  | InstanceNoIPAddresses int
  | InvalidProviderID string
  | VpcLookupError string
  | SubnetLookupError string
  | NumErrSyntax string
  | NumErrRange string
  | JSONError string
  | CIDRParseError string
  | ErrNoNodesAvailable
  | ErrTooManyIPs
  | ErrTooManyNBFirewalls
  | ErrInvalidFWConfig
  | Errorf string "string list"
  | Wrapf string "string list" gerr

datatype 'a res = Ok 'a | Err gerr | Panic

text \<open>\<open>errors.As(err, target)\<close> walks the chain of wrapped errors until a value of the
  target's type is found; \<open>errCause\<close> is the innermost error, which is where every typed
  error of this program sits.\<close>

fun errCause :: "gerr \<Rightarrow> gerr" where
  "errCause (Wrapf _ _ e) = errCause e"
| "errCause e = e"

definition asLbNotFound :: "gerr \<Rightarrow> bool" where
  "asLbNotFound e = (case errCause e of LbNotFound _ _ \<Rightarrow> True | _ \<Rightarrow> False)"

definition asLinodeError :: "gerr \<Rightarrow> int option" where
  "asLinodeError e = (case errCause e of LinodeError code _ \<Rightarrow> Some code | _ \<Rightarrow> None)"

definition isInstanceNotFound :: "gerr \<Rightarrow> bool" where
  "isInstanceNotFound e = (errCause e = InstanceNotFound)"

definition isKubeReason :: "kube_reason \<Rightarrow> gerr \<Rightarrow> bool" where
  "isKubeReason r e = (case errCause e of KubeError r' _ \<Rightarrow> r' = r | _ \<Rightarrow> False)"

primrec bindR :: "'a res \<Rightarrow> ('a \<Rightarrow> 'b res) \<Rightarrow> 'b res" where
  "bindR (Ok a) f = f a"
| "bindR (Err e) f = Err e"
| "bindR Panic f = Panic"

primrec mapErr :: "(gerr \<Rightarrow> gerr) \<Rightarrow> 'a res \<Rightarrow> 'a res" where
  "mapErr f (Ok a) = Ok a"
| "mapErr f (Err e) = Err (f e)"
| "mapErr f Panic = Panic"

definition derefR :: "'a option \<Rightarrow> 'a res" where
  "derefR p = (case p of Some a \<Rightarrow> Ok a | None \<Rightarrow> Panic)"

definition indexR :: "'a list \<Rightarrow> nat \<Rightarrow> 'a res" where
  "indexR xs i = (if i < length xs then Ok (xs ! i) else Panic)"

definition isOk :: "'a res \<Rightarrow> bool" where
  "isOk r = (case r of Ok _ \<Rightarrow> True | _ \<Rightarrow> False)"

primrec mapR :: "('a \<Rightarrow> 'b res) \<Rightarrow> 'a list \<Rightarrow> 'b list res" where
  "mapR f [] = Ok []"
| "mapR f (x # xs) = bindR (f x) (\<lambda>y. bindR (mapR f xs) (\<lambda>ys. Ok (y # ys)))"

lemma bindR_Ok_iff [res_simps]: "bindR m f = Ok b \<longleftrightarrow> (\<exists>a. m = Ok a \<and> f a = Ok b)"
  by (cases m) auto

lemma bindR_Err_iff [res_simps]:
  "bindR m f = Err e \<longleftrightarrow> m = Err e \<or> (\<exists>a. m = Ok a \<and> f a = Err e)"
  by (cases m) auto

lemma bindR_Panic_iff [res_simps]:
  "bindR m f = Panic \<longleftrightarrow> m = Panic \<or> (\<exists>a. m = Ok a \<and> f a = Panic)"
  by (cases m) auto

lemma mapErr_iff [res_simps]:
  "mapErr f m = Ok a \<longleftrightarrow> m = Ok a"
  "mapErr f m = Panic \<longleftrightarrow> m = Panic"
  "mapErr f m = Err e \<longleftrightarrow> (\<exists>e'. m = Err e' \<and> e = f e')"
  by (cases m; auto)+

lemma derefR_iff [res_simps]:
  "derefR p = Ok a \<longleftrightarrow> p = Some a" "derefR p = Panic \<longleftrightarrow> p = None" "derefR p \<noteq> Err e"
  by (auto simp: derefR_def split: option.splits)

lemma derefR_simps [simp]: "derefR (Some a) = Ok a" "derefR None = Panic"
  by (simp_all add: derefR_def)

lemma isOk_simps [simp]: "isOk (Ok a)" "\<not> isOk (Err e)" "\<not> isOk Panic"
  by (simp_all add: isOk_def)

lemma mapR_no_panic: "(\<And>x. f x \<noteq> Panic) \<Longrightarrow> mapR f xs \<noteq> Panic"
  by (induction xs) (auto simp: res_simps)

lemma mapR_Ok_length: "mapR f xs = Ok ys \<Longrightarrow> length ys = length xs"
  by (induction xs arbitrary: ys) (auto simp: res_simps)

lemma mapR_Ok_nth: "mapR f xs = Ok ys \<Longrightarrow> i < length xs \<Longrightarrow> f (xs ! i) = Ok (ys ! i)"
  by (induction xs arbitrary: ys i) (auto simp: res_simps nth_Cons split: nat.splits)

lemma mapR_Ok_map: "(\<And>x. x \<in> set xs \<Longrightarrow> f x = Ok (g x)) \<Longrightarrow> mapR f xs = Ok (map g xs)"
  by (induction xs) auto

section \<open>Effects\<close>

type_synonym ('s, 'a) eff = "'s \<Rightarrow> 'a res \<times> 's"

definition retE :: "'a \<Rightarrow> ('s, 'a) eff" where
  "retE a = (\<lambda>s. (Ok a, s))"

definition throwE :: "gerr \<Rightarrow> ('s, 'a) eff" where
  "throwE e = (\<lambda>s. (Err e, s))"

definition panicE :: "('s, 'a) eff" where
  "panicE = (\<lambda>s. (Panic, s))"

definition liftR :: "'a res \<Rightarrow> ('s, 'a) eff" where
  "liftR r = (\<lambda>s. (r, s))"

definition handleE ::
  "('s, 'a) eff \<Rightarrow> (gerr \<Rightarrow> ('s, 'b) eff) \<Rightarrow> ('a \<Rightarrow> ('s, 'b) eff) \<Rightarrow> ('s, 'b) eff" where
  "handleE m h f = (\<lambda>s. case m s of
     (Ok a, s') \<Rightarrow> f a s'
   | (Err e, s') \<Rightarrow> h e s'
   | (Panic, s') \<Rightarrow> (Panic, s'))"

definition bindE :: "('s, 'a) eff \<Rightarrow> ('a \<Rightarrow> ('s, 'b) eff) \<Rightarrow> ('s, 'b) eff" where
  "bindE m f = handleE m throwE f"

definition thenE :: "('s, 'a) eff \<Rightarrow> ('s, 'b) eff \<Rightarrow> ('s, 'b) eff" where
  "thenE m k = bindE m (\<lambda>_. k)"

definition wrapE :: "(gerr \<Rightarrow> gerr) \<Rightarrow> ('s, 'a) eff \<Rightarrow> ('s, 'a) eff" where
  "wrapE w m = handleE m (\<lambda>e. throwE (w e)) retE"

definition ignoreE :: "('s, 'a) eff \<Rightarrow> ('s, unit) eff" where
  "ignoreE m = handleE m (\<lambda>_. retE ()) (\<lambda>_. retE ())"

text \<open>\<open>defer d()\<close> around \<open>m\<close>: \<open>d\<close> runs last, also when \<open>m\<close> fails or
  panics, and the result is the one of \<open>m\<close>.\<close>

definition deferE :: "('s, 'a) eff \<Rightarrow> ('s, unit) eff \<Rightarrow> ('s, 'a) eff" where
  "deferE m d = (\<lambda>s. case m s of (r, t) \<Rightarrow> (case d t of (Panic, u) \<Rightarrow> (Panic, u) | (_, u) \<Rightarrow> (r, u)))"

definition getsE :: "('s \<Rightarrow> 'a) \<Rightarrow> ('s, 'a) eff" where
  "getsE f = (\<lambda>s. (Ok (f s), s))"

definition modifyE :: "('s \<Rightarrow> 's) \<Rightarrow> ('s, unit) eff" where
  "modifyE f = (\<lambda>s. (Ok (), f s))"

primrec foldE :: "('b \<Rightarrow> 'a \<Rightarrow> ('s, 'b) eff) \<Rightarrow> 'b \<Rightarrow> 'a list \<Rightarrow> ('s, 'b) eff" where
  "foldE f b [] = retE b"
| "foldE f b (x # xs) = bindE (f b x) (\<lambda>b'. foldE f b' xs)"

primrec forE :: "'a list \<Rightarrow> ('a \<Rightarrow> ('s, unit) eff) \<Rightarrow> ('s, unit) eff" where
  "forE [] f = retE ()"
| "forE (x # xs) f = thenE (f x) (forE xs f)"

lemma eff_apply [eff_simps]:
  "retE a s = (Ok a, s)"
  "throwE e s = (Err e, s)"
  "panicE s = (Panic, s)"
  "liftR r s = (r, s)"
  "getsE g s = (Ok (g s), s)"
  "modifyE u s = (Ok (), u s)"
  by (simp_all add: retE_def throwE_def panicE_def liftR_def getsE_def modifyE_def)

lemma handleE_apply [eff_simps]:
  "handleE m h f s = (case m s of (Ok a, s') \<Rightarrow> f a s' | (Err e, s') \<Rightarrow> h e s'
     | (Panic, s') \<Rightarrow> (Panic, s'))"
  by (simp add: handleE_def)

lemma bindE_apply [eff_simps]:
  "bindE m f s = (case m s of (Ok a, s') \<Rightarrow> f a s' | (Err e, s') \<Rightarrow> (Err e, s')
     | (Panic, s') \<Rightarrow> (Panic, s'))"
  by (simp add: bindE_def handleE_def throwE_def split: prod.split res.split)

lemma thenE_apply [eff_simps]:
  "thenE m k s = (case m s of (Ok _, s') \<Rightarrow> k s' | (Err e, s') \<Rightarrow> (Err e, s')
     | (Panic, s') \<Rightarrow> (Panic, s'))"
  by (simp add: thenE_def bindE_apply)

lemma wrapE_apply [eff_simps]:
  "wrapE w m s = (case m s of (Ok a, s') \<Rightarrow> (Ok a, s') | (Err e, s') \<Rightarrow> (Err (w e), s')
     | (Panic, s') \<Rightarrow> (Panic, s'))"
  by (simp add: wrapE_def handleE_apply eff_apply split: prod.split res.split)

lemma ignoreE_apply [eff_simps]:
  "ignoreE m s = (case m s of (Panic, s') \<Rightarrow> (Panic, s') | (_, s') \<Rightarrow> (Ok (), s'))"
  by (simp add: ignoreE_def handleE_apply eff_apply split: prod.split res.split)

lemma deferE_apply [eff_simps]:
  "deferE m d s = (case m s of (r, t) \<Rightarrow> (case d t of (Panic, u) \<Rightarrow> (Panic, u) | (_, u) \<Rightarrow> (r, u)))"
  by (simp add: deferE_def)

lemma bindE_retE [simp]: "bindE (retE a) f = f a"
  by (rule ext) (simp add: eff_simps)

lemma bindE_throwE [simp]: "bindE (throwE e) f = throwE e"
  by (rule ext) (simp add: eff_simps)

lemma bindE_panicE [simp]: "bindE panicE f = panicE"
  by (rule ext) (simp add: eff_simps)

lemma bindE_retE_right [simp]: "bindE m retE = m"
  by (rule ext) (simp add: eff_simps split: prod.split res.split)

lemma liftR_simps [simp]: "liftR (Ok a) = retE a" "liftR (Err e) = throwE e" "liftR Panic = panicE"
  by (rule ext; simp add: eff_apply)+

lemma bindE_getsE: "bindE (getsE (\<lambda>_. a)) f = f a"
  by (rule ext) (simp add: eff_simps)

lemma bindE_assoc: "bindE (bindE m f) g = bindE m (\<lambda>x. bindE (f x) g)"
  by (rule ext) (simp add: eff_simps split: prod.split res.split)

lemma bindE_Ok_iff [eff_ok]:
  "bindE m f s = (Ok b, t) \<longleftrightarrow> (\<exists>a s'. m s = (Ok a, s') \<and> f a s' = (Ok b, t))"
  by (auto simp: bindE_apply split: prod.splits res.splits)

lemma thenE_Ok_iff [eff_ok]:
  "thenE m k s = (Ok b, t) \<longleftrightarrow> (\<exists>a s'. m s = (Ok a, s') \<and> k s' = (Ok b, t))"
  by (auto simp: thenE_apply split: prod.splits res.splits)

lemma pure_Ok_iff [eff_ok]:
  "retE a s = (Ok b, t) \<longleftrightarrow> b = a \<and> t = s"
  "throwE e s \<noteq> (Ok b, t)"
  "panicE s \<noteq> (Ok b, t)"
  "liftR r s = (Ok b, t) \<longleftrightarrow> r = Ok b \<and> t = s"
  "getsE g s = (Ok c, t) \<longleftrightarrow> c = g s \<and> t = s"
  "modifyE u s = (Ok d, t) \<longleftrightarrow> t = u s"
  by (auto simp: eff_apply)

lemma handleE_Ok_iff [eff_ok]:
  "handleE m h f s = (Ok b, t) \<longleftrightarrow> (\<exists>a s'. m s = (Ok a, s') \<and> f a s' = (Ok b, t)) \<or>
     (\<exists>e s'. m s = (Err e, s') \<and> h e s' = (Ok b, t))"
  by (auto simp: handleE_apply split: prod.splits res.splits)

lemma wrapE_Ok_iff [eff_ok]: "wrapE w m s = (Ok b, t) \<longleftrightarrow> m s = (Ok b, t)"
  by (auto simp: wrapE_apply split: prod.splits res.splits)

lemma ignoreE_Ok_iff [eff_ok]:
  "ignoreE m s = (Ok u, t) \<longleftrightarrow> (\<exists>r. m s = (r, t) \<and> r \<noteq> Panic)"
  by (auto simp: ignoreE_apply split: prod.splits res.splits)

lemma foldE_invariant:
  assumes "foldE f b xs s = (Ok b', t)" "I b s"
    and "\<And>b x s b' t. x \<in> set xs \<Longrightarrow> I b s \<Longrightarrow> f b x s = (Ok b', t) \<Longrightarrow> I b' t"
  shows "I b' t"
  using assms
proof (induction xs arbitrary: b s)
  case (Cons x xs)
  then obtain c s' where step: "f b x s = (Ok c, s')" and rest: "foldE f c xs s' = (Ok b', t)"
    by (auto simp: bindE_Ok_iff)
  have "I c s'" using Cons.prems(2) step by (rule Cons.prems(3) [of x b s, rotated]) simp
  with rest show ?case
    by (rule Cons.IH) (rule Cons.prems(3); simp)
qed (simp add: eff_apply)

lemma forE_invariant:
  assumes "forE xs f s = (Ok (), t)" "I s"
    and "\<And>x s t. x \<in> set xs \<Longrightarrow> I s \<Longrightarrow> f x s = (Ok (), t) \<Longrightarrow> I t"
  shows "I t"
  using assms
proof (induction xs arbitrary: s)
  case (Cons x xs)
  then obtain s' where step: "f x s = (Ok (), s')" and rest: "forE xs f s' = (Ok (), t)"
    by (auto simp: thenE_Ok_iff)
  have "I s'" using Cons.prems(2) step by (rule Cons.prems(3) [of x s, rotated]) simp
  with rest show ?case
    by (rule Cons.IH) (rule Cons.prems(3); simp)
qed (simp add: eff_apply)

text \<open>A loop that succeeded, with what each round added to a log \<open>W\<close> of the state.\<close>

lemma forE_chunks:
  assumes "forE xs f s = (Ok (), t)"
    and "\<And>x s t. x \<in> set xs \<Longrightarrow> f x s = (Ok (), t) \<Longrightarrow> \<exists>part. W t = W s @ part \<and> R x part"
  shows "\<exists>parts. W t = W s @ concat parts \<and> list_all2 R xs parts"
  using assms
proof (induction xs arbitrary: s)
  case (Cons x xs)
  then obtain s' where step: "f x s = (Ok (), s')" and rest: "forE xs f s' = (Ok (), t)"
    by (auto simp: thenE_Ok_iff)
  obtain part where "W s' = W s @ part" "R x part" using Cons.prems(2) [OF _ step] by auto
  moreover obtain parts where "W t = W s' @ concat parts" "list_all2 R xs parts"
    using Cons.IH [OF rest] Cons.prems(2) by auto
  ultimately show ?case by (intro exI [of _ "part # parts"]) simp
qed (simp add: eff_apply)

lemma foldE_no_Err:
  assumes "\<And>b x s e t. f b x s \<noteq> (Err e, t)"
  shows "foldE f b xs s \<noteq> (Err e, t)"
  using assms
  by (induction xs arbitrary: b s) (auto simp: eff_apply bindE_apply split: prod.splits res.splits)

section \<open>Computations that stay in a preorder\<close>

text \<open>
  \<open>keeps R m\<close>: from any state, \<open>m\<close> ends in a state related to the first by
  \<open>R\<close>, however it ends (value, error or panic). For a preorder \<open>R\<close> the property
  is closed under every combinator, so that a handler is shown to stay in \<open>R\<close> by going
  through its calls. Two uses: \<open>R\<close> says which calls may be issued (the trace grows by
  such calls only), or that a part of the state is left alone.
\<close>

definition keeps :: "('s \<Rightarrow> 's \<Rightarrow> bool) \<Rightarrow> ('s, 'a) eff \<Rightarrow> bool" where
  "keeps R m \<longleftrightarrow> (\<forall>s. R s (snd (m s)))"

lemma keepsI: "(\<And>s. R s (snd (m s))) \<Longrightarrow> keeps R m"
  by (simp add: keeps_def)

text \<open>\<open>yields V m\<close>: whenever \<open>m\<close> returns a value, the value satisfies \<open>V\<close>.\<close>

definition yields :: "('a \<Rightarrow> bool) \<Rightarrow> ('s, 'a) eff \<Rightarrow> bool" where
  "yields V m \<longleftrightarrow> (\<forall>s a t. m s = (Ok a, t) \<longrightarrow> V a)"

lemma yieldsI: "(\<And>s a t. m s = (Ok a, t) \<Longrightarrow> V a) \<Longrightarrow> yields V m"
  by (auto simp: yields_def)

lemma yieldsD: "yields V m \<Longrightarrow> m s = (Ok a, t) \<Longrightarrow> V a"
  by (auto simp: yields_def)

lemma keepsD: "keeps R m \<Longrightarrow> m s = (r, t) \<Longrightarrow> R s t"
  by (metis keeps_def snd_conv)

locale eff_preorder =
  fixes R :: "'s \<Rightarrow> 's \<Rightarrow> bool"
  assumes R_refl: "R s s"
    and R_trans: "R s t \<Longrightarrow> R t u \<Longrightarrow> R s u"
begin

lemma keeps_pure:
  "keeps R (retE a)" "keeps R (throwE e)" "keeps R panicE" "keeps R (liftR r)" "keeps R (getsE g)"
  by (simp_all add: keeps_def eff_simps R_refl)

lemma keeps_modifyE: "(\<And>s. R s (u s)) \<Longrightarrow> keeps R (modifyE u)"
  by (simp add: keeps_def eff_simps)

lemma keeps_handleE:
  assumes "keeps R m" "\<And>e. keeps R (h e)" "\<And>a. keeps R (f a)"
  shows "keeps R (handleE m h f)"
proof (rule keepsI)
  fix s
  obtain r t where m: "m s = (r, t)" by fastforce
  have "R s t" using keepsD [OF assms(1) m] .
  moreover have "R t (snd (h e t))" for e using assms(2) by (simp add: keeps_def)
  moreover have "R t (snd (f a t))" for a using assms(3) by (simp add: keeps_def)
  ultimately show "R s (snd (handleE m h f s))"
    by (cases r) (auto simp: eff_simps m intro: R_trans)
qed

lemma keeps_bindE: "keeps R m \<Longrightarrow> (\<And>a. keeps R (f a)) \<Longrightarrow> keeps R (bindE m f)"
  by (simp add: bindE_def keeps_handleE keeps_pure)

lemma keeps_bindE_yields:
  assumes "keeps R m" "yields V m" "\<And>a. V a \<Longrightarrow> keeps R (f a)"
  shows "keeps R (bindE m f)"
proof (rule keepsI)
  fix s
  obtain r t where m: "m s = (r, t)" by fastforce
  have "R s t" using keepsD [OF assms(1) m] .
  moreover have "R t (snd (f a t))" if "r = Ok a" for a
    using yieldsD [OF assms(2), of s a t] assms(3) [of a] m that by (simp add: keeps_def)
  ultimately show "R s (snd (bindE m f s))"
    by (cases r) (auto simp: eff_simps m intro: R_trans)
qed

lemma keeps_thenE: "keeps R m \<Longrightarrow> keeps R k \<Longrightarrow> keeps R (thenE m k)"
  by (simp add: thenE_def keeps_bindE)

lemma keeps_wrapE: "keeps R m \<Longrightarrow> keeps R (wrapE w m)"
  by (simp add: wrapE_def keeps_handleE keeps_pure)

lemma keeps_ignoreE: "keeps R m \<Longrightarrow> keeps R (ignoreE m)"
  by (simp add: ignoreE_def keeps_handleE keeps_pure)

lemma keeps_deferE:
  assumes "keeps R m" "keeps R d"
  shows "keeps R (deferE m d)"
proof (rule keepsI)
  fix s
  obtain r t where m: "m s = (r, t)" by fastforce
  obtain r' u where d: "d t = (r', u)" by fastforce
  have "R s u" using keepsD [OF assms(1) m] keepsD [OF assms(2) d] by (rule R_trans)
  then show "R s (snd (deferE m d s))" by (cases r') (auto simp: eff_simps m d)
qed

lemma keeps_foldE: "(\<And>b x. x \<in> set xs \<Longrightarrow> keeps R (f b x)) \<Longrightarrow> keeps R (foldE f b xs)"
  by (induction xs arbitrary: b) (auto intro!: keeps_bindE keeps_pure)

lemma keeps_forE: "(\<And>x. x \<in> set xs \<Longrightarrow> keeps R (f x)) \<Longrightarrow> keeps R (forE xs f)"
  by (induction xs) (auto intro!: keeps_thenE keeps_pure)

lemma keeps_if: "(b \<Longrightarrow> keeps R m) \<Longrightarrow> (\<not> b \<Longrightarrow> keeps R k) \<Longrightarrow> keeps R (if b then m else k)"
  by simp

lemma keeps_option:
  "(p = None \<Longrightarrow> keeps R m) \<Longrightarrow> (\<And>a. p = Some a \<Longrightarrow> keeps R (f a)) \<Longrightarrow>
   keeps R (case p of None \<Rightarrow> m | Some a \<Rightarrow> f a)"
  by (cases p) auto

lemma keeps_list:
  "(xs = [] \<Longrightarrow> keeps R m) \<Longrightarrow> (\<And>y ys. xs = y # ys \<Longrightarrow> keeps R (f y ys)) \<Longrightarrow>
   keeps R (case xs of [] \<Rightarrow> m | y # ys \<Rightarrow> f y ys)"
  by (cases xs) auto

lemma keeps_prod: "(\<And>a b. p = (a, b) \<Longrightarrow> keeps R (f a b)) \<Longrightarrow> keeps R (case p of (a, b) \<Rightarrow> f a b)"
  by (cases p) auto

lemma keeps_res:
  "(\<And>a. r = Ok a \<Longrightarrow> keeps R (f a)) \<Longrightarrow> (\<And>e. r = Err e \<Longrightarrow> keeps R (h e)) \<Longrightarrow>
   (r = Panic \<Longrightarrow> keeps R p) \<Longrightarrow>
   keeps R (case r of Ok a \<Rightarrow> f a | Err e \<Rightarrow> h e | Panic \<Rightarrow> p)"
  by (cases r) auto

lemma keeps_Let: "keeps R (f x) \<Longrightarrow> keeps R (let y = x in f y)"
  by simp

lemmas keeps_rules = keeps_pure keeps_handleE keeps_bindE keeps_thenE keeps_wrapE keeps_ignoreE keeps_deferE
  keeps_foldE keeps_forE keeps_if keeps_option keeps_list keeps_prod keeps_res keeps_Let

end

section \<open>Iteration order of maps\<close>

text \<open>A Go map is an association list with distinct keys. Go leaves the order in which
  \<open>range\<close> visits a map unspecified, so that order is an argument wherever the code
  ranges over one: a list of positions, a permutation of \<open>[0..<n]\<close>.\<close>

definition visit :: "nat list \<Rightarrow> 'a list \<Rightarrow> 'a list" where
  "visit p xs = map (\<lambda>i. xs ! i) (filter (\<lambda>i. i < length xs) p)"

definition is_order :: "nat list \<Rightarrow> nat \<Rightarrow> bool" where
  "is_order p n \<longleftrightarrow> distinct p \<and> set p = {..<n}"

lemma visit_set: "is_order p (length xs) \<Longrightarrow> set (visit p xs) = set xs"
  by (force simp: visit_def is_order_def in_set_conv_nth image_iff)

lemma visit_subset: "set (visit p xs) \<subseteq> set xs"
  by (auto simp: visit_def)

lemma visit_Nil [simp]: "visit p [] = []"
  by (simp add: visit_def)

lemma is_order_upt: "is_order [0..<n] n"
  by (auto simp: is_order_def)

lemma visit_upt [simp]: "visit [0..<length xs] xs = xs"
  by (simp add: visit_def map_nth)

section \<open>Lists\<close>

primrec find_first :: "('a \<Rightarrow> bool) \<Rightarrow> 'a list \<Rightarrow> 'a option" where
  "find_first P [] = None"
| "find_first P (x # xs) = (if P x then Some x else find_first P xs)"

lemma find_first_Some: "find_first P xs = Some x \<Longrightarrow> x \<in> set xs \<and> P x"
  by (induction xs) (auto split: if_splits)

lemma find_first_None: "find_first P xs = None \<longleftrightarrow> (\<forall>x\<in>set xs. \<not> P x)"
  by (induction xs) auto

lemma find_first_append:
  "find_first P (xs @ ys) = (case find_first P xs of Some x \<Rightarrow> Some x | None \<Rightarrow> find_first P ys)"
  by (induction xs) auto

lemma set_AList_update: "set (AList.update k v al) \<subseteq> insert (k, v) (set al)"
  by (induction al) auto

lemma map_of_AList_update [simp]: "map_of (AList.update k v al) = (map_of al)(k \<mapsto> v)"
  by (simp add: update_conv')

lemma map_of_AList_delete [simp]: "map_of (AList.delete k al) = (map_of al)(k := None)"
  by (simp add: delete_conv')

section \<open>No panics\<close>

definition safe :: "('s, 'a) eff \<Rightarrow> bool" where
  "safe m \<longleftrightarrow> (\<forall>s. fst (m s) \<noteq> Panic)"

lemma safe_pure [safe_intros]:
  "safe (retE a)" "safe (throwE e)" "safe (getsE g)" "safe (modifyE u)" "r \<noteq> Panic \<Longrightarrow> safe (liftR r)"
  by (simp_all add: safe_def eff_simps)

lemma safe_handleE [safe_intros]:
  "safe m \<Longrightarrow> (\<And>e. safe (h e)) \<Longrightarrow> (\<And>a. safe (f a)) \<Longrightarrow> safe (handleE m h f)"
  by (auto simp: safe_def eff_simps split: prod.split res.split) (metis fst_conv)

lemma safe_bindE [safe_intros]: "safe m \<Longrightarrow> (\<And>a. safe (f a)) \<Longrightarrow> safe (bindE m f)"
  unfolding bindE_def by (intro safe_intros)

lemma safe_thenE [safe_intros]: "safe m \<Longrightarrow> safe k \<Longrightarrow> safe (thenE m k)"
  unfolding thenE_def by (intro safe_intros)

lemma safe_wrapE [safe_intros]: "safe m \<Longrightarrow> safe (wrapE w m)"
  unfolding wrapE_def by (intro safe_intros)

lemma safe_ignoreE [safe_intros]: "safe m \<Longrightarrow> safe (ignoreE m)"
  unfolding ignoreE_def by (intro safe_intros)

lemma safe_deferE [safe_intros]: "safe m \<Longrightarrow> safe d \<Longrightarrow> safe (deferE m d)"
  by (auto simp: safe_def eff_simps split: prod.split res.split) (metis fst_conv)+

lemma safe_cases [safe_intros]:
  "(b \<Longrightarrow> safe m) \<Longrightarrow> (\<not> b \<Longrightarrow> safe k) \<Longrightarrow> safe (if b then m else k)"
  "(p = None \<Longrightarrow> safe m) \<Longrightarrow> (\<And>x. p = Some x \<Longrightarrow> safe (f x)) \<Longrightarrow> safe (case p of None \<Rightarrow> m | Some x \<Rightarrow> f x)"
  "(xs = [] \<Longrightarrow> safe m) \<Longrightarrow> (\<And>y ys. xs = y # ys \<Longrightarrow> safe (g y ys)) \<Longrightarrow> safe (case xs of [] \<Rightarrow> m | y # ys \<Rightarrow> g y ys)"
  "(\<And>x. z = Inl x \<Longrightarrow> safe (h1 x)) \<Longrightarrow> (\<And>y. z = Inr y \<Longrightarrow> safe (h2 y)) \<Longrightarrow>
   safe (case z of Inl x \<Rightarrow> h1 x | Inr y \<Rightarrow> h2 y)"
  "safe (l x) \<Longrightarrow> safe (let y = x in l y)"
  by (auto split: option.split list.split sum.split)

end
