(* ===== verification/Go_Lib.thy ===== *)
theory Go_Lib
  imports CCM_Prelude "HOL-Library.Word"
begin

text \<open>
  The parts of Go's standard library the program computes with: \<open>strconv\<close>,
  \<open>strings\<close>, \<open>time\<close> arithmetic. A Go string is a byte sequence, which
  \<open>string\<close> (a list of 8-bit \<open>char\<close>) is too. Case mapping and space trimming are
  those of ASCII: the strings the program maps are annotation values, flag values and
  tokens.
\<close>

unbundle bit_operations_syntax

section \<open>strconv\<close>

definition digit_char :: "int \<Rightarrow> char" where
  "digit_char d = char_of (48 + d)"

definition digit_val :: "char \<Rightarrow> int option" where
  "digit_val c = (let n = of_char c :: int in if 48 \<le> n \<and> n \<le> 57 then Some (n - 48) else None)"

function dec_str :: "int \<Rightarrow> string" where
  "dec_str n = (if n < 10 then [digit_char n] else dec_str (n div 10) @ [digit_char (n mod 10)])"
  by pat_completeness auto
termination
  by (relation "measure nat") auto

declare dec_str.simps [simp del]

definition Itoa :: "int \<Rightarrow> string" where
  "Itoa i = (if i < 0 then CHR ''-'' # dec_str (- i) else dec_str i)"

text \<open>The digit loop of \<open>strconv.ParseUint\<close> in base 10: a character that is not a
  digit is a syntax error, a value above \<open>maxv\<close> a range error.\<close>

primrec ParseUintLoop :: "string \<Rightarrow> int \<Rightarrow> int \<Rightarrow> string \<Rightarrow> int res" where
  "ParseUintLoop orig maxv n [] = Ok n"
| "ParseUintLoop orig maxv n (c # cs) =
     (case digit_val c of
        None \<Rightarrow> Err (NumErrSyntax orig)
      | Some d \<Rightarrow> if n * 10 + d > maxv then Err (NumErrRange orig)
                  else ParseUintLoop orig maxv (n * 10 + d) cs)"

definition ParseUint :: "string \<Rightarrow> nat \<Rightarrow> string \<Rightarrow> int res" where
  "ParseUint orig bits s =
     (if s = [] then Err (NumErrSyntax orig) else ParseUintLoop orig (2 ^ bits - 1) 0 s)"

definition ParseInt :: "nat \<Rightarrow> string \<Rightarrow> int res" where
  "ParseInt bits s =
     (let (neg, rest) = (case s of
          c # cs \<Rightarrow> if c = CHR ''+'' then (False, cs)
                    else if c = CHR ''-'' then (True, cs) else (False, s)
        | [] \<Rightarrow> (False, []))
      in bindR (ParseUint s bits rest) (\<lambda>un.
           if \<not> neg \<and> un \<ge> 2 ^ (bits - 1) then Err (NumErrRange s)
           else if neg \<and> un > 2 ^ (bits - 1) then Err (NumErrRange s)
           else Ok (if neg then - un else un)))"

definition Atoi :: "string \<Rightarrow> int res" where
  "Atoi s = ParseInt 64 s"

definition ParseBool :: "string \<Rightarrow> bool res" where
  "ParseBool s =
     (if s \<in> set [''1'', ''t'', ''T'', ''true'', ''TRUE'', ''True''] then Ok True
      else if s \<in> set [''0'', ''f'', ''F'', ''false'', ''FALSE'', ''False''] then Ok False
      else Err (NumErrSyntax s))"

definition hex_digit :: "int \<Rightarrow> char" where
  "hex_digit d = (if d < 10 then char_of (48 + d) else char_of (87 + d))"

function hex_str :: "int \<Rightarrow> string" where
  "hex_str n = (if n < 16 then [hex_digit n] else hex_str (n div 16) @ [hex_digit (n mod 16)])"
  by pat_completeness auto
termination
  by (relation "measure nat") auto

declare hex_str.simps [simp del]

definition FormatInt16 :: "int \<Rightarrow> string" where
  "FormatInt16 i = (if i < 0 then CHR ''-'' # hex_str (- i) else hex_str i)"

lemma ParseUintLoop_no_panic [no_panic]: "ParseUintLoop orig maxv n s \<noteq> Panic"
  by (induction s arbitrary: n) (auto split: option.split)

lemma strconv_no_panic [no_panic]:
  "ParseUint orig bits s \<noteq> Panic" "ParseInt bits s \<noteq> Panic" "Atoi s \<noteq> Panic" "ParseBool s \<noteq> Panic"
  by (auto simp: ParseUint_def ParseInt_def Atoi_def ParseBool_def Let_def res_simps
      ParseUintLoop_no_panic split: prod.split list.split if_splits)

lemma digit_val_digit_char [simp]: "0 \<le> d \<Longrightarrow> d < 10 \<Longrightarrow> digit_val (digit_char d) = Some d"
  by (simp add: digit_val_def digit_char_def Let_def of_char_of take_bit_int_eq_self)

lemma digit_val_bounds: "digit_val c = Some d \<Longrightarrow> 0 \<le> d \<and> d < 10"
  by (auto simp: digit_val_def Let_def split: if_splits)

lemma dec_str_not_Nil [simp]: "dec_str n \<noteq> []"
  by (subst dec_str.simps) simp

lemma dec_str_digits: "0 \<le> n \<Longrightarrow> c \<in> set (dec_str n) \<Longrightarrow> \<exists>d. digit_val c = Some d"
proof (induction n rule: dec_str.induct)
  case (1 n)
  show ?case
  proof (cases "n < 10")
    case True
    with 1 show ?thesis by (auto simp: dec_str.simps [of n])
  next
    case False
    then have "c \<in> set (dec_str (n div 10)) \<or> c = digit_char (n mod 10)"
      using "1.prems" by (auto simp: dec_str.simps [of n])
    with "1.IH" [OF False] False show ?thesis by auto
  qed
qed

lemma ParseUintLoop_append:
  "ParseUintLoop orig m n (xs @ ys) = bindR (ParseUintLoop orig m n xs) (\<lambda>k. ParseUintLoop orig m k ys)"
  by (induction xs arbitrary: n) (auto split: option.split)

lemma ParseUintLoop_nonneg: "0 \<le> n \<Longrightarrow> ParseUintLoop orig m n s = Ok k \<Longrightarrow> 0 \<le> k"
proof (induction s arbitrary: n)
  case (Cons c cs)
  then obtain d where d: "digit_val c = Some d" "ParseUintLoop orig m (n * 10 + d) cs = Ok k"
    by (auto split: option.splits if_splits)
  with digit_val_bounds [OF d(1)] Cons.prems(1) show ?case
    by (intro Cons.IH [OF _ d(2)]) simp
qed simp

lemma ParseUintLoop_dec_str: "0 \<le> n \<Longrightarrow> n \<le> m \<Longrightarrow> ParseUintLoop orig m 0 (dec_str n) = Ok n"
proof (induction n rule: dec_str.induct)
  case (1 n)
  show ?case
  proof (cases "n < 10")
    case True
    with 1 show ?thesis by (simp add: dec_str.simps [of n])
  next
    case False
    have "n div 10 \<le> m" using "1.prems" False by linarith
    then have "ParseUintLoop orig m 0 (dec_str (n div 10)) = Ok (n div 10)"
      using "1.IH" [OF False] False by simp
    with False "1.prems" show ?thesis
      by (simp add: dec_str.simps [of n] ParseUintLoop_append)
  qed
qed

lemma ParseUint_dec_str: "0 \<le> n \<Longrightarrow> n < 2 ^ bits \<Longrightarrow> ParseUint orig bits (dec_str n) = Ok n"
  by (simp add: ParseUint_def ParseUintLoop_dec_str)

lemma dec_str_not_special:
  assumes "0 \<le> n" "digit_val c = None"
  shows "c \<notin> set (dec_str n)"
  using dec_str_digits [OF assms(1), of c] assms(2) by auto

lemma digit_val_special [simp]:
  "digit_val CHR ''-'' = None" "digit_val CHR ''+'' = None"
  "digit_val CHR '','' = None" "digit_val CHR ''.'' = None" "digit_val CHR ''/'' = None"
  by (simp_all add: digit_val_def)

lemma ParseInt_Itoa:
  assumes "0 < bits" "- (2 ^ (bits - 1)) \<le> i" "i < 2 ^ (bits - 1)"
  shows "ParseInt bits (Itoa i) = Ok i"
proof -
  have pw: "(2::int) ^ bits = 2 * 2 ^ (bits - 1)"
    using assms(1) by (cases bits) simp_all
  have pos: "0 < (2::int) ^ (bits - 1)" by simp
  show ?thesis
  proof (cases "i < 0")
    case True
    with assms pos have "- i < 2 ^ bits" unfolding pw by linarith
    with True assms(2) show ?thesis
      by (simp add: ParseInt_def Itoa_def ParseUint_dec_str)
  next
    case False
    with assms pos have "i < 2 ^ bits" unfolding pw by linarith
    moreover obtain c cs where cs: "dec_str i = c # cs"
      by (cases "dec_str i") auto
    ultimately have "ParseUint (c # cs) bits (c # cs) = Ok i"
      using False ParseUint_dec_str [of i bits "c # cs"] by simp
    moreover have "c \<noteq> CHR ''-''" "c \<noteq> CHR ''+''"
      using False cs dec_str_not_special [of i "CHR ''-''"] dec_str_not_special [of i "CHR ''+''"] by auto
    ultimately show ?thesis
      using False assms(3) by (simp add: ParseInt_def Itoa_def cs)
  qed
qed

text \<open>Values of Go's 64-bit \<open>int\<close>.\<close>

definition is_int64 :: "int \<Rightarrow> bool" where
  "is_int64 i \<longleftrightarrow> - (2 ^ 63) \<le> i \<and> i < 2 ^ 63"

lemma Atoi_Itoa: "is_int64 i \<Longrightarrow> Atoi (Itoa i) = Ok i"
  by (simp add: Atoi_def is_int64_def ParseInt_Itoa)

lemma ParseInt_bounds:
  assumes "ParseInt bits s = Ok i"
  shows "- (2 ^ (bits - 1)) \<le> i \<and> i < 2 ^ (bits - 1)"
proof -
  obtain neg rest where nr: "(case s of
          c # cs \<Rightarrow> if c = CHR ''+'' then (False, cs)
                    else if c = CHR ''-'' then (True, cs) else (False, s)
        | [] \<Rightarrow> (False, [])) = (neg, rest)" by fastforce
  obtain un where p: "ParseUint s bits rest = Ok un"
    and un: "\<not> (\<not> neg \<and> un \<ge> 2 ^ (bits - 1))" "\<not> (neg \<and> un > 2 ^ (bits - 1))"
    and i: "i = (if neg then - un else un)"
    using assms by (auto simp: ParseInt_def nr res_simps split: if_splits)
  have "0 \<le> un"
    using p by (auto simp: ParseUint_def dest: ParseUintLoop_nonneg [rotated] split: if_splits)
  moreover have pos: "0 < (2::int) ^ (bits - 1)" by simp
  moreover have "- un < 2 ^ (bits - 1)" using calculation by linarith
  ultimately show ?thesis using un i by (cases neg) (auto simp: not_le not_less)
qed

lemma Atoi_int64: "Atoi s = Ok i \<Longrightarrow> is_int64 i"
  using ParseInt_bounds [of 64 s i] by (simp add: Atoi_def is_int64_def)

section \<open>strings\<close>

primrec SplitAcc :: "char \<Rightarrow> string \<Rightarrow> string \<Rightarrow> string list" where
  "SplitAcc sep acc [] = [rev acc]"
| "SplitAcc sep acc (c # cs) =
     (if c = sep then rev acc # SplitAcc sep [] cs else SplitAcc sep (c # acc) cs)"

text \<open>\<open>strings.Split(s, sep)\<close> for a one-character separator.\<close>

definition Split :: "string \<Rightarrow> char \<Rightarrow> string list" where
  "Split s sep = SplitAcc sep [] s"

fun Join :: "string list \<Rightarrow> string \<Rightarrow> string" where
  "Join [] sep = []"
| "Join [x] sep = x"
| "Join (x # y # ys) sep = x @ sep @ Join (y # ys) sep"

definition is_space :: "char \<Rightarrow> bool" where
  "is_space c \<longleftrightarrow> of_char c \<in> set [9, 10, 11, 12, 13, 32 :: int]"

definition TrimSpace :: "string \<Rightarrow> string" where
  "TrimSpace s = rev (dropWhile is_space (rev (dropWhile is_space s)))"

definition lower_char :: "char \<Rightarrow> char" where
  "lower_char c = (let n = of_char c :: nat in if 65 \<le> n \<and> n \<le> 90 then char_of (n + 32) else c)"

definition ToLower :: "string \<Rightarrow> string" where
  "ToLower s = map lower_char s"

definition HasPrefix :: "string \<Rightarrow> string \<Rightarrow> bool" where
  "HasPrefix s p \<longleftrightarrow> take (length p) s = p"

definition TrimPrefix :: "string \<Rightarrow> string \<Rightarrow> string" where
  "TrimPrefix s p = (if HasPrefix s p then drop (length p) s else s)"

definition TrimSuffix :: "string \<Rightarrow> string \<Rightarrow> string" where
  "TrimSuffix s p =
     (if length p \<le> length s \<and> drop (length s - length p) s = p
      then take (length s - length p) s else s)"

lemma SplitAcc_append:
  "sep \<notin> set xs \<Longrightarrow> SplitAcc sep acc (xs @ sep # ys) = (rev acc @ xs) # SplitAcc sep [] ys"
  by (induction xs arbitrary: acc) auto

lemma SplitAcc_no_sep: "sep \<notin> set xs \<Longrightarrow> SplitAcc sep acc xs = [rev acc @ xs]"
  by (induction xs arbitrary: acc) auto

lemma Split_Join:
  "xs \<noteq> [] \<Longrightarrow> (\<And>x. x \<in> set xs \<Longrightarrow> sep \<notin> set x) \<Longrightarrow> Split (Join xs [sep]) sep = xs"
  by (induction xs "[sep]" rule: Join.induct)
     (auto simp: Split_def SplitAcc_append SplitAcc_no_sep)

lemma Split_not_Nil [simp]: "Split s sep \<noteq> []"
proof -
  have "SplitAcc sep acc s \<noteq> []" for acc
    by (induction s arbitrary: acc) auto
  then show ?thesis by (simp add: Split_def)
qed

lemma TrimSpace_id: "(\<And>c. c \<in> set s \<Longrightarrow> \<not> is_space c) \<Longrightarrow> TrimSpace s = s"
proof -
  assume a: "\<And>c. c \<in> set s \<Longrightarrow> \<not> is_space c"
  then have "dropWhile is_space s = s" by (cases s) auto
  moreover have "dropWhile is_space (rev s) = rev s"
    using a by (cases s rule: rev_cases) auto
  ultimately show ?thesis by (simp add: TrimSpace_def)
qed

lemma Itoa_nonneg: "0 \<le> i \<Longrightarrow> Itoa i = dec_str i"
  by (simp add: Itoa_def)

lemma TrimSpace_dec_str: "0 \<le> i \<Longrightarrow> TrimSpace (dec_str i) = dec_str i"
  by (rule TrimSpace_id) (auto simp: is_space_def digit_val_def Let_def split: if_splits dest!: dec_str_digits)

lemma HasPrefix_append [simp]: "HasPrefix (p @ s) p"
  by (simp add: HasPrefix_def)

lemma HasPrefixE: "HasPrefix s p \<Longrightarrow> \<exists>t. s = p @ t"
  by (metis HasPrefix_def append_take_drop_id)

lemma TrimPrefix_append [simp]: "TrimPrefix (p @ s) p = s"
  by (simp add: TrimPrefix_def)

lemma TrimSuffix_append [simp]: "TrimSuffix (s @ p) p = s"
  by (simp add: TrimSuffix_def)

lemma lower_char_idem [simp]: "lower_char (lower_char c) = lower_char c"
proof (cases "65 \<le> (of_char c :: nat) \<and> (of_char c :: nat) \<le> 90")
  case True
  then have "(of_char (char_of (of_char c + 32 :: nat)) :: nat) = of_char c + 32" by simp
  with True show ?thesis by (simp add: lower_char_def Let_def)
qed (auto simp: lower_char_def Let_def)

lemma ToLower_idem [simp]: "ToLower (ToLower s) = ToLower s"
  by (simp add: ToLower_def comp_def)

section \<open>time\<close>

text \<open>Instants are nanoseconds since Go's zero \<open>time.Time\<close>; a \<open>Duration\<close> is a
  64-bit count of nanoseconds. \<open>time.Since\<close> saturates, the product
  \<open>time.Duration(t) * time.Second\<close> wraps.\<close>

definition Second :: int where
  "Second = 1000000000"

definition Seconds :: "int \<Rightarrow> int" where
  "Seconds t = signed_take_bit 63 (t * Second)"

definition Since :: "int \<Rightarrow> int \<Rightarrow> int" where
  "Since now t = max (- (2 ^ 63)) (min (2 ^ 63 - 1) (now - t))"

text \<open>The pattern with which every cache reads its time to live from the environment:
  a positive decimal number of seconds overrides the default.\<close>

definition ttlSeconds :: "string option \<Rightarrow> int \<Rightarrow> int" where
  "ttlSeconds raw dflt =
     (case raw of None \<Rightarrow> dflt
      | Some r \<Rightarrow> (case Atoi r of Ok t \<Rightarrow> if t > 0 then t else dflt | _ \<Rightarrow> dflt))"

lemma ttlSeconds_pos: "dflt > 0 \<Longrightarrow> ttlSeconds raw dflt > 0"
  by (auto simp: ttlSeconds_def split: option.splits res.splits)

end
