(* ===== verification/Go_Net.thy ===== *)
theory Go_Net
  imports Go_Lib
begin

text \<open>
  The parts of Go's packages \<open>net\<close> and \<open>net/netip\<close> the program uses: parsing and
  printing of addresses, CIDR masks, containment. A \<open>net.IP\<close> is a byte slice
  (empty: the nil slice), of length 4 or 16.
\<close>

type_synonym IP = "8 word list"

record IPNet =
  ipnet_IP :: IP
  ipnet_Mask :: IP

datatype Addr = Addr4 IP | Addr6 IP string

section \<open>Bytes and masks\<close>

definition v4InV6Prefix :: IP where
  "v4InV6Prefix = replicate 10 0 @ [255, 255]"

definition To4 :: "IP \<Rightarrow> IP option" where
  "To4 ip = (if length ip = 4 then Some ip
             else if length ip = 16 \<and> take 12 ip = v4InV6Prefix then Some (drop 12 ip)
             else None)"

definition mask_byte :: "nat \<Rightarrow> 8 word" where
  "mask_byte k = (if k \<ge> 8 then 255 else NOT (drop_bit k 255))"

definition CIDRMask :: "int \<Rightarrow> nat \<Rightarrow> IP" where
  "CIDRMask ones bits =
     (if (bits = 32 \<or> bits = 128) \<and> 0 \<le> ones \<and> ones \<le> int bits
      then map (\<lambda>i. mask_byte (nat ones - 8 * i)) [0..<bits div 8] else [])"

definition and_bytes :: "IP \<Rightarrow> IP \<Rightarrow> IP" where
  "and_bytes xs ys = map (\<lambda>(x, y). x AND y) (zip xs ys)"

text \<open>\<open>IP.Mask\<close>: nil when the lengths do not fit.\<close>

definition IPMask :: "IP \<Rightarrow> IP \<Rightarrow> IP" where
  "IPMask ip msk =
     (let m = (if length msk = 16 \<and> length ip = 4 \<and> take 12 msk = replicate 12 255
               then drop 12 msk else msk);
          a = (if length m = 4 \<and> length ip = 16 \<and> take 12 ip = v4InV6Prefix
               then drop 12 ip else ip)
      in if length a = length m then and_bytes a m else [])"

definition networkNumberAndMask :: "IPNet \<Rightarrow> IP \<times> IP" where
  "networkNumberAndMask n =
     (let ip = (case To4 (ipnet_IP n) of Some ip \<Rightarrow> ip | None \<Rightarrow> ipnet_IP n);
          m = ipnet_Mask n
      in if To4 (ipnet_IP n) = None \<and> length ip \<noteq> 16 then ([], [])
         else if length m = 4 then (if length ip \<noteq> 4 then ([], []) else (ip, m))
         else if length m = 16 then (if length ip = 4 then (ip, drop 12 m) else (ip, m))
         else ([], []))"

definition IPNet_Contains :: "IPNet \<Rightarrow> IP \<Rightarrow> bool" where
  "IPNet_Contains n ip =
     (let (nn, m) = networkNumberAndMask n;
          ip = (case To4 ip of Some x \<Rightarrow> x | None \<Rightarrow> ip)
      in length ip = length nn \<and> and_bytes nn m = and_bytes ip m)"

definition IP_Equal :: "IP \<Rightarrow> IP \<Rightarrow> bool" where
  "IP_Equal ip x =
     (if length ip = length x then ip = x
      else if length ip = 4 \<and> length x = 16 then take 12 x = v4InV6Prefix \<and> ip = drop 12 x
      else if length ip = 16 \<and> length x = 4 then take 12 ip = v4InV6Prefix \<and> drop 12 ip = x
      else False)"

definition IP_IsPrivate :: "IP \<Rightarrow> bool" where
  "IP_IsPrivate ip =
     (case To4 ip of
        Some q \<Rightarrow> q ! 0 = 10 \<or> (q ! 0 = 172 \<and> q ! 1 AND 240 = 16) \<or> (q ! 0 = 192 \<and> q ! 1 = 168)
      | None \<Rightarrow> length ip = 16 \<and> ip ! 0 AND 254 = 252)"

text \<open>The number of leading one bits when the mask is a block of ones followed by zeros.\<close>

definition byte_ones :: "8 word \<Rightarrow> nat option" where
  "byte_ones b = find_first (\<lambda>k. b = mask_byte k) [0..<8]"

fun maskLengthFrom :: "int \<Rightarrow> IP \<Rightarrow> int" where
  "maskLengthFrom n [] = n"
| "maskLengthFrom n (b # bs) =
     (if b = 255 then maskLengthFrom (n + 8) bs
      else (case byte_ones b of
              Some k \<Rightarrow> if bs = replicate (length bs) 0 then n + int k else -1
            | None \<Rightarrow> -1))"

definition simpleMaskLength :: "IP \<Rightarrow> int" where
  "simpleMaskLength m = maskLengthFrom 0 m"

definition MaskSize :: "IP \<Rightarrow> int" where
  "MaskSize m = (if simpleMaskLength m = -1 then 0 else simpleMaskLength m)"

section \<open>Printing\<close>

definition byte_str :: "8 word \<Rightarrow> string" where
  "byte_str b = dec_str (uint b)"

definition v4_str :: "IP \<Rightarrow> string" where
  "v4_str q = Join (map byte_str q) ''.''"

fun hextets :: "IP \<Rightarrow> int list" where
  "hextets (a # b # bs) = (256 * uint a + uint b) # hextets bs"
| "hextets _ = []"

definition zero_run :: "int list \<Rightarrow> nat" where
  "zero_run xs = length (takeWhile (\<lambda>x. x = 0) xs)"

text \<open>The first longest run of at least two zero groups, as (start, end).\<close>

definition longest_zero_run :: "int list \<Rightarrow> (nat \<times> nat) option" where
  "longest_zero_run xs =
     fold (\<lambda>i best. let l = zero_run (drop i xs);
                        cur = (case best of None \<Rightarrow> 0 | Some (a, b) \<Rightarrow> b - a)
                    in if l \<ge> 2 \<and> l > cur then Some (i, i + l) else best)
          [0..<length xs] None"

definition v6_str :: "IP \<Rightarrow> string" where
  "v6_str ip =
     (let hs = hextets ip in
      case longest_zero_run hs of
        None \<Rightarrow> Join (map hex_str hs) '':''
      | Some (a, b) \<Rightarrow> Join (map hex_str (take a hs)) '':'' @ ''::''
                       @ Join (map hex_str (drop b hs)) '':'')"

definition Addr_String :: "Addr \<Rightarrow> string" where
  "Addr_String a =
     (case a of
        Addr4 q \<Rightarrow> v4_str q
      | Addr6 ip zone \<Rightarrow>
          (if take 12 ip = v4InV6Prefix then ''::ffff:'' @ v4_str (drop 12 ip) else v6_str ip)
          @ (if zone = [] then [] else CHR ''%'' # zone))"

definition hex_byte :: "8 word \<Rightarrow> string" where
  "hex_byte b = [hex_digit (uint b div 16), hex_digit (uint b mod 16)]"

definition IP_String :: "IP \<Rightarrow> string" where
  "IP_String ip =
     (if ip = [] then ''<nil>''
      else if length ip \<noteq> 4 \<and> length ip \<noteq> 16 then CHR ''?'' # concat (map hex_byte ip)
      else (case To4 ip of Some q \<Rightarrow> v4_str q | None \<Rightarrow> v6_str ip))"

definition IPNet_String :: "IPNet \<Rightarrow> string" where
  "IPNet_String n =
     (let (nn, m) = networkNumberAndMask n; l = simpleMaskLength m in
      if nn = [] then ''<nil>''
      else if l = -1 then IP_String nn @ ''/'' @ concat (map hex_byte m)
      else IP_String nn @ ''/'' @ Itoa l)"

definition JoinHostPort :: "string \<Rightarrow> string \<Rightarrow> string" where
  "JoinHostPort host port =
     (if CHR '':'' \<in> set host then ''['' @ host @ '']:'' @ port else host @ '':'' @ port)"

section \<open>Parsing\<close>

text \<open>A dotted-decimal octet: digits, no leading zero, at most 255.\<close>

definition parse_octet :: "string \<Rightarrow> (8 word) option" where
  "parse_octet s =
     (if s = [] \<or> (length s > 1 \<and> hd s = CHR ''0'') then None
      else case ParseUintLoop s 255 0 s of Ok n \<Rightarrow> Some (word_of_int n) | _ \<Rightarrow> None)"

definition parseIPv4 :: "string \<Rightarrow> IP option" where
  "parseIPv4 s =
     (case map parse_octet (Split s CHR ''.'') of
        [Some a, Some b, Some c, Some d] \<Rightarrow> Some [a, b, c, d]
      | _ \<Rightarrow> None)"

definition hex_val :: "char \<Rightarrow> int option" where
  "hex_val c =
     (let n = of_char c :: int in
      if 48 \<le> n \<and> n \<le> 57 then Some (n - 48)
      else if 97 \<le> n \<and> n \<le> 102 then Some (n - 87)
      else if 65 \<le> n \<and> n \<le> 70 then Some (n - 55) else None)"

definition is_hex :: "char \<Rightarrow> bool" where
  "is_hex c = (hex_val c \<noteq> None)"

definition hex_value :: "string \<Rightarrow> int" where
  "hex_value s = fold (\<lambda>c acc. 16 * acc + (case hex_val c of Some d \<Rightarrow> d | None \<Rightarrow> 0)) s 0"

text \<open>The group loop of \<open>netip.parseIPv6\<close>: \<open>k\<close> is the number of 16-bit groups still
  free (8 at the start), \<open>acc\<close> the bytes parsed so far, \<open>ell\<close> the position of
  the ellipsis. The result is the unread rest, the bytes and the ellipsis.\<close>

fun parse6_loop :: "nat \<Rightarrow> string \<Rightarrow> IP \<Rightarrow> nat option \<Rightarrow> (string \<times> IP \<times> nat option) option" where
  "parse6_loop 0 s acc ell = Some (s, acc, ell)"
| "parse6_loop (Suc k) s acc ell =
     (let h = takeWhile is_hex s; r = dropWhile is_hex s in
      if h = [] \<or> length h > 4 then None
      else if r \<noteq> [] \<and> hd r = CHR ''.'' then
        (if ell = None \<and> length acc \<noteq> 12 then None
         else if length acc + 4 > 16 then None
         else case parseIPv4 s of None \<Rightarrow> None | Some q \<Rightarrow> Some ([], acc @ q, ell))
      else
        (let v = hex_value h; acc = acc @ [word_of_int (v div 256), word_of_int (v mod 256)] in
         case r of
           [] \<Rightarrow> Some ([], acc, ell)
         | c # r1 \<Rightarrow>
             if c \<noteq> CHR '':'' then None
             else (case r1 of
                     [] \<Rightarrow> None
                   | c1 # r2 \<Rightarrow>
                       if c1 = CHR '':'' then
                         (if ell \<noteq> None then None
                          else if r2 = [] then Some ([], acc, Some (length acc))
                          else parse6_loop k r2 acc (Some (length acc)))
                       else parse6_loop k r1 acc ell)))"

definition parseIPv6 :: "string \<Rightarrow> Addr option" where
  "parseIPv6 t =
     (let has_zone = CHR ''%'' \<in> set t;
          s = takeWhile (\<lambda>c. c \<noteq> CHR ''%'') t;
          zone = drop 1 (dropWhile (\<lambda>c. c \<noteq> CHR ''%'') t)
      in if has_zone \<and> zone = [] then None
         else if s = ''::'' then Some (Addr6 (replicate 16 0) zone)
         else
           (case (if take 2 s = ''::'' then parse6_loop 8 (drop 2 s) [] (Some 0)
                  else parse6_loop 8 s [] None) of
              None \<Rightarrow> None
            | Some (rest, acc, ell) \<Rightarrow>
                if rest \<noteq> [] then None
                else if length acc < 16 then
                  (case ell of
                     None \<Rightarrow> None
                   | Some e \<Rightarrow> Some (Addr6 (take e acc @ replicate (16 - length acc) 0 @ drop e acc) zone))
                else if ell \<noteq> None then None
                else Some (Addr6 acc zone)))"

text \<open>\<open>netip.ParseAddr\<close> dispatches on the first of the three separators.\<close>

definition ParseAddr :: "string \<Rightarrow> Addr res" where
  "ParseAddr s =
     (case find_first (\<lambda>c. c = CHR ''.'' \<or> c = CHR '':'' \<or> c = CHR ''%'') s of
        None \<Rightarrow> Err (CIDRParseError s)
      | Some c \<Rightarrow>
          if c = CHR ''.'' then
            (case parseIPv4 s of Some q \<Rightarrow> Ok (Addr4 q) | None \<Rightarrow> Err (CIDRParseError s))
          else if c = CHR '':'' then
            (case parseIPv6 s of Some a \<Rightarrow> Ok a | None \<Rightarrow> Err (CIDRParseError s))
          else Err (CIDRParseError s))"

definition Addr_Is6 :: "Addr \<Rightarrow> bool" where
  "Addr_Is6 a = (case a of Addr6 _ _ \<Rightarrow> True | Addr4 _ \<Rightarrow> False)"

definition Addr_Zone :: "Addr \<Rightarrow> string" where
  "Addr_Zone a = (case a of Addr6 _ z \<Rightarrow> z | Addr4 _ \<Rightarrow> [])"

definition Addr_BitLen :: "Addr \<Rightarrow> nat" where
  "Addr_BitLen a = (if Addr_Is6 a then 128 else 32)"

definition Addr_As16 :: "Addr \<Rightarrow> IP" where
  "Addr_As16 a = (case a of Addr4 q \<Rightarrow> v4InV6Prefix @ q | Addr6 ip _ \<Rightarrow> ip)"

text \<open>\<open>net.dtoi\<close> on a whole string: digits only, below \<open>0xFFFFFF\<close>.\<close>

definition dtoi :: "string \<Rightarrow> int option" where
  "dtoi s = (if s = [] then None
             else case ParseUintLoop s 16777214 0 s of Ok n \<Rightarrow> Some n | _ \<Rightarrow> None)"

definition ParseCIDR :: "string \<Rightarrow> (IP \<times> IPNet) res" where
  "ParseCIDR s =
     (let addr = takeWhile (\<lambda>c. c \<noteq> CHR ''/'') s;
          msk = drop 1 (dropWhile (\<lambda>c. c \<noteq> CHR ''/'') s)
      in if CHR ''/'' \<notin> set s then Err (CIDRParseError s)
         else case ParseAddr addr of
           Ok a \<Rightarrow>
             (if Addr_Zone a \<noteq> [] then Err (CIDRParseError s)
              else case dtoi msk of
                None \<Rightarrow> Err (CIDRParseError s)
              | Some n \<Rightarrow>
                  if n > int (Addr_BitLen a) then Err (CIDRParseError s)
                  else (let m = CIDRMask n (Addr_BitLen a)
                        in Ok (Addr_As16 a, \<lparr>ipnet_IP = IPMask (Addr_As16 a) m, ipnet_Mask = m\<rparr>)))
         | _ \<Rightarrow> Err (CIDRParseError s))"

text \<open>\<open>netip.ParsePrefix\<close> followed by \<open>Prefix.Addr\<close>.\<close>

definition ParsePrefixAddr :: "string \<Rightarrow> Addr res" where
  "ParsePrefixAddr s =
     (let bits = rev (takeWhile (\<lambda>c. c \<noteq> CHR ''/'') (rev s));
          addr = rev (drop 1 (dropWhile (\<lambda>c. c \<noteq> CHR ''/'') (rev s)))
      in if CHR ''/'' \<notin> set s then Err (CIDRParseError s)
         else bindR (ParseAddr addr) (\<lambda>a.
           if Addr_Zone a \<noteq> [] then Err (CIDRParseError s)
           else if length bits > 1 \<and> (hd bits = CHR ''0'' \<or> digit_val (hd bits) = None)
             then Err (CIDRParseError s)
           else case Atoi bits of
             Ok n \<Rightarrow> if n < 0 \<or> n > int (Addr_BitLen a) then Err (CIDRParseError s) else Ok a
           | _ \<Rightarrow> Err (CIDRParseError s)))"

section \<open>Lengths and containment\<close>

lemma parseIPv4_length: "parseIPv4 s = Some q \<Longrightarrow> length q = 4"
  by (auto simp: parseIPv4_def split: list.splits option.splits)

lemma parse6_loop_length:
  "parse6_loop k s acc ell = Some (rest, acc', ell') \<Longrightarrow> length acc + 2 * k \<le> 16 \<Longrightarrow>
   (\<And>e. ell = Some e \<Longrightarrow> e \<le> length acc) \<Longrightarrow>
   length acc' \<le> 16 \<and> (\<forall>e. ell' = Some e \<longrightarrow> e \<le> length acc')"
proof (induction k arbitrary: s acc ell)
  case 0
  then show ?case by auto
next
  case (Suc k)
  let ?goal = "length acc' \<le> 16 \<and> (\<forall>e. ell' = Some e \<longrightarrow> e \<le> length acc')"
  have IH: "parse6_loop k s' (acc @ [a, b]) e' = Some (rest, acc', ell') \<Longrightarrow>
      (\<And>e. e' = Some e \<Longrightarrow> e \<le> Suc (Suc (length acc))) \<Longrightarrow> ?goal" for s' a b e'
    using Suc.IH [of s' "acc @ [a, b]" e'] Suc.prems(2) by simp
  have ell: "e \<le> Suc (Suc (length acc))" if "ell = Some e" for e
    using Suc.prems(3) [OF that] by simp
  show ?case
    using Suc.prems IH [where e' = "Some (Suc (Suc (length acc)))"] IH [where e' = ell, OF _ ell]
    by (auto simp: Let_def dest!: parseIPv4_length split: if_splits option.splits list.splits)
qed

lemma ParseAddr_length: "ParseAddr s = Ok a \<Longrightarrow> length (Addr_As16 a) = 16"
  using parse6_loop_length [of 8]
  by (fastforce simp: ParseAddr_def parseIPv6_def Addr_As16_def v4InV6Prefix_def Let_def
      dest!: parseIPv4_length split: option.splits if_splits prod.splits)

lemma ParseCIDR_length: "ParseCIDR s = Ok (ip, net) \<Longrightarrow> length ip = 16"
  by (auto simp: ParseCIDR_def Let_def dest: ParseAddr_length split: if_splits option.splits res.splits)


lemma and_255 [simp]: "255 AND (x :: 8 word) = x" "x AND 255 = x"
proof -
  have ones: "(255 :: 8 word) = - 1" by simp
  show "255 AND x = x" "x AND 255 = x" unfolding ones by simp_all
qed

lemma ParseCIDR_no_panic: "ParseCIDR s \<noteq> Panic"
  by (auto simp: ParseCIDR_def Let_def split: res.split option.split)

lemma mask_byte_mono: "j \<le> k \<Longrightarrow> mask_byte k AND mask_byte j = mask_byte j"
proof (cases "k < 8")
  case True
  assume "j \<le> k"
  have "list_all (\<lambda>k. list_all (\<lambda>j. j \<le> k \<longrightarrow> mask_byte k AND mask_byte j = mask_byte j) [0..<8]) [0..<8]"
    by code_simp
  then show ?thesis using True \<open>j \<le> k\<close> by (simp add: list_all_iff)
next
  case False
  then show ?thesis using False by (simp add: mask_byte_def)
qed

lemma and_bytes_narrow:
  assumes "m \<le> n" "length x = bits div 8" "bits = 32 \<or> bits = 128" "0 \<le> m" "n \<le> int bits"
  shows "and_bytes (and_bytes x (CIDRMask n bits)) (CIDRMask m bits) = and_bytes x (CIDRMask m bits)"
proof (rule nth_equalityI)
  have len: "length (CIDRMask n bits) = bits div 8" "length (CIDRMask m bits) = bits div 8"
    using assms by (auto simp: CIDRMask_def)
  then show "length (and_bytes (and_bytes x (CIDRMask n bits)) (CIDRMask m bits)) =
      length (and_bytes x (CIDRMask m bits))"
    using assms by (simp add: and_bytes_def)
  fix i assume "i < length (and_bytes (and_bytes x (CIDRMask n bits)) (CIDRMask m bits))"
  then have i: "i < bits div 8" using len assms by (simp add: and_bytes_def)
  then have "CIDRMask n bits ! i AND CIDRMask m bits ! i = CIDRMask m bits ! i"
    using assms by (auto simp: CIDRMask_def intro!: mask_byte_mono)
  then show "and_bytes (and_bytes x (CIDRMask n bits)) (CIDRMask m bits) ! i = and_bytes x (CIDRMask m bits) ! i"
    using i len assms(2) by (simp add: and_bytes_def and.assoc)
qed

lemma contains_subnet:
  assumes "IPNet_Contains \<lparr>ipnet_IP = B, ipnet_Mask = CIDRMask m 128\<rparr> p"
    and "IPNet_Contains \<lparr>ipnet_IP = p, ipnet_Mask = CIDRMask n 128\<rparr> a"
    and "length p = 16" "To4 p = None" "length a = 16" "0 \<le> m" "m \<le> n" "n \<le> 128"
  shows "IPNet_Contains \<lparr>ipnet_IP = B, ipnet_Mask = CIDRMask m 128\<rparr> a"
proof -
  have len: "length (CIDRMask n 128) = 16" "length (CIDRMask m 128) = 16"
    using assms(6-) by (simp_all add: CIDRMask_def)
  have a: "To4 a = None" "and_bytes p (CIDRMask n 128) = and_bytes a (CIDRMask n 128)"
    using assms(2-5) len by (auto simp: IPNet_Contains_def networkNumberAndMask_def Let_def To4_def split: if_splits)
  have "and_bytes x (CIDRMask m 128) = and_bytes (and_bytes x (CIDRMask n 128)) (CIDRMask m 128)"
    if "length x = 16" for x
    using and_bytes_narrow [of m n x 128] that assms(6-) by simp
  then have "and_bytes p (CIDRMask m 128) = and_bytes a (CIDRMask m 128)"
    using a(2) assms(3,5) by metis
  moreover have "x2 = CIDRMask m 128"
    if "networkNumberAndMask \<lparr>ipnet_IP = B, ipnet_Mask = CIDRMask m 128\<rparr> = (x1, x2)" "length x1 = 16" for x1 x2
    using that len by (auto simp: networkNumberAndMask_def Let_def To4_def split: if_splits)
  ultimately show ?thesis
    using assms(1,3-5) a(1) by (auto simp: IPNet_Contains_def Let_def split: prod.splits)
qed

end
