(* ===== verification/Linode_Types.thy ===== *)
theory Linode_Types
  imports Go_Net
begin

text \<open>
  The data the program exchanges with the Linode API (package \<open>linodego\<close>) and with
  Kubernetes (\<open>k8s.io/api/core/v1\<close>), with the fields the program reads or writes.
  A pointer field is an \<open>option\<close>; a slice whose nil value is told apart from an empty
  one is an \<open>option\<close> of a list; a map is an association list. The string constants of
  \<open>linodego\<close> have the values the Linode API documents.
\<close>

section \<open>Kubernetes\<close>

type_synonym go_map = "(string \<times> string) list"

record ServicePort =
  sp_Port :: int
  sp_NodePort :: int
  sp_Protocol :: string

record LoadBalancerIngress =
  ing_IP :: string
  ing_Hostname :: string

record Service =
  svc_Namespace :: string
  svc_Name :: string
  svc_Annotations :: go_map
  svc_Ports :: "ServicePort list"
  svc_Type :: string
  svc_Ingress :: "LoadBalancerIngress list"

datatype NodeAddressType = NodeHostName | NodeInternalIP | NodeExternalIP | NodeOtherAddress string

record NodeAddress =
  na_Type :: NodeAddressType
  na_Address :: string

record Node =
  node_Name :: string
  node_Labels :: "go_map option"
  node_Annotations :: "go_map option"
  node_ProviderID :: string
  node_PodCIDRs :: "string list"
  node_Addresses :: "NodeAddress list"
  node_Deleting :: bool

text \<open>Reading a Go map: the zero value for an absent key, also from a nil map.\<close>

definition getAnn :: "go_map \<Rightarrow> string \<Rightarrow> string" where
  "getAnn m k = (case map_of m k of Some v \<Rightarrow> v | None \<Rightarrow> [])"

definition hasAnn :: "go_map \<Rightarrow> string \<Rightarrow> bool" where
  "hasAnn m k = (map_of m k \<noteq> None)"

definition mapOf :: "go_map option \<Rightarrow> go_map" where
  "mapOf m = (case m of Some kv \<Rightarrow> kv | None \<Rightarrow> [])"

abbreviation svcAnn :: "Service \<Rightarrow> string \<Rightarrow> string option" where
  "svcAnn svc k \<equiv> map_of (svc_Annotations svc) k"

lemma getAnn_Some [simp]: "map_of m k = Some v \<Longrightarrow> getAnn m k = v"
  by (simp add: getAnn_def)

lemma getAnn_None [simp]: "map_of m k = None \<Longrightarrow> getAnn m k = []"
  by (simp add: getAnn_def)

section \<open>Linode: instances and VPCs\<close>

record Instance =
  inst_ID :: int
  inst_Label :: string
  inst_Status :: string
  inst_IPv4 :: "IP list"
  inst_IPv6 :: string
  inst_HostUUID :: string
  inst_Type :: string
  inst_Region :: string
  inst_InterfaceGeneration :: string

definition InstanceOffline :: string where "InstanceOffline = ''offline''"
definition InstanceShuttingDown :: string where "InstanceShuttingDown = ''shutting_down''"
definition GenerationLinode :: string where "GenerationLinode = ''linode''"
definition InterfacePurposeVPC :: string where "InterfacePurposeVPC = ''vpc''"

record VPC =
  vpc_ID :: int
  vpc_Label :: string

record VPCSubnet =
  sn_ID :: int
  sn_Label :: string
  sn_IPv4 :: string

record VPCIP =
  vip_Address :: "string option"
  vip_AddressRange :: "string option"
  vip_VPCID :: int
  vip_LinodeID :: int
  vip_ConfigID :: int
  vip_InterfaceID :: int
  vip_IPv6Addresses :: "string list"
  vip_IPv6IsPublic :: "bool option"

text \<open>IPv6 of an interface: the SLAAC ranges and the routed ranges.\<close>

record InterfaceIPv6 =
  if6_SLAAC :: "string list"
  if6_Ranges :: "string list"

record InstanceConfigInterface =
  ici_Purpose :: string
  ici_IPv6 :: "InterfaceIPv6 option"

record LinodeInterface =
  li_VPC_IPv6 :: "InterfaceIPv6 option"

section \<open>Linode: firewalls\<close>

record NetworkAddresses =
  addr_IPv4 :: "string list option"
  addr_IPv6 :: "string list option"

record FirewallRule =
  fr_Action :: string
  fr_Label :: string
  fr_Description :: string
  fr_Protocol :: string
  fr_Ports :: string
  fr_Addresses :: NetworkAddresses

record FirewallRules =
  rs_Inbound :: "FirewallRule list"
  rs_InboundPolicy :: string
  rs_Outbound :: "FirewallRule list"
  rs_OutboundPolicy :: string

record Firewall =
  fw_ID :: int
  fw_Label :: string
  fw_Rules :: FirewallRules

record FirewallCreateOptions =
  fco_Label :: string
  fco_Tags :: "string list"
  fco_Rules :: FirewallRules

record FirewallDevice =
  dev_ID :: int
  dev_EntityID :: int

definition ProtocolTCPRule :: string where "ProtocolTCPRule = ''TCP''"

section \<open>Linode: NodeBalancers\<close>

definition ProtocolTCP :: string where "ProtocolTCP = ''tcp''"
definition ProtocolUDP :: string where "ProtocolUDP = ''udp''"
definition ProtocolHTTP :: string where "ProtocolHTTP = ''http''"
definition ProtocolHTTPS :: string where "ProtocolHTTPS = ''https''"
definition ProxyProtocolNone :: string where "ProxyProtocolNone = ''none''"
definition ProxyProtocolV1 :: string where "ProxyProtocolV1 = ''v1''"
definition ProxyProtocolV2 :: string where "ProxyProtocolV2 = ''v2''"
definition AlgorithmRoundRobin :: string where "AlgorithmRoundRobin = ''roundrobin''"
definition AlgorithmLeastConn :: string where "AlgorithmLeastConn = ''leastconn''"
definition AlgorithmSource :: string where "AlgorithmSource = ''source''"
definition AlgorithmRingHash :: string where "AlgorithmRingHash = ''ring_hash''"
definition StickinessNone :: string where "StickinessNone = ''none''"
definition StickinessSession :: string where "StickinessSession = ''session''"
definition StickinessTable :: string where "StickinessTable = ''table''"
definition StickinessHTTPCookie :: string where "StickinessHTTPCookie = ''http_cookie''"
definition StickinessSourceIP :: string where "StickinessSourceIP = ''source_ip''"
definition CheckNone :: string where "CheckNone = ''none''"
definition CheckConnection :: string where "CheckConnection = ''connection''"
definition CheckHTTP :: string where "CheckHTTP = ''http''"
definition CheckHTTPBody :: string where "CheckHTTPBody = ''http_body''"
definition NBTypeCommon :: string where "NBTypeCommon = ''common''"
definition NBTypePremium :: string where "NBTypePremium = ''premium''"
definition NBTypePremium40GB :: string where "NBTypePremium40GB = ''premium_40gb''"

lemmas protocol_defs = ProtocolTCP_def ProtocolUDP_def ProtocolHTTP_def ProtocolHTTPS_def

record NodeBalancer =
  nb_ID :: int
  nb_Hostname :: "string option"
  nb_IPv4 :: "string option"
  nb_IPv6 :: "string option"
  nb_ClientConnThrottle :: int
  nb_Tags :: "string list option"
  nb_FrontendAddressType :: string
  nb_FrontendVPCSubnetID :: "int option"

record NodeBalancerUpdateOptions =
  nbu_Label :: "string option"
  nbu_ClientConnThrottle :: "int option"
  nbu_Tags :: "string list option"

record NodeBalancerConfig =
  nbc_ID :: int
  nbc_NodeBalancerID :: int
  nbc_Port :: int
  nbc_Protocol :: string
  nbc_ProxyProtocol :: string
  nbc_Algorithm :: string
  nbc_Stickiness :: string
  nbc_Check :: string
  nbc_CheckInterval :: int
  nbc_CheckTimeout :: int
  nbc_CheckAttempts :: int
  nbc_CheckPath :: string
  nbc_CheckBody :: string
  nbc_CheckPassive :: bool
  nbc_UDPCheckPort :: int
  nbc_SSLCert :: string
  nbc_SSLKey :: string

definition emptyNBConfig :: NodeBalancerConfig where
  "emptyNBConfig = \<lparr>nbc_ID = 0, nbc_NodeBalancerID = 0, nbc_Port = 0, nbc_Protocol = [],
     nbc_ProxyProtocol = [], nbc_Algorithm = [], nbc_Stickiness = [], nbc_Check = [],
     nbc_CheckInterval = 0, nbc_CheckTimeout = 0, nbc_CheckAttempts = 0, nbc_CheckPath = [],
     nbc_CheckBody = [], nbc_CheckPassive = False, nbc_UDPCheckPort = 0, nbc_SSLCert = [],
     nbc_SSLKey = []\<rparr>"

record NodeOptions =
  no_ID :: int
  no_Address :: string
  no_Label :: string
  no_Weight :: int
  no_Mode :: string
  no_SubnetID :: int

record NodeBalancerNode =
  nbn_ID :: int
  nbn_Address :: string

text \<open>Options of a config create or rebuild call: the config's settings and the nodes.\<close>

record ConfigOptions =
  co_Settings :: NodeBalancerConfig
  co_Nodes :: "NodeOptions list"

record BackendVPCOptions =
  bvo_SubnetID :: int
  bvo_IPv4Range :: string
  bvo_IPv4RangeAutoAssign :: bool

record FrontendVPCOptions =
  fvo_SubnetID :: int
  fvo_IPv4Range :: string
  fvo_IPv6Range :: string

record NodeBalancerCreateOptions =
  nbo_Label :: string
  nbo_Region :: string
  nbo_ClientConnThrottle :: int
  nbo_Configs :: "ConfigOptions list"
  nbo_Tags :: "string list"
  nbo_Type :: string
  nbo_BackendVPCs :: "BackendVPCOptions list"
  nbo_FrontendVPCs :: "FrontendVPCOptions list"
  nbo_IPv4 :: "string option"
  nbo_FirewallID :: int

section \<open>Routes\<close>

record Route =
  rt_TargetNode :: string
  rt_DestinationCIDR :: string

end
