(* ===== verification/CCM_Config.thy ===== *)
theory CCM_Config
  imports Linode_Types
begin

text \<open>
  Configuration: the annotation keys (\<open>cloud/annotations/annotations.go\<close>,
  \<open>loadbalancers_deprecated.go\<close>) and the options record filled in from the command
  line (\<open>cloud/linode/options/options.go\<close>), without the debug switch of the API
  client, the deprecated options that have no effect, and the stop channel.
\<close>

section \<open>Annotations\<close>

definition AnnLinodeDefaultProtocol :: string where
  "AnnLinodeDefaultProtocol = ''service.beta.kubernetes.io/linode-loadbalancer-default-protocol''"

definition AnnLinodePortConfigPrefix :: string where
  "AnnLinodePortConfigPrefix = ''service.beta.kubernetes.io/linode-loadbalancer-port-''"

definition AnnLinodeDefaultProxyProtocol :: string where
  "AnnLinodeDefaultProxyProtocol = ''service.beta.kubernetes.io/linode-loadbalancer-default-proxy-protocol''"

definition AnnLinodeDefaultAlgorithm :: string where
  "AnnLinodeDefaultAlgorithm = ''service.beta.kubernetes.io/linode-loadbalancer-default-algorithm''"

definition AnnLinodeDefaultStickiness :: string where
  "AnnLinodeDefaultStickiness = ''service.beta.kubernetes.io/linode-loadbalancer-default-stickiness''"

definition AnnLinodeCheckPath :: string where
  "AnnLinodeCheckPath = ''service.beta.kubernetes.io/linode-loadbalancer-check-path''"

definition AnnLinodeCheckBody :: string where
  "AnnLinodeCheckBody = ''service.beta.kubernetes.io/linode-loadbalancer-check-body''"

definition AnnLinodeHealthCheckType :: string where
  "AnnLinodeHealthCheckType = ''service.beta.kubernetes.io/linode-loadbalancer-check-type''"

definition AnnLinodeHealthCheckInterval :: string where
  "AnnLinodeHealthCheckInterval = ''service.beta.kubernetes.io/linode-loadbalancer-check-interval''"

definition AnnLinodeHealthCheckTimeout :: string where
  "AnnLinodeHealthCheckTimeout = ''service.beta.kubernetes.io/linode-loadbalancer-check-timeout''"

definition AnnLinodeHealthCheckAttempts :: string where
  "AnnLinodeHealthCheckAttempts = ''service.beta.kubernetes.io/linode-loadbalancer-check-attempts''"

definition AnnLinodeHealthCheckPassive :: string where
  "AnnLinodeHealthCheckPassive = ''service.beta.kubernetes.io/linode-loadbalancer-check-passive''"

definition AnnLinodeUDPCheckPort :: string where
  "AnnLinodeUDPCheckPort = ''service.beta.kubernetes.io/linode-loadbalancer-udp-check-port''"

definition AnnLinodeThrottle :: string where
  "AnnLinodeThrottle = ''service.beta.kubernetes.io/linode-loadbalancer-throttle''"

definition AnnLinodeLoadBalancerReservedIPv4 :: string where
  "AnnLinodeLoadBalancerReservedIPv4 = ''service.beta.kubernetes.io/linode-loadbalancer-reserved-ipv4''"

definition AnnLinodeLoadBalancerRetainReservedIPv4 :: string where
  "AnnLinodeLoadBalancerRetainReservedIPv4 = ''service.beta.kubernetes.io/linode-loadbalancer-retain-reserved-ipv4''"

definition AnnLinodeLoadBalancerPreserve :: string where
  "AnnLinodeLoadBalancerPreserve = ''service.beta.kubernetes.io/linode-loadbalancer-preserve''"

definition AnnLinodeNodeBalancerID :: string where
  "AnnLinodeNodeBalancerID = ''service.beta.kubernetes.io/linode-loadbalancer-nodebalancer-id''"

definition AnnLinodeNodeBalancerType :: string where
  "AnnLinodeNodeBalancerType = ''service.beta.kubernetes.io/linode-loadbalancer-nodebalancer-type''"

definition AnnLinodeHostnameOnlyIngress :: string where
  "AnnLinodeHostnameOnlyIngress = ''service.beta.kubernetes.io/linode-loadbalancer-hostname-only-ingress''"

definition AnnLinodeLoadBalancerTags :: string where
  "AnnLinodeLoadBalancerTags = ''service.beta.kubernetes.io/linode-loadbalancer-tags''"

definition AnnLinodeCloudFirewallID :: string where
  "AnnLinodeCloudFirewallID = ''service.beta.kubernetes.io/linode-loadbalancer-firewall-id''"

definition AnnLinodeCloudFirewallACL :: string where
  "AnnLinodeCloudFirewallACL = ''service.beta.kubernetes.io/linode-loadbalancer-firewall-acl''"

definition AnnLinodeEnableIPv6Ingress :: string where
  "AnnLinodeEnableIPv6Ingress = ''service.beta.kubernetes.io/linode-loadbalancer-enable-ipv6-ingress''"

definition AnnLinodeEnableIPv6Backends :: string where
  "AnnLinodeEnableIPv6Backends = ''service.beta.kubernetes.io/linode-loadbalancer-enable-ipv6-backends''"

definition AnnLinodeNodePrivateIP :: string where
  "AnnLinodeNodePrivateIP = ''node.k8s.linode.com/private-ip''"

definition AnnLinodeHostUUID :: string where
  "AnnLinodeHostUUID = ''node.k8s.linode.com/host-uuid''"

definition AnnLinodeNodePublicIPv6 :: string where
  "AnnLinodeNodePublicIPv6 = ''node.k8s.linode.com/public-ipv6''"

definition AnnLinodeNodeIPSharingUpdated :: string where
  "AnnLinodeNodeIPSharingUpdated = ''node.k8s.linode.com/ip-sharing-updated''"

definition NodeBalancerBackendIPv4Range :: string where
  "NodeBalancerBackendIPv4Range = ''service.beta.kubernetes.io/linode-loadbalancer-backend-ipv4-range''"

definition NodeBalancerBackendVPCName :: string where
  "NodeBalancerBackendVPCName = ''service.beta.kubernetes.io/linode-loadbalancer-backend-vpc-name''"

definition NodeBalancerBackendSubnetName :: string where
  "NodeBalancerBackendSubnetName = ''service.beta.kubernetes.io/linode-loadbalancer-backend-subnet-name''"

definition NodeBalancerBackendSubnetID :: string where
  "NodeBalancerBackendSubnetID = ''service.beta.kubernetes.io/linode-loadbalancer-backend-subnet-id''"

definition NodeBalancerFrontendIPv4Range :: string where
  "NodeBalancerFrontendIPv4Range = ''service.beta.kubernetes.io/linode-loadbalancer-frontend-ipv4-range''"

definition NodeBalancerFrontendIPv6Range :: string where
  "NodeBalancerFrontendIPv6Range = ''service.beta.kubernetes.io/linode-loadbalancer-frontend-ipv6-range''"

definition NodeBalancerFrontendVPCName :: string where
  "NodeBalancerFrontendVPCName = ''service.beta.kubernetes.io/linode-loadbalancer-frontend-vpc-name''"

definition NodeBalancerFrontendSubnetName :: string where
  "NodeBalancerFrontendSubnetName = ''service.beta.kubernetes.io/linode-loadbalancer-frontend-subnet-name''"

definition NodeBalancerFrontendSubnetID :: string where
  "NodeBalancerFrontendSubnetID = ''service.beta.kubernetes.io/linode-loadbalancer-frontend-subnet-id''"

definition annLinodeProxyProtocolDeprecated :: string where
  "annLinodeProxyProtocolDeprecated = ''service.beta.kubernetes.io/linode-loadbalancer-proxy-protocol''"

lemmas annotation_defs =
  AnnLinodeDefaultProtocol_def AnnLinodePortConfigPrefix_def AnnLinodeDefaultProxyProtocol_def
  AnnLinodeDefaultAlgorithm_def AnnLinodeDefaultStickiness_def AnnLinodeCheckPath_def
  AnnLinodeCheckBody_def AnnLinodeHealthCheckType_def AnnLinodeHealthCheckInterval_def
  AnnLinodeHealthCheckTimeout_def AnnLinodeHealthCheckAttempts_def
  AnnLinodeHealthCheckPassive_def AnnLinodeUDPCheckPort_def AnnLinodeThrottle_def
  AnnLinodeLoadBalancerReservedIPv4_def AnnLinodeLoadBalancerRetainReservedIPv4_def
  AnnLinodeLoadBalancerPreserve_def AnnLinodeNodeBalancerID_def AnnLinodeNodeBalancerType_def
  AnnLinodeHostnameOnlyIngress_def AnnLinodeLoadBalancerTags_def AnnLinodeCloudFirewallID_def
  AnnLinodeCloudFirewallACL_def AnnLinodeEnableIPv6Ingress_def AnnLinodeEnableIPv6Backends_def
  AnnLinodeNodePrivateIP_def AnnLinodeHostUUID_def AnnLinodeNodePublicIPv6_def
  AnnLinodeNodeIPSharingUpdated_def NodeBalancerBackendIPv4Range_def
  NodeBalancerBackendVPCName_def NodeBalancerBackendSubnetName_def
  NodeBalancerBackendSubnetID_def NodeBalancerFrontendIPv4Range_def
  NodeBalancerFrontendIPv6Range_def NodeBalancerFrontendVPCName_def
  NodeBalancerFrontendSubnetName_def NodeBalancerFrontendSubnetID_def
  annLinodeProxyProtocolDeprecated_def

section \<open>Options\<close>

record Options =
  opt_KubeconfigFlag :: "string option"
  opt_EnableRouteController :: bool
  opt_EnableTokenHealthChecker :: bool
  opt_VPCNames :: "string list"
  opt_VPCIDs :: "int list"
  opt_SubnetNames :: "string list"
  opt_SubnetIDs :: "int list"
  opt_LoadBalancerType :: string
  opt_LinodeExternalNetwork :: "IPNet option"
  opt_NodeBalancerTags :: "string list"
  opt_DefaultNBType :: string
  opt_NodeBalancerBackendIPv4Subnet :: string
  opt_NodeBalancerBackendIPv4SubnetID :: int
  opt_NodeBalancerBackendIPv4SubnetName :: string
  opt_DisableNodeBalancerVPCBackends :: bool
  opt_EnableIPv6ForLoadBalancers :: bool
  opt_EnableIPv6ForNodeBalancerBackends :: bool
  opt_AllocateNodeCIDRs :: bool
  opt_DisableIPv6NodeCIDRAllocation :: bool
  opt_ClusterCIDRIPv4 :: string
  opt_NodeCIDRMaskSizeIPv4 :: int
  opt_NodeCIDRMaskSizeIPv6 :: int
  opt_NodeBalancerPrefix :: string
  opt_LinodeTagFilter :: string

text \<open>The defaults of the command line flags (\<open>main.go\<close>).\<close>

definition defaultOptions :: Options where
  "defaultOptions = \<lparr>opt_KubeconfigFlag = None, opt_EnableRouteController = False,
     opt_EnableTokenHealthChecker = False, opt_VPCNames = [], opt_VPCIDs = [],
     opt_SubnetNames = [''default''], opt_SubnetIDs = [], opt_LoadBalancerType = ''nodebalancer'',
     opt_LinodeExternalNetwork = None, opt_NodeBalancerTags = [], opt_DefaultNBType = NBTypeCommon,
     opt_NodeBalancerBackendIPv4Subnet = [], opt_NodeBalancerBackendIPv4SubnetID = 0,
     opt_NodeBalancerBackendIPv4SubnetName = [], opt_DisableNodeBalancerVPCBackends = False,
     opt_EnableIPv6ForLoadBalancers = False, opt_EnableIPv6ForNodeBalancerBackends = False,
     opt_AllocateNodeCIDRs = False, opt_DisableIPv6NodeCIDRAllocation = False,
     opt_ClusterCIDRIPv4 = [], opt_NodeCIDRMaskSizeIPv4 = 0, opt_NodeCIDRMaskSizeIPv6 = 0,
     opt_NodeBalancerPrefix = ''ccm'', opt_LinodeTagFilter = []\<rparr>"

end
