(* ===== verification/CCM_System.thy ===== *)
theory CCM_System
  imports CCM_Config
begin

text \<open>
  The process and what surrounds it.

  \<^item> \<open>'w sys\<close> is the state of the process: the caches and other variables the program
    keeps, the outside world \<open>'w\<close> (Linode, the Kubernetes API server, the work queues,
    the CIDR set), of which nothing is assumed, and the trace of the calls issued so far.
  \<^item> \<open>'w client\<close> is the interface \<open>client.Client\<close> (\<open>client.go\<close>);
    \<open>'w kube\<close> holds the calls to Kubernetes and to the libraries of Kubernetes;
    \<open>'w env\<close> has both, the clock, the environment variables and the options. Each
    operation is a function on the world that may fail and may change the world in any
    way. They are arguments of the model: a theorem that does not restrict them holds for
    every behaviour of the services, failures included.
  \<^item> Every call goes through \<open>callE\<close>, which appends it to the trace.

  Logging and error reporting (\<open>klog\<close>, \<open>sentry\<close>) do not influence the program and
  are left out. Locks are not modelled: each operation that the code runs under a lock is
  one step.
\<close>

section \<open>Calls\<close>

datatype queue_name = ServiceQueue | NodeQueue | CidrQueue

datatype queue_item = QService Service | QNode Node int | QKey string | QOther

datatype inst_call =
    Call_GetInstance int
  | Call_ListInstances string
  | Call_ListInstanceConfigs int
  | Call_UpdateInstanceConfigInterface int int int "string list"
  | Call_ListInterfaces int
  | Call_UpdateInterface int int "string list"
  | Call_GetProfile

datatype vpc_call =
    Call_GetVPC int
  | Call_GetVPCSubnet int int
  | Call_ListVPCs
  | Call_ListVPCIPAddresses int string
  | Call_ListVPCIPv6Addresses int string
  | Call_ListVPCSubnets int

datatype nb_call =
    Call_CreateNodeBalancer NodeBalancerCreateOptions
  | Call_GetNodeBalancer int
  | Call_UpdateNodeBalancer int NodeBalancerUpdateOptions
  | Call_DeleteNodeBalancer int
  | Call_ListNodeBalancers string
  | Call_DeleteReservedIPAddress string

datatype cfg_call =
    Call_ListNodeBalancerNodes int int
  | Call_CreateNodeBalancerConfig int ConfigOptions
  | Call_DeleteNodeBalancerConfig int int
  | Call_ListNodeBalancerConfigs int
  | Call_RebuildNodeBalancerConfig int int ConfigOptions

datatype fw_call =
    Call_ListNodeBalancerFirewalls int
  | Call_ListFirewallDevices int
  | Call_DeleteFirewallDevice int int
  | Call_CreateFirewallDevice int int
  | Call_CreateFirewall FirewallCreateOptions
  | Call_DeleteFirewall int
  | Call_UpdateFirewallRules int FirewallRules

datatype kube_call =
    Call_KubeConfig "string option"
  | Call_NewForConfig string
  | Call_GetService string string
  | Call_GetSecret string string
  | Call_CreateEvent string string
  | Call_ListNodes
  | Call_GetNode string
  | Call_UpdateNode Node
  | Call_PatchNodeCIDRs string "string list"
  | Call_AddNodeEventHandler

datatype cidr_call =
    Call_NewCIDRSet IPNet int
  | Call_AllocateNext
  | Call_Occupy IPNet
  | Call_Release IPNet

datatype queue_call =
    Call_QueueGet queue_name
  | Call_QueueAdd queue_name queue_item
  | Call_QueueAddAfter queue_name queue_item int
  | Call_QueueAddRateLimited queue_name queue_item
  | Call_QueueForget queue_name queue_item
  | Call_QueueDone queue_name queue_item

datatype call =
    Inst inst_call
  | Vpc vpc_call
  | NB nb_call
  | Cfg cfg_call
  | FW fw_call
  | Kube kube_call
  | Cidr cidr_call
  | Queue queue_call

text \<open>The calls that change something at Linode.\<close>

fun instWrite :: "inst_call \<Rightarrow> bool" where
  "instWrite (Call_UpdateInstanceConfigInterface _ _ _ _) = True"
| "instWrite (Call_UpdateInterface _ _ _) = True"
| "instWrite _ = False"

fun nbWrite :: "nb_call \<Rightarrow> bool" where
  "nbWrite (Call_GetNodeBalancer _) = False"
| "nbWrite (Call_ListNodeBalancers _) = False"
| "nbWrite _ = True"

fun cfgWrite :: "cfg_call \<Rightarrow> bool" where
  "cfgWrite (Call_ListNodeBalancerNodes _ _) = False"
| "cfgWrite (Call_ListNodeBalancerConfigs _) = False"
| "cfgWrite _ = True"

fun fwWrite :: "fw_call \<Rightarrow> bool" where
  "fwWrite (Call_ListNodeBalancerFirewalls _) = False"
| "fwWrite (Call_ListFirewallDevices _) = False"
| "fwWrite _ = True"

fun linodeWrite :: "call \<Rightarrow> bool" where
  "linodeWrite (Inst c) = instWrite c"
| "linodeWrite (NB c) = nbWrite c"
| "linodeWrite (Cfg c) = cfgWrite c"
| "linodeWrite (FW c) = fwWrite c"
| "linodeWrite _ = False"

text \<open>The calls that change nothing at Linode and concern neither a queue nor the CIDR set.\<close>

definition apiRead :: "call \<Rightarrow> bool" where
  [simp]: "apiRead c = (\<not> linodeWrite c \<and> (case c of Queue _ \<Rightarrow> False | Cidr _ \<Rightarrow> False | _ \<Rightarrow> True))"

section \<open>The process state\<close>

record nodeIP =
  nip_ip :: string
  nip_ipType :: NodeAddressType

record linodeInstance =
  lin_instance :: Instance
  lin_ips :: "nodeIP list"

record nodeCache =
  nc_nodes :: "(int \<times> linodeInstance) list"
  nc_lastUpdate :: int
  nc_ttl :: int

record k8sNodeCache =
  kc_nodes :: "(string \<times> Node) list"
  kc_providerIDs :: "(string \<times> string) list"
  kc_lastUpdate :: int
  kc_ttl :: int

record routeCache =
  rc_routes :: "(int \<times> VPCIP list) list"
  rc_lastUpdate :: int
  rc_ttl :: int

text \<open>The interface value \<open>kubeClient\<close> of the load balancers: nil at first; a
  \<open>*kubernetes.Clientset\<close> after it has been created. When the creation fails, the nil
  pointer it returns is stored too: the interface value is then no longer nil, although there
  is no client behind it.\<close>

datatype kubeHandle = NoKubeClient | NilClientset | KubeClientset

record 'w sys =
  world :: 'w
  calls :: "call list"
  VpcIDs :: "(string \<times> int) list"
  SubnetIDs :: "(string \<times> int) list"
  st_nodeCache :: nodeCache
  registeredK8sNodeCache :: k8sNodeCache
  st_routeCache :: routeCache
  ipv6ConfiguredRoutes :: "Route list"
  lb_kubeClient :: kubeHandle
  metadataLastUpdate :: "(string \<times> int) list"
  nodeLastAdded :: "(string \<times> int) list"

text \<open>What an informer hands to an event handler: an object of the expected type, the marker of an
  object whose deletion was missed, with the object as last seen when it is of the expected type,
  or something else.\<close>

datatype 'a informerObj = Obj 'a | Tombstone "'a option" | OtherObj

type_synonym ('w, 'a) op = "'w \<Rightarrow> (gerr + 'a) \<times> 'w"

type_synonym ('w, 'a) ccm = "('w sys, 'a) eff"

definition callE :: "call \<Rightarrow> ('w, 'a) op \<Rightarrow> ('w, 'a) ccm" where
  "callE c f = (\<lambda>s.
     let (r, w) = f (world s) in
     (case r of Inl e \<Rightarrow> Err e | Inr a \<Rightarrow> Ok a, s\<lparr>world := w, calls := calls s @ [c]\<rparr>))"

section \<open>The Linode client\<close>

record 'w client =
  cl_GetInstance :: "int \<Rightarrow> ('w, Instance) op"
  cl_ListInstances :: "string \<Rightarrow> ('w, Instance list) op"
  cl_ListInstanceConfigs :: "int \<Rightarrow> ('w, InstanceConfigInterface list list) op"
  cl_UpdateInstanceConfigInterface :: "int \<Rightarrow> int \<Rightarrow> int \<Rightarrow> string list \<Rightarrow> ('w, unit) op"
  cl_ListInterfaces :: "int \<Rightarrow> ('w, LinodeInterface list) op"
  cl_UpdateInterface :: "int \<Rightarrow> int \<Rightarrow> string list \<Rightarrow> ('w, unit) op"
  cl_GetVPC :: "int \<Rightarrow> ('w, VPC) op"
  cl_GetVPCSubnet :: "int \<Rightarrow> int \<Rightarrow> ('w, VPCSubnet) op"
  cl_ListVPCs :: "('w, VPC list) op"
  cl_ListVPCIPAddresses :: "int \<Rightarrow> string \<Rightarrow> ('w, VPCIP list) op"
  cl_ListVPCIPv6Addresses :: "int \<Rightarrow> string \<Rightarrow> ('w, VPCIP list) op"
  cl_ListVPCSubnets :: "int \<Rightarrow> ('w, VPCSubnet list) op"
  cl_CreateNodeBalancer :: "NodeBalancerCreateOptions \<Rightarrow> ('w, NodeBalancer) op"
  cl_GetNodeBalancer :: "int \<Rightarrow> ('w, NodeBalancer) op"
  cl_UpdateNodeBalancer :: "int \<Rightarrow> NodeBalancerUpdateOptions \<Rightarrow> ('w, NodeBalancer) op"
  cl_DeleteNodeBalancer :: "int \<Rightarrow> ('w, unit) op"
  cl_ListNodeBalancers :: "string \<Rightarrow> ('w, NodeBalancer list) op"
  cl_ListNodeBalancerNodes :: "int \<Rightarrow> int \<Rightarrow> ('w, NodeBalancerNode list) op"
  cl_CreateNodeBalancerConfig :: "int \<Rightarrow> ConfigOptions \<Rightarrow> ('w, NodeBalancerConfig) op"
  cl_DeleteNodeBalancerConfig :: "int \<Rightarrow> int \<Rightarrow> ('w, unit) op"
  cl_ListNodeBalancerConfigs :: "int \<Rightarrow> ('w, NodeBalancerConfig list) op"
  cl_RebuildNodeBalancerConfig :: "int \<Rightarrow> int \<Rightarrow> ConfigOptions \<Rightarrow> ('w, unit) op"
  cl_ListNodeBalancerFirewalls :: "int \<Rightarrow> ('w, Firewall list) op"
  cl_ListFirewallDevices :: "int \<Rightarrow> ('w, FirewallDevice list) op"
  cl_DeleteFirewallDevice :: "int \<Rightarrow> int \<Rightarrow> ('w, unit) op"
  cl_CreateFirewallDevice :: "int \<Rightarrow> int \<Rightarrow> ('w, unit) op"
  cl_CreateFirewall :: "FirewallCreateOptions \<Rightarrow> ('w, Firewall) op"
  cl_DeleteFirewall :: "int \<Rightarrow> ('w, unit) op"
  cl_UpdateFirewallRules :: "int \<Rightarrow> FirewallRules \<Rightarrow> ('w, unit) op"
  cl_DeleteReservedIPAddress :: "string \<Rightarrow> ('w, unit) op"
  cl_GetProfile :: "('w, unit) op"

record 'w kube =
  ku_Config :: "string option \<Rightarrow> ('w, string) op"
  ku_NewForConfig :: "string \<Rightarrow> ('w, unit) op"
  ku_GetService :: "string \<Rightarrow> string \<Rightarrow> ('w, Service) op"
  ku_GetSecret :: "string \<Rightarrow> string \<Rightarrow> ('w, go_map) op"
  ku_CreateEvent :: "string \<Rightarrow> string \<Rightarrow> ('w, unit) op"
  ku_ListNodes :: "('w, Node list) op"
  ku_GetNode :: "string \<Rightarrow> ('w, Node) op"
  ku_UpdateNode :: "Node \<Rightarrow> ('w, Node) op"
  ku_PatchNodeCIDRs :: "string \<Rightarrow> string list \<Rightarrow> ('w, unit) op"
  ku_nodeLister :: "string \<Rightarrow> 'w \<Rightarrow> gerr + Node"
  ku_AddNodeEventHandler :: "('w, unit) op"
  ku_PollNodeList :: "('w, Node list option) ccm \<Rightarrow> ('w, Node list) ccm"
  ku_NewCIDRSet :: "IPNet \<Rightarrow> int \<Rightarrow> ('w, unit) op"
  ku_AllocateNext :: "('w, IPNet) op"
  ku_Occupy :: "IPNet \<Rightarrow> ('w, unit) op"
  ku_Release :: "IPNet \<Rightarrow> ('w, unit) op"
  ku_ParseCIDRSloppy :: "string \<Rightarrow> gerr + IPNet"
  ku_ParseCIDRs :: "string list \<Rightarrow> gerr + IPNet list"
  ku_RangeSize :: "IPNet \<Rightarrow> int"
  ku_GetIndexedIP :: "IPNet \<Rightarrow> int \<Rightarrow> gerr + IP"
  ku_MetaNamespaceKeyFunc :: "Node informerObj \<Rightarrow> gerr + string"
  ku_QueueGet :: "queue_name \<Rightarrow> 'w \<Rightarrow> queue_item option \<times> 'w"
  ku_QueueAdd :: "queue_name \<Rightarrow> queue_item \<Rightarrow> 'w \<Rightarrow> 'w"
  ku_QueueAddAfter :: "queue_name \<Rightarrow> queue_item \<Rightarrow> int \<Rightarrow> 'w \<Rightarrow> 'w"
  ku_QueueAddRateLimited :: "queue_name \<Rightarrow> queue_item \<Rightarrow> 'w \<Rightarrow> 'w"
  ku_QueueForget :: "queue_name \<Rightarrow> queue_item \<Rightarrow> 'w \<Rightarrow> 'w"
  ku_QueueDone :: "queue_name \<Rightarrow> queue_item \<Rightarrow> 'w \<Rightarrow> 'w"
  ku_RetryOnConflict :: "('w, Node) ccm \<Rightarrow> ('w, Node) ccm"

record 'w env =
  ev_client :: "'w client"
  ev_kube :: "'w kube"
  ev_opts :: Options
  ev_zone :: string
  ev_Now :: "'w \<Rightarrow> int"
  ev_LookupEnv :: "'w \<Rightarrow> string \<Rightarrow> string option"
  ev_ReadFile :: "'w \<Rightarrow> string \<Rightarrow> gerr + string"
  ev_NewClient :: "int \<Rightarrow> string \<Rightarrow> gerr + unit"
  ev_rangeOrder :: "'w \<Rightarrow> nat \<Rightarrow> nat list"
  ev_MarshalTagFilter :: "string \<Rightarrow> gerr + string"
  ev_GetCreateOptions :: "NodeBalancerConfig \<Rightarrow> ConfigOptions"
  ev_GetRebuildOptions :: "NodeBalancerConfig \<Rightarrow> ConfigOptions"
  ev_GetUpdateOptions :: "NodeBalancer \<Rightarrow> NodeBalancerUpdateOptions"

end
