(* ===== verification/CCM_Calls.thy ===== *)
theory CCM_Calls
  imports CCM_System
begin

text \<open>
  Calls to the environment, and the trace they leave.

  Each \<open>api_\<close> function issues one call of \<open>client.Client\<close> or of Kubernetes. The
  relation \<open>trace_ext P\<close> says that the trace has grown by calls that satisfy
  \<open>P\<close> only; \<open>emits P m\<close> that \<open>m\<close> issues such calls only, whatever the
  environment answers. It is a preorder, so the rules of \<open>eff_preorder\<close> apply.
\<close>

named_theorems api_defs "definitions of the calls"
named_theorems emits_intros "rules for the calls a computation may issue"

definition api_GetInstance :: "'w env \<Rightarrow> int \<Rightarrow> ('w, Instance) ccm" where
  [api_defs]: "api_GetInstance E a = callE (Inst (Call_GetInstance a)) (cl_GetInstance (ev_client E) a)"

definition api_ListInstances :: "'w env \<Rightarrow> string \<Rightarrow> ('w, Instance list) ccm" where
  [api_defs]: "api_ListInstances E a = callE (Inst (Call_ListInstances a)) (cl_ListInstances (ev_client E) a)"

definition api_ListInstanceConfigs :: "'w env \<Rightarrow> int \<Rightarrow> ('w, InstanceConfigInterface list list) ccm" where
  [api_defs]: "api_ListInstanceConfigs E a = callE (Inst (Call_ListInstanceConfigs a)) (cl_ListInstanceConfigs (ev_client E) a)"

definition api_UpdateInstanceConfigInterface :: "'w env \<Rightarrow> int \<Rightarrow> int \<Rightarrow> int \<Rightarrow> string list \<Rightarrow> ('w, unit) ccm" where
  [api_defs]: "api_UpdateInstanceConfigInterface E a b c d = callE (Inst (Call_UpdateInstanceConfigInterface a b c d)) (cl_UpdateInstanceConfigInterface (ev_client E) a b c d)"

definition api_ListInterfaces :: "'w env \<Rightarrow> int \<Rightarrow> ('w, LinodeInterface list) ccm" where
  [api_defs]: "api_ListInterfaces E a = callE (Inst (Call_ListInterfaces a)) (cl_ListInterfaces (ev_client E) a)"

definition api_UpdateInterface :: "'w env \<Rightarrow> int \<Rightarrow> int \<Rightarrow> string list \<Rightarrow> ('w, unit) ccm" where
  [api_defs]: "api_UpdateInterface E a b c = callE (Inst (Call_UpdateInterface a b c)) (cl_UpdateInterface (ev_client E) a b c)"

definition api_GetProfile :: "'w env \<Rightarrow> ('w, unit) ccm" where
  [api_defs]: "api_GetProfile E = callE (Inst Call_GetProfile) (cl_GetProfile (ev_client E))"

definition api_GetVPC :: "'w env \<Rightarrow> int \<Rightarrow> ('w, VPC) ccm" where
  [api_defs]: "api_GetVPC E a = callE (Vpc (Call_GetVPC a)) (cl_GetVPC (ev_client E) a)"

definition api_GetVPCSubnet :: "'w env \<Rightarrow> int \<Rightarrow> int \<Rightarrow> ('w, VPCSubnet) ccm" where
  [api_defs]: "api_GetVPCSubnet E a b = callE (Vpc (Call_GetVPCSubnet a b)) (cl_GetVPCSubnet (ev_client E) a b)"

definition api_ListVPCs :: "'w env \<Rightarrow> ('w, VPC list) ccm" where
  [api_defs]: "api_ListVPCs E = callE (Vpc Call_ListVPCs) (cl_ListVPCs (ev_client E))"

definition api_ListVPCIPAddresses :: "'w env \<Rightarrow> int \<Rightarrow> string \<Rightarrow> ('w, VPCIP list) ccm" where
  [api_defs]: "api_ListVPCIPAddresses E a b = callE (Vpc (Call_ListVPCIPAddresses a b)) (cl_ListVPCIPAddresses (ev_client E) a b)"

definition api_ListVPCIPv6Addresses :: "'w env \<Rightarrow> int \<Rightarrow> string \<Rightarrow> ('w, VPCIP list) ccm" where
  [api_defs]: "api_ListVPCIPv6Addresses E a b = callE (Vpc (Call_ListVPCIPv6Addresses a b)) (cl_ListVPCIPv6Addresses (ev_client E) a b)"

definition api_ListVPCSubnets :: "'w env \<Rightarrow> int \<Rightarrow> ('w, VPCSubnet list) ccm" where
  [api_defs]: "api_ListVPCSubnets E a = callE (Vpc (Call_ListVPCSubnets a)) (cl_ListVPCSubnets (ev_client E) a)"

definition api_CreateNodeBalancer :: "'w env \<Rightarrow> NodeBalancerCreateOptions \<Rightarrow> ('w, NodeBalancer) ccm" where
  [api_defs]: "api_CreateNodeBalancer E a = callE (NB (Call_CreateNodeBalancer a)) (cl_CreateNodeBalancer (ev_client E) a)"

definition api_GetNodeBalancer :: "'w env \<Rightarrow> int \<Rightarrow> ('w, NodeBalancer) ccm" where
  [api_defs]: "api_GetNodeBalancer E a = callE (NB (Call_GetNodeBalancer a)) (cl_GetNodeBalancer (ev_client E) a)"

definition api_UpdateNodeBalancer :: "'w env \<Rightarrow> int \<Rightarrow> NodeBalancerUpdateOptions \<Rightarrow> ('w, NodeBalancer) ccm" where
  [api_defs]: "api_UpdateNodeBalancer E a b = callE (NB (Call_UpdateNodeBalancer a b)) (cl_UpdateNodeBalancer (ev_client E) a b)"

definition api_DeleteNodeBalancer :: "'w env \<Rightarrow> int \<Rightarrow> ('w, unit) ccm" where
  [api_defs]: "api_DeleteNodeBalancer E a = callE (NB (Call_DeleteNodeBalancer a)) (cl_DeleteNodeBalancer (ev_client E) a)"

definition api_ListNodeBalancers :: "'w env \<Rightarrow> string \<Rightarrow> ('w, NodeBalancer list) ccm" where
  [api_defs]: "api_ListNodeBalancers E a = callE (NB (Call_ListNodeBalancers a)) (cl_ListNodeBalancers (ev_client E) a)"

definition api_DeleteReservedIPAddress :: "'w env \<Rightarrow> string \<Rightarrow> ('w, unit) ccm" where
  [api_defs]: "api_DeleteReservedIPAddress E a = callE (NB (Call_DeleteReservedIPAddress a)) (cl_DeleteReservedIPAddress (ev_client E) a)"

definition api_ListNodeBalancerNodes :: "'w env \<Rightarrow> int \<Rightarrow> int \<Rightarrow> ('w, NodeBalancerNode list) ccm" where
  [api_defs]: "api_ListNodeBalancerNodes E a b = callE (Cfg (Call_ListNodeBalancerNodes a b)) (cl_ListNodeBalancerNodes (ev_client E) a b)"

definition api_CreateNodeBalancerConfig :: "'w env \<Rightarrow> int \<Rightarrow> ConfigOptions \<Rightarrow> ('w, NodeBalancerConfig) ccm" where
  [api_defs]: "api_CreateNodeBalancerConfig E a b = callE (Cfg (Call_CreateNodeBalancerConfig a b)) (cl_CreateNodeBalancerConfig (ev_client E) a b)"

definition api_DeleteNodeBalancerConfig :: "'w env \<Rightarrow> int \<Rightarrow> int \<Rightarrow> ('w, unit) ccm" where
  [api_defs]: "api_DeleteNodeBalancerConfig E a b = callE (Cfg (Call_DeleteNodeBalancerConfig a b)) (cl_DeleteNodeBalancerConfig (ev_client E) a b)"

definition api_ListNodeBalancerConfigs :: "'w env \<Rightarrow> int \<Rightarrow> ('w, NodeBalancerConfig list) ccm" where
  [api_defs]: "api_ListNodeBalancerConfigs E a = callE (Cfg (Call_ListNodeBalancerConfigs a)) (cl_ListNodeBalancerConfigs (ev_client E) a)"

definition api_RebuildNodeBalancerConfig :: "'w env \<Rightarrow> int \<Rightarrow> int \<Rightarrow> ConfigOptions \<Rightarrow> ('w, unit) ccm" where
  [api_defs]: "api_RebuildNodeBalancerConfig E a b c = callE (Cfg (Call_RebuildNodeBalancerConfig a b c)) (cl_RebuildNodeBalancerConfig (ev_client E) a b c)"

definition api_ListNodeBalancerFirewalls :: "'w env \<Rightarrow> int \<Rightarrow> ('w, Firewall list) ccm" where
  [api_defs]: "api_ListNodeBalancerFirewalls E a = callE (FW (Call_ListNodeBalancerFirewalls a)) (cl_ListNodeBalancerFirewalls (ev_client E) a)"

definition api_ListFirewallDevices :: "'w env \<Rightarrow> int \<Rightarrow> ('w, FirewallDevice list) ccm" where
  [api_defs]: "api_ListFirewallDevices E a = callE (FW (Call_ListFirewallDevices a)) (cl_ListFirewallDevices (ev_client E) a)"

definition api_DeleteFirewallDevice :: "'w env \<Rightarrow> int \<Rightarrow> int \<Rightarrow> ('w, unit) ccm" where
  [api_defs]: "api_DeleteFirewallDevice E a b = callE (FW (Call_DeleteFirewallDevice a b)) (cl_DeleteFirewallDevice (ev_client E) a b)"

definition api_CreateFirewallDevice :: "'w env \<Rightarrow> int \<Rightarrow> int \<Rightarrow> ('w, unit) ccm" where
  [api_defs]: "api_CreateFirewallDevice E a b = callE (FW (Call_CreateFirewallDevice a b)) (cl_CreateFirewallDevice (ev_client E) a b)"

definition api_CreateFirewall :: "'w env \<Rightarrow> FirewallCreateOptions \<Rightarrow> ('w, Firewall) ccm" where
  [api_defs]: "api_CreateFirewall E a = callE (FW (Call_CreateFirewall a)) (cl_CreateFirewall (ev_client E) a)"

definition api_DeleteFirewall :: "'w env \<Rightarrow> int \<Rightarrow> ('w, unit) ccm" where
  [api_defs]: "api_DeleteFirewall E a = callE (FW (Call_DeleteFirewall a)) (cl_DeleteFirewall (ev_client E) a)"

definition api_UpdateFirewallRules :: "'w env \<Rightarrow> int \<Rightarrow> FirewallRules \<Rightarrow> ('w, unit) ccm" where
  [api_defs]: "api_UpdateFirewallRules E a b = callE (FW (Call_UpdateFirewallRules a b)) (cl_UpdateFirewallRules (ev_client E) a b)"

definition api_KubeConfig :: "'w env \<Rightarrow> string option \<Rightarrow> ('w, string) ccm" where
  [api_defs]: "api_KubeConfig E a = callE (Kube (Call_KubeConfig a)) (ku_Config (ev_kube E) a)"

definition api_NewForConfig :: "'w env \<Rightarrow> string \<Rightarrow> ('w, unit) ccm" where
  [api_defs]: "api_NewForConfig E a = callE (Kube (Call_NewForConfig a)) (ku_NewForConfig (ev_kube E) a)"

definition api_GetService :: "'w env \<Rightarrow> string \<Rightarrow> string \<Rightarrow> ('w, Service) ccm" where
  [api_defs]: "api_GetService E a b = callE (Kube (Call_GetService a b)) (ku_GetService (ev_kube E) a b)"

definition api_GetSecret :: "'w env \<Rightarrow> string \<Rightarrow> string \<Rightarrow> ('w, go_map) ccm" where
  [api_defs]: "api_GetSecret E a b = callE (Kube (Call_GetSecret a b)) (ku_GetSecret (ev_kube E) a b)"

definition api_CreateEvent :: "'w env \<Rightarrow> string \<Rightarrow> string \<Rightarrow> ('w, unit) ccm" where
  [api_defs]: "api_CreateEvent E a b = callE (Kube (Call_CreateEvent a b)) (ku_CreateEvent (ev_kube E) a b)"

definition api_ListNodes :: "'w env \<Rightarrow> ('w, Node list) ccm" where
  [api_defs]: "api_ListNodes E = callE (Kube Call_ListNodes) (ku_ListNodes (ev_kube E))"

definition api_GetNode :: "'w env \<Rightarrow> string \<Rightarrow> ('w, Node) ccm" where
  [api_defs]: "api_GetNode E a = callE (Kube (Call_GetNode a)) (ku_GetNode (ev_kube E) a)"

definition api_UpdateNode :: "'w env \<Rightarrow> Node \<Rightarrow> ('w, Node) ccm" where
  [api_defs]: "api_UpdateNode E a = callE (Kube (Call_UpdateNode a)) (ku_UpdateNode (ev_kube E) a)"

definition api_PatchNodeCIDRs :: "'w env \<Rightarrow> string \<Rightarrow> string list \<Rightarrow> ('w, unit) ccm" where
  [api_defs]: "api_PatchNodeCIDRs E a b = callE (Kube (Call_PatchNodeCIDRs a b)) (ku_PatchNodeCIDRs (ev_kube E) a b)"

definition api_AddNodeEventHandler :: "'w env \<Rightarrow> ('w, unit) ccm" where
  [api_defs]: "api_AddNodeEventHandler E = callE (Kube Call_AddNodeEventHandler) (ku_AddNodeEventHandler (ev_kube E))"

definition api_NewCIDRSet :: "'w env \<Rightarrow> IPNet \<Rightarrow> int \<Rightarrow> ('w, unit) ccm" where
  [api_defs]: "api_NewCIDRSet E a b = callE (Cidr (Call_NewCIDRSet a b)) (ku_NewCIDRSet (ev_kube E) a b)"

definition api_AllocateNext :: "'w env \<Rightarrow> ('w, IPNet) ccm" where
  [api_defs]: "api_AllocateNext E = callE (Cidr Call_AllocateNext) (ku_AllocateNext (ev_kube E))"

definition api_Occupy :: "'w env \<Rightarrow> IPNet \<Rightarrow> ('w, unit) ccm" where
  [api_defs]: "api_Occupy E a = callE (Cidr (Call_Occupy a)) (ku_Occupy (ev_kube E) a)"

definition api_Release :: "'w env \<Rightarrow> IPNet \<Rightarrow> ('w, unit) ccm" where
  [api_defs]: "api_Release E a = callE (Cidr (Call_Release a)) (ku_Release (ev_kube E) a)"

definition queueE :: "queue_call \<Rightarrow> ('w \<Rightarrow> 'w) \<Rightarrow> ('w, unit) ccm" where
  "queueE c f = callE (Queue c) (\<lambda>w. (Inr (), f w))"

definition api_QueueGet :: "'w env \<Rightarrow> queue_name \<Rightarrow> ('w, queue_item option) ccm" where
  [api_defs]: "api_QueueGet E q =
     callE (Queue (Call_QueueGet q)) (\<lambda>w. let (i, w') = ku_QueueGet (ev_kube E) q w in (Inr i, w'))"

definition api_QueueAdd :: "'w env \<Rightarrow> queue_name \<Rightarrow> queue_item \<Rightarrow> ('w, unit) ccm" where
  [api_defs]: "api_QueueAdd E q i = queueE (Call_QueueAdd q i) (ku_QueueAdd (ev_kube E) q i)"

definition api_QueueAddAfter :: "'w env \<Rightarrow> queue_name \<Rightarrow> queue_item \<Rightarrow> int \<Rightarrow> ('w, unit) ccm" where
  [api_defs]: "api_QueueAddAfter E q i d =
     queueE (Call_QueueAddAfter q i d) (ku_QueueAddAfter (ev_kube E) q i d)"

definition api_QueueAddRateLimited :: "'w env \<Rightarrow> queue_name \<Rightarrow> queue_item \<Rightarrow> ('w, unit) ccm" where
  [api_defs]: "api_QueueAddRateLimited E q i =
     queueE (Call_QueueAddRateLimited q i) (ku_QueueAddRateLimited (ev_kube E) q i)"

definition api_QueueForget :: "'w env \<Rightarrow> queue_name \<Rightarrow> queue_item \<Rightarrow> ('w, unit) ccm" where
  [api_defs]: "api_QueueForget E q i = queueE (Call_QueueForget q i) (ku_QueueForget (ev_kube E) q i)"

definition api_QueueDone :: "'w env \<Rightarrow> queue_name \<Rightarrow> queue_item \<Rightarrow> ('w, unit) ccm" where
  [api_defs]: "api_QueueDone E q i = queueE (Call_QueueDone q i) (ku_QueueDone (ev_kube E) q i)"

text \<open>Reading the clock, the environment, a file and the informer's node store changes nothing.\<close>

definition nowE :: "'w env \<Rightarrow> ('w, int) ccm" where
  "nowE E = getsE (\<lambda>s. ev_Now E (world s))"

definition lookupEnvE :: "'w env \<Rightarrow> string \<Rightarrow> ('w, string option) ccm" where
  "lookupEnvE E k = getsE (\<lambda>s. ev_LookupEnv E (world s) k)"

definition getenvE :: "'w env \<Rightarrow> string \<Rightarrow> ('w, string) ccm" where
  "getenvE E k = bindE (lookupEnvE E k) (\<lambda>v. retE (case v of None \<Rightarrow> [] | Some x \<Rightarrow> x))"

definition readFileE :: "'w env \<Rightarrow> string \<Rightarrow> ('w, string) ccm" where
  "readFileE E path = bindE (getsE (\<lambda>s. ev_ReadFile E (world s) path))
     (\<lambda>r. case r of Inl e \<Rightarrow> throwE e | Inr x \<Rightarrow> retE x)"

definition nodeListerE :: "'w env \<Rightarrow> string \<Rightarrow> ('w, Node) ccm" where
  "nodeListerE E k = bindE (getsE (\<lambda>s. ku_nodeLister (ev_kube E) k (world s)))
     (\<lambda>r. case r of Inl e \<Rightarrow> throwE e | Inr n \<Rightarrow> retE n)"

section \<open>The trace\<close>

definition trace_ext :: "(call \<Rightarrow> bool) \<Rightarrow> 'w sys \<Rightarrow> 'w sys \<Rightarrow> bool" where
  "trace_ext P s t \<longleftrightarrow> (\<exists>cs. calls t = calls s @ cs \<and> (\<forall>c\<in>set cs. P c))"

abbreviation emits :: "(call \<Rightarrow> bool) \<Rightarrow> ('w, 'a) ccm \<Rightarrow> bool" where
  "emits P m \<equiv> keeps (trace_ext P) m"

interpretation emits: eff_preorder "trace_ext P" for P :: "call \<Rightarrow> bool"
proof
  show "trace_ext P s s" for s :: "'w sys"
    by (auto simp: trace_ext_def)
next
  fix s t u :: "'w sys"
  assume "trace_ext P s t" "trace_ext P t u"
  then obtain cs ds where "calls t = calls s @ cs" "\<forall>c\<in>set cs. P c"
    "calls u = calls t @ ds" "\<forall>c\<in>set ds. P c"
    by (auto simp: trace_ext_def)
  then show "trace_ext P s u"
    by (auto simp: trace_ext_def intro!: exI [of _ "cs @ ds"])
qed

lemma callE_apply [eff_simps]:
  "callE c f s = (case f (world s) of
     (Inl e, w) \<Rightarrow> (Err e, s\<lparr>world := w, calls := calls s @ [c]\<rparr>)
   | (Inr a, w) \<Rightarrow> (Ok a, s\<lparr>world := w, calls := calls s @ [c]\<rparr>))"
  by (simp add: callE_def Let_def split: prod.split sum.split)

lemma callE_Ok_iff [eff_ok]:
  "callE c f s = (Ok a, t) \<longleftrightarrow>
     (\<exists>w. f (world s) = (Inr a, w) \<and> t = s\<lparr>world := w, calls := calls s @ [c]\<rparr>)"
  by (auto simp: callE_def Let_def split: prod.splits sum.splits)

lemma emits_callE [emits_intros]: "P c \<Longrightarrow> emits P (callE c f)"
  by (auto simp: keeps_def trace_ext_def callE_def Let_def split: prod.splits)

lemma emits_queueE [emits_intros]: "P (Queue c) \<Longrightarrow> emits P (queueE c f)"
  by (simp add: queueE_def emits_callE)

lemma emits_modifyE [emits_intros]: "(\<And>s. calls (u s) = calls s) \<Longrightarrow> emits P (modifyE u)"
  by (rule emits.keeps_modifyE) (simp add: trace_ext_def)

lemma emits_reads [emits_intros]:
  "emits P (nowE E)" "emits P (lookupEnvE E k)" "emits P (nodeListerE E k)"
  "emits P (getenvE E k)" "emits P (readFileE E k)"
  by (auto simp: nowE_def lookupEnvE_def nodeListerE_def getenvE_def readFileE_def
      intro!: emits.keeps_pure emits.keeps_bindE split: sum.split)

lemmas [emits_intros] = emits.keeps_rules

lemma emits_weaken: "emits P m \<Longrightarrow> (\<And>c. P c \<Longrightarrow> Q c) \<Longrightarrow> emits Q m"
  by (fastforce simp: keeps_def trace_ext_def)

text \<open>What \<open>emits\<close> says of one run.\<close>

lemma emitsD:
  assumes "emits P m" "m s = (r, t)"
  shows "\<exists>cs. calls t = calls s @ cs \<and> (\<forall>c\<in>set cs. P c)"
  using keepsD [OF assms] by (simp add: trace_ext_def)

text \<open>The calls a computation issues from a state.\<close>

definition issued :: "('w, 'a) ccm \<Rightarrow> 'w sys \<Rightarrow> call list" where
  "issued m s = drop (length (calls s)) (calls (snd (m s)))"

lemma emits_issued: "emits P m \<Longrightarrow> c \<in> set (issued m s) \<Longrightarrow> P c"
  using emitsD [of P m s "fst (m s)" "snd (m s)"] by (auto simp: issued_def)

lemma emits_none: "emits (\<lambda>_. False) m \<Longrightarrow> issued m s = []"
  using emitsD [of "\<lambda>_. False" m s "fst (m s)" "snd (m s)"] by (auto simp: issued_def)

lemma emits_filter: "emits (\<lambda>c. \<not> P c) m \<Longrightarrow> m s = (r, t) \<Longrightarrow> filter P (calls t) = filter P (calls s)"
  by (drule (1) emitsD) (auto simp: filter_empty_conv)

lemma safe_callE [safe_intros]: "safe (callE c f)" "safe (queueE q g)" "safe (nodeListerE E k)"
  by (auto simp: safe_def queueE_def nodeListerE_def eff_simps split: prod.split sum.split)

section \<open>Counting calls\<close>

text \<open>\<open>at_most k P m\<close>: every run of \<open>m\<close> issues at most \<open>k\<close> calls that satisfy
  \<open>P\<close>.\<close>

definition at_most :: "nat \<Rightarrow> (call \<Rightarrow> bool) \<Rightarrow> ('w, 'a) ccm \<Rightarrow> bool" where
  "at_most k P m \<longleftrightarrow>
     (\<forall>s. \<exists>cs. calls (snd (m s)) = calls s @ cs \<and> length (filter P cs) \<le> k)"

lemma at_most_issued: "at_most k P m \<Longrightarrow> length (filter P (issued m s)) \<le> k"
  unfolding at_most_def issued_def by (metis append_eq_conv_conj)

lemma at_most_emits: "emits (\<lambda>c. \<not> P c) m \<Longrightarrow> at_most k P m"
  unfolding at_most_def
  by (intro allI, rule exE [OF emitsD [of "\<lambda>c. \<not> P c" m _ "fst (m s)" "snd (m s)" for s]])
    (auto simp: filter_empty_conv [THEN iffD2])

lemma at_most_callE: "at_most 1 P (callE c f)"
  by (auto simp: at_most_def eff_simps split: prod.split sum.split)

lemma at_most_handleE:
  assumes "at_most k P m" "\<And>e. at_most l P (h e)" "\<And>a. at_most l P (f a)"
  shows "at_most (k + l) P (handleE m h f)"
  unfolding at_most_def
proof
  fix s
  obtain r t where m: "m s = (r, t)" by fastforce
  with assms(1) obtain cs where cs: "calls t = calls s @ cs" "length (filter P cs) \<le> k"
    unfolding at_most_def by (metis snd_conv)
  have "\<exists>ds. calls (snd (handleE m h f s)) = calls t @ ds \<and> length (filter P ds) \<le> l"
  proof (cases r)
    case (Ok a)
    then show ?thesis using assms(3) [of a] m by (auto simp: at_most_def eff_simps)
  next
    case (Err e)
    then show ?thesis using assms(2) [of e] m by (auto simp: at_most_def eff_simps)
  next
    case Panic
    then show ?thesis using m by (auto simp: eff_simps)
  qed
  with cs show "\<exists>cs. calls (snd (handleE m h f s)) = calls s @ cs \<and> length (filter P cs) \<le> k + l"
    by (metis add_mono append_assoc filter_append length_append)
qed

lemma at_most_bindE:
  assumes "at_most k P m" "\<And>a. at_most l P (f a)"
  shows "at_most (k + l) P (bindE m f)"
  unfolding bindE_def
  by (rule at_most_handleE [OF assms(1) _ assms(2)]) (auto intro!: at_most_emits emits_intros)

text \<open>A first step without such calls, and branches.\<close>

lemma at_most_after:
  "emits (\<lambda>c. \<not> P c) m \<Longrightarrow> (\<And>a. at_most k P (f a)) \<Longrightarrow> at_most k P (bindE m f)"
  "emits (\<lambda>c. \<not> P c) m \<Longrightarrow> (\<And>e. at_most k P (h e)) \<Longrightarrow> (\<And>a. at_most k P (f a)) \<Longrightarrow>
   at_most k P (handleE m h f)"
  "(b \<Longrightarrow> at_most k P n1) \<Longrightarrow> (\<not> b \<Longrightarrow> at_most k P n2) \<Longrightarrow> at_most k P (if b then n1 else n2)"
  using at_most_bindE [of 0 P m k f] at_most_handleE [of 0 P m k h f] by (auto intro: at_most_emits)

lemma at_most_thenE: "at_most k P m \<Longrightarrow> at_most l P n \<Longrightarrow> at_most (k + l) P (thenE m n)"
  unfolding thenE_def by (rule at_most_bindE)

section \<open>Parts of the state that are left alone\<close>

definition same :: "('s \<Rightarrow> 'v) \<Rightarrow> 's \<Rightarrow> 's \<Rightarrow> bool" where
  "same f s t \<longleftrightarrow> f t = f s"

abbreviation leaves :: "('s \<Rightarrow> 'v) \<Rightarrow> ('s, 'a) eff \<Rightarrow> bool" where
  "leaves f m \<equiv> keeps (same f) m"

named_theorems leaves_intros "rules for parts of the state that are left alone"

interpretation leaves: eff_preorder "same f" for f :: "'s \<Rightarrow> 'v"
  by unfold_locales (simp_all add: same_def)

lemmas [leaves_intros] = leaves.keeps_rules

lemma leaves_callE [leaves_intros]:
  "(\<And>s w cs. f (s\<lparr>world := w, calls := cs\<rparr>) = f s) \<Longrightarrow> leaves f (callE c g)"
  by (auto simp: keeps_def same_def callE_def Let_def split: prod.splits)

lemma leaves_modifyE [leaves_intros]: "(\<And>s. f (u s) = f s) \<Longrightarrow> leaves f (modifyE u)"
  by (rule leaves.keeps_modifyE) (simp add: same_def)

lemma leavesD: "leaves f m \<Longrightarrow> m s = (r, t) \<Longrightarrow> f t = f s"
  by (drule (1) keepsD) (simp add: same_def)

section \<open>Runs from a trace\<close>

text \<open>
  For the order of calls. \<open>traces m tr Q F\<close>: every run of \<open>m\<close> from a state with
  trace \<open>tr\<close> ends with a value \<open>a\<close> and a trace that satisfy \<open>Q\<close>, or with an
  error (\<open>None\<close> for a panic) and a trace that satisfy \<open>F\<close>. The rules follow the
  code; a call may answer anything.
\<close>

definition traces ::
  "('w, 'a) ccm \<Rightarrow> call list \<Rightarrow> ('a \<Rightarrow> call list \<Rightarrow> bool) \<Rightarrow> (gerr option \<Rightarrow> call list \<Rightarrow> bool) \<Rightarrow> bool" where
  "traces m tr Q F \<longleftrightarrow> (\<forall>s. calls s = tr \<longrightarrow> (case m s of
     (Ok a, t) \<Rightarrow> Q a (calls t) | (Err e, t) \<Rightarrow> F (Some e) (calls t) | (Panic, t) \<Rightarrow> F None (calls t)))"

named_theorems traces_intros "rules for the traces of a computation"

lemma traces_pure [traces_intros]:
  "Q a tr \<Longrightarrow> traces (retE a) tr Q F"
  "F (Some e) tr \<Longrightarrow> traces (throwE e) tr Q F"
  "F None tr \<Longrightarrow> traces panicE tr Q F"
  by (simp_all add: traces_def eff_simps)

lemma traces_getsE [traces_intros]: "(\<And>a. Q a tr) \<Longrightarrow> traces (getsE g) tr Q F"
  by (simp add: traces_def eff_simps)

lemma traces_modifyE [traces_intros]:
  "(\<And>s. calls (u s) = calls s) \<Longrightarrow> Q () tr \<Longrightarrow> traces (modifyE u) tr Q F"
  by (simp add: traces_def eff_simps)

lemma traces_liftR [traces_intros]:
  "(\<And>a. r = Ok a \<Longrightarrow> Q a tr) \<Longrightarrow> (\<And>e. r = Err e \<Longrightarrow> F (Some e) tr) \<Longrightarrow> (r = Panic \<Longrightarrow> F None tr) \<Longrightarrow>
   traces (liftR r) tr Q F"
  by (cases r) (simp_all add: traces_def eff_simps)

lemma traces_callE [traces_intros]:
  assumes "\<And>a w w'. f w = (Inr a, w') \<Longrightarrow> Q a (tr @ [c])"
    and "\<And>e w w'. f w = (Inl e, w') \<Longrightarrow> F (Some e) (tr @ [c])"
  shows "traces (callE c f) tr Q F"
  using assms by (auto simp: traces_def eff_simps split: prod.split sum.split)

lemma traces_handleE [traces_intros]:
  assumes "traces m tr (\<lambda>a tr'. traces (f a) tr' Q F)
     (\<lambda>x tr'. (\<forall>e. x = Some e \<longrightarrow> traces (h e) tr' Q F) \<and> (x = None \<longrightarrow> F None tr'))"
  shows "traces (handleE m h f) tr Q F"
  using assms by (auto simp: traces_def eff_simps split: prod.splits res.splits)

lemma traces_bindE [traces_intros]:
  "traces m tr (\<lambda>a tr'. traces (f a) tr' Q F) F \<Longrightarrow> traces (bindE m f) tr Q F"
  by (auto simp: traces_def eff_simps split: prod.splits res.splits)

lemma traces_thenE [traces_intros]:
  "traces m tr (\<lambda>_ tr'. traces k tr' Q F) F \<Longrightarrow> traces (thenE m k) tr Q F"
  unfolding thenE_def by (rule traces_bindE)

lemma traces_wrapE [traces_intros]:
  "traces m tr Q (\<lambda>x. F (map_option w x)) \<Longrightarrow> traces (wrapE w m) tr Q F"
  by (auto simp: traces_def eff_simps split: prod.splits res.splits)

lemma traces_ignoreE [traces_intros]:
  "traces m tr (\<lambda>_. Q ()) (\<lambda>x tr'. if x = None then F None tr' else Q () tr') \<Longrightarrow> traces (ignoreE m) tr Q F"
  by (fastforce simp: traces_def eff_simps split: prod.splits res.splits)

lemma traces_cases [traces_intros]:
  "(b \<Longrightarrow> traces m tr Q F) \<Longrightarrow> (\<not> b \<Longrightarrow> traces k tr Q F) \<Longrightarrow> traces (if b then m else k) tr Q F"
  "(p = None \<Longrightarrow> traces m tr Q F) \<Longrightarrow> (\<And>a. p = Some a \<Longrightarrow> traces (f a) tr Q F) \<Longrightarrow>
   traces (case p of None \<Rightarrow> m | Some a \<Rightarrow> f a) tr Q F"
  "(xs = [] \<Longrightarrow> traces m tr Q F) \<Longrightarrow> (\<And>y ys. xs = y # ys \<Longrightarrow> traces (g y ys) tr Q F) \<Longrightarrow>
   traces (case xs of [] \<Rightarrow> m | y # ys \<Rightarrow> g y ys) tr Q F"
  "(\<And>a b. q = (a, b) \<Longrightarrow> traces (k2 a b) tr Q F) \<Longrightarrow> traces (case q of (a, b) \<Rightarrow> k2 a b) tr Q F"
  "traces (l x) tr Q F \<Longrightarrow> traces (let y = x in l y) tr Q F"
  by (auto split: option.split list.split prod.split)

lemma traces_weaken:
  "traces m tr Q' F' \<Longrightarrow> (\<And>a t. Q' a t \<Longrightarrow> Q a t) \<Longrightarrow> (\<And>x t. F' x t \<Longrightarrow> F x t) \<Longrightarrow> traces m tr Q F"
  by (fastforce simp: traces_def split: prod.splits res.splits)

lemma traces_forE:
  assumes "I [] tr"
    and "\<And>ys x tr'. I ys tr' \<Longrightarrow> x \<in> set xs \<Longrightarrow> traces (f x) tr' (\<lambda>_ tr''. I (ys @ [x]) tr'') F"
    and "\<And>tr'. I xs tr' \<Longrightarrow> Q () tr'"
  shows "traces (forE xs f) tr Q F"
proof -
  have "traces (forE zs f) tr' Q F" if "I ys tr'" "ys @ zs = xs" for ys zs tr'
    using that
  proof (induction zs arbitrary: ys tr')
    case Nil
    then show ?case by (auto intro!: traces_intros assms(3))
  next
    case (Cons z zs)
    have "traces (f z) tr' (\<lambda>_ tr''. I (ys @ [z]) tr'') F"
      using Cons.prems by (intro assms(2)) auto
    then have "traces (f z) tr' (\<lambda>_ tr''. traces (forE zs f) tr'' Q F) F"
    proof (rule traces_weaken)
      show "I (ys @ [z]) t \<Longrightarrow> traces (forE zs f) t Q F" for t
        using Cons.prems by (intro Cons.IH) auto
    qed
    then show ?case by (auto intro!: traces_thenE)
  qed
  from this [of "[]" tr xs] show ?thesis using assms(1) by simp
qed

lemma traces_emits:
  assumes "emits P m" "\<And>cs a. \<forall>c\<in>set cs. P c \<Longrightarrow> Q a (tr @ cs)"
    "\<And>cs x. \<forall>c\<in>set cs. P c \<Longrightarrow> F x (tr @ cs)"
  shows "traces m tr Q F"
  using assms(2,3) emitsD [OF assms(1)]
  by (fastforce simp: traces_def split: prod.splits res.splits)

lemma traces_issued:
  assumes "traces m (calls s) (\<lambda>_ t. I (drop (length (calls s)) t)) (\<lambda>_ t. I (drop (length (calls s)) t))"
  shows "I (issued m s)"
proof -
  obtain r t where "m s = (r, t)" by fastforce
  with assms show ?thesis by (cases r) (auto simp: traces_def issued_def)
qed

lemma traces_Ok:
  assumes "traces m (calls s) Q F" "m s = (Ok a, t)"
  shows "Q a (calls t)"
  using assms by (auto simp: traces_def)

end
