(* ===== verification/Sample_Env.thy ===== *)
theory Sample_Env
  imports CCM_Calls
begin

text \<open>
  A concrete environment for evaluating the model: every call fails, the clock stands
  still, no environment variable is set, maps are visited in order, and
  \<open>retry.RetryOnConflict\<close> runs its function once. Concrete runs override the calls they
  need. \<open>linodego\<close>'s conversions of a config into create and rebuild options copy the
  settings and leave the nodes to the caller.
\<close>

definition unavailable :: "('w, 'a) op" where
  "unavailable w = (Inl (Errorf ''unavailable'' []), w)"

definition offlineClient :: "'w client" where
  "offlineClient = \<lparr>
     cl_GetInstance = (\<lambda>_. unavailable),
     cl_ListInstances = (\<lambda>_. unavailable),
     cl_ListInstanceConfigs = (\<lambda>_. unavailable),
     cl_UpdateInstanceConfigInterface = (\<lambda>_ _ _ _. unavailable),
     cl_ListInterfaces = (\<lambda>_. unavailable),
     cl_UpdateInterface = (\<lambda>_ _ _. unavailable),
     cl_GetVPC = (\<lambda>_. unavailable),
     cl_GetVPCSubnet = (\<lambda>_ _. unavailable),
     cl_ListVPCs = unavailable,
     cl_ListVPCIPAddresses = (\<lambda>_ _. unavailable),
     cl_ListVPCIPv6Addresses = (\<lambda>_ _. unavailable),
     cl_ListVPCSubnets = (\<lambda>_. unavailable),
     cl_CreateNodeBalancer = (\<lambda>_. unavailable),
     cl_GetNodeBalancer = (\<lambda>_. unavailable),
     cl_UpdateNodeBalancer = (\<lambda>_ _. unavailable),
     cl_DeleteNodeBalancer = (\<lambda>_. unavailable),
     cl_ListNodeBalancers = (\<lambda>_. unavailable),
     cl_ListNodeBalancerNodes = (\<lambda>_ _. unavailable),
     cl_CreateNodeBalancerConfig = (\<lambda>_ _. unavailable),
     cl_DeleteNodeBalancerConfig = (\<lambda>_ _. unavailable),
     cl_ListNodeBalancerConfigs = (\<lambda>_. unavailable),
     cl_RebuildNodeBalancerConfig = (\<lambda>_ _ _. unavailable),
     cl_ListNodeBalancerFirewalls = (\<lambda>_. unavailable),
     cl_ListFirewallDevices = (\<lambda>_. unavailable),
     cl_DeleteFirewallDevice = (\<lambda>_ _. unavailable),
     cl_CreateFirewallDevice = (\<lambda>_ _. unavailable),
     cl_CreateFirewall = (\<lambda>_. unavailable),
     cl_DeleteFirewall = (\<lambda>_. unavailable),
     cl_UpdateFirewallRules = (\<lambda>_ _. unavailable),
     cl_DeleteReservedIPAddress = (\<lambda>_. unavailable),
     cl_GetProfile = unavailable\<rparr>"

definition offlineKube :: "'w kube" where
  "offlineKube = \<lparr>
     ku_Config = (\<lambda>_. unavailable),
     ku_NewForConfig = (\<lambda>_. unavailable),
     ku_GetService = (\<lambda>_ _. unavailable),
     ku_GetSecret = (\<lambda>_ _. unavailable),
     ku_CreateEvent = (\<lambda>_ _. unavailable),
     ku_ListNodes = unavailable,
     ku_GetNode = (\<lambda>_. unavailable),
     ku_UpdateNode = (\<lambda>_. unavailable),
     ku_PatchNodeCIDRs = (\<lambda>_ _. unavailable),
     ku_nodeLister = (\<lambda>_ _. Inl (KubeError KubeNotFound [])),
     ku_AddNodeEventHandler = unavailable,
     ku_PollNodeList = (\<lambda>m. bindE m (\<lambda>r. case r of Some l \<Rightarrow> retE l | None \<Rightarrow> throwE (KubeError KubeOther []))),
     ku_NewCIDRSet = (\<lambda>_ _. unavailable),
     ku_AllocateNext = unavailable,
     ku_Occupy = (\<lambda>_. unavailable),
     ku_Release = (\<lambda>_. unavailable),
     ku_ParseCIDRSloppy = (\<lambda>s. case ParseCIDR s of Ok (_, n) \<Rightarrow> Inr n | _ \<Rightarrow> Inl (CIDRParseError s)),
     ku_ParseCIDRs = (\<lambda>ss. case mapR ParseCIDR ss of Ok ns \<Rightarrow> Inr (map snd ns) | _ \<Rightarrow> Inl (CIDRParseError [])),
     ku_RangeSize = (\<lambda>n. 2 ^ nat (8 * int (length (ipnet_Mask n)) - MaskSize (ipnet_Mask n))),
     ku_GetIndexedIP = (\<lambda>n i. Inr (snd (foldl (\<lambda>(c, bs) b. ((uint b + c) div 256, word_of_int (uint b + c) # bs))
       (i, []) (rev (ipnet_IP n))))),
     ku_MetaNamespaceKeyFunc = (\<lambda>obj. case obj of Obj node \<Rightarrow> Inr (node_Name node) | _ \<Rightarrow> Inl (KubeError KubeOther [])),
     ku_QueueGet = (\<lambda>_ w. (None, w)),
     ku_QueueAdd = (\<lambda>_ _ w. w),
     ku_QueueAddAfter = (\<lambda>_ _ _ w. w),
     ku_QueueAddRateLimited = (\<lambda>_ _ w. w),
     ku_QueueForget = (\<lambda>_ _ w. w),
     ku_QueueDone = (\<lambda>_ _ w. w),
     ku_RetryOnConflict = (\<lambda>m. m)\<rparr>"

definition sampleEnv :: "'w env" where
  "sampleEnv = \<lparr>
     ev_client = offlineClient,
     ev_kube = offlineKube,
     ev_opts = defaultOptions,
     ev_zone = ''us-ord'',
     ev_Now = (\<lambda>_. 0),
     ev_LookupEnv = (\<lambda>_ _. None),
     ev_ReadFile = (\<lambda>_ _. Inl (Errorf ''no such file'' [])),
     ev_NewClient = (\<lambda>_ _. Inr ()),
     ev_rangeOrder = (\<lambda>_ n. [0..<n]),
     ev_MarshalTagFilter = (\<lambda>t. Inr t),
     ev_GetCreateOptions = (\<lambda>c. \<lparr>co_Settings = c, co_Nodes = []\<rparr>),
     ev_GetRebuildOptions = (\<lambda>c. \<lparr>co_Settings = c, co_Nodes = []\<rparr>),
     ev_GetUpdateOptions = (\<lambda>nb. \<lparr>nbu_Label = None,
        nbu_ClientConnThrottle = Some (nb_ClientConnThrottle nb), nbu_Tags = nb_Tags nb\<rparr>)\<rparr>"

definition sampleState :: "'w \<Rightarrow> 'w sys" where
  "sampleState w = \<lparr>world = w, calls = [], VpcIDs = [], SubnetIDs = [],
     st_nodeCache = \<lparr>nc_nodes = [], nc_lastUpdate = 0, nc_ttl = 15 * Second\<rparr>,
     registeredK8sNodeCache = \<lparr>kc_nodes = [], kc_providerIDs = [], kc_lastUpdate = 0, kc_ttl = 300 * Second\<rparr>,
     st_routeCache = \<lparr>rc_routes = [], rc_lastUpdate = 0, rc_ttl = 60 * Second\<rparr>,
     ipv6ConfiguredRoutes = [], lb_kubeClient = NoKubeClient, metadataLastUpdate = [], nodeLastAdded = []\<rparr>"

definition sampleService :: Service where
  "sampleService = \<lparr>svc_Namespace = ''default'', svc_Name = ''web'', svc_Annotations = [],
     svc_Ports = [\<lparr>sp_Port = 80, sp_NodePort = 30080, sp_Protocol = ''TCP''\<rparr>],
     svc_Type = ''LoadBalancer'', svc_Ingress = []\<rparr>"

definition sampleNB :: NodeBalancer where
  "sampleNB = \<lparr>nb_ID = 17, nb_Hostname = Some ''nb-192-0-2-1.example.com'', nb_IPv4 = Some ''192.0.2.1'',
     nb_IPv6 = Some ''2001:db8::1'', nb_ClientConnThrottle = 0, nb_Tags = Some [],
     nb_FrontendAddressType = ''public'', nb_FrontendVPCSubnetID = None\<rparr>"

definition sampleNode :: Node where
  "sampleNode = \<lparr>node_Name = ''n1'', node_Labels = Some [], node_Annotations = Some [],
     node_ProviderID = ''linode://42'', node_PodCIDRs = [],
     node_Addresses = [\<lparr>na_Type = NodeInternalIP, na_Address = ''192.168.128.1''\<rparr>],
     node_Deleting = False\<rparr>"

lemmas sample_defs = unavailable_def offlineClient_def offlineKube_def sampleEnv_def sampleState_def
  sampleService_def sampleNB_def sampleNode_def

end
