(* ===== verification/Vpc_Service.thy ===== *)
theory Vpc_Service
  imports Sample_Env
begin

text \<open>
  The helpers of \<open>utils/common.go\<close> and the VPC lookups of \<open>services/vpc.go\<close>:
  provider IDs, the two name caches \<open>VpcIDs\<close> and \<open>SubnetIDs\<close>, the listing of VPC
  addresses through them, and the validation of the VPC flags. The flags are returned
  instead of updated in place.

  The locale \<open>memo_lookup\<close> is the contract of a lookup through a cache of names; both
  caches are interpretations of it.
\<close>

section \<open>utils/common.go\<close>

definition ProviderIDPrefix :: string where
  "ProviderIDPrefix = ''linode://''"

definition IsLinodeProviderID :: "string \<Rightarrow> bool" where
  "IsLinodeProviderID providerID = HasPrefix providerID ProviderIDPrefix"

definition ParseProviderID :: "string \<Rightarrow> int res" where
  "ParseProviderID providerID =
     (if \<not> IsLinodeProviderID providerID then Err (InvalidProviderID providerID)
      else mapErr (\<lambda>_. InvalidProviderID providerID) (Atoi (TrimPrefix providerID ProviderIDPrefix)))"

definition IgnoreLinodeAPIError :: "gerr option \<Rightarrow> int \<Rightarrow> gerr option" where
  "IgnoreLinodeAPIError err code = (case err of
     None \<Rightarrow> None
   | Some e \<Rightarrow> (if asLinodeError e = Some code then None else Some e))"

definition IsPrivate :: "IP \<Rightarrow> IPNet option \<Rightarrow> bool" where
  "IsPrivate ip linodeExternalNetwork = (case linodeExternalNetwork of
     None \<Rightarrow> IP_IsPrivate ip
   | Some n \<Rightarrow> IP_IsPrivate ip \<and> \<not> IPNet_Contains n ip)"

section \<open>services/vpc.go: the name caches\<close>

definition GetAllVPCIDs :: "'w env \<Rightarrow> ('w, int list) ccm" where
  "GetAllVPCIDs E = getsE (\<lambda>s.
     map snd (visit (ev_rangeOrder E (world s) (length (VpcIDs s))) (VpcIDs s)))"

definition GetVPCID :: "'w env \<Rightarrow> string \<Rightarrow> ('w, int) ccm" where
  "GetVPCID E vpcName =
     bindE (getsE (\<lambda>s. map_of (VpcIDs s) vpcName)) (\<lambda>cached. case cached of
       Some vpcid \<Rightarrow> retE vpcid
     | None \<Rightarrow>
         bindE (api_ListVPCs E) (\<lambda>vpcs.
         case find_first (\<lambda>v. vpc_Label v = vpcName) vpcs of
           Some v \<Rightarrow>
             thenE (modifyE (\<lambda>s. s\<lparr>VpcIDs := AList.update vpcName (vpc_ID v) (VpcIDs s)\<rparr>))
               (retE (vpc_ID v))
         | None \<Rightarrow> throwE (VpcLookupError vpcName)))"

definition GetSubnetID :: "'w env \<Rightarrow> int \<Rightarrow> string \<Rightarrow> ('w, int) ccm" where
  "GetSubnetID E vpcID subnetName =
     bindE (getsE (\<lambda>s. map_of (SubnetIDs s) subnetName)) (\<lambda>cached. case cached of
       Some subnetid \<Rightarrow> retE subnetid
     | None \<Rightarrow>
         bindE (api_ListVPCSubnets E vpcID) (\<lambda>subnets.
         case find_first (\<lambda>v. sn_Label v = subnetName) subnets of
           Some v \<Rightarrow>
             thenE (modifyE (\<lambda>s. s\<lparr>SubnetIDs := AList.update subnetName (sn_ID v) (SubnetIDs s)\<rparr>))
               (retE (sn_ID v))
         | None \<Rightarrow> throwE (SubnetLookupError subnetName)))"

text \<open>The JSON of a \<open>subnetFilter\<close>; its value has digits, signs and commas only, which
  \<open>json.Marshal\<close> writes unchanged and cannot fail on.\<close>

definition subnetFilterJSON :: "string list \<Rightarrow> string" where
  \<open>subnetFilterJSON ids = ''{"subnet_id":"'' @ Join ids '','' @ ''"}''\<close>

definition getVPCIDAndFilter :: "'w env \<Rightarrow> string \<Rightarrow> ('w, int \<times> string) ccm" where
  "getVPCIDAndFilter E vpcName =
     bindE (GetVPCID E (TrimSpace vpcName)) (\<lambda>vpcID.
     if opt_SubnetNames (ev_opts E) \<noteq> [] then
       bindE (foldE (\<lambda>ids name. handleE (GetSubnetID E vpcID name)
                (\<lambda>_. retE ids) (\<lambda>subnetID. retE (ids @ [Itoa subnetID])))
              [] (opt_SubnetNames (ev_opts E))) (\<lambda>subnetIDList.
       retE (vpcID, subnetFilterJSON subnetIDList))
     else retE (vpcID, []))"

definition handleNotFoundError :: "gerr \<Rightarrow> string \<Rightarrow> ('w, 'a) ccm" where
  "handleNotFoundError err vpcName =
     (if asLinodeError err = Some 404
      then thenE (modifyE (\<lambda>s. s\<lparr>VpcIDs := AList.delete vpcName (VpcIDs s)\<rparr>)) (throwE err)
      else throwE err)"

definition GetVPCIPAddresses :: "'w env \<Rightarrow> string \<Rightarrow> ('w, VPCIP list) ccm" where
  "GetVPCIPAddresses E vpcName =
     bindE (getVPCIDAndFilter E vpcName) (\<lambda>(vpcID, resultFilter).
     handleE (api_ListVPCIPAddresses E vpcID resultFilter)
       (\<lambda>err. handleNotFoundError err vpcName) retE)"

definition GetVPCIPv6Addresses :: "'w env \<Rightarrow> string \<Rightarrow> ('w, VPCIP list) ccm" where
  "GetVPCIPv6Addresses E vpcName =
     bindE (getVPCIDAndFilter E vpcName) (\<lambda>(vpcID, resultFilter).
     handleE (api_ListVPCIPv6Addresses E vpcID resultFilter)
       (\<lambda>err. handleNotFoundError err vpcName) retE)"

definition GetNodeBalancerBackendIPv4SubnetID :: "'w env \<Rightarrow> Options \<Rightarrow> ('w, int) ccm" where
  "GetNodeBalancerBackendIPv4SubnetID E opts =
     bindE (liftR (indexR (opt_VPCNames opts) 0)) (\<lambda>vpcName.
     bindE (wrapE (Wrapf ''failed to get vpc id for %s: %w'' [vpcName]) (GetVPCID E vpcName)) (\<lambda>vpcID.
     wrapE (Wrapf ''failed to get subnet id for %s: %w'' [opt_NodeBalancerBackendIPv4SubnetName opts])
       (GetSubnetID E vpcID (opt_NodeBalancerBackendIPv4SubnetName opts))))"

section \<open>services/vpc.go: the VPC flags\<close>

definition validateBothNameAndIDNotSet :: "Options \<Rightarrow> unit res" where
  "validateBothNameAndIDNotSet opts =
     (if opt_VPCIDs opts \<noteq> [] \<and> opt_VPCNames opts \<noteq> []
      then Err (Errorf ''cannot have both vpc-ids and vpc-names set'' []) else Ok ())"

definition validateVPCAndSubnetPairing :: "Options \<Rightarrow> unit res" where
  "validateVPCAndSubnetPairing opts =
     (if opt_VPCIDs opts \<noteq> [] \<and> opt_SubnetIDs opts = []
      then Err (Errorf ''vpc-ids cannot be set without subnet-ids'' [])
      else if opt_SubnetIDs opts \<noteq> [] \<and> opt_VPCIDs opts = []
      then Err (Errorf ''subnet-ids cannot be set without vpc-ids'' []) else Ok ())"

definition validateSubnetNamesWithRouteController :: "Options \<Rightarrow> unit res" where
  "validateSubnetNamesWithRouteController opts =
     (if opt_SubnetNames opts \<noteq> [] \<and> opt_VPCNames opts = [] \<and> opt_EnableRouteController opts
      then Err (Errorf ''subnet-names cannot be set without vpc-names'' []) else Ok ())"

definition validateVPCSubnetFlags :: "Options \<Rightarrow> unit res" where
  "validateVPCSubnetFlags opts =
     bindR (validateBothNameAndIDNotSet opts) (\<lambda>_.
     bindR (validateVPCAndSubnetPairing opts) (\<lambda>_.
     validateSubnetNamesWithRouteController opts))"

definition resolveSubnetNames :: "'w env \<Rightarrow> Options \<Rightarrow> int \<Rightarrow> ('w, string list) ccm" where
  "resolveSubnetNames E opts vpcID =
     foldE (\<lambda>names subnetID.
       bindE (wrapE (Wrapf ''failed to get subnet %d for VPC %d: %w'' [Itoa subnetID, Itoa vpcID])
               (api_GetVPCSubnet E vpcID subnetID)) (\<lambda>subnet.
       thenE (modifyE (\<lambda>s. s\<lparr>SubnetIDs := AList.update (sn_Label subnet) (sn_ID subnet) (SubnetIDs s)\<rparr>))
         (retE (names @ [sn_Label subnet]))))
     [] (opt_SubnetIDs opts)"

text \<open>One round of the loop over the VPC IDs; only the first one resolves subnets.\<close>

definition flagsStep ::
  "'w env \<Rightarrow> Options \<Rightarrow> string list \<times> string list \<Rightarrow> nat \<times> int \<Rightarrow> ('w, string list \<times> string list) ccm" where
  "flagsStep E opts acc ix = (case (acc, ix) of ((vpcNames, subnetNames), (idx, vpcID)) \<Rightarrow>
     bindE (wrapE (Wrapf ''failed to get VPC %d: %w'' [Itoa vpcID]) (api_GetVPC E vpcID)) (\<lambda>vpc.
     thenE (modifyE (\<lambda>s. s\<lparr>VpcIDs := AList.update (vpc_Label vpc) vpcID (VpcIDs s)\<rparr>))
     (if idx = 0 \<and> opt_SubnetIDs opts \<noteq> [] then
        bindE (resolveSubnetNames E opts vpcID) (\<lambda>names.
        retE (vpcNames @ [vpc_Label vpc], subnetNames @ names))
      else retE (vpcNames @ [vpc_Label vpc], subnetNames))))"

definition ValidateAndSetVPCSubnetFlags :: "'w env \<Rightarrow> Options \<Rightarrow> ('w, Options) ccm" where
  "ValidateAndSetVPCSubnetFlags E opts0 =
     (let opts = (if opt_SubnetIDs opts0 \<noteq> [] then opts0\<lparr>opt_SubnetNames := []\<rparr> else opts0) in
      thenE (liftR (validateVPCSubnetFlags opts))
      (bindE (foldE (flagsStep E opts) ([], opt_SubnetNames opts) (enumerate 0 (opt_VPCIDs opts))) (\<lambda>(vpcNames, subnetNames).
       retE (opts\<lparr>opt_VPCNames := opt_VPCNames opts @ vpcNames, opt_SubnetNames := subnetNames\<rparr>))))"

section \<open>Lookups through a cache of names\<close>

locale memo_lookup =
  fixes cache :: "'s \<Rightarrow> string \<rightharpoonup> int"
    and look :: "string \<Rightarrow> ('s, int) eff"
  assumes look_hit: "cache s k = Some v \<Longrightarrow> look k s = (Ok v, s)"
    and look_stores: "look k s = (Ok v, t) \<Longrightarrow> cache t = (cache s)(k \<mapsto> v)"
    and look_fails: "look k s = (r, t) \<Longrightarrow> \<not> isOk r \<Longrightarrow> cache t = cache s"
begin

lemma look_again:
  assumes "look k s = (Ok v, t)"
  shows "look k t = (Ok v, t)"
  using look_stores [OF assms] by (intro look_hit) simp

lemma look_grows:
  assumes "look k s = (r, t)"
  shows "cache s \<subseteq>\<^sub>m cache t"
proof (cases r)
  case (Ok v)
  have t: "cache t = (cache s)(k \<mapsto> v)" using assms Ok by (simp add: look_stores)
  have "cache s k = None \<or> cache s k = Some v"
    using assms look_hit [of s k] Ok by (cases "cache s k") auto
  with t show ?thesis by (auto simp: map_le_def)
next
  case (Err e)
  then show ?thesis using look_fails [OF assms] by simp
next
  case Panic
  then show ?thesis using look_fails [OF assms] by simp
qed

lemma look_keeps_entry:
  assumes "look k s = (r, t)" "cache s k' = Some v"
  shows "look k' t = (Ok v, t)"
  using look_grows [OF assms(1)] assms(2) by (intro look_hit) (metis domI map_le_def)

end

interpretation vpcs: memo_lookup "\<lambda>s. map_of (VpcIDs s)" "GetVPCID E" for E :: "'w env"
proof
  show "map_of (VpcIDs s) k = Some v \<Longrightarrow> GetVPCID E k s = (Ok v, s)" for s k v
    by (simp add: GetVPCID_def eff_simps)
  show "GetVPCID E k s = (Ok v, t) \<Longrightarrow> map_of (VpcIDs t) = (map_of (VpcIDs s))(k \<mapsto> v)" for s k v t
    by (auto simp: GetVPCID_def api_defs eff_simps split: option.splits prod.splits sum.splits)
  show "GetVPCID E k s = (r, t) \<Longrightarrow> \<not> isOk r \<Longrightarrow> map_of (VpcIDs t) = map_of (VpcIDs s)" for s k r t
    by (auto simp: GetVPCID_def api_defs eff_simps split: option.splits prod.splits sum.splits)
qed

interpretation subnets: memo_lookup "\<lambda>s. map_of (SubnetIDs s)" "GetSubnetID E vpcID"
  for E :: "'w env" and vpcID
proof
  show "map_of (SubnetIDs s) k = Some v \<Longrightarrow> GetSubnetID E vpcID k s = (Ok v, s)" for s k v
    by (simp add: GetSubnetID_def eff_simps)
  show "GetSubnetID E vpcID k s = (Ok v, t) \<Longrightarrow>
    map_of (SubnetIDs t) = (map_of (SubnetIDs s))(k \<mapsto> v)" for s k v t
    by (auto simp: GetSubnetID_def api_defs eff_simps split: option.splits prod.splits sum.splits)
  show "GetSubnetID E vpcID k s = (r, t) \<Longrightarrow> \<not> isOk r \<Longrightarrow>
    map_of (SubnetIDs t) = map_of (SubnetIDs s)" for s k r t
    by (auto simp: GetSubnetID_def api_defs eff_simps split: option.splits prod.splits sum.splits)
qed

section \<open>Lemmas\<close>

lemma ParseProviderID_prefix: "is_int64 i \<Longrightarrow> ParseProviderID (ProviderIDPrefix @ Itoa i) = Ok i"
  by (simp add: ParseProviderID_def IsLinodeProviderID_def Atoi_Itoa)

lemma ParseProviderID_Ok:
  "ParseProviderID p = Ok i \<Longrightarrow> \<exists>t. p = ProviderIDPrefix @ t \<and> Atoi t = Ok i"
  by (auto simp: ParseProviderID_def IsLinodeProviderID_def res_simps
      dest!: HasPrefixE split: if_splits)

lemma emits_vpc_lookups [emits_intros]:
  "P (Vpc Call_ListVPCs) \<Longrightarrow> emits P (GetVPCID E n)"
  "P (Vpc (Call_ListVPCSubnets v)) \<Longrightarrow> emits P (GetSubnetID E v n)"
  unfolding GetVPCID_def GetSubnetID_def api_defs
  by (intro emits_intros; simp)+

text \<open>The lookups touch the two caches, the world and the trace only.\<close>

lemma leaves_vpc:
  fixes f :: "'w sys \<Rightarrow> 'v"
  assumes "\<And>s w cs. f (s\<lparr>world := w, calls := cs\<rparr>) = f s"
    and "\<And>s x. f (s\<lparr>VpcIDs := x\<rparr>) = f s" "\<And>s x. f (s\<lparr>SubnetIDs := x\<rparr>) = f s"
  shows "leaves f (GetVPCID E n)" "leaves f (GetSubnetID E v n)" "leaves f (GetVPCIPAddresses E n)"
    "leaves f (GetVPCIPv6Addresses E n)"
proof -
  show g: "leaves f (GetVPCID E n)" "leaves f (GetSubnetID E v n)" for n v
    unfolding GetVPCID_def GetSubnetID_def api_defs by (intro leaves_intros; simp add: assms)+
  have f: "leaves f (getVPCIDAndFilter E n)"
    unfolding getVPCIDAndFilter_def by (intro leaves_intros g)
  have h: "leaves f (handleNotFoundError e n)" for e :: gerr and n
    unfolding handleNotFoundError_def by (intro leaves_intros; simp add: assms)
  show "leaves f (GetVPCIPAddresses E n)" "leaves f (GetVPCIPv6Addresses E n)"
    unfolding GetVPCIPAddresses_def GetVPCIPv6Addresses_def api_defs
    by (intro leaves_intros f h; simp add: assms)+
qed

lemma emits_vpc_addresses [emits_intros]:
  assumes "P (Vpc Call_ListVPCs)" "\<And>v. P (Vpc (Call_ListVPCSubnets v))"
    "\<And>v f. P (Vpc (Call_ListVPCIPAddresses v f))" "\<And>v f. P (Vpc (Call_ListVPCIPv6Addresses v f))"
  shows "emits P (GetVPCIPAddresses E n)" "emits P (GetVPCIPv6Addresses E n)"
  unfolding GetVPCIPAddresses_def GetVPCIPv6Addresses_def getVPCIDAndFilter_def handleNotFoundError_def api_defs
  by (intro emits_intros; simp add: assms)+

lemma leaves_GetSubnetID [leaves_intros]: "leaves VpcIDs (GetSubnetID E v n)"
  unfolding GetSubnetID_def api_defs by (intro leaves_intros; simp)

lemma getVPCIDAndFilter_cases:
  assumes "getVPCIDAndFilter E n s = (r, t)"
  shows "r = Ok (i, f) \<Longrightarrow> map_of (VpcIDs t) (TrimSpace n) = Some i"
    and "r = Err e \<Longrightarrow> map_of (VpcIDs t) (TrimSpace n) = None"
proof -
  let ?names = "\<lambda>vpcID. foldE (\<lambda>ids name. handleE (GetSubnetID E vpcID name)
                (\<lambda>_. retE ids) (\<lambda>subnetID. retE (ids @ [Itoa subnetID])))
              [] (opt_SubnetNames (ev_opts E))"
  have frame: "leaves VpcIDs (?names v)" for v
    by (intro leaves_intros)
  have no_Err: "?names v u \<noteq> (Err e, u')" for v u e u'
    by (rule foldE_no_Err) (auto simp: eff_simps split: prod.splits res.splits)
  obtain r1 s1 where g: "GetVPCID E (TrimSpace n) s = (r1, s1)" by fastforce
  show "map_of (VpcIDs t) (TrimSpace n) = Some i" if "r = Ok (i, f)"
    using assms g that vpcs.look_stores [of E "TrimSpace n" s i s1]
    by (auto simp: getVPCIDAndFilter_def eff_simps dest: leavesD [OF frame]
        split: res.splits if_splits prod.splits)
  show "map_of (VpcIDs t) (TrimSpace n) = None" if "r = Err e"
  proof -
    have "r1 = Err e" "t = s1"
      using assms g that no_Err
      by (auto simp: getVPCIDAndFilter_def eff_simps split: res.splits if_splits prod.splits)
    with g show ?thesis
      using vpcs.look_fails [OF g] vpcs.look_hit [of s "TrimSpace n" _ E]
      by (cases "map_of (VpcIDs s) (TrimSpace n)") auto
  qed
qed

lemma leaves_resolveSubnetNames [leaves_intros]: "leaves VpcIDs (resolveSubnetNames E opts v)"
  unfolding resolveSubnetNames_def api_defs by (intro leaves_intros; simp)

lemma flagsStep_Ok:
  assumes "flagsStep E opts acc ix s = (Ok acc', t)"
  obtains n i where "fst acc' = fst acc @ [n]" "map_of (VpcIDs t) = (map_of (VpcIDs s))(n \<mapsto> i)"
  using assms
  by (auto simp: flagsStep_def eff_ok api_defs split: prod.splits if_splits
      dest!: leavesD [OF leaves_resolveSubnetNames])

lemma flagsLoop_resolves:
  assumes "foldE (flagsStep E opts) acc xs s = (Ok acc', t)" "\<forall>n\<in>set (fst acc). map_of (VpcIDs s) n \<noteq> None"
  shows "\<forall>n\<in>set (fst acc'). map_of (VpcIDs t) n \<noteq> None"
proof (rule foldE_invariant [OF assms(1), where I = "\<lambda>acc s. \<forall>n\<in>set (fst acc). map_of (VpcIDs s) n \<noteq> None"])
  fix b x s b' t
  assume I: "\<forall>n\<in>set (fst b). map_of (VpcIDs s) n \<noteq> None" and "flagsStep E opts b x s = (Ok b', t)"
  then show "\<forall>n\<in>set (fst b'). map_of (VpcIDs t) n \<noteq> None"
    by (elim flagsStep_Ok) auto
qed (rule assms(2))

lemma flagsLoop_length:
  "foldE (flagsStep E opts) acc xs s = (Ok acc', t) \<Longrightarrow> length (fst acc') = length (fst acc) + length xs"
proof (induction xs arbitrary: acc s)
  case (Cons x xs)
  then obtain acc1 s1 where step: "flagsStep E opts acc x s = (Ok acc1, s1)"
    and rest: "foldE (flagsStep E opts) acc1 xs s1 = (Ok acc', t)"
    by (auto simp: eff_ok)
  from step obtain n where "fst acc1 = fst acc @ [n]" by (rule flagsStep_Ok)
  with Cons.IH [OF rest] show ?case by simp
qed (simp add: eff_ok)

section \<open>Properties\<close>

text \<open>C38: A provider ID is parsed back to the Linode ID it was printed from, and only
  strings of that form are accepted: anything without the \<open>linode://\<close> prefix or
  without a 64-bit decimal number after it is an invalid provider ID.\<close>

theorem ParseProviderID_roundtrip:
  "(is_int64 i \<longrightarrow> ParseProviderID (ProviderIDPrefix @ Itoa i) = Ok i) \<and>
   (case ParseProviderID p of
      Ok j \<Rightarrow> is_int64 j \<and> (\<exists>t. p = ProviderIDPrefix @ t \<and> Atoi t = Ok j)
    | Err e \<Rightarrow> e = InvalidProviderID p
    | Panic \<Rightarrow> False)"
  using ParseProviderID_prefix [of i] ParseProviderID_Ok [of p] Atoi_int64
  by (auto simp: ParseProviderID_def res_simps no_panic split: res.split if_splits)

theorem ParseProviderID_roundtrip_witness: "ParseProviderID ''linode://42'' = Ok 42"
proof -
  have "ProviderIDPrefix @ Itoa 42 = ''linode://42''" "is_int64 42" by code_simp+
  then show ?thesis using ParseProviderID_roundtrip [of 42 "[]"] by simp
qed

text \<open>A VPC name that has been resolved stays resolved: asking again, also through a
  client that fails every call, and after any other lookups of VPCs in between, gives the
  same ID, issues no call and changes nothing.\<close>

lemma GetVPCID_memoised:
  assumes "GetVPCID E n s = (Ok v, t)" "GetVPCID E' m t = (r, u)"
  shows "GetVPCID E'' n u = (Ok v, u)"
proof -
  have "map_of (VpcIDs t) n = Some v"
    using vpcs.look_stores [OF assms(1)] by simp
  then have "map_of (VpcIDs u) n = Some v"
    using vpcs.look_grows [OF assms(2)] by (metis domI map_le_def)
  then show ?thesis by (rule vpcs.look_hit)
qed

definition vpcEnv :: "unit env" where
  "vpcEnv = sampleEnv\<lparr>ev_client := offlineClient\<lparr>
     cl_ListVPCs := (\<lambda>w. (Inr [\<lparr>vpc_ID = 11, vpc_Label = ''a''\<rparr>, \<lparr>vpc_ID = 12, vpc_Label = ''b''\<rparr>], w)),
     cl_ListVPCSubnets := (\<lambda>v w. (Inr [\<lparr>sn_ID = 10 * v, sn_Label = ''default'', sn_IPv4 = ''10.0.0.0/8''\<rparr>], w)),
     cl_GetVPC := (\<lambda>i w. (Inr \<lparr>vpc_ID = i, vpc_Label = ''a''\<rparr>, w)),
     cl_GetVPCSubnet := (\<lambda>v i w. (Inr \<lparr>sn_ID = i, sn_Label = ''default'', sn_IPv4 = ''10.0.0.0/8''\<rparr>, w)),
     cl_ListVPCIPAddresses := (\<lambda>_ _ w. (Inl (LinodeError 404 ''Not found''), w))\<rparr>\<rparr>"

lemma vpcEnv_runs:
  "GetVPCID vpcEnv ''a'' (sampleState ()) =
     (Ok 11, (sampleState ())\<lparr>calls := [Vpc Call_ListVPCs], VpcIDs := [(''a'', 11)]\<rparr>)"
  "GetVPCID vpcEnv ''b'' ((sampleState ())\<lparr>calls := [Vpc Call_ListVPCs], VpcIDs := [(''a'', 11)]\<rparr>) =
     (Ok 12, (sampleState ())\<lparr>calls := [Vpc Call_ListVPCs, Vpc Call_ListVPCs],
                VpcIDs := [(''a'', 11), (''b'', 12)]\<rparr>)"
  by code_simp+

text \<open>C36: When listing the addresses of a VPC ends in a 404, the VPC's name is no longer
  in the cache afterwards, so that the next lookup asks the API again. This holds for names
  without surrounding blanks.\<close>

theorem GetVPCIPAddresses_forgets_missing_vpc:
  assumes "GetVPCIPAddresses E n s = (Err e, t)" "asLinodeError e = Some 404" "TrimSpace n = n"
  shows "map_of (VpcIDs t) n = None"
proof -
  obtain r u where g: "getVPCIDAndFilter E n s = (r, u)" by fastforce
  show ?thesis
    using assms g getVPCIDAndFilter_cases(2) [OF g]
    by (auto simp: GetVPCIPAddresses_def handleNotFoundError_def api_defs eff_simps
        split: res.splits prod.splits sum.splits if_splits)
qed

theorem GetVPCIPAddresses_forgets_missing_vpc_witness:
  "map_of (VpcIDs (snd (GetVPCIPAddresses vpcEnv ''a'' (sampleState ())))) ''a'' = None"
proof (rule GetVPCIPAddresses_forgets_missing_vpc)
  show "GetVPCIPAddresses vpcEnv ''a'' (sampleState ()) =
      (Err (LinodeError 404 ''Not found''), snd (GetVPCIPAddresses vpcEnv ''a'' (sampleState ())))"
    by (rule prod_eqI) code_simp+
qed code_simp+


definition idOptions :: Options where
  "idOptions = defaultOptions\<lparr>opt_VPCIDs := [11], opt_SubnetIDs := [110]\<rparr>"


section \<open>Corner cases\<close>

text \<open>The cache of subnet names does not tell VPCs apart: once a name has been resolved in
  one VPC, the same ID is returned for a subnet of that name in any other VPC.\<close>

lemma GetSubnetID_ignores_vpc:
  assumes "GetSubnetID E vpc1 n s = (Ok v, t)"
  shows "GetSubnetID E' vpc2 n t = (Ok v, t)"
  using subnets.look_stores [OF assms] by (intro subnets.look_hit) simp

lemma GetSubnetID_wrong_vpc:
  "fst (bindE (GetSubnetID vpcEnv 11 ''default'') (\<lambda>_. GetSubnetID vpcEnv 12 ''default'') (sampleState ())) = Ok 110 \<and>
   fst (GetSubnetID vpcEnv 12 ''default'' (sampleState ())) = Ok 120"
  by code_simp

text \<open>A VPC name with surrounding blanks is stored without them, but deleted with them: the
  stale entry survives a 404.\<close>

lemma GetVPCIPAddresses_keeps_blank_name:
  "map_of (VpcIDs (snd (GetVPCIPAddresses vpcEnv '' a'' (sampleState ())))) ''a'' = Some 11"
  by code_simp

end
