(* ===== verification/Go_Json.thy ===== *)
theory Go_Json
  imports Go_Lib
begin

text \<open>
  \<open>encoding/json\<close> as far as the program uses it: \<open>json.Unmarshal\<close> of an
  annotation value into a struct of strings, string slices and pointers to such structs.
  The text is checked against the grammar first and then decoded, as Go does. The text is
  valid UTF-8, as the Kubernetes API server requires of annotation values, so that string
  bytes are copied as they are.

  The parser recurses with fuel, since its recursion follows the nesting of the text. Every
  two nested calls consume at least one byte, so twice the length of the text is enough
  fuel; \<open>pvalue_fuel\<close> shows that more fuel never changes a result.
\<close>

datatype json =
    JNull
  | JBool bool
  | JNum string
  | JStr string
  | JArr "json list"
  | JObj "(string \<times> json) list"

definition json_space :: "char \<Rightarrow> bool" where
  "json_space c \<longleftrightarrow> of_char c \<in> set [9, 10, 13, 32 :: int]"

definition skipws :: "string \<Rightarrow> string" where
  "skipws s = dropWhile json_space s"

section \<open>Strings and numbers\<close>

definition hex4 :: "string \<Rightarrow> int option" where
  "hex4 s =
     (case map (\<lambda>c. let n = of_char c :: int in
          if 48 \<le> n \<and> n \<le> 57 then Some (n - 48)
          else if 97 \<le> n \<and> n \<le> 102 then Some (n - 87)
          else if 65 \<le> n \<and> n \<le> 70 then Some (n - 55) else None) s of
        [Some a, Some b, Some c, Some d] \<Rightarrow> Some (4096 * a + 256 * b + 16 * c + d)
      | _ \<Rightarrow> None)"

definition utf8 :: "int \<Rightarrow> string" where
  "utf8 v =
     (if v < 128 then [char_of v]
      else if v < 2048 then [char_of (192 + v div 64), char_of (128 + v mod 64)]
      else if v < 65536 then
        [char_of (224 + v div 4096), char_of (128 + v div 64 mod 64), char_of (128 + v mod 64)]
      else [char_of (240 + v div 262144), char_of (128 + v div 4096 mod 64),
            char_of (128 + v div 64 mod 64), char_of (128 + v mod 64)])"

text \<open>A \<open>\u\<close> escape, read from the four hex digits on: the bytes it stands for and the
  rest. A lone surrogate is the replacement character.\<close>

definition unescape_u :: "string \<Rightarrow> (string \<times> string) option" where
  "unescape_u r =
     (case hex4 (take 4 r) of
        None \<Rightarrow> None
      | Some v \<Rightarrow>
          let r4 = drop 4 r in
          if 55296 \<le> v \<and> v < 56320 then
            (case (if take 2 r4 = [CHR 0x5C, CHR ''u''] then hex4 (take 4 (drop 2 r4)) else None) of
               Some w \<Rightarrow>
                 if 56320 \<le> w \<and> w < 57344
                 then Some (utf8 (65536 + (v - 55296) * 1024 + (w - 56320)), drop 6 r4)
                 else Some (utf8 65533, r4)
             | None \<Rightarrow> Some (utf8 65533, r4))
          else if 56320 \<le> v \<and> v < 57344 then Some (utf8 65533, r4)
          else Some (utf8 v, r4))"

definition unescape_1 :: "char \<Rightarrow> char option" where
  "unescape_1 e =
     (if e = CHR 0x22 \<or> e = CHR 0x5C \<or> e = CHR ''/'' then Some e
      else if e = CHR ''b'' then Some (CHR 0x08)
      else if e = CHR ''f'' then Some (CHR 0x0C)
      else if e = CHR ''n'' then Some (CHR 0x0A)
      else if e = CHR ''r'' then Some (CHR 0x0D)
      else if e = CHR ''t'' then Some (CHR 0x09) else None)"

text \<open>The body of a string literal after its opening quote. The fuel is the length of
  the text: every step consumes a byte.\<close>

fun pstring :: "nat \<Rightarrow> string \<Rightarrow> (string \<times> string) option" where
  "pstring 0 s = None"
| "pstring (Suc k) s =
     (case s of
        [] \<Rightarrow> None
      | c # cs \<Rightarrow>
          if c = CHR 0x22 then Some ([], cs)
          else if c = CHR 0x5C then
            (case cs of
               [] \<Rightarrow> None
             | e # r \<Rightarrow>
                 (case (if e = CHR ''u'' then unescape_u r
                        else map_option (\<lambda>b. ([b], r)) (unescape_1 e)) of
                    None \<Rightarrow> None
                  | Some (b, r') \<Rightarrow> map_option (\<lambda>(t, rest). (b @ t, rest)) (pstring k r')))
          else if (of_char c :: int) < 32 then None
          else map_option (\<lambda>(t, rest). (c # t, rest)) (pstring k cs))"

definition is_digit :: "char \<Rightarrow> bool" where
  "is_digit c = (digit_val c \<noteq> None)"

definition pfrac :: "string \<Rightarrow> (string \<times> string) option" where
  "pfrac s =
     (case s of
        c # r \<Rightarrow> if c = CHR ''.'' then
                    (let d = takeWhile is_digit r in
                     if d = [] then None else Some (c # d, dropWhile is_digit r))
                  else Some ([], s)
      | [] \<Rightarrow> Some ([], []))"

definition pexp :: "string \<Rightarrow> (string \<times> string) option" where
  "pexp s =
     (case s of
        c # r \<Rightarrow> if c = CHR ''e'' \<or> c = CHR ''E'' then
                    (let sg = (if r \<noteq> [] \<and> (hd r = CHR ''+'' \<or> hd r = CHR ''-'') then [hd r] else []);
                         r' = drop (length sg) r;
                         d = takeWhile is_digit r'
                     in if d = [] then None else Some (c # sg @ d, dropWhile is_digit r'))
                  else Some ([], s)
      | [] \<Rightarrow> Some ([], []))"

definition pnumber :: "string \<Rightarrow> (string \<times> string) option" where
  "pnumber s =
     (let sg = (if s \<noteq> [] \<and> hd s = CHR ''-'' then ''-'' else []);
          r = drop (length sg) s;
          d = (if r \<noteq> [] \<and> hd r = CHR ''0'' then ''0'' else takeWhile is_digit r)
      in if d = [] then None
         else case pfrac (drop (length d) r) of
           None \<Rightarrow> None
         | Some (f, r1) \<Rightarrow>
             (case pexp r1 of None \<Rightarrow> None | Some (e, r2) \<Rightarrow> Some (sg @ d @ f @ e, r2)))"

section \<open>Values\<close>

fun pvalue :: "nat \<Rightarrow> string \<Rightarrow> (json \<times> string) option"
  and pelems :: "nat \<Rightarrow> string \<Rightarrow> (json list \<times> string) option"
  and pmembers :: "nat \<Rightarrow> string \<Rightarrow> ((string \<times> json) list \<times> string) option" where
  "pvalue 0 s = None"
| "pvalue (Suc k) s =
     (let t = skipws s in
      if t = [] then None
      else if hd t = CHR 0x22 then
        map_option (\<lambda>(b, r). (JStr b, r)) (pstring (Suc (length t)) (tl t))
      else if hd t = CHR ''{'' then
        (if take 1 (skipws (tl t)) = ''}'' then Some (JObj [], tl (skipws (tl t)))
         else map_option (\<lambda>(ms, r). (JObj ms, r)) (pmembers k (tl t)))
      else if hd t = CHR ''['' then
        (if take 1 (skipws (tl t)) = '']'' then Some (JArr [], tl (skipws (tl t)))
         else map_option (\<lambda>(es, r). (JArr es, r)) (pelems k (tl t)))
      else if take 4 t = ''null'' then Some (JNull, drop 4 t)
      else if take 4 t = ''true'' then Some (JBool True, drop 4 t)
      else if take 5 t = ''false'' then Some (JBool False, drop 5 t)
      else map_option (\<lambda>(n, r). (JNum n, r)) (pnumber t))"
| "pelems 0 s = None"
| "pelems (Suc k) s =
     (case pvalue k s of
        None \<Rightarrow> None
      | Some (v, r) \<Rightarrow>
          let u = skipws r in
          if take 1 u = '']'' then Some ([v], tl u)
          else if take 1 u = '','' then map_option (\<lambda>(vs, r'). (v # vs, r')) (pelems k (tl u))
          else None)"
| "pmembers 0 s = None"
| "pmembers (Suc k) s =
     (let t = skipws s in
      if take 1 t \<noteq> [CHR 0x22] then None
      else case pstring (Suc (length t)) (tl t) of
        None \<Rightarrow> None
      | Some (key, r) \<Rightarrow>
          let u = skipws r in
          if take 1 u \<noteq> '':'' then None
          else case pvalue k (tl u) of
            None \<Rightarrow> None
          | Some (v, r1) \<Rightarrow>
              let w = skipws r1 in
              if take 1 w = ''}'' then Some ([(key, v)], tl w)
              else if take 1 w = '','' then
                map_option (\<lambda>(ms, r'). ((key, v) # ms, r')) (pmembers k (tl w))
              else None)"

declare pstring.simps [simp del] pvalue.simps [simp del] pelems.simps [simp del] pmembers.simps [simp del]

lemmas parser_zero [simp] = pvalue.simps(1) pelems.simps(1) pmembers.simps(1)

lemma pvalue_fuel:
  "pvalue k s = Some x \<Longrightarrow> pvalue (Suc k) s = Some x"
  "pelems k s = Some y \<Longrightarrow> pelems (Suc k) s = Some y"
  "pmembers k s = Some z \<Longrightarrow> pmembers (Suc k) s = Some z"
proof (induction k s and k s and k s arbitrary: x and y and z rule: pvalue_pelems_pmembers.induct)
  case (2 k s)
  then show ?case
    by (auto simp: pvalue.simps(2) [of "Suc k" s] pvalue.simps(2) [of k s] Let_def split: if_splits)
next
  case (4 k s)
  then show ?case
    by (auto simp: pelems.simps(2) [of "Suc k" s] pelems.simps(2) [of k s] Let_def split: option.splits prod.splits if_splits)
next
  case (6 k s)
  then show ?case
    by (auto simp: pmembers.simps(2) [of "Suc k" s] pmembers.simps(2) [of k s] Let_def split: option.splits prod.splits if_splits) blast+
qed simp_all

definition json_parse :: "string \<Rightarrow> json res" where
  "json_parse s =
     (case pvalue (Suc (2 * length s)) s of
        Some (v, r) \<Rightarrow> if skipws r = [] then Ok v else Err (JSONError s)
      | None \<Rightarrow> Err (JSONError s))"

section \<open>Decoding\<close>

text \<open>Decoding into a value that is already there, as Go does: \<open>null\<close> leaves a string
  unchanged and makes a slice nil; a value of another kind is an error.\<close>

definition decodeString :: "json \<Rightarrow> string \<Rightarrow> string res" where
  "decodeString v old =
     (case v of JStr t \<Rightarrow> Ok t | JNull \<Rightarrow> Ok old | _ \<Rightarrow> Err (JSONError ''string''))"

definition decodeStrings :: "json \<Rightarrow> string list option res" where
  "decodeStrings v =
     (case v of
        JArr es \<Rightarrow> bindR (mapR (\<lambda>e. decodeString e []) es) (\<lambda>ts. Ok (Some ts))
      | JNull \<Rightarrow> Ok None
      | _ \<Rightarrow> Err (JSONError ''[]string''))"

text \<open>A struct: the members in order, each handed to the field its key names; \<open>null\<close> for
  the whole struct changes nothing.\<close>

definition decodeStruct ::
  "(string \<Rightarrow> json \<Rightarrow> 'r \<Rightarrow> 'r res) \<Rightarrow> json \<Rightarrow> 'r \<Rightarrow> 'r res" where
  "decodeStruct field v r0 =
     (case v of
        JObj ms \<Rightarrow> foldl (\<lambda>acc (k, x). bindR acc (field (ToLower k) x)) (Ok r0) ms
      | JNull \<Rightarrow> Ok r0
      | _ \<Rightarrow> Err (JSONError ''struct''))"

lemma json_parse_no_panic [no_panic]: "json_parse s \<noteq> Panic"
  unfolding json_parse_def by (simp split: option.split)

lemma decodeString_no_panic [no_panic]: "decodeString v old \<noteq> Panic"
  by (simp add: decodeString_def split: json.split)

lemma decodeStrings_no_panic [no_panic]: "decodeStrings v \<noteq> Panic"
  by (simp add: decodeStrings_def res_simps mapR_no_panic no_panic split: json.split)

lemma decodeStruct_no_panic [no_panic]:
  assumes "\<And>k v r. field k v r \<noteq> Panic"
  shows "decodeStruct field v r0 \<noteq> Panic"
proof -
  let ?step = "\<lambda>acc (k, x). bindR acc (field (ToLower k) x)"
  have step: "?step acc m \<noteq> Panic" if "acc \<noteq> Panic" for acc m
    using that assms by (cases acc; cases m) auto
  have "foldl ?step acc ms \<noteq> Panic" if "acc \<noteq> Panic" for acc ms
    using that
  proof (induction ms arbitrary: acc)
    case (Cons m ms)
    then show ?case using Cons.IH [OF step [OF Cons.prems]] by simp
  qed simp
  then show ?thesis by (simp add: decodeStruct_def split: json.split)
qed

end
