(* ===== verification/Firewalls.thy ===== *)
theory Firewalls
  imports Sample_Env Go_Json "HOL-Library.Multiset"
begin

text \<open>
  \<open>services/firewalls.go\<close>: the Cloud Firewall of a NodeBalancer. An access list is read
  from the service's annotation, turned into firewall rules within the limits of the API,
  compared with the rules in place, and written when they differ; or a firewall named by ID
  is attached instead.
\<close>

section \<open>Limits\<close>

definition maxFirewallRuleLabelLen :: nat where "maxFirewallRuleLabelLen = 32"
definition maxFirewallRuleDescLen :: nat where "maxFirewallRuleDescLen = 100"
definition maxIPsPerFirewall :: nat where "maxIPsPerFirewall = 255"
definition maxRulesPerFirewall :: nat where "maxRulesPerFirewall = 25"
definition accept_policy :: string where "accept_policy = ''ACCEPT''"
definition drop_policy :: string where "drop_policy = ''DROP''"
definition portRangeParts :: nat where "portRangeParts = 2"

lemmas firewall_limits = maxFirewallRuleLabelLen_def maxFirewallRuleDescLen_def
  maxIPsPerFirewall_def maxRulesPerFirewall_def portRangeParts_def

lemma policies_differ [simp]: "accept_policy \<noteq> drop_policy" "drop_policy \<noteq> accept_policy"
  by (simp_all add: accept_policy_def drop_policy_def)

section \<open>The access list\<close>

record aclConfig =
  acl_AllowList :: "NetworkAddresses option"
  acl_DenyList :: "NetworkAddresses option"

definition emptyAddresses :: NetworkAddresses where
  "emptyAddresses = \<lparr>addr_IPv4 = None, addr_IPv6 = None\<rparr>"

text \<open>\<open>json.Unmarshal\<close> into a \<open>linodego.NetworkAddresses\<close> and into an
  \<open>aclConfig\<close>. A pointer field is allocated at its first member, reused by a second one
  of the same name, and set to nil by \<open>null\<close>.\<close>

definition decodeAddresses :: "json \<Rightarrow> NetworkAddresses \<Rightarrow> NetworkAddresses res" where
  "decodeAddresses = decodeStruct (\<lambda>k v a.
     if k = ''ipv4'' then bindR (decodeStrings v) (\<lambda>ips. Ok (a\<lparr>addr_IPv4 := ips\<rparr>))
     else if k = ''ipv6'' then bindR (decodeStrings v) (\<lambda>ips. Ok (a\<lparr>addr_IPv6 := ips\<rparr>))
     else Ok a)"

definition decodeAddressesPtr :: "json \<Rightarrow> NetworkAddresses option \<Rightarrow> NetworkAddresses option res" where
  "decodeAddressesPtr v p =
     (if v = JNull then Ok None
      else bindR (decodeAddresses v (case p of Some a \<Rightarrow> a | None \<Rightarrow> emptyAddresses))
             (\<lambda>a. Ok (Some a)))"

definition unmarshalACL :: "string \<Rightarrow> aclConfig res" where
  "unmarshalACL s = bindR (json_parse s) (\<lambda>v.
     decodeStruct (\<lambda>k v a.
       if k = ''allowlist'' then
         bindR (decodeAddressesPtr v (acl_AllowList a)) (\<lambda>p. Ok (a\<lparr>acl_AllowList := p\<rparr>))
       else if k = ''denylist'' then
         bindR (decodeAddressesPtr v (acl_DenyList a)) (\<lambda>p. Ok (a\<lparr>acl_DenyList := p\<rparr>))
       else Ok a) v \<lparr>acl_AllowList = None, acl_DenyList = None\<rparr>)"

section \<open>Comparing the rules in place with the service\<close>

text \<open>The elements of a slice, none if it is nil.\<close>

definition elems :: "'a list option \<Rightarrow> 'a list" where
  "elems p = (case p of Some xs \<Rightarrow> xs | None \<Rightarrow> [])"

lemma elems_simps [simp]: "elems None = []" "elems (Some xs) = xs"
  by (simp_all add: elems_def)

definition ipsChanged :: "NetworkAddresses option \<Rightarrow> FirewallRule list \<Rightarrow> bool" where
  "ipsChanged ips rules = (case ips of
     None \<Rightarrow> False
   | Some a \<Rightarrow>
       let ruleIPv4s = concat (map (\<lambda>r. elems (addr_IPv4 (fr_Addresses r))) rules);
           ruleIPv6s = concat (map (\<lambda>r. elems (addr_IPv6 (fr_Addresses r))) rules);
           differs = (\<lambda>want have. case want of
              None \<Rightarrow> False
            | Some ips \<Rightarrow> length ips \<noteq> length have \<or> (\<exists>ip\<in>set ips. ip \<notin> set have))
       in if length ruleIPv4s > 0 \<and> addr_IPv4 a = None then True
          else if length ruleIPv6s > 0 \<and> addr_IPv6 a = None then True
          else differs (addr_IPv4 a) ruleIPv4s \<or> differs (addr_IPv6 a) ruleIPv6s)"

definition parsePortPart :: "string \<Rightarrow> int list res" where
  "parsePortPart p0 =
     (let part = TrimSpace p0 in
      if CHR ''-'' \<in> set part then
        let rangeParts = Split part CHR ''-'' in
        if length rangeParts \<noteq> portRangeParts then Err (Errorf ''invalid range format: %s'' [part])
        else (case (ParseInt 32 (rangeParts ! 0), ParseInt 32 (rangeParts ! 1)) of
                (Ok start, Ok end) \<Rightarrow>
                  if start > end then Err (Errorf ''start greater than end in range: %s'' [part])
                  else Ok [start..end]
              | _ \<Rightarrow> Err (Errorf ''invalid number in range: %s'' [part]))
      else (case ParseInt 32 part of
              Ok port \<Rightarrow> Ok [port]
            | _ \<Rightarrow> Err (Errorf ''invalid port: %s'' [part])))"

definition parsePorts :: "string \<Rightarrow> int list res" where
  "parsePorts ports = bindR (mapR parsePortPart (Split ports CHR '','')) (\<lambda>ps. Ok (concat ps))"

definition isPortsChanged :: "FirewallRule list \<Rightarrow> Service \<Rightarrow> bool" where
  "isPortsChanged rules service = (case rules of
     [] \<Rightarrow> True
   | rule # _ \<Rightarrow>
       if fr_Ports rule = [] then True
       else (case parsePorts (fr_Ports rule) of
               Ok oldPorts \<Rightarrow>
                 let svcPorts = map sp_Port (svc_Ports service) in
                 (\<exists>p\<in>set svcPorts. p \<notin> set oldPorts) \<or> (\<exists>p\<in>set oldPorts. p \<notin> set svcPorts)
             | _ \<Rightarrow> True))"

definition ruleChanged :: "FirewallRules \<Rightarrow> aclConfig \<Rightarrow> Service \<Rightarrow> bool" where
  "ruleChanged old newACL service =
     (let check = (\<lambda>policy (list :: NetworkAddresses option). case list of
            None \<Rightarrow> False
          | Some a \<Rightarrow> rs_InboundPolicy old \<noteq> policy \<or>
              (addr_IPv4 a \<noteq> None \<or> addr_IPv6 a \<noteq> None) \<and> rs_Inbound old = []);
          ips = (if acl_DenyList newACL \<noteq> None then acl_DenyList newACL else acl_AllowList newACL)
      in if check drop_policy (acl_AllowList newACL) then True
         else if check accept_policy (acl_DenyList newACL) then True
         else ipsChanged ips (rs_Inbound old) \<or> isPortsChanged (rs_Inbound old) service)"

section \<open>Building the rules\<close>

function chunkLoop :: "string list \<Rightarrow> nat \<Rightarrow> nat \<Rightarrow> string list list \<Rightarrow> string list list" where
  "chunkLoop ips ipCount chunkCount chunks =
     (if ipCount > maxIPsPerFirewall then
        chunkLoop ips (ipCount - maxIPsPerFirewall) (chunkCount + 1)
          (chunks @ [take maxIPsPerFirewall (drop (chunkCount * maxIPsPerFirewall) ips)])
      else chunks @ [drop (chunkCount * maxIPsPerFirewall) ips])"
  by auto
termination
  by (relation "measure (\<lambda>(_, ipCount, _, _). ipCount)") (auto simp: maxIPsPerFirewall_def)

declare chunkLoop.simps [simp del]

definition chunkIPs :: "string list option \<Rightarrow> string list option list" where
  "chunkIPs ips =
     (if length (elems ips) \<le> maxIPsPerFirewall then [ips]
      else map Some (chunkLoop (elems ips) (length (elems ips)) 0 []))"

definition truncateFWRuleDesc :: "string \<Rightarrow> string" where
  "truncateFWRuleDesc desc =
     (if length desc > maxFirewallRuleDescLen
      then take (maxFirewallRuleDescLen - 3) desc @ ''...'' else desc)"

definition processACL ::
  "FirewallCreateOptions \<Rightarrow> string \<Rightarrow> string \<Rightarrow> string \<Rightarrow> string \<Rightarrow> NetworkAddresses
   \<Rightarrow> FirewallCreateOptions res" where
  "processACL opts aclType label svcName ports ips =
     (let ruleLabel = take maxFirewallRuleLabelLen (aclType @ ''-'' @ svcName);
          rule = (\<lambda>desc a. \<lparr>fr_Action = aclType, fr_Label = ruleLabel,
                    fr_Description = truncateFWRuleDesc desc, fr_Protocol = ProtocolTCPRule,
                    fr_Ports = ports, fr_Addresses = a\<rparr>);
          suffix = ''Created by linode-ccm: '' @ label @ '', for '' @ svcName;
          numbered = (\<lambda>i. ''Rule '' @ Itoa (int i) @ '', '' @ suffix);
          new =
            (if length (elems (addr_IPv4 ips)) + length (elems (addr_IPv6 ips)) > maxIPsPerFirewall
             then map (\<lambda>(i, chunk). rule (numbered i) \<lparr>addr_IPv4 = chunk, addr_IPv6 = None\<rparr>)
                    (enumerate 0 (chunkIPs (addr_IPv4 ips)))
                @ map (\<lambda>(i, chunk). rule (numbered i) \<lparr>addr_IPv4 = None, addr_IPv6 = chunk\<rparr>)
                    (enumerate 0 (chunkIPs (addr_IPv6 ips)))
             else [rule suffix ips]);
          rules = (fco_Rules opts)
            \<lparr>rs_Inbound := rs_Inbound (fco_Rules opts) @ new,
             rs_OutboundPolicy := accept_policy,
             rs_InboundPolicy := (if aclType = accept_policy then drop_policy else accept_policy)\<rparr>
      in if length (rs_Inbound rules) > maxRulesPerFirewall then Err ErrTooManyIPs
         else Ok (opts\<lparr>fco_Rules := rules\<rparr>))"

definition emptyRules :: FirewallRules where
  "emptyRules = \<lparr>rs_Inbound = [], rs_InboundPolicy = [], rs_Outbound = [], rs_OutboundPolicy = []\<rparr>"

definition svcPortsString :: "Service \<Rightarrow> string" where
  "svcPortsString svc = Join (map (\<lambda>p. Itoa (sp_Port p)) (svc_Ports svc)) '',''"

definition CreateFirewallOptsForSvc ::
  "string \<Rightarrow> string list \<Rightarrow> Service \<Rightarrow> FirewallCreateOptions res" where
  "CreateFirewallOptsForSvc label tags svc =
     bindR (unmarshalACL (getAnn (svc_Annotations svc) AnnLinodeCloudFirewallACL)) (\<lambda>acl.
     case (acl_AllowList acl, acl_DenyList acl) of
       (Some _, Some _) \<Rightarrow> Err ErrInvalidFWConfig
     | (None, None) \<Rightarrow> Err ErrInvalidFWConfig
     | (allow, deny) \<Rightarrow>
         let (aclType, ips) = (if deny \<noteq> None then (drop_policy, deny) else (accept_policy, allow)) in
         bindR (derefR ips) (\<lambda>a.
         processACL \<lparr>fco_Label = label, fco_Tags = tags, fco_Rules = emptyRules\<rparr>
           aclType label (svc_Name svc) (svcPortsString svc) a))"

section \<open>Reconciling\<close>

definition DeleteFirewall :: "'w env \<Rightarrow> Firewall \<Rightarrow> ('w, unit) ccm" where
  "DeleteFirewall E firewall =
     bindE (api_ListFirewallDevices E (fw_ID firewall)) (\<lambda>fwDevices.
     if length fwDevices > 1 then retE () else api_DeleteFirewall E (fw_ID firewall))"

definition DeleteNodeBalancerFirewall :: "'w env \<Rightarrow> Service \<Rightarrow> NodeBalancer \<Rightarrow> ('w, unit) ccm" where
  "DeleteNodeBalancerFirewall E service nb =
     (if hasAnn (svc_Annotations service) AnnLinodeCloudFirewallACL then
        bindE (api_ListNodeBalancerFirewalls E (nb_ID nb)) (\<lambda>firewalls.
        case firewalls of
          [] \<Rightarrow> retE ()
        | [fw] \<Rightarrow> DeleteFirewall E fw
        | _ \<Rightarrow> throwE ErrTooManyNBFirewalls)
      else retE ())"

definition getNodeBalancerDeviceID :: "'w env \<Rightarrow> int \<Rightarrow> int \<Rightarrow> ('w, int option) ccm" where
  "getNodeBalancerDeviceID E firewallID nbID =
     bindE (api_ListFirewallDevices E firewallID) (\<lambda>devices.
     retE (map_option dev_ID (find_first (\<lambda>d. dev_EntityID d = nbID) devices)))"

definition updateServiceFirewall :: "'w env \<Rightarrow> Service \<Rightarrow> NodeBalancer \<Rightarrow> ('w, unit) ccm" where
  "updateServiceFirewall E service nb =
     bindE (api_ListNodeBalancerFirewalls E (nb_ID nb)) (\<lambda>firewalls.
     if length firewalls > 1 then throwE ErrTooManyNBFirewalls
     else
       let existingFirewallID = (case firewalls of [fw] \<Rightarrow> fw_ID fw | _ \<Rightarrow> 0) in
       bindE (liftR (Atoi (getAnn (svc_Annotations service) AnnLinodeCloudFirewallID))) (\<lambda>newFirewallID.
       if existingFirewallID \<noteq> newFirewallID then
         thenE (api_CreateFirewallDevice E newFirewallID (nb_ID nb))
         (if existingFirewallID \<noteq> 0 then
            bindE (getNodeBalancerDeviceID E existingFirewallID (nb_ID nb)) (\<lambda>deviceID.
            case deviceID of
              None \<Rightarrow> throwE (Errorf ''error in fetching attached nodeBalancer device'' [])
            | Some d \<Rightarrow> api_DeleteFirewallDevice E existingFirewallID d)
          else retE ())
       else retE ()))"

definition updateNodeBalancerFirewallWithACL ::
  "'w env \<Rightarrow> string \<Rightarrow> string list \<Rightarrow> Service \<Rightarrow> NodeBalancer \<Rightarrow> ('w, unit) ccm" where
  "updateNodeBalancerFirewallWithACL E loadBalancerName loadBalancerTags service nb =
     bindE (api_ListNodeBalancerFirewalls E (nb_ID nb)) (\<lambda>firewalls.
     case firewalls of
       [] \<Rightarrow>
         bindE (liftR (CreateFirewallOptsForSvc loadBalancerName loadBalancerTags service)) (\<lambda>opts.
         bindE (api_CreateFirewall E opts) (\<lambda>fw.
         api_CreateFirewallDevice E (fw_ID fw) (nb_ID nb)))
     | [fw] \<Rightarrow>
         bindE (liftR (unmarshalACL (getAnn (svc_Annotations service) AnnLinodeCloudFirewallACL))) (\<lambda>acl.
         if \<not> ruleChanged (fw_Rules fw) acl service then retE ()
         else
           bindE (liftR (CreateFirewallOptsForSvc (fw_Label fw) [[]] service)) (\<lambda>opts.
           api_UpdateFirewallRules E (fw_ID fw) (fco_Rules opts)))
     | _ \<Rightarrow> throwE ErrTooManyNBFirewalls)"

definition UpdateNodeBalancerFirewall ::
  "'w env \<Rightarrow> string \<Rightarrow> string list \<Rightarrow> Service \<Rightarrow> NodeBalancer \<Rightarrow> ('w, unit) ccm" where
  "UpdateNodeBalancerFirewall E loadBalancerName loadBalancerTags service nb =
     (if hasAnn (svc_Annotations service) AnnLinodeCloudFirewallID then
        updateServiceFirewall E service nb
      else if hasAnn (svc_Annotations service) AnnLinodeCloudFirewallACL then
        updateNodeBalancerFirewallWithACL E loadBalancerName loadBalancerTags service nb
      else
        bindE (api_ListNodeBalancerFirewalls E (nb_ID nb)) (\<lambda>firewalls.
        case firewalls of
          [] \<Rightarrow> retE ()
        | [fw] \<Rightarrow>
            bindE (getNodeBalancerDeviceID E (fw_ID fw) (nb_ID nb)) (\<lambda>deviceID.
            thenE (case deviceID of
                     Some d \<Rightarrow> api_DeleteFirewallDevice E (fw_ID fw) d
                   | None \<Rightarrow> retE ())
            (bindE (api_ListFirewallDevices E (fw_ID fw)) (\<lambda>devices.
             if devices = [] then api_DeleteFirewall E (fw_ID fw) else retE ())))
        | _ \<Rightarrow> throwE ErrTooManyNBFirewalls))"

section \<open>Chunks of addresses\<close>

lemma chunkLoop_concat:
  "ipCount = length ips - chunkCount * maxIPsPerFirewall \<Longrightarrow>
   concat (chunkLoop ips ipCount chunkCount chunks) =
     concat chunks @ drop (chunkCount * maxIPsPerFirewall) ips"
proof (induction ips ipCount chunkCount chunks rule: chunkLoop.induct)
  case (1 ips ipCount chunkCount chunks)
  let ?k = "chunkCount * maxIPsPerFirewall"
  have "take maxIPsPerFirewall (drop ?k ips) @ drop ((chunkCount + 1) * maxIPsPerFirewall) ips
      = drop ?k ips"
    by (metis append_take_drop_id distrib_right drop_drop mult_1 add.commute)
  with 1 show ?case
    by (subst chunkLoop.simps) (auto simp: ac_simps)
qed

lemma chunkLoop_bounded:
  "ipCount = length ips - chunkCount * maxIPsPerFirewall \<Longrightarrow>
   \<forall>c\<in>set chunks. length c \<le> maxIPsPerFirewall \<Longrightarrow>
   \<forall>c\<in>set (chunkLoop ips ipCount chunkCount chunks). length c \<le> maxIPsPerFirewall"
proof (induction ips ipCount chunkCount chunks rule: chunkLoop.induct)
  case (1 ips ipCount chunkCount chunks)
  then show ?case
    by (subst chunkLoop.simps) (auto simp: ac_simps)
qed

lemma chunkIPs_concat: "concat (map elems (chunkIPs ips)) = elems ips"
  by (auto simp: chunkIPs_def chunkLoop_concat comp_def)

lemma chunkIPs_bounded: "c \<in> set (chunkIPs ips) \<Longrightarrow> length (elems c) \<le> maxIPsPerFirewall"
  using chunkLoop_bounded [of "length (elems ips)" "elems ips" 0 "[]"]
  by (auto simp: chunkIPs_def split: if_splits)

lemma truncateFWRuleDesc_length: "length (truncateFWRuleDesc desc) \<le> maxFirewallRuleDescLen"
  by (simp add: truncateFWRuleDesc_def firewall_limits)

section \<open>The rules that are built\<close>

definition rule_ipv4s :: "FirewallRule list \<Rightarrow> string list" where
  "rule_ipv4s rules = concat (map (\<lambda>r. elems (addr_IPv4 (fr_Addresses r))) rules)"

definition rule_ipv6s :: "FirewallRule list \<Rightarrow> string list" where
  "rule_ipv6s rules = concat (map (\<lambda>r. elems (addr_IPv6 (fr_Addresses r))) rules)"

text \<open>What the API accepts of a rule.\<close>

definition rule_within_limits :: "FirewallRule \<Rightarrow> bool" where
  "rule_within_limits r \<longleftrightarrow>
     length (fr_Label r) \<le> maxFirewallRuleLabelLen \<and>
     length (fr_Description r) \<le> maxFirewallRuleDescLen \<and>
     length (elems (addr_IPv4 (fr_Addresses r))) + length (elems (addr_IPv6 (fr_Addresses r)))
       \<le> maxIPsPerFirewall"

lemma concat_enumerate:
  "(\<And>i x. f (i, x) = g x) \<Longrightarrow> concat (map f (enumerate n xs)) = concat (map g xs)"
  by (induction xs arbitrary: n) (auto simp: enumerate_simps)

lemma enumerate_nonempty [simp]: "enumerate n xs = [] \<longleftrightarrow> xs = []"
  by (cases xs) (auto simp: enumerate_simps)

lemma chunkIPs_nonempty [simp]: "chunkIPs ips \<noteq> []"
  using chunkIPs_concat [of ips] by (auto simp: chunkIPs_def split: if_splits)

lemma processACL_addresses:
  assumes "processACL opts aclType label svcName ports ips = Ok opts'" "rs_Inbound (fco_Rules opts) = []"
  shows "rule_ipv4s (rs_Inbound (fco_Rules opts')) = elems (addr_IPv4 ips)"
    and "rule_ipv6s (rs_Inbound (fco_Rules opts')) = elems (addr_IPv6 ips)"
proof -
  have nil: "concat (map (\<lambda>p. case p of (i, chunk) \<Rightarrow> []) xs) = []" for xs :: "(nat \<times> 'z) list"
    by (induction xs) auto
  have "concat (map (\<lambda>p. case p of (i, chunk) \<Rightarrow> elems chunk) (enumerate 0 (chunkIPs q))) = elems q" for q
    using concat_enumerate [of "\<lambda>p. case p of (i, chunk) \<Rightarrow> elems chunk" elems 0 "chunkIPs q"]
    by (simp add: chunkIPs_concat)
  then show "rule_ipv4s (rs_Inbound (fco_Rules opts')) = elems (addr_IPv4 ips)"
    and "rule_ipv6s (rs_Inbound (fco_Rules opts')) = elems (addr_IPv6 ips)"
    using assms
    by (auto simp: processACL_def Let_def rule_ipv4s_def rule_ipv6s_def nil comp_def prod.case_distrib
        split: if_splits)
qed

lemma processACL_rule:
  assumes "processACL opts aclType label svcName ports ips = Ok opts'" "rs_Inbound (fco_Rules opts) = []"
    and "r \<in> set (rs_Inbound (fco_Rules opts'))"
  shows "rule_within_limits r" "fr_Action r = aclType" "fr_Ports r = ports"
    "fr_Protocol r = ProtocolTCPRule"
  using assms chunkIPs_bounded
  by (auto simp: processACL_def Let_def rule_within_limits_def truncateFWRuleDesc_length
      enumerate_eq_zip split: if_splits dest!: set_zip_rightD)

lemma processACL_policy:
  assumes "processACL opts aclType label svcName ports ips = Ok opts'" "rs_Inbound (fco_Rules opts) = []"
  shows "rs_Inbound (fco_Rules opts') \<noteq> []" "length (rs_Inbound (fco_Rules opts')) \<le> maxRulesPerFirewall"
    "rs_InboundPolicy (fco_Rules opts') = (if aclType = accept_policy then drop_policy else accept_policy)"
    "rs_OutboundPolicy (fco_Rules opts') = accept_policy"
    "fco_Label opts' = fco_Label opts" "fco_Tags opts' = fco_Tags opts"
  using assms
  by (auto simp: processACL_def Let_def split: if_splits)

text \<open>An access list is valid when exactly one of its two lists is set.\<close>

definition aclTypeOf :: "aclConfig \<Rightarrow> (string \<times> NetworkAddresses) option" where
  "aclTypeOf acl = (case (acl_AllowList acl, acl_DenyList acl) of
     (Some a, None) \<Rightarrow> Some (accept_policy, a)
   | (None, Some d) \<Rightarrow> Some (drop_policy, d)
   | _ \<Rightarrow> None)"

definition svcACL :: "Service \<Rightarrow> aclConfig res" where
  "svcACL svc = unmarshalACL (getAnn (svc_Annotations svc) AnnLinodeCloudFirewallACL)"

lemma CreateFirewallOptsForSvc_alt:
  "CreateFirewallOptsForSvc label tags svc = bindR (svcACL svc) (\<lambda>acl.
     case aclTypeOf acl of
       None \<Rightarrow> Err ErrInvalidFWConfig
     | Some (aclType, a) \<Rightarrow>
         processACL \<lparr>fco_Label = label, fco_Tags = tags, fco_Rules = emptyRules\<rparr>
           aclType label (svc_Name svc) (svcPortsString svc) a)"
  by (auto simp: CreateFirewallOptsForSvc_def svcACL_def aclTypeOf_def Let_def split: option.split
      intro!: arg_cong [of _ _ "bindR _"])

lemma CreateFirewallOptsForSvc_Ok:
  assumes "CreateFirewallOptsForSvc label tags svc = Ok opts"
  obtains acl aclType a where "svcACL svc = Ok acl" "aclTypeOf acl = Some (aclType, a)"
    "processACL \<lparr>fco_Label = label, fco_Tags = tags, fco_Rules = emptyRules\<rparr>
       aclType label (svc_Name svc) (svcPortsString svc) a = Ok opts"
  using assms by (auto simp: CreateFirewallOptsForSvc_alt res_simps split: option.splits)

section \<open>Ports\<close>

lemma parsePortPart_Itoa:
  assumes "0 \<le> p" "p < 2 ^ 31"
  shows "parsePortPart (Itoa p) = Ok [p]"
proof -
  have "ParseInt 32 (dec_str p) = Ok p"
    using ParseInt_Itoa [of 32 p] assms by (simp add: Itoa_nonneg)
  moreover have "CHR ''-'' \<notin> set (dec_str p)"
    using assms by (simp add: dec_str_not_special)
  ultimately show ?thesis
    using assms by (simp add: parsePortPart_def Itoa_nonneg TrimSpace_dec_str)
qed

lemma parsePorts_svcPortsString:
  assumes "svc_Ports svc \<noteq> []" "\<And>p. p \<in> set (svc_Ports svc) \<Longrightarrow> 0 \<le> sp_Port p \<and> sp_Port p < 2 ^ 31"
  shows "parsePorts (svcPortsString svc) = Ok (map sp_Port (svc_Ports svc))"
proof -
  have "CHR '','' \<notin> set (Itoa (sp_Port p))" if "p \<in> set (svc_Ports svc)" for p
    using assms(2) [OF that] dec_str_not_special [of "sp_Port p"] by (auto simp: Itoa_nonneg)
  then have "Split (svcPortsString svc) CHR '','' = map (\<lambda>p. Itoa (sp_Port p)) (svc_Ports svc)"
    unfolding svcPortsString_def using assms(1) by (intro Split_Join) auto
  moreover have "mapR parsePortPart (map (\<lambda>p. Itoa (sp_Port p)) ps) = Ok (map (\<lambda>p. [sp_Port p]) ps)"
    if "set ps \<subseteq> set (svc_Ports svc)" for ps
    using that assms(2) by (induction ps) (auto simp: parsePortPart_Itoa)
  ultimately show ?thesis
    by (simp add: parsePorts_def concat_map_singleton)
qed

lemma svcPortsString_nonempty:
  assumes "svc_Ports svc \<noteq> []" "\<And>p. p \<in> set (svc_Ports svc) \<Longrightarrow> 0 \<le> sp_Port p"
  shows "svcPortsString svc \<noteq> []"
proof -
  obtain p ps where "svc_Ports svc = p # ps" using assms(1) by (cases "svc_Ports svc") auto
  then show ?thesis
    using assms(2) [of p] by (cases ps) (auto simp: svcPortsString_def Itoa_nonneg)
qed

text \<open>Kubernetes admits services with at least one port, each of 1 to 65535.\<close>

definition valid_ports :: "Service \<Rightarrow> bool" where
  "valid_ports svc \<longleftrightarrow> svc_Ports svc \<noteq> [] \<and> (\<forall>p\<in>set (svc_Ports svc). 1 \<le> sp_Port p \<and> sp_Port p \<le> 65535)"

lemma valid_ports_string:
  assumes "valid_ports svc"
  shows "parsePorts (svcPortsString svc) = Ok (map sp_Port (svc_Ports svc))" "svcPortsString svc \<noteq> []"
proof -
  have p: "0 \<le> sp_Port p" "sp_Port p < 2 ^ 31" if "p \<in> set (svc_Ports svc)" for p
    using assms that by (fastforce simp: valid_ports_def)+
  with assms show "parsePorts (svcPortsString svc) = Ok (map sp_Port (svc_Ports svc))"
    "svcPortsString svc \<noteq> []"
    by (simp_all add: parsePorts_svcPortsString svcPortsString_nonempty valid_ports_def)
qed

section \<open>No change after an update\<close>

lemma ipsChanged_same:
  assumes "rule_ipv4s rules = elems (addr_IPv4 a)" "rule_ipv6s rules = elems (addr_IPv6 a)"
  shows "\<not> ipsChanged (Some a) rules"
  using assms
  by (cases "addr_IPv4 a"; cases "addr_IPv6 a")
     (simp_all add: ipsChanged_def Let_def rule_ipv4s_def rule_ipv6s_def)

lemma isPortsChanged_same:
  assumes "rules \<noteq> []" "\<And>r. r \<in> set rules \<Longrightarrow> fr_Ports r = svcPortsString svc" "valid_ports svc"
  shows "\<not> isPortsChanged rules svc"
  using assms valid_ports_string [of svc]
  by (cases rules) (auto simp: isPortsChanged_def Let_def)

lemma ruleChanged_built:
  assumes "CreateFirewallOptsForSvc label tags svc = Ok opts" "valid_ports svc" "svcACL svc = Ok acl"
  shows "\<not> ruleChanged (fco_Rules opts) acl svc"
proof -
  obtain aclType a where a: "aclTypeOf acl = Some (aclType, a)"
    and p: "processACL \<lparr>fco_Label = label, fco_Tags = tags, fco_Rules = emptyRules\<rparr>
       aclType label (svc_Name svc) (svcPortsString svc) a = Ok opts"
    using assms(1,3) by (auto elim!: CreateFirewallOptsForSvc_Ok)
  have e: "rs_Inbound (fco_Rules \<lparr>fco_Label = label, fco_Tags = tags, fco_Rules = emptyRules\<rparr>) = []"
    by (simp add: emptyRules_def)
  let ?rules = "rs_Inbound (fco_Rules opts)"
  have "\<not> ipsChanged (Some a) ?rules"
    by (rule ipsChanged_same [OF processACL_addresses [OF p e]])
  moreover have "\<not> isPortsChanged ?rules svc"
    using processACL_policy(1) [OF p e] processACL_rule(3) [OF p e] assms(2)
    by (rule isPortsChanged_same)
  ultimately show ?thesis
    using a processACL_policy(1,3) [OF p e]
    by (auto simp: ruleChanged_def Let_def aclTypeOf_def split: option.splits)
qed

lemma distinct_mset_iff:
  assumes "distinct xs"
  shows "length xs = length ys \<and> set xs \<subseteq> set ys \<longleftrightarrow> mset xs = mset ys"
proof
  assume a: "length xs = length ys \<and> set xs \<subseteq> set ys"
  have "card (set ys) \<le> card (set xs)"
    using a card_length [of ys] distinct_card [OF assms] by simp
  then have eq: "set xs = set ys"
    using a by (intro card_seteq) auto
  then have "distinct ys"
    using a distinct_card [OF assms] by (intro card_distinct) simp
  with eq assms show "mset xs = mset ys"
    by (simp add: set_eq_iff_mset_eq_distinct)
qed (auto dest: mset_eq_length mset_eq_setD)

lemma ipsChanged_exact:
  assumes "distinct (elems (addr_IPv4 a))" "distinct (elems (addr_IPv6 a))"
  shows "\<not> ipsChanged (Some a) rules \<longleftrightarrow>
     mset (rule_ipv4s rules) = mset (elems (addr_IPv4 a)) \<and>
     mset (rule_ipv6s rules) = mset (elems (addr_IPv6 a))"
  using distinct_mset_iff [OF assms(1), of "rule_ipv4s rules"]
    distinct_mset_iff [OF assms(2), of "rule_ipv6s rules"]
  by (cases "addr_IPv4 a"; cases "addr_IPv6 a")
     (auto simp: ipsChanged_def Let_def rule_ipv4s_def [symmetric] rule_ipv6s_def [symmetric])

section \<open>Corner cases\<close>

text \<open>Removing a NodeBalancer's firewall looks at the access list annotation only: the
  firewall named by the ID annotation is deleted too when both annotations are present,
  although the ID takes precedence over the access list everywhere else.\<close>

lemma delete_ignores_firewall_id:
  assumes "hasAnn (svc_Annotations svc) AnnLinodeCloudFirewallACL"
    "cl_ListNodeBalancerFirewalls (ev_client E) (nb_ID nb) (world s) = (Inr [fw], w)"
    "cl_ListFirewallDevices (ev_client E) (fw_ID fw) w = (Inr [d], w')"
  shows "issued (DeleteNodeBalancerFirewall E svc nb) s =
     [FW (Call_ListNodeBalancerFirewalls (nb_ID nb)), FW (Call_ListFirewallDevices (fw_ID fw)),
      FW (Call_DeleteFirewall (fw_ID fw))]"
  using assms
  by (auto simp: issued_def DeleteNodeBalancerFirewall_def DeleteFirewall_def api_defs eff_simps
      split: prod.split sum.split)

text \<open>An access list with more than 255 addresses, all of them IPv4, gives a rule without
  any address.\<close>

lemma processACL_empty_rule:
  assumes "processACL opts aclType label svcName ports ips = Ok opts'"
    "length (elems (addr_IPv4 ips)) > maxIPsPerFirewall" "addr_IPv6 ips = None"
  shows "\<exists>r\<in>set (rs_Inbound (fco_Rules opts')).
     addr_IPv4 (fr_Addresses r) = None \<and> addr_IPv6 (fr_Addresses r) = None"
  using assms
  by (auto simp: processACL_def Let_def chunkIPs_def enumerate_simps split: if_splits)

text \<open>A replaced address goes unnoticed when the new list has a duplicate.\<close>

lemma ipsChanged_duplicates:
  "\<not> ipsChanged (Some \<lparr>addr_IPv4 = Some [''192.0.2.1/32'', ''192.0.2.1/32''], addr_IPv6 = None\<rparr>)
     [\<lparr>fr_Action = ''ACCEPT'', fr_Label = [], fr_Description = [], fr_Protocol = ''TCP'', fr_Ports = ''80'',
       fr_Addresses = \<lparr>addr_IPv4 = Some [''192.0.2.1/32'', ''198.51.100.7/32''], addr_IPv6 = None\<rparr>\<rparr>]"
  by code_simp

section \<open>Properties\<close>

text \<open>C7: The rules built from a service's access list stay within the limits of the API
  (at most 25 rules; at most 255 addresses, a label of at most 32 and a description of at
  most 100 bytes per rule), list exactly the addresses of the access list in order, apply
  to exactly the service's ports, and the default policy is the opposite of the rules'
  action.\<close>

theorem CreateFirewallOptsForSvc_sound:
  assumes "CreateFirewallOptsForSvc label tags svc = Ok opts"
  shows "\<exists>acl aclType a. svcACL svc = Ok acl \<and> aclTypeOf acl = Some (aclType, a) \<and>
     (let rules = fco_Rules opts in
        rs_Inbound rules \<noteq> [] \<and> length (rs_Inbound rules) \<le> maxRulesPerFirewall \<and>
        rule_ipv4s (rs_Inbound rules) = elems (addr_IPv4 a) \<and>
        rule_ipv6s (rs_Inbound rules) = elems (addr_IPv6 a) \<and>
        (\<forall>r\<in>set (rs_Inbound rules). rule_within_limits r \<and> fr_Action r = aclType \<and>
            fr_Ports r = svcPortsString svc) \<and>
        rs_InboundPolicy rules = (if aclType = accept_policy then drop_policy else accept_policy) \<and>
        rs_OutboundPolicy rules = accept_policy)"
proof -
  obtain acl aclType a where a: "svcACL svc = Ok acl" "aclTypeOf acl = Some (aclType, a)"
    and p: "processACL \<lparr>fco_Label = label, fco_Tags = tags, fco_Rules = emptyRules\<rparr>
       aclType label (svc_Name svc) (svcPortsString svc) a = Ok opts"
    using assms by (rule CreateFirewallOptsForSvc_Ok)
  have e: "rs_Inbound (fco_Rules \<lparr>fco_Label = label, fco_Tags = tags, fco_Rules = emptyRules\<rparr>) = []"
    by (simp add: emptyRules_def)
  show ?thesis
    using a processACL_addresses [OF p e] processACL_rule [OF p e] processACL_policy [OF p e]
    by (intro exI [of _ acl] exI [of _ aclType] exI [of _ a]) (simp add: Let_def)
qed

definition aclService :: Service where
  \<open>aclService = sampleService\<lparr>svc_Annotations :=
     [(AnnLinodeCloudFirewallACL, ''{"allowList": {"ipv4": ["10.0.0.0/8"], "ipv6": ["fd00::/8"]}}'')]\<rparr>\<close>

definition aclFirewallRules :: FirewallRules where
  "aclFirewallRules = \<lparr>rs_Inbound = [\<lparr>fr_Action = ''ACCEPT'', fr_Label = ''ACCEPT-web'',
       fr_Description = ''Created by linode-ccm: lb, for web'', fr_Protocol = ''TCP'', fr_Ports = ''80'',
       fr_Addresses = \<lparr>addr_IPv4 = Some [''10.0.0.0/8''], addr_IPv6 = Some [''fd00::/8'']\<rparr>\<rparr>],
     rs_InboundPolicy = ''DROP'', rs_Outbound = [], rs_OutboundPolicy = ''ACCEPT''\<rparr>"

lemma aclService_opts:
  "CreateFirewallOptsForSvc ''lb'' [] aclService =
     Ok \<lparr>fco_Label = ''lb'', fco_Tags = [], fco_Rules = aclFirewallRules\<rparr>"
  by code_simp

theorem CreateFirewallOptsForSvc_sound_witness:
  "length (rs_Inbound aclFirewallRules) \<le> maxRulesPerFirewall \<and>
   rule_within_limits (hd (rs_Inbound aclFirewallRules))"
  using CreateFirewallOptsForSvc_sound [OF aclService_opts] by (auto simp: Let_def)

text \<open>C4: Reconciling a firewall is idempotent. When the single firewall of the NodeBalancer
  already has the rules that are built from the service's access list, the reconciliation
  lists the firewalls, changes nothing and succeeds. This holds whatever label the rules
  were built with.\<close>

theorem firewall_reconcile_converges:
  assumes "CreateFirewallOptsForSvc label tags svc = Ok opts" "valid_ports svc"
    and "cl_ListNodeBalancerFirewalls (ev_client E) (nb_ID nb) (world s) = (Inr [fw], w)"
    and "fw_Rules fw = fco_Rules opts"
  shows "updateNodeBalancerFirewallWithACL E loadBalancerName loadBalancerTags svc nb s =
     (Ok (), s\<lparr>world := w, calls := calls s @ [FW (Call_ListNodeBalancerFirewalls (nb_ID nb))]\<rparr>)"
proof -
  obtain acl where acl: "svcACL svc = Ok acl"
    using assms(1) by (rule CreateFirewallOptsForSvc_Ok)
  have "\<not> ruleChanged (fw_Rules fw) acl svc"
    using ruleChanged_built [OF assms(1,2) acl] assms(4) by simp
  then show ?thesis
    using acl assms(3)
    by (simp add: updateNodeBalancerFirewallWithACL_def svcACL_def api_defs eff_simps)
qed

definition aclFirewall :: Firewall where
  "aclFirewall = \<lparr>fw_ID = 5, fw_Label = ''lb'', fw_Rules = aclFirewallRules\<rparr>"

definition fwEnv :: "unit env" where
  "fwEnv = sampleEnv\<lparr>ev_client := offlineClient\<lparr>cl_ListNodeBalancerFirewalls :=
     (\<lambda>_ w. (Inr [aclFirewall], w))\<rparr>\<rparr>"

theorem firewall_reconcile_converges_witness:
  "snd (updateNodeBalancerFirewallWithACL fwEnv ''lb'' [] aclService sampleNB (sampleState ())) =
     (sampleState ())\<lparr>calls := [FW (Call_ListNodeBalancerFirewalls 17)]\<rparr>"
proof -
  have "valid_ports aclService" by code_simp
  moreover have "cl_ListNodeBalancerFirewalls (ev_client fwEnv) (nb_ID sampleNB) (world (sampleState ())) =
      (Inr [aclFirewall], ())"
    by (simp add: fwEnv_def sample_defs)
  ultimately show ?thesis
    using firewall_reconcile_converges [OF aclService_opts, of fwEnv sampleNB "sampleState ()" aclFirewall]
    by (simp add: sampleState_def sampleNB_def aclFirewall_def)
qed



definition byIDService :: Service where
  "byIDService = sampleService\<lparr>svc_Annotations := [(AnnLinodeCloudFirewallID, ''9'')]\<rparr>"

definition fwDeviceEnv :: "unit env" where
  "fwDeviceEnv = sampleEnv\<lparr>ev_client := offlineClient\<lparr>
     cl_ListNodeBalancerFirewalls := (\<lambda>_ w. (Inr [aclFirewall], w)),
     cl_CreateFirewallDevice := (\<lambda>_ _ w. (Inr (), w)),
     cl_ListFirewallDevices := (\<lambda>_ w. (Inr [\<lparr>dev_ID = 3, dev_EntityID = 17\<rparr>], w)),
     cl_DeleteFirewallDevice := (\<lambda>_ _ w. (Inr (), w)),
     cl_DeleteFirewall := (\<lambda>_ w. (Inr (), w))\<rparr>\<rparr>"

lemma byIDService_issued:
  "issued (UpdateNodeBalancerFirewall fwDeviceEnv ''lb'' [] byIDService sampleNB) (sampleState ()) =
     [FW (Call_ListNodeBalancerFirewalls 17), FW (Call_CreateFirewallDevice 9 17),
      FW (Call_ListFirewallDevices 5)] @ FW (Call_DeleteFirewallDevice 5 3) # []"
  by code_simp


text \<open>C32: Without either annotation, a firewall is
  never deleted while the listing of its devices shows any device: a firewall that something
  else uses survives.\<close>

theorem unused_firewall_deleted_only_when_empty:
  assumes "\<not> hasAnn (svc_Annotations svc) AnnLinodeCloudFirewallID"
    "\<not> hasAnn (svc_Annotations svc) AnnLinodeCloudFirewallACL"
    and "\<And>fwID w. \<exists>d ds. fst (cl_ListFirewallDevices (ev_client E) fwID w) = Inr (d # ds)"
  shows "FW (Call_DeleteFirewall f) \<notin> set (issued (UpdateNodeBalancerFirewall E name tags svc nb) s)"
proof (rule traces_issued [where I = "\<lambda>cs. FW (Call_DeleteFirewall f) \<notin> set cs"])
  have nonempty: "cl_ListFirewallDevices (ev_client E) fwID w \<noteq> (Inr [], w')" for fwID w w'
    using assms(3) [of fwID w] by auto
  show "traces (UpdateNodeBalancerFirewall E name tags svc nb) (calls s)
      (\<lambda>_ t. FW (Call_DeleteFirewall f) \<notin> set (drop (length (calls s)) t))
      (\<lambda>_ t. FW (Call_DeleteFirewall f) \<notin> set (drop (length (calls s)) t))"
    unfolding UpdateNodeBalancerFirewall_def getNodeBalancerDeviceID_def api_defs
    using assms(1,2)
    by (simp, intro traces_intros) (auto simp: nonempty)
qed

definition sharedFirewallEnv :: "unit env" where
  "sharedFirewallEnv = sampleEnv\<lparr>ev_client := offlineClient\<lparr>
     cl_ListNodeBalancerFirewalls := (\<lambda>_ w. (Inr [aclFirewall], w)),
     cl_ListFirewallDevices := (\<lambda>_ w. (Inr [\<lparr>dev_ID = 4, dev_EntityID = 18\<rparr>], w))\<rparr>\<rparr>"

theorem unused_firewall_deleted_only_when_empty_witness:
  "FW (Call_DeleteFirewall 5) \<notin>
     set (issued (UpdateNodeBalancerFirewall sharedFirewallEnv ''lb'' [] sampleService sampleNB) (sampleState ()))"
  by (rule unused_firewall_deleted_only_when_empty)
     (simp_all add: sharedFirewallEnv_def sampleService_def hasAnn_def)

end
