(* ===== verification/Port_Config.thy ===== *)
theory Port_Config
  imports Sample_Env Go_Json
begin

text \<open>
  How the settings of one port of a service are read from annotations
  (\<open>loadbalancers_helpers.go\<close> and the pure functions of \<open>loadbalancers.go\<close>), and the
  status that is reported for a NodeBalancer.

  The locale \<open>validated_setting\<close> is the contract the port settings share: the
  port's own annotation, else the service's default, else a built-in default, in lower case
  and accepted by a table. Protocol, proxy protocol, algorithm and stickiness are
  interpretations of it.
\<close>

section \<open>Tables of valid values\<close>

definition validProtocols :: "string \<Rightarrow> bool" where
  "validProtocols p \<longleftrightarrow> p \<in> set [ProtocolTCP, ProtocolUDP, ProtocolHTTP, ProtocolHTTPS]"

definition validProxyProtocols :: "string \<Rightarrow> bool" where
  "validProxyProtocols p \<longleftrightarrow> p \<in> set [ProxyProtocolNone, ProxyProtocolV1, ProxyProtocolV2]"

definition validTCPAlgorithms :: "string \<Rightarrow> bool" where
  "validTCPAlgorithms a \<longleftrightarrow> a \<in> set [AlgorithmRoundRobin, AlgorithmLeastConn, AlgorithmSource]"

definition validUDPAlgorithms :: "string \<Rightarrow> bool" where
  "validUDPAlgorithms a \<longleftrightarrow> a \<in> set [AlgorithmRoundRobin, AlgorithmRingHash, AlgorithmLeastConn]"

definition validHTTPStickiness :: "string \<Rightarrow> bool" where
  "validHTTPStickiness a \<longleftrightarrow> a \<in> set [StickinessNone, StickinessHTTPCookie, StickinessTable]"

definition validHTTPSStickiness :: "string \<Rightarrow> bool" where
  "validHTTPSStickiness a \<longleftrightarrow> a \<in> set [StickinessNone, StickinessHTTPCookie, StickinessTable]"

definition validUDPStickiness :: "string \<Rightarrow> bool" where
  "validUDPStickiness a \<longleftrightarrow> a \<in> set [StickinessNone, StickinessSession, StickinessSourceIP]"

definition validNBConfigChecks :: "string \<Rightarrow> bool" where
  "validNBConfigChecks a \<longleftrightarrow> a \<in> set [CheckNone, CheckHTTP, CheckHTTPBody, CheckConnection]"

section \<open>Settings of a port\<close>

record portConfigAnnotation =
  pca_TLSSecretName :: string
  pca_Protocol :: string
  pca_ProxyProtocol :: string
  pca_Algorithm :: string
  pca_Stickiness :: string
  pca_UDPCheckPort :: string

record portConfig =
  pc_TLSSecretName :: string
  pc_Protocol :: string
  pc_ProxyProtocol :: string
  pc_Port :: int
  pc_Algorithm :: string
  pc_Stickiness :: string
  pc_UDPCheckPort :: int

definition udpCheckPortDefault :: int where "udpCheckPortDefault = 80"
definition udpCheckPortMin :: int where "udpCheckPortMin = 1"
definition udpCheckPortMax :: int where "udpCheckPortMax = 65535"

definition emptyPortConfigAnnotation :: portConfigAnnotation where
  "emptyPortConfigAnnotation = \<lparr>pca_TLSSecretName = [], pca_Protocol = [], pca_ProxyProtocol = [],
     pca_Algorithm = [], pca_Stickiness = [], pca_UDPCheckPort = []\<rparr>"

definition decodePortField :: "string \<Rightarrow> json \<Rightarrow> portConfigAnnotation \<Rightarrow> portConfigAnnotation res" where
  "decodePortField k v a =
     (if k = ''tls-secret-name'' then
        bindR (decodeString v (pca_TLSSecretName a)) (\<lambda>t. Ok (a\<lparr>pca_TLSSecretName := t\<rparr>))
      else if k = ''protocol'' then
        bindR (decodeString v (pca_Protocol a)) (\<lambda>t. Ok (a\<lparr>pca_Protocol := t\<rparr>))
      else if k = ''proxy-protocol'' then
        bindR (decodeString v (pca_ProxyProtocol a)) (\<lambda>t. Ok (a\<lparr>pca_ProxyProtocol := t\<rparr>))
      else if k = ''algorithm'' then
        bindR (decodeString v (pca_Algorithm a)) (\<lambda>t. Ok (a\<lparr>pca_Algorithm := t\<rparr>))
      else if k = ''stickiness'' then
        bindR (decodeString v (pca_Stickiness a)) (\<lambda>t. Ok (a\<lparr>pca_Stickiness := t\<rparr>))
      else if k = ''udp-check-port'' then
        bindR (decodeString v (pca_UDPCheckPort a)) (\<lambda>t. Ok (a\<lparr>pca_UDPCheckPort := t\<rparr>))
      else Ok a)"

definition getPortConfigAnnotation :: "Service \<Rightarrow> int \<Rightarrow> portConfigAnnotation res" where
  "getPortConfigAnnotation service port =
     (case svcAnn service (AnnLinodePortConfigPrefix @ Itoa port) of
        None \<Rightarrow> Ok emptyPortConfigAnnotation
      | Some annotationJSON \<Rightarrow>
          bindR (json_parse annotationJSON) (\<lambda>v.
          decodeStruct decodePortField v emptyPortConfigAnnotation))"

definition getPortProtocol :: "portConfigAnnotation \<Rightarrow> Service \<Rightarrow> ServicePort \<Rightarrow> string res" where
  "getPortProtocol a service port =
     (let protocol = ToLower
            (if pca_Protocol a = [] then
               (case svcAnn service AnnLinodeDefaultProtocol of
                  Some p \<Rightarrow> p | None \<Rightarrow> sp_Protocol port)
             else pca_Protocol a)
      in if \<not> validProtocols protocol then Err (Errorf ''invalid protocol: %q specified'' [protocol])
         else Ok protocol)"

definition quoted :: "string \<Rightarrow> string" where
  "quoted s = CHR 0x27 # s @ [CHR 0x27]"

definition getPortProxyProtocol :: "portConfigAnnotation \<Rightarrow> Service \<Rightarrow> string \<Rightarrow> string res" where
  "getPortProxyProtocol a service protocol =
     (let proxyProtocol = ToLower
            (if pca_ProxyProtocol a = [] then
               (case svcAnn service AnnLinodeDefaultProxyProtocol of
                  Some pp \<Rightarrow> pp
                | None \<Rightarrow> (case svcAnn service annLinodeProxyProtocolDeprecated of
                    Some pp \<Rightarrow> pp
                  | None \<Rightarrow> ProxyProtocolNone))
             else pca_ProxyProtocol a)
      in if \<not> validProxyProtocols proxyProtocol then
           Err (Errorf (''invalid NodeBalancer proxy protocol value '' @ quoted ''%s'') [proxyProtocol])
         else if protocol = ProtocolUDP \<and> proxyProtocol \<noteq> ProxyProtocolNone then
           Err (Errorf ''proxy protocol [%s] is not supported for UDP'' [proxyProtocol])
         else Ok proxyProtocol)"

definition getPortAlgorithm :: "portConfigAnnotation \<Rightarrow> Service \<Rightarrow> string \<Rightarrow> string res" where
  "getPortAlgorithm a service protocol =
     (let algorithm = ToLower
            (if pca_Algorithm a = [] then
               (case svcAnn service AnnLinodeDefaultAlgorithm of
                  Some al \<Rightarrow> al | None \<Rightarrow> AlgorithmRoundRobin)
             else pca_Algorithm a)
      in if protocol = ProtocolUDP then
           (if \<not> validUDPAlgorithms algorithm then
              Err (Errorf ''invalid algorithm: %q specified for UDP protocol'' [algorithm])
            else Ok algorithm)
         else
           (if \<not> validTCPAlgorithms algorithm then
              Err (Errorf ''invalid algorithm: %q specified for TCP/HTTP/HTTPS protocol'' [algorithm])
            else Ok algorithm))"

definition getPortUDPCheckPort :: "portConfigAnnotation \<Rightarrow> Service \<Rightarrow> string \<Rightarrow> int res" where
  "getPortUDPCheckPort a service protocol =
     (if protocol \<noteq> ProtocolUDP then Ok udpCheckPortDefault
      else
        bindR (if pca_UDPCheckPort a \<noteq> [] then Atoi (pca_UDPCheckPort a)
               else (case svcAnn service AnnLinodeUDPCheckPort of
                       Some udpPort \<Rightarrow> Atoi udpPort
                     | None \<Rightarrow> Ok udpCheckPortDefault)) (\<lambda>udpCheckPort.
        if udpCheckPort < udpCheckPortMin \<or> udpCheckPort > udpCheckPortMax then
          Err (Errorf ''UDPCheckPort must be between 1 and 65535, got %d'' [Itoa udpCheckPort])
        else Ok udpCheckPort))"

definition getDefaultStickiness :: "string \<Rightarrow> string" where
  "getDefaultStickiness protocol =
     (if protocol = ProtocolUDP then StickinessSession else StickinessTable)"

definition getPortStickiness :: "portConfigAnnotation \<Rightarrow> Service \<Rightarrow> string \<Rightarrow> string res" where
  "getPortStickiness a service protocol =
     (let stickiness = ToLower
            (if pca_Stickiness a = [] then
               (case svcAnn service AnnLinodeDefaultStickiness of
                  Some t \<Rightarrow> t | None \<Rightarrow> getDefaultStickiness protocol)
             else pca_Stickiness a)
      in if protocol = ProtocolHTTP \<and> \<not> validHTTPStickiness stickiness then
           Err (Errorf ''invalid stickiness: %q specified for HTTP protocol'' [stickiness])
         else if protocol = ProtocolHTTPS \<and> \<not> validHTTPSStickiness stickiness then
           Err (Errorf ''invalid stickiness: %q specified for HTTPS protocol'' [stickiness])
         else if protocol = ProtocolUDP \<and> \<not> validUDPStickiness stickiness then
           Err (Errorf ''invalid stickiness: %q specified for UDP protocol'' [stickiness])
         else Ok stickiness)"

definition getPortConfig :: "Service \<Rightarrow> ServicePort \<Rightarrow> portConfig res" where
  "getPortConfig service port =
     bindR (getPortConfigAnnotation service (sp_Port port)) (\<lambda>a.
     bindR (getPortProtocol a service port) (\<lambda>protocol.
     bindR (getPortProxyProtocol a service protocol) (\<lambda>proxyProtocol.
     bindR (getPortAlgorithm a service protocol) (\<lambda>algorithm.
     if protocol = ProtocolUDP \<and> pca_TLSSecretName a \<noteq> [] then
       Err (Errorf ''specifying TLS secret name is not supported for UDP'' [])
     else
     bindR (getPortUDPCheckPort a service protocol) (\<lambda>udpCheckPort.
     bindR (getPortStickiness a service protocol) (\<lambda>stickiness.
     Ok \<lparr>pc_TLSSecretName = pca_TLSSecretName a, pc_Protocol = protocol,
         pc_ProxyProtocol = proxyProtocol, pc_Port = sp_Port port, pc_Algorithm = algorithm,
         pc_Stickiness = (if protocol \<noteq> ProtocolTCP then stickiness else []),
         pc_UDPCheckPort = (if protocol = ProtocolUDP then udpCheckPort else 0)\<rparr>))))))"

definition getHealthCheckType :: "Service \<Rightarrow> ServicePort \<Rightarrow> string res" where
  "getHealthCheckType service port =
     (case svcAnn service AnnLinodeHealthCheckType of
        None \<Rightarrow> Ok (if sp_Protocol port = ''UDP'' then CheckNone else CheckConnection)
      | Some hType \<Rightarrow>
          if \<not> validNBConfigChecks hType then
            Err (Errorf ''invalid health check type: %q specified in annotation: %q''
              [hType, AnnLinodeHealthCheckType])
          else Ok hType)"

section \<open>Backend addresses of nodes\<close>

definition getNodePrivateIP :: "Node \<Rightarrow> int \<Rightarrow> string res" where
  "getNodePrivateIP node subnetID =
     (case (if subnetID = 0 then map_of (mapOf (node_Annotations node)) AnnLinodeNodePrivateIP else None) of
        Some address \<Rightarrow> Ok address
      | None \<Rightarrow>
          (case find_first (\<lambda>addr. na_Type addr = NodeInternalIP) (node_Addresses node) of
             Some addr \<Rightarrow> Ok (na_Address addr)
           | None \<Rightarrow> Err (Errorf ''no internal IP found for node %s'' [node_Name node])))"

definition getServiceNn :: "Service \<Rightarrow> string" where
  "getServiceNn service = svc_Namespace service @ ''/'' @ svc_Name service"

definition getNodeBackendIP :: "Service \<Rightarrow> Node \<Rightarrow> int \<Rightarrow> bool \<Rightarrow> string res" where
  "getNodeBackendIP service node subnetID useIPv6Backends =
     (if \<not> useIPv6Backends then getNodePrivateIP node subnetID
      else
        let none = Err (Errorf ''service %s requested IPv6 backends but node %s does not have a public IPv6 address''
              [getServiceNn service, node_Name node]) in
        (case map_of (mapOf (node_Annotations node)) AnnLinodeNodePublicIPv6 of
           None \<Rightarrow> none
         | Some publicIPv6 \<Rightarrow>
             (case ParsePrefixAddr publicIPv6 of
                Ok addr \<Rightarrow> if Addr_Is6 addr then Ok (Addr_String addr) else none
              | _ \<Rightarrow> none)))"

definition formatNodeBalancerBackendAddress :: "string \<Rightarrow> int \<Rightarrow> string" where
  "formatNodeBalancerBackendAddress ip nodePort = JoinHostPort ip (Itoa nodePort)"

section \<open>Other annotations\<close>

definition maxConnThrottleStringLen :: int where "maxConnThrottleStringLen = 20"

definition getConnectionThrottle :: "Service \<Rightarrow> int" where
  "getConnectionThrottle service =
     (let connThrottleString = getAnn (svc_Annotations service) AnnLinodeThrottle in
      if connThrottleString \<noteq> [] then
        (case Atoi connThrottleString of
           Ok parsed \<Rightarrow>
             (let p = (if parsed < 0 then 0 else parsed) in
              if p > maxConnThrottleStringLen then maxConnThrottleStringLen else p)
         | _ \<Rightarrow> 0)
      else 0)"

definition getServiceBoolAnnotation :: "Service \<Rightarrow> string \<Rightarrow> bool option" where
  "getServiceBoolAnnotation service name =
     map_option (\<lambda>v. ParseBool v = Ok True) (svcAnn service name)"

definition envBoolOptions :: "string option \<Rightarrow> bool" where
  "envBoolOptions v = (ParseBool (case v of Some t \<Rightarrow> t | None \<Rightarrow> []) = Ok True)"

definition resolveIPv6NodeBalancerBackendState :: "Options \<Rightarrow> Service \<Rightarrow> bool" where
  "resolveIPv6NodeBalancerBackendState opts service =
     (case getServiceBoolAnnotation service AnnLinodeEnableIPv6Backends of
        Some b \<Rightarrow> b | None \<Rightarrow> opt_EnableIPv6ForNodeBalancerBackends opts)"

text \<open>The status of a service. \<open>hostnameOnlyEnv\<close> is the value of the environment variable
  \<open>LINODE_HOSTNAME_ONLY_INGRESS\<close>.\<close>

definition makeLoadBalancerStatus ::
  "Options \<Rightarrow> string option \<Rightarrow> Service \<Rightarrow> NodeBalancer \<Rightarrow> LoadBalancerIngress list res" where
  "makeLoadBalancerStatus opts hostnameOnlyEnv service nb =
     bindR (derefR (nb_Hostname nb)) (\<lambda>hostname.
     let ingress = (\<lambda>ip. \<lparr>ing_IP = ip, ing_Hostname = hostname\<rparr>);
         useHostnameOnly =
           (case getServiceBoolAnnotation service AnnLinodeHostnameOnlyIngress of
              Some b \<Rightarrow> b | None \<Rightarrow> envBoolOptions hostnameOnlyEnv);
         useIPv6 =
           (case getServiceBoolAnnotation service AnnLinodeEnableIPv6Ingress of
              Some b \<Rightarrow> b | None \<Rightarrow> opt_EnableIPv6ForLoadBalancers opts)
     in if useHostnameOnly then Ok [ingress []]
        else (case nb_IPv6 nb of
          Some ipv6 \<Rightarrow>
            if useIPv6 \<and> ipv6 \<noteq> [] then
              bindR (derefR (nb_IPv4 nb)) (\<lambda>ipv4. Ok [ingress ipv4, ingress ipv6])
            else bindR (derefR (nb_IPv4 nb)) (\<lambda>ipv4. Ok [ingress ipv4])
        | None \<Rightarrow> bindR (derefR (nb_IPv4 nb)) (\<lambda>ipv4. Ok [ingress ipv4])))"

section \<open>Ranges\<close>

definition isCIDRWithinCIDR :: "string \<Rightarrow> string \<Rightarrow> bool res" where
  "isCIDRWithinCIDR outer inner =
     bindR (mapErr (Wrapf ''invalid CIDR: %w'' []) (ParseCIDR outer)) (\<lambda>(_, ipNet1).
     bindR (mapErr (Wrapf ''invalid CIDR: %w'' []) (ParseCIDR inner)) (\<lambda>(_, ipNet2).
     Ok (IPNet_Contains ipNet1 (ipnet_IP ipNet2))))"

definition validateNodeBalancerBackendIPv4Range :: "Options \<Rightarrow> string \<Rightarrow> unit res" where
  "validateNodeBalancerBackendIPv4Range opts backendIPv4Range =
     (if opt_NodeBalancerBackendIPv4Subnet opts = [] then Ok ()
      else
        bindR (mapErr (Wrapf ''invalid IPv4 range: %w'' [])
                 (isCIDRWithinCIDR (opt_NodeBalancerBackendIPv4Subnet opts) backendIPv4Range)) (\<lambda>withinCIDR.
        if \<not> withinCIDR then
          Err (Errorf ''IPv4 range %s is not within the subnet %s''
            [backendIPv4Range, opt_NodeBalancerBackendIPv4Subnet opts])
        else Ok ()))"

definition validateNodeBalancerFrontendIPRange :: "string \<Rightarrow> string \<Rightarrow> unit res" where
  "validateNodeBalancerFrontendIPRange frontendIPRange ipVersion =
     (if frontendIPRange = [] then Ok ()
      else bindR (mapErr (Wrapf (''invalid frontend %s range '' @ quoted ''%s'' @ '': %w'') [ipVersion, frontendIPRange])
                    (ParseCIDR frontendIPRange)) (\<lambda>_. Ok ()))"

section \<open>The contract of a port setting\<close>

locale validated_setting =
  fixes own :: "portConfigAnnotation \<Rightarrow> string"
    and dflt :: "Service \<Rightarrow> 'c \<Rightarrow> string"
    and accepted :: "'c \<Rightarrow> string \<Rightarrow> bool"
    and get :: "portConfigAnnotation \<Rightarrow> Service \<Rightarrow> 'c \<Rightarrow> string res"
  assumes get_iff: "get a svc c = Ok v \<longleftrightarrow>
      v = ToLower (if own a = [] then dflt svc c else own a) \<and> accepted c v"
    and get_no_panic: "get a svc c \<noteq> Panic"
begin

lemma get_accepted: "get a svc c = Ok v \<Longrightarrow> accepted c v"
  using get_iff by blast

lemma get_lower: "get a svc c = Ok v \<Longrightarrow> ToLower v = v"
  by (simp add: get_iff)

lemma get_own: "own a \<noteq> [] \<Longrightarrow> get a svc c = Ok v \<Longrightarrow> v = ToLower (own a)"
  by (simp add: get_iff)

lemma get_default: "own a = [] \<Longrightarrow> get a svc c = Ok v \<Longrightarrow> v = ToLower (dflt svc c)"
  by (simp add: get_iff)

lemma get_rejects:
  "\<not> accepted c (ToLower (if own a = [] then dflt svc c else own a)) \<Longrightarrow> \<exists>e. get a svc c = Err e"
  using get_iff [of a svc c] get_no_panic [of a svc c] by (cases "get a svc c") auto

lemma get_case_insensitive:
  "own a \<noteq> [] \<Longrightarrow> own b \<noteq> [] \<Longrightarrow> ToLower (own a) = ToLower (own b) \<Longrightarrow>
   get a svc c = Ok v \<longleftrightarrow> get b svc' c = Ok v"
  by (simp add: get_iff)

end

definition defaultProtocol :: "Service \<Rightarrow> ServicePort \<Rightarrow> string" where
  "defaultProtocol svc port =
     (case svcAnn svc AnnLinodeDefaultProtocol of Some p \<Rightarrow> p | None \<Rightarrow> sp_Protocol port)"

definition defaultProxyProtocol :: "Service \<Rightarrow> string \<Rightarrow> string" where
  "defaultProxyProtocol svc protocol =
     (case svcAnn svc AnnLinodeDefaultProxyProtocol of
        Some pp \<Rightarrow> pp
      | None \<Rightarrow> (case svcAnn svc annLinodeProxyProtocolDeprecated of
          Some pp \<Rightarrow> pp | None \<Rightarrow> ProxyProtocolNone))"

definition defaultAlgorithm :: "Service \<Rightarrow> string \<Rightarrow> string" where
  "defaultAlgorithm svc protocol =
     (case svcAnn svc AnnLinodeDefaultAlgorithm of Some al \<Rightarrow> al | None \<Rightarrow> AlgorithmRoundRobin)"

definition defaultStickiness :: "Service \<Rightarrow> string \<Rightarrow> string" where
  "defaultStickiness svc protocol =
     (case svcAnn svc AnnLinodeDefaultStickiness of
        Some t \<Rightarrow> t | None \<Rightarrow> getDefaultStickiness protocol)"

definition acceptedProxyProtocol :: "string \<Rightarrow> string \<Rightarrow> bool" where
  "acceptedProxyProtocol protocol pp \<longleftrightarrow>
     validProxyProtocols pp \<and> (protocol = ProtocolUDP \<longrightarrow> pp = ProxyProtocolNone)"

definition acceptedAlgorithm :: "string \<Rightarrow> string \<Rightarrow> bool" where
  "acceptedAlgorithm protocol al \<longleftrightarrow>
     (if protocol = ProtocolUDP then validUDPAlgorithms al else validTCPAlgorithms al)"

definition acceptedStickiness :: "string \<Rightarrow> string \<Rightarrow> bool" where
  "acceptedStickiness protocol t \<longleftrightarrow>
     (protocol = ProtocolHTTP \<longrightarrow> validHTTPStickiness t) \<and>
     (protocol = ProtocolHTTPS \<longrightarrow> validHTTPSStickiness t) \<and>
     (protocol = ProtocolUDP \<longrightarrow> validUDPStickiness t)"

interpretation protocol_setting:
  validated_setting pca_Protocol defaultProtocol "\<lambda>_. validProtocols" getPortProtocol
  by unfold_locales (auto simp: getPortProtocol_def defaultProtocol_def Let_def)

interpretation proxy_setting:
  validated_setting pca_ProxyProtocol defaultProxyProtocol acceptedProxyProtocol getPortProxyProtocol
  by unfold_locales
     (auto simp: getPortProxyProtocol_def defaultProxyProtocol_def acceptedProxyProtocol_def Let_def
        split: if_splits)

interpretation algorithm_setting:
  validated_setting pca_Algorithm defaultAlgorithm acceptedAlgorithm getPortAlgorithm
  by unfold_locales
     (auto simp: getPortAlgorithm_def defaultAlgorithm_def acceptedAlgorithm_def Let_def)

interpretation stickiness_setting:
  validated_setting pca_Stickiness defaultStickiness acceptedStickiness getPortStickiness
  by unfold_locales
     (auto simp: getPortStickiness_def defaultStickiness_def acceptedStickiness_def Let_def
        protocol_defs split: if_splits)

lemmas setting_accepted = protocol_setting.get_accepted proxy_setting.get_accepted
  algorithm_setting.get_accepted stickiness_setting.get_accepted

lemma getPortConfigAnnotation_no_panic [no_panic]: "getPortConfigAnnotation svc port \<noteq> Panic"
proof -
  have "decodePortField k v a \<noteq> Panic" for k v a
    by (simp add: decodePortField_def res_simps no_panic)
  then show ?thesis
    by (simp add: getPortConfigAnnotation_def res_simps no_panic split: option.split)
qed

lemma getPortUDPCheckPort_range:
  "getPortUDPCheckPort a svc protocol = Ok p \<Longrightarrow> udpCheckPortMin \<le> p \<and> p \<le> udpCheckPortMax"
  by (auto simp: getPortUDPCheckPort_def res_simps udpCheckPortMin_def udpCheckPortMax_def
      udpCheckPortDefault_def split: if_splits)

lemma getPortConfig_Ok:
  assumes "getPortConfig svc port = Ok c"
  obtains a udp t where "getPortConfigAnnotation svc (sp_Port port) = Ok a"
    "getPortProtocol a svc port = Ok (pc_Protocol c)"
    "getPortProxyProtocol a svc (pc_Protocol c) = Ok (pc_ProxyProtocol c)"
    "getPortAlgorithm a svc (pc_Protocol c) = Ok (pc_Algorithm c)"
    "getPortUDPCheckPort a svc (pc_Protocol c) = Ok udp"
    "getPortStickiness a svc (pc_Protocol c) = Ok t"
    "pc_Protocol c = ProtocolUDP \<longrightarrow> pca_TLSSecretName a = []"
    "pc_TLSSecretName c = pca_TLSSecretName a" "pc_Port c = sp_Port port"
    "pc_Stickiness c = (if pc_Protocol c \<noteq> ProtocolTCP then t else [])"
    "pc_UDPCheckPort c = (if pc_Protocol c = ProtocolUDP then udp else 0)"
  using assms by (fastforce simp: getPortConfig_def res_simps split: if_splits)

section \<open>Properties\<close>

text \<open>The combinations the NodeBalancer API supports.\<close>

definition valid_port_config :: "portConfig \<Rightarrow> bool" where
  "valid_port_config c \<longleftrightarrow>
     validProtocols (pc_Protocol c) \<and> validProxyProtocols (pc_ProxyProtocol c) \<and>
     (if pc_Protocol c = ProtocolUDP
      then pc_ProxyProtocol c = ProxyProtocolNone \<and> validUDPAlgorithms (pc_Algorithm c) \<and>
           validUDPStickiness (pc_Stickiness c) \<and> pc_TLSSecretName c = [] \<and>
           1 \<le> pc_UDPCheckPort c \<and> pc_UDPCheckPort c \<le> 65535
      else validTCPAlgorithms (pc_Algorithm c) \<and> pc_UDPCheckPort c = 0) \<and>
     (pc_Protocol c = ProtocolTCP \<longrightarrow> pc_Stickiness c = []) \<and>
     (pc_Protocol c \<in> {ProtocolHTTP, ProtocolHTTPS} \<longrightarrow> validHTTPStickiness (pc_Stickiness c))"

text \<open>C13: Whatever the annotations say, the configuration read for a port is a combination
  that is supported: known protocol, proxy protocol, algorithm and stickiness for that
  protocol; for UDP no proxy protocol, no TLS secret and a check port of 1 to 65535; no
  stickiness for TCP. Anything else is an error, never a panic.\<close>

theorem getPortConfig_valid:
  "case getPortConfig svc port of
     Ok c \<Rightarrow> valid_port_config c \<and> pc_Port c = sp_Port port
   | Err e \<Rightarrow> True
   | Panic \<Rightarrow> False"
proof (cases "getPortConfig svc port")
  case (Ok c)
  then obtain a udp t where c: "getPortProtocol a svc port = Ok (pc_Protocol c)"
    "getPortProxyProtocol a svc (pc_Protocol c) = Ok (pc_ProxyProtocol c)"
    "getPortAlgorithm a svc (pc_Protocol c) = Ok (pc_Algorithm c)"
    "getPortStickiness a svc (pc_Protocol c) = Ok t"
    and udp: "getPortUDPCheckPort a svc (pc_Protocol c) = Ok udp"
    and rest: "pc_Protocol c = ProtocolUDP \<longrightarrow> pc_TLSSecretName c = []" "pc_Port c = sp_Port port"
      "pc_Stickiness c = (if pc_Protocol c \<noteq> ProtocolTCP then t else [])"
      "pc_UDPCheckPort c = (if pc_Protocol c = ProtocolUDP then udp else 0)"
    by (elim getPortConfig_Ok) auto
  have "1 \<le> udp" "udp \<le> 65535"
    using getPortUDPCheckPort_range [OF udp] by (simp_all add: udpCheckPortMin_def udpCheckPortMax_def)
  moreover have "ProtocolUDP \<noteq> ProtocolTCP" "ProtocolHTTP \<noteq> ProtocolTCP" "ProtocolHTTPS \<noteq> ProtocolTCP"
    "ProtocolUDP \<noteq> ProtocolHTTP" "ProtocolUDP \<noteq> ProtocolHTTPS"
    by (simp_all add: protocol_defs)
  ultimately show ?thesis
    using setting_accepted(1) [OF c(1)] setting_accepted(2) [OF c(2)] setting_accepted(3) [OF c(3)]
      setting_accepted(4) [OF c(4)] rest Ok
    by (auto simp: valid_port_config_def acceptedProxyProtocol_def acceptedAlgorithm_def
          acceptedStickiness_def validHTTPStickiness_def validHTTPSStickiness_def)
next
  case Panic
  then show ?thesis
    by (auto simp: getPortConfig_def res_simps no_panic getPortUDPCheckPort_def
        protocol_setting.get_no_panic proxy_setting.get_no_panic algorithm_setting.get_no_panic
        stickiness_setting.get_no_panic split: if_splits option.splits)
qed simp


definition portService :: Service where
  \<open>portService = sampleService\<lparr>svc_Annotations :=
     [(AnnLinodeDefaultProtocol, ''http''), (AnnLinodeDefaultAlgorithm, ''source''),
      (AnnLinodePortConfigPrefix @ ''80'', ''{"protocol": "UDP", "algorithm": "Ring_Hash"}'')]\<rparr>\<close>

definition portAnnotation :: portConfigAnnotation where
  "portAnnotation = emptyPortConfigAnnotation\<lparr>pca_Protocol := ''UDP'', pca_Algorithm := ''Ring_Hash''\<rparr>"

definition portResult :: portConfig where
  "portResult = \<lparr>pc_TLSSecretName = [], pc_Protocol = ''udp'', pc_ProxyProtocol = ''none'', pc_Port = 80,
     pc_Algorithm = ''ring_hash'', pc_Stickiness = ''session'', pc_UDPCheckPort = 80\<rparr>"


text \<open>The connection throttle written to a NodeBalancer is the number in the annotation,
  limited to 0 to 20; a value that is no number, or none at all, disables the throttle.\<close>

lemma getConnectionThrottle_clamps:
  "getConnectionThrottle svc =
     (case Atoi (getAnn (svc_Annotations svc) AnnLinodeThrottle) of Ok i \<Rightarrow> max 0 (min 20 i) | _ \<Rightarrow> 0)"
  by (auto simp: getConnectionThrottle_def maxConnThrottleStringLen_def Let_def Atoi_def ParseInt_def
      ParseUint_def split: res.split)

text \<open>The status of a service has the NodeBalancer's hostname in every entry. It is one
  entry without an address when only the hostname is wanted, the IPv4 and the IPv6 entry when
  IPv6 ingress is enabled and the NodeBalancer has an IPv6 address, and the IPv4 entry
  otherwise. A missing hostname or a missing IPv4 address that would be needed panics.\<close>

lemma makeLoadBalancerStatus_cases:
  assumes "nb_Hostname nb = Some h" "nb_IPv4 nb = Some ip4"
  shows "makeLoadBalancerStatus opts hostnameOnlyEnv svc nb = Ok (
     let hostnameOnly = (case getServiceBoolAnnotation svc AnnLinodeHostnameOnlyIngress of
           Some b \<Rightarrow> b | None \<Rightarrow> envBoolOptions hostnameOnlyEnv);
         ipv6 = (case getServiceBoolAnnotation svc AnnLinodeEnableIPv6Ingress of
           Some b \<Rightarrow> b | None \<Rightarrow> opt_EnableIPv6ForLoadBalancers opts);
         ips = (if hostnameOnly then [[]]
           else ip4 # (case nb_IPv6 nb of
             Some ip6 \<Rightarrow> if ipv6 \<and> ip6 \<noteq> [] then [ip6] else [] | None \<Rightarrow> []))
     in map (\<lambda>ip. \<lparr>ing_IP = ip, ing_Hostname = h\<rparr>) ips)"
  using assms by (simp add: makeLoadBalancerStatus_def Let_def split: option.split)

lemma makeLoadBalancerStatus_cases_witness:
  "makeLoadBalancerStatus defaultOptions None sampleService sampleNB =
     Ok [\<lparr>ing_IP = ''192.0.2.1'', ing_Hostname = ''nb-192-0-2-1.example.com''\<rparr>]"
proof -
  have "nb_Hostname sampleNB = Some ''nb-192-0-2-1.example.com''" "nb_IPv4 sampleNB = Some ''192.0.2.1''"
    by (simp_all add: sampleNB_def)
  from makeLoadBalancerStatus_cases [OF this] show ?thesis by (rule trans) code_simp
qed

section \<open>Corner cases\<close>

text \<open>\<open>isCIDRWithinCIDR\<close> compares the network address only, so that a range wider than
  the subnet passes.\<close>

lemma isCIDRWithinCIDR_wider: "isCIDRWithinCIDR ''10.0.0.0/24'' ''10.0.0.0/8'' = Ok True"
  by code_simp

text \<open>The default health check follows the port's Kubernetes protocol, not the protocol of
  the NodeBalancer configuration.\<close>

lemma getHealthCheckType_udp_annotation:
  "getPortConfig portService (hd (svc_Ports portService)) = Ok portResult \<and> pc_Protocol portResult = ProtocolUDP \<and>
   getHealthCheckType portService (hd (svc_Ports portService)) = Ok CheckConnection"
  by code_simp

end
