(* ===== verification/NB_Config.thy ===== *)
theory NB_Config
  imports Vpc_Service Firewalls Port_Config
begin

text \<open>
  \<open>loadbalancers.go\<close>: what is sent to the API for a NodeBalancer. The configuration of
  a port with its TLS certificate, the subnet and the VPC options, the backend nodes, and
  the creation of a NodeBalancer from them.
\<close>

section \<open>The Kubernetes client of the load balancers\<close>

definition retrieveKubeClient :: "'w env \<Rightarrow> ('w, unit) ccm" where
  "retrieveKubeClient E =
     bindE (getsE lb_kubeClient) (\<lambda>k.
     if k \<noteq> NoKubeClient then retE ()
     else
       let kubeconfig = (case opt_KubeconfigFlag (ev_opts E) of
             None \<Rightarrow> None | Some v \<Rightarrow> if v = [] then None else Some v) in
       bindE (api_KubeConfig E kubeconfig) (\<lambda>kubeConfig.
       handleE (api_NewForConfig E kubeConfig)
         (\<lambda>err. thenE (modifyE (\<lambda>s. s\<lparr>lb_kubeClient := NilClientset\<rparr>)) (throwE err))
         (\<lambda>_. modifyE (\<lambda>s. s\<lparr>lb_kubeClient := KubeClientset\<rparr>))))"

text \<open>A call on \<open>kubeClient\<close>: a nil interface and a nil \<open>Clientset\<close> both panic.\<close>

definition withKubeClient :: "('w, 'a) ccm \<Rightarrow> ('w, 'a) ccm" where
  "withKubeClient m = bindE (getsE lb_kubeClient) (\<lambda>k. if k = KubeClientset then m else panicE)"

section \<open>Configuration of a port\<close>

definition getTLSCertInfo :: "'w env \<Rightarrow> string \<Rightarrow> portConfig \<Rightarrow> ('w, string \<times> string) ccm" where
  "getTLSCertInfo E namespace config =
     (if pc_TLSSecretName config = [] then
        throwE (Errorf ''TLS secret name for port %v is not specified'' [Itoa (pc_Port config)])
      else
        bindE (withKubeClient (api_GetSecret E namespace (pc_TLSSecretName config))) (\<lambda>secret.
        retE (TrimSpace (getAnn secret ''tls.crt''), TrimSpace (getAnn secret ''tls.key''))))"

definition addTLSCert ::
  "'w env \<Rightarrow> Service \<Rightarrow> NodeBalancerConfig \<Rightarrow> portConfig \<Rightarrow> ('w, NodeBalancerConfig) ccm" where
  "addTLSCert E service nbConfig config =
     thenE (retrieveKubeClient E)
     (bindE (getTLSCertInfo E (svc_Namespace service) config) (\<lambda>(cert, key).
      retE (nbConfig\<lparr>nbc_SSLCert := cert, nbc_SSLKey := key\<rparr>)))"

definition atoiAnnotation :: "Service \<Rightarrow> string \<Rightarrow> int \<Rightarrow> int res" where
  "atoiAnnotation service name dflt =
     (case svcAnn service name of Some v \<Rightarrow> Atoi v | None \<Rightarrow> Ok dflt)"

definition checkedConfig ::
  "Service \<Rightarrow> ServicePort \<Rightarrow> portConfig \<Rightarrow> string \<Rightarrow> NodeBalancerConfig" where
  "checkedConfig service port pc health =
     (let path = getAnn (svc_Annotations service) AnnLinodeCheckPath;
          body = getAnn (svc_Annotations service) AnnLinodeCheckBody
      in emptyNBConfig\<lparr>nbc_Port := sp_Port port, nbc_Protocol := pc_Protocol pc,
           nbc_ProxyProtocol := pc_ProxyProtocol pc, nbc_Check := health,
           nbc_Algorithm := pc_Algorithm pc, nbc_Stickiness := pc_Stickiness pc,
           nbc_UDPCheckPort := pc_UDPCheckPort pc,
           nbc_CheckPath := (if health = CheckHTTP \<or> health = CheckHTTPBody
              then (if path = [] then ''/'' else path) else []),
           nbc_CheckBody := (if health = CheckHTTPBody then body else [])\<rparr>)"

definition healthCheckConfig :: "Service \<Rightarrow> ServicePort \<Rightarrow> portConfig \<Rightarrow> NodeBalancerConfig res" where
  "healthCheckConfig service port pc =
     bindR (getHealthCheckType service port) (\<lambda>health.
     if health = CheckHTTPBody \<and> getAnn (svc_Annotations service) AnnLinodeCheckBody = [] then
       Err (Errorf ''for health check type http_body need body regex annotation %v'' [AnnLinodeCheckBody])
     else
     bindR (atoiAnnotation service AnnLinodeHealthCheckInterval 5) (\<lambda>checkInterval.
     bindR (atoiAnnotation service AnnLinodeHealthCheckTimeout 3) (\<lambda>checkTimeout.
     bindR (atoiAnnotation service AnnLinodeHealthCheckAttempts 2) (\<lambda>checkAttempts.
     bindR (if pc_Protocol pc = ProtocolUDP then Ok False
            else (case svcAnn service AnnLinodeHealthCheckPassive of
                    Some cp \<Rightarrow> ParseBool cp | None \<Rightarrow> Ok True)) (\<lambda>checkPassive.
     Ok ((checkedConfig service port pc health)\<lparr>nbc_CheckInterval := checkInterval,
           nbc_CheckTimeout := checkTimeout, nbc_CheckAttempts := checkAttempts,
           nbc_CheckPassive := checkPassive\<rparr>))))))"

definition buildNodeBalancerConfig ::
  "'w env \<Rightarrow> Service \<Rightarrow> ServicePort \<Rightarrow> ('w, NodeBalancerConfig) ccm" where
  "buildNodeBalancerConfig E service port =
     bindE (liftR (getPortConfig service port)) (\<lambda>pc.
     bindE (liftR (healthCheckConfig service port pc)) (\<lambda>config.
     if pc_Protocol pc = ProtocolHTTPS then addTLSCert E service config pc else retE config))"

section \<open>Subnets and VPC options\<close>

definition getSubnetIDForSVC :: "'w env \<Rightarrow> Service \<Rightarrow> ('w, int) ccm" where
  "getSubnetIDForSVC E service =
     (let opts = ev_opts E; vpcAnn = svcAnn service NodeBalancerBackendVPCName;
          subnetAnn = svcAnn service NodeBalancerBackendSubnetName in
      if opt_VPCNames opts = [] then
        throwE (Errorf ''CCM not configured with VPC, cannot create NodeBalancer with specified annotation'' [])
      else (case svcAnn service NodeBalancerBackendSubnetID of
        Some specifiedSubnetID \<Rightarrow> liftR (Atoi specifiedSubnetID)
      | None \<Rightarrow>
          if vpcAnn = None \<and> subnetAnn = None \<and> opt_NodeBalancerBackendIPv4SubnetID opts \<noteq> 0
          then retE (opt_NodeBalancerBackendIPv4SubnetID opts)
          else
            bindE (liftR (indexR (opt_VPCNames opts) 0)) (\<lambda>firstVPC.
            bindE (GetVPCID E (case vpcAnn of Some v \<Rightarrow> v | None \<Rightarrow> firstVPC)) (\<lambda>vpcID.
            bindE (liftR (indexR (opt_SubnetNames opts) 0)) (\<lambda>firstSubnet.
            GetSubnetID E vpcID (case subnetAnn of Some v \<Rightarrow> v | None \<Rightarrow> firstSubnet))))))"

definition getVPCCreateOptions :: "'w env \<Rightarrow> Service \<Rightarrow> ('w, BackendVPCOptions list) ccm" where
  "getVPCCreateOptions E service =
     (let opts = ev_opts E;
          opt = (\<lambda>subnet range auto. [\<lparr>bvo_SubnetID = subnet, bvo_IPv4Range = range, bvo_IPv4RangeAutoAssign = auto\<rparr>]);
          rest = (\<lambda>subnetID.
            if hasAnn (svc_Annotations service) NodeBalancerBackendVPCName \<or>
               hasAnn (svc_Annotations service) NodeBalancerBackendSubnetName
            then opt subnetID [] False
            else if opt_NodeBalancerBackendIPv4SubnetID opts \<noteq> 0
            then opt (opt_NodeBalancerBackendIPv4SubnetID opts) [] False
            else if opt_NodeBalancerBackendIPv4Subnet opts \<noteq> []
            then opt subnetID (opt_NodeBalancerBackendIPv4Subnet opts) True
            else opt subnetID [] False)
      in bindE (getSubnetIDForSVC E service) (\<lambda>subnetID.
         case svcAnn service NodeBalancerBackendIPv4Range of
           Some backendIPv4Range \<Rightarrow>
             thenE (liftR (validateNodeBalancerBackendIPv4Range opts backendIPv4Range))
             (if backendIPv4Range \<noteq> [] then retE (opt subnetID backendIPv4Range False)
              else retE (rest subnetID))
         | None \<Rightarrow> retE (rest subnetID)))"

definition getSubnetIDByVPCAndSubnetNames :: "'w env \<Rightarrow> string \<Rightarrow> string \<Rightarrow> ('w, int) ccm" where
  "getSubnetIDByVPCAndSubnetNames E vpcName subnetName =
     (if vpcName = [] \<or> subnetName = [] then
        throwE (Errorf ''frontend VPC configuration requires either subnet-id annotation or both vpc-name and subnet-name annotations. No vpc-name or subnet-name annotation found'' [])
      else
        bindE (wrapE (Wrapf (''failed to get VPC ID for frontend VPC '' @ quoted ''%s'' @ '': %w'') [vpcName])
                 (GetVPCID E vpcName)) (\<lambda>vpcID.
        GetSubnetID E vpcID subnetName))"

definition getFrontendVPCCreateOptions :: "'w env \<Rightarrow> Service \<Rightarrow> ('w, FrontendVPCOptions list) ccm" where
  "getFrontendVPCCreateOptions E service =
     (let ann = svc_Annotations service;
          ipv4 = getAnn ann NodeBalancerFrontendIPv4Range; ipv6 = getAnn ann NodeBalancerFrontendIPv6Range in
      if \<not> hasAnn ann NodeBalancerFrontendIPv4Range \<and> \<not> hasAnn ann NodeBalancerFrontendIPv6Range \<and>
         \<not> hasAnn ann NodeBalancerFrontendVPCName \<and> \<not> hasAnn ann NodeBalancerFrontendSubnetName \<and>
         \<not> hasAnn ann NodeBalancerFrontendSubnetID
      then retE []
      else
        thenE (liftR (validateNodeBalancerFrontendIPRange ipv4 ''IPv4''))
        (thenE (liftR (validateNodeBalancerFrontendIPRange ipv6 ''IPv6''))
        (bindE
          (case svcAnn service NodeBalancerFrontendSubnetID of
             Some frontendSubnetID \<Rightarrow>
               liftR (mapErr (Wrapf ''invalid frontend subnet ID: %w'' []) (Atoi frontendSubnetID))
           | None \<Rightarrow>
               if hasAnn ann NodeBalancerFrontendVPCName \<and> hasAnn ann NodeBalancerFrontendSubnetName
               then getSubnetIDByVPCAndSubnetNames E (getAnn ann NodeBalancerFrontendVPCName)
                      (getAnn ann NodeBalancerFrontendSubnetName)
               else throwE (Errorf ''frontend VPC configuration requires either subnet-id or both vpc-name and subnet-name annotations'' []))
          (\<lambda>subnetID. retE [\<lparr>fvo_SubnetID = subnetID, fvo_IPv4Range = ipv4, fvo_IPv6Range = ipv6\<rparr>]))))"

definition getBackendSubnetID :: "'w env \<Rightarrow> Service \<Rightarrow> bool \<Rightarrow> ('w, int) ccm" where
  "getBackendSubnetID E service useIPv6Backends =
     (let opts = ev_opts E in
      if useIPv6Backends then retE 0
      else
        thenE (case svcAnn service NodeBalancerBackendIPv4Range of
                 Some backendIPv4Range \<Rightarrow> liftR (validateNodeBalancerBackendIPv4Range opts backendIPv4Range)
               | None \<Rightarrow> retE ())
        (if opt_VPCNames opts \<noteq> [] \<and> \<not> opt_DisableNodeBalancerVPCBackends opts
         then getSubnetIDForSVC E service
         else retE (opt_NodeBalancerBackendIPv4SubnetID opts)))"

section \<open>Backend nodes\<close>

function coerceString :: "string \<Rightarrow> nat \<Rightarrow> nat \<Rightarrow> string \<Rightarrow> string" where
  "coerceString str minLen maxLen padding =
     (let padding = (if padding = [] then ''x'' else padding) in
      if length str > maxLen then take maxLen str
      else if length str < minLen then coerceString (padding @ str) minLen maxLen padding
      else str)"
  by pat_completeness auto
termination
  by (relation "measure (\<lambda>(str, minLen, _, _). minLen - length str)")
    (auto simp: Let_def length_greater_0_conv [symmetric] simp del: length_greater_0_conv split: if_splits)

declare coerceString.simps [simp del]

definition buildNodeBalancerNodeConfigRebuildOptions ::
  "Service \<Rightarrow> Node \<Rightarrow> int \<Rightarrow> int \<Rightarrow> bool \<Rightarrow> string \<Rightarrow> NodeOptions res" where
  "buildNodeBalancerNodeConfigRebuildOptions service node nodePort subnetID useIPv6Backends protocol =
     bindR (getNodeBackendIP service node subnetID useIPv6Backends) (\<lambda>nodeIP.
     Ok \<lparr>no_ID = 0, no_Address = formatNodeBalancerBackendAddress nodeIP nodePort,
         no_Label = coerceString (node_Name node) 3 32 ''node-'', no_Weight = 100,
         no_Mode = (if protocol \<noteq> ProtocolUDP then ''accept'' else []),
         no_SubnetID = (if \<not> useIPv6Backends \<and> subnetID \<noteq> 0 then subnetID else 0)\<rparr>)"

definition nodeOptionsFor ::
  "Service \<Rightarrow> int \<Rightarrow> int \<Rightarrow> bool \<Rightarrow> string \<Rightarrow> Node \<Rightarrow> NodeOptions res" where
  "nodeOptionsFor service nodePort subnetID useIPv6Backends protocol node =
     mapErr (Wrapf ''failed to build NodeBalancer node config options for node %s: %w'' [node_Name node])
       (buildNodeBalancerNodeConfigRebuildOptions service node nodePort subnetID useIPv6Backends protocol)"

definition buildNodeBalancerConfigNodes ::
  "Service \<Rightarrow> Node list \<Rightarrow> int \<Rightarrow> int \<Rightarrow> bool \<Rightarrow> string \<Rightarrow> (string \<times> int) list \<Rightarrow> NodeOptions list res" where
  "buildNodeBalancerConfigNodes service nodes nodePort subnetID useIPv6Backends protocol oldNBNodeIDs =
     mapR (\<lambda>node.
       bindR (nodeOptionsFor service nodePort subnetID useIPv6Backends protocol node) (\<lambda>opts.
       Ok (case map_of oldNBNodeIDs (no_Address opts) of
             Some oldNodeID \<Rightarrow> opts\<lparr>no_ID := oldNodeID\<rparr> | None \<Rightarrow> opts))) nodes"

section \<open>Creating a NodeBalancer\<close>

text \<open>\<open>time.Time.UnixNano\<close>: nanoseconds since 1970, in 64 bits.\<close>

definition UnixNano :: "int \<Rightarrow> int" where
  "UnixNano t = signed_take_bit 63 (t - 62135596800 * Second)"

definition GetLoadBalancerName :: "'w env \<Rightarrow> ('w, string) ccm" where
  "GetLoadBalancerName E =
     bindE (nowE E) (\<lambda>now.
     let unixNano = FormatInt16 (UnixNano now) in
     if length unixNano < 12 then panicE
     else retE (opt_NodeBalancerPrefix (ev_opts E) @ ''-'' @ drop (length unixNano - 12) unixNano))"

definition GetLoadBalancerTags :: "Options \<Rightarrow> string \<Rightarrow> Service \<Rightarrow> string list" where
  "GetLoadBalancerTags opts clusterName service =
     (let tags = (if clusterName \<noteq> [] then [clusterName] else []) @ opt_NodeBalancerTags opts in
      case svcAnn service AnnLinodeLoadBalancerTags of
        Some tagStr \<Rightarrow> tags @ Split tagStr CHR '',''
      | None \<Rightarrow> tags)"

definition GetLinodeNBType :: "Options \<Rightarrow> Service \<Rightarrow> string" where
  "GetLinodeNBType opts service =
     (case svcAnn service AnnLinodeNodeBalancerType of
        Some typeStr \<Rightarrow>
          if ToLower typeStr \<in> set [NBTypeCommon, NBTypePremium, NBTypePremium40GB]
          then ToLower typeStr else opt_DefaultNBType opts
      | None \<Rightarrow> opt_DefaultNBType opts)"

definition createNodeBalancer ::
  "'w env \<Rightarrow> string \<Rightarrow> Service \<Rightarrow> ConfigOptions list \<Rightarrow> ('w, NodeBalancer) ccm" where
  "createNodeBalancer E clusterName service configs =
     (let opts = ev_opts E; tags = GetLoadBalancerTags opts clusterName service in
      bindE (GetLoadBalancerName E) (\<lambda>label.
      bindE (if \<not> resolveIPv6NodeBalancerBackendState opts service \<and> opt_VPCNames opts \<noteq> [] \<and>
               \<not> opt_DisableNodeBalancerVPCBackends opts
             then getVPCCreateOptions E service else retE []) (\<lambda>backendVPCs.
      bindE (getFrontendVPCCreateOptions E service) (\<lambda>frontendVPCs.
      bindE (case svcAnn service AnnLinodeCloudFirewallID of
               Some fwid \<Rightarrow> liftR (Atoi fwid)
             | None \<Rightarrow>
                 if hasAnn (svc_Annotations service) AnnLinodeCloudFirewallACL then
                   bindE (liftR (CreateFirewallOptsForSvc label tags service)) (\<lambda>fwcreateOpts.
                   bindE (api_CreateFirewall E fwcreateOpts) (\<lambda>fw. retE (fw_ID fw)))
                 else retE 0) (\<lambda>firewallID.
      api_CreateNodeBalancer E
        \<lparr>nbo_Label = label, nbo_Region = ev_zone E,
         nbo_ClientConnThrottle = getConnectionThrottle service, nbo_Configs = configs,
         nbo_Tags = tags, nbo_Type = GetLinodeNBType opts service, nbo_BackendVPCs = backendVPCs,
         nbo_FrontendVPCs = frontendVPCs, nbo_IPv4 = svcAnn service AnnLinodeLoadBalancerReservedIPv4,
         nbo_FirewallID = firewallID\<rparr>)))))"

definition buildLoadBalancerRequest ::
  "'w env \<Rightarrow> string \<Rightarrow> Service \<Rightarrow> Node list \<Rightarrow> ('w, NodeBalancer) ccm" where
  "buildLoadBalancerRequest E clusterName service nodes =
     (if nodes = [] then
        throwE (Wrapf ''%w: cluster %s, service %s'' [clusterName, getServiceNn service] ErrNoNodesAvailable)
      else
        let useIPv6Backends = resolveIPv6NodeBalancerBackendState (ev_opts E) service in
        bindE (getBackendSubnetID E service useIPv6Backends) (\<lambda>subnetID.
        bindE (foldE (\<lambda>configs port.
          bindE (buildNodeBalancerConfig E service port) (\<lambda>config.
          bindE (liftR (mapR (nodeOptionsFor service (sp_NodePort port) subnetID useIPv6Backends
                                (nbc_Protocol config)) nodes)) (\<lambda>nodeOpts.
          let createOpt = ev_GetCreateOptions E config in
          retE (configs @ [createOpt\<lparr>co_Nodes := co_Nodes createOpt @ nodeOpts\<rparr>]))))
          [] (svc_Ports service)) (\<lambda>configs.
        createNodeBalancer E clusterName service configs)))"

section \<open>Lengths of the labels\<close>

text \<open>What the recursion computes: whole copies of the padding in front of the string, just
  enough to reach the minimum, cut at the maximum.\<close>

definition coerced :: "string \<Rightarrow> nat \<Rightarrow> nat \<Rightarrow> string \<Rightarrow> string" where
  "coerced str minLen maxLen padding =
     (let p = (if padding = [] then ''x'' else padding);
          k = (minLen - length str + length p - 1) div length p
      in take maxLen (concat (replicate k p) @ str))"

lemma copies_step:
  assumes "len < minLen" "0 < p"
  shows "(minLen - len + p - 1) div p = Suc ((minLen - (p + len) + p - 1) div p)"
proof (cases "p + len \<le> minLen")
  case True
  then have "minLen - len + p - 1 = (minLen - (p + len) + p - 1) + p" using assms by linarith
  then show ?thesis using assms(2) by (simp only: div_add_self2)
next
  case False
  then have "minLen - len + p - 1 = (minLen - len - 1) + p" "minLen - len - 1 < p"
    "minLen - (p + len) + p - 1 < p" using assms by linarith+
  then show ?thesis using assms(2) by (simp only: div_add_self2 div_less)
qed

lemma copies_enough: "0 < p \<Longrightarrow> n \<le> (n + p - 1) div p * p" for n p :: nat
  using mod_less_divisor [of p "n + p - 1"] div_mult_mod_eq [of "n + p - 1" p] by linarith

lemma concat_replicate_snoc: "concat (replicate k p) @ p = concat (replicate (Suc k) p)"
  by (induction k) auto

lemma coerced_step:
  assumes "length str < minLen" "p \<noteq> []"
  shows "coerced str minLen maxLen p = coerced (p @ str) minLen maxLen p"
proof -
  define k where "k = (minLen - length (p @ str) + length p - 1) div length p"
  have "(minLen - length str + length p - 1) div length p = Suc k"
    using copies_step [of "length str" minLen "length p"] assms by (simp add: k_def)
  moreover have "concat (replicate (Suc k) p) @ str = concat (replicate k p) @ p @ str"
    using concat_replicate_snoc [of k p] by (simp del: replicate_Suc)
  ultimately show ?thesis
    using assms by (simp only: coerced_def Let_def k_def if_False)
qed

lemma coerceString_padding:
  "coerceString str minLen maxLen padding =
   coerceString str minLen maxLen (if padding = [] then ''x'' else padding)"
  by (simp add: coerceString.simps [of str minLen maxLen] Let_def)

lemma coerceString_nonempty:
  assumes "minLen \<le> maxLen" "p \<noteq> []"
  shows "coerceString str minLen maxLen p = coerced str minLen maxLen p"
  using assms
proof (induction str minLen maxLen p rule: coerceString.induct)
  case (1 str minLen maxLen padding)
  show ?case
  proof (cases "length str < minLen")
    case True
    then have "coerceString (padding @ str) minLen maxLen padding = coerced (padding @ str) minLen maxLen padding"
      using "1.prems" by (intro "1.IH") auto
    with True show ?thesis
      using "1.prems" coerced_step [of str minLen padding]
      by (subst coerceString.simps) (simp add: Let_def)
  next
    case False
    moreover from this have "(length padding - Suc 0) div length padding = 0"
      using "1.prems" by (cases padding) auto
    ultimately show ?thesis
      using "1.prems" by (subst coerceString.simps) (auto simp: coerced_def Let_def)
  qed
qed

lemma coerced_padding:
  "coerced str minLen maxLen padding = coerced str minLen maxLen (if padding = [] then ''x'' else padding)"
  by (simp add: coerced_def)

lemma coerceString_coerced:
  "minLen \<le> maxLen \<Longrightarrow> coerceString str minLen maxLen padding = coerced str minLen maxLen padding"
  by (subst coerceString_padding, subst coerced_padding) (simp add: coerceString_nonempty)

lemma coerced_length:
  assumes "minLen \<le> maxLen"
  shows "minLen \<le> length (coerced str minLen maxLen padding)"
    "length (coerced str minLen maxLen padding) \<le> maxLen"
proof -
  define p where "p = (if padding = [] then ''x'' else padding)"
  define k where "k = (minLen - length str + length p - 1) div length p"
  have "0 < length p" by (auto simp: p_def)
  then have "minLen - length str \<le> k * length p"
    unfolding k_def by (rule copies_enough)
  then have len: "minLen \<le> length (concat (replicate k p) @ str)"
    by (simp add: length_concat sum_list_replicate)
  have "coerced str minLen maxLen padding = take maxLen (concat (replicate k p) @ str)"
    by (simp only: coerced_def Let_def p_def k_def)
  then show "minLen \<le> length (coerced str minLen maxLen padding)"
    "length (coerced str minLen maxLen padding) \<le> maxLen"
    using assms len by (simp_all only: length_take min.bounded_iff min.cobounded2)
qed

section \<open>Calls\<close>

lemma emits_withKubeClient [emits_intros]: "emits P m \<Longrightarrow> emits P (withKubeClient m)"
  unfolding withKubeClient_def by (intro emits_intros)

text \<open>Reading the configuration of a service changes nothing at Linode.\<close>

lemma emits_config [emits_intros]:
  assumes "\<And>c. apiRead c \<Longrightarrow> P c"
  shows "emits P (retrieveKubeClient E)" "emits P (buildNodeBalancerConfig E svc port)"
    "emits P (getSubnetIDForSVC E svc)" "emits P (getVPCCreateOptions E svc)"
    "emits P (getFrontendVPCCreateOptions E svc)" "emits P (getBackendSubnetID E svc b)"
proof -
  show r: "emits P (retrieveKubeClient E)"
    unfolding retrieveKubeClient_def api_defs by (intro emits_intros; simp add: assms)
  have "emits P (addTLSCert E svc cfg pc)" for cfg pc
    unfolding addTLSCert_def getTLSCertInfo_def api_defs by (intro emits_intros r; simp add: assms)
  then show "emits P (buildNodeBalancerConfig E svc port)"
    unfolding buildNodeBalancerConfig_def by (intro emits_intros)
  show g: "emits P (getSubnetIDForSVC E svc)"
    unfolding getSubnetIDForSVC_def by (intro emits_intros; simp add: assms)
  show "emits P (getVPCCreateOptions E svc)"
    unfolding getVPCCreateOptions_def by (intro emits_intros g)
  show "emits P (getFrontendVPCCreateOptions E svc)"
    unfolding getFrontendVPCCreateOptions_def getSubnetIDByVPCAndSubnetNames_def
    by (intro emits_intros; simp add: assms)
  show "emits P (getBackendSubnetID E svc b)"
    unfolding getBackendSubnetID_def by (intro emits_intros g)
qed

lemma emits_GetLoadBalancerName [emits_intros]: "emits P (GetLoadBalancerName E)"
  unfolding GetLoadBalancerName_def by (intro emits_intros)

section \<open>Properties\<close>

text \<open>C35: Backend labels. \<open>coerceString\<close> stops, and for bounds that make sense computes
  whole copies of the padding followed by the string, cut at the maximum; the result is within
  the bounds, and a string that is already within them is left alone. NodeBalancer backends
  need labels of 3 to 32 characters.\<close>

theorem coerceString_within_bounds:
  assumes "minLen \<le> maxLen"
  shows "coerceString str minLen maxLen padding = coerced str minLen maxLen padding \<and>
    minLen \<le> length (coerceString str minLen maxLen padding) \<and>
    length (coerceString str minLen maxLen padding) \<le> maxLen \<and>
    (minLen \<le> length str \<and> length str \<le> maxLen \<longrightarrow> coerceString str minLen maxLen padding = str)"
proof (intro conjI impI)
  show eq: "coerceString str minLen maxLen padding = coerced str minLen maxLen padding"
    using assms by (rule coerceString_coerced)
  show "minLen \<le> length (coerceString str minLen maxLen padding)"
    "length (coerceString str minLen maxLen padding) \<le> maxLen"
    using coerced_length [OF assms] by (simp_all add: eq)
  show "coerceString str minLen maxLen padding = str" if "minLen \<le> length str \<and> length str \<le> maxLen"
    using that by (subst coerceString.simps) simp
qed

lemma coerced_sample: "coerced ''n1'' 3 32 ''node-'' = ''node-n1''"
  by code_simp

theorem coerceString_within_bounds_witness: "coerceString ''n1'' 3 32 ''node-'' = ''node-n1''"
  using coerceString_within_bounds [of 3 32 "''n1''" "''node-''"]
  by (simp add: coerced_sample)

text \<open>The options sent for one backend node.\<close>

definition backend_ok :: "int \<Rightarrow> bool \<Rightarrow> string \<Rightarrow> (string \<times> int) list \<Rightarrow> NodeOptions \<Rightarrow> bool" where
  "backend_ok subnetID useIPv6Backends protocol oldNBNodeIDs opts \<longleftrightarrow>
     no_ID opts = (case map_of oldNBNodeIDs (no_Address opts) of Some i \<Rightarrow> i | None \<Rightarrow> 0) \<and>
     3 \<le> length (no_Label opts) \<and> length (no_Label opts) \<le> 32 \<and> no_Weight opts = 100 \<and>
     no_Mode opts = (if protocol = ProtocolUDP then [] else ''accept'') \<and>
     no_SubnetID opts = (if useIPv6Backends then 0 else subnetID)"

lemma nodeOptionsFor_Ok:
  assumes "nodeOptionsFor svc nodePort subnetID useIPv6Backends protocol node = Ok opts"
  shows "\<exists>ip. getNodeBackendIP svc node subnetID useIPv6Backends = Ok ip \<and>
      no_Address opts = formatNodeBalancerBackendAddress ip nodePort"
    "backend_ok subnetID useIPv6Backends protocol [] opts"
proof -
  have "3 \<le> length (coerceString (node_Name node) 3 32 ''node-'')"
    "length (coerceString (node_Name node) 3 32 ''node-'') \<le> 32"
    using coerced_length [of 3 32 "node_Name node" "''node-''"] by (simp_all add: coerceString_coerced)
  with assms show "\<exists>ip. getNodeBackendIP svc node subnetID useIPv6Backends = Ok ip \<and>
      no_Address opts = formatNodeBalancerBackendAddress ip nodePort"
    "backend_ok subnetID useIPv6Backends protocol [] opts"
    by (auto simp: nodeOptionsFor_def buildNodeBalancerNodeConfigRebuildOptions_def res_simps backend_ok_def)
qed

text \<open>C16: Backends of a port. The list sent for a port has one entry per node, in the order of
  the nodes, at the node's backend address and the node port; an address that the NodeBalancer
  already has keeps its node ID and any other is sent as new; labels are 3 to 32 characters
  long, the mode is left out for UDP, and the subnet is the one of the VPC unless the backends
  are IPv6. One node without a usable address fails the whole port.\<close>

theorem buildNodeBalancerConfigNodes_backends:
  assumes "buildNodeBalancerConfigNodes svc nodes nodePort subnetID useIPv6Backends protocol oldNBNodeIDs = Ok opts"
  shows "length opts = length nodes \<and>
    (\<forall>i < length nodes.
       (\<exists>ip. getNodeBackendIP svc (nodes ! i) subnetID useIPv6Backends = Ok ip \<and>
             no_Address (opts ! i) = formatNodeBalancerBackendAddress ip nodePort) \<and>
       backend_ok subnetID useIPv6Backends protocol oldNBNodeIDs (opts ! i))"
proof (intro conjI allI impI)
  note m = assms [unfolded buildNodeBalancerConfigNodes_def]
  show "length opts = length nodes" using mapR_Ok_length [OF m] .
  fix i assume "i < length nodes"
  from mapR_Ok_nth [OF m this] obtain o1 where
    o1: "nodeOptionsFor svc nodePort subnetID useIPv6Backends protocol (nodes ! i) = Ok o1"
    and o: "opts ! i = (case map_of oldNBNodeIDs (no_Address o1) of Some j \<Rightarrow> o1\<lparr>no_ID := j\<rparr> | None \<Rightarrow> o1)"
    by (auto simp: res_simps)
  show "\<exists>ip. getNodeBackendIP svc (nodes ! i) subnetID useIPv6Backends = Ok ip \<and>
      no_Address (opts ! i) = formatNodeBalancerBackendAddress ip nodePort"
    "backend_ok subnetID useIPv6Backends protocol oldNBNodeIDs (opts ! i)"
    using nodeOptionsFor_Ok [OF o1] by (auto simp: o backend_ok_def split: option.splits)
qed

lemma sampleBackend:
  "buildNodeBalancerConfigNodes sampleService [sampleNode] 30080 0 False ProtocolTCP [(''192.168.128.1:30080'', 7)] =
     Ok [\<lparr>no_ID = 7, no_Address = ''192.168.128.1:30080'', no_Label = ''node-n1'', no_Weight = 100,
          no_Mode = ''accept'', no_SubnetID = 0\<rparr>]"
proof -
  have "coerceString ''n1'' 3 32 ''node-'' = ''node-n1''"
    by (simp add: coerceString_coerced coerced_sample)
  moreover have "formatNodeBalancerBackendAddress ''192.168.128.1'' 30080 = ''192.168.128.1:30080''"
    by code_simp
  moreover have "getNodeBackendIP sampleService sampleNode 0 False = Ok ''192.168.128.1''" by code_simp
  ultimately show ?thesis
    by (simp add: buildNodeBalancerConfigNodes_def nodeOptionsFor_def protocol_defs
        buildNodeBalancerNodeConfigRebuildOptions_def sampleNode_def)
qed

theorem buildNodeBalancerConfigNodes_backends_witness:
  "backend_ok 0 False ProtocolTCP [(''192.168.128.1:30080'', 7)]
     \<lparr>no_ID = 7, no_Address = ''192.168.128.1:30080'', no_Label = ''node-n1'', no_Weight = 100,
      no_Mode = ''accept'', no_SubnetID = 0\<rparr>"
  using buildNodeBalancerConfigNodes_backends [OF sampleBackend] by simp

text \<open>The settings of a health check that the API needs together.\<close>

definition check_ok :: "Service \<Rightarrow> NodeBalancerConfig \<Rightarrow> bool" where
  "check_ok service c \<longleftrightarrow>
     (nbc_CheckPath c \<noteq> [] \<longleftrightarrow> nbc_Check c \<in> {CheckHTTP, CheckHTTPBody}) \<and>
     (nbc_CheckBody c \<noteq> [] \<longleftrightarrow> nbc_Check c = CheckHTTPBody) \<and>
     (nbc_Protocol c = ProtocolUDP \<longrightarrow> \<not> nbc_CheckPassive c) \<and>
     atoiAnnotation service AnnLinodeHealthCheckInterval 5 = Ok (nbc_CheckInterval c) \<and>
     atoiAnnotation service AnnLinodeHealthCheckTimeout 3 = Ok (nbc_CheckTimeout c) \<and>
     atoiAnnotation service AnnLinodeHealthCheckAttempts 2 = Ok (nbc_CheckAttempts c)"

lemma healthCheckConfig_Ok:
  assumes "healthCheckConfig svc port pc = Ok c"
  shows "check_ok svc c" "nbc_Protocol c = pc_Protocol pc" "nbc_Port c = sp_Port port"
    "nbc_SSLCert c = []" "nbc_SSLKey c = []"
proof -
  from assms obtain health i t a p where "getHealthCheckType svc port = Ok health" and
    body: "\<not> (health = CheckHTTPBody \<and> getAnn (svc_Annotations svc) AnnLinodeCheckBody = [])"
    and nums: "atoiAnnotation svc AnnLinodeHealthCheckInterval 5 = Ok i"
      "atoiAnnotation svc AnnLinodeHealthCheckTimeout 3 = Ok t"
      "atoiAnnotation svc AnnLinodeHealthCheckAttempts 2 = Ok a"
    and udp: "pc_Protocol pc = ProtocolUDP \<longrightarrow> \<not> p"
    and c: "c = (checkedConfig svc port pc health)\<lparr>nbc_CheckInterval := i, nbc_CheckTimeout := t,
      nbc_CheckAttempts := a, nbc_CheckPassive := p\<rparr>"
    unfolding healthCheckConfig_def by (fastforce simp only: res_simps res.inject res.distinct split: if_splits)
  show "check_ok svc c"
    using body nums udp by (simp add: c check_ok_def checkedConfig_def Let_def emptyNBConfig_def)
  show "nbc_Protocol c = pc_Protocol pc" "nbc_Port c = sp_Port port" "nbc_SSLCert c = []" "nbc_SSLKey c = []"
    by (simp_all add: c checkedConfig_def Let_def emptyNBConfig_def)
qed

lemma addTLSCert_Ok:
  assumes "addTLSCert E svc cfg pc s = (Ok c, t)"
  shows "\<exists>cert key. c = cfg\<lparr>nbc_SSLCert := cert, nbc_SSLKey := key\<rparr>" "pc_TLSSecretName pc \<noteq> []"
    "Kube (Call_GetSecret (svc_Namespace svc) (pc_TLSSecretName pc)) \<in> set (calls t)"
  using assms
  by (auto simp: addTLSCert_def getTLSCertInfo_def withKubeClient_def api_defs eff_ok split: if_splits)


lemma sampleConfig:
  "buildNodeBalancerConfig E sampleService \<lparr>sp_Port = 80, sp_NodePort = 30080, sp_Protocol = ''TCP''\<rparr> s =
     (Ok (emptyNBConfig\<lparr>nbc_Port := 80, nbc_Protocol := ''tcp'', nbc_ProxyProtocol := ''none'',
        nbc_Algorithm := ''roundrobin'', nbc_Check := ''connection'', nbc_CheckInterval := 5,
        nbc_CheckTimeout := 3, nbc_CheckAttempts := 2, nbc_CheckPassive := True\<rparr>), s)"
proof -
  have "getPortConfig sampleService \<lparr>sp_Port = 80, sp_NodePort = 30080, sp_Protocol = ''TCP''\<rparr> =
    Ok \<lparr>pc_TLSSecretName = [], pc_Protocol = ''tcp'', pc_ProxyProtocol = ''none'', pc_Port = 80,
       pc_Algorithm = ''roundrobin'', pc_Stickiness = [], pc_UDPCheckPort = 0\<rparr>"
    by code_simp
  moreover have "getHealthCheckType sampleService \<lparr>sp_Port = 80, sp_NodePort = 30080, sp_Protocol = ''TCP''\<rparr> =
    Ok ''connection''" by code_simp
  ultimately show ?thesis
    by (simp add: buildNodeBalancerConfig_def healthCheckConfig_def checkedConfig_def protocol_defs CheckHTTP_def
        CheckHTTPBody_def sampleService_def atoiAnnotation_def emptyNBConfig_def eff_simps)
qed



definition subnetEnv :: "unit env" where
  "subnetEnv = sampleEnv\<lparr>ev_opts := defaultOptions\<lparr>opt_VPCNames := [''vpc''],
     opt_NodeBalancerBackendIPv4SubnetID := 7\<rparr>\<rparr>"


section \<open>Corner cases\<close>

text \<open>The exception above: the NodeBalancer is attached to the controller's subnet (7) while its
  backends are sent with the subnet of the annotation (5).\<close>

definition subnetService :: Service where
  "subnetService = sampleService\<lparr>svc_Annotations := [(NodeBalancerBackendSubnetID, ''5'')]\<rparr>"

lemma backend_subnet_differs:
  "getVPCCreateOptions subnetEnv subnetService s =
     (Ok [\<lparr>bvo_SubnetID = 7, bvo_IPv4Range = [], bvo_IPv4RangeAutoAssign = False\<rparr>], s) \<and>
   getBackendSubnetID subnetEnv subnetService False s = (Ok 5, s)"
proof -
  have "Atoi ''5'' = Ok 5" by code_simp
  then show ?thesis
    by (simp add: getVPCCreateOptions_def getSubnetIDForSVC_def getBackendSubnetID_def subnetEnv_def
        sampleEnv_def defaultOptions_def sampleService_def subnetService_def hasAnn_def annotation_defs
        eff_simps)
qed

text \<open>The first subnet name is read before the annotation is looked at: with an empty list of
  subnet names, a service that names its subnet makes the controller panic.\<close>

lemma empty_subnet_names_panic:
  assumes "opt_VPCNames (ev_opts E) \<noteq> []" "opt_SubnetNames (ev_opts E) = []"
    and "svcAnn svc NodeBalancerBackendSubnetID = None"
    and "svcAnn svc NodeBalancerBackendSubnetName = Some n"
    and "GetVPCID E (case svcAnn svc NodeBalancerBackendVPCName of Some v \<Rightarrow> v
                     | None \<Rightarrow> opt_VPCNames (ev_opts E) ! 0) s = (Ok vpcID, t)"
  shows "getSubnetIDForSVC E svc s = (Panic, t)"
  using assms by (simp add: getSubnetIDForSVC_def indexR_def eff_simps)

text \<open>When the NodeBalancer cannot be created, the firewall made for it stays behind: its creation
  is not undone, and the next attempt creates another.\<close>

definition leakEnv :: "unit env" where
  "leakEnv = sampleEnv\<lparr>ev_Now := (\<lambda>_. 63000000000 * Second),
     ev_client := offlineClient\<lparr>cl_CreateFirewall := (\<lambda>opts w.
       (Inr \<lparr>fw_ID = 9, fw_Label = fco_Label opts, fw_Rules = fco_Rules opts\<rparr>, w))\<rparr>\<rparr>"

lemma createNodeBalancer_leaves_firewall:
  "\<exists>e o1 o2. createNodeBalancer leakEnv [] aclService [] (sampleState ()) =
     (Err e, (sampleState ())\<lparr>calls := [FW (Call_CreateFirewall o1), NB (Call_CreateNodeBalancer o2)]\<rparr>)"
proof -
  have label: "GetLoadBalancerName leakEnv (sampleState ()) = (Ok ''ccm-fa216eb60000'', sampleState ())"
    by code_simp
  have acl: "\<exists>opts. CreateFirewallOptsForSvc ''ccm-fa216eb60000'' [] aclService = Ok opts"
    by (rule exI [of _ "\<lparr>fco_Label = ''ccm-fa216eb60000'', fco_Tags = [], fco_Rules =
      aclFirewallRules\<lparr>rs_Inbound := [(hd (rs_Inbound aclFirewallRules))\<lparr>fr_Description :=
        ''Created by linode-ccm: ccm-fa216eb60000, for web''\<rparr>]\<rparr>\<rparr>"]) code_simp
  have "resolveIPv6NodeBalancerBackendState (ev_opts leakEnv) aclService = False" by code_simp
  moreover have "svcAnn aclService AnnLinodeCloudFirewallID = None"
    "hasAnn (svc_Annotations aclService) AnnLinodeCloudFirewallACL" 
    "GetLoadBalancerTags (ev_opts leakEnv) [] aclService = []"
    "opt_VPCNames (ev_opts leakEnv) = []" by code_simp+
  moreover have "getFrontendVPCCreateOptions leakEnv aclService = retE []"
  proof -
    have "\<not> hasAnn (svc_Annotations aclService) k" if "k \<noteq> AnnLinodeCloudFirewallACL" for k
      using that by (simp add: aclService_def sampleService_def hasAnn_def)
    then show ?thesis
      by (simp add: getFrontendVPCCreateOptions_def annotation_defs)
  qed
  ultimately show ?thesis
    using label acl
    by (auto simp: createNodeBalancer_def eff_simps api_defs leakEnv_def sampleEnv_def offlineClient_def
        unavailable_def sampleState_def)
qed

end
