(* ===== verification/NodeBalancers.thy ===== *)
theory NodeBalancers
  imports NB_Config
begin

text \<open>
  \<open>loadbalancers.go\<close>: the NodeBalancer of a service, found from the annotation with its
  ID or from the status of the service; created, updated and deleted with the service. These
  are the operations of the interface \<open>cloudprovider.LoadBalancer\<close>.
\<close>

section \<open>Finding the NodeBalancer of a service\<close>

fun findByHostname :: "NodeBalancer list \<Rightarrow> string \<Rightarrow> NodeBalancer option res" where
  "findByHostname [] hostname = Ok None"
| "findByHostname (lb # lbs) hostname =
     bindR (derefR (nb_Hostname lb)) (\<lambda>h.
     if h = hostname then Ok (Some lb) else findByHostname lbs hostname)"

definition getNodeBalancerByHostname ::
  "'w env \<Rightarrow> Service \<Rightarrow> string \<Rightarrow> ('w, NodeBalancer) ccm" where
  "getNodeBalancerByHostname E service hostname =
     bindE (api_ListNodeBalancers E []) (\<lambda>lbs.
     bindE (liftR (findByHostname lbs hostname)) (\<lambda>found.
     case found of Some lb \<Rightarrow> retE lb | None \<Rightarrow> throwE (LbNotFound (getServiceNn service) 0)))"

definition inFrontendSubnet :: "string \<Rightarrow> NodeBalancer \<Rightarrow> bool" where
  "inFrontendSubnet frontendSubnetID lb =
     (nb_FrontendAddressType lb = ''vpc'' \<and>
      (case nb_FrontendVPCSubnetID lb of Some i \<Rightarrow> Itoa i = frontendSubnetID | None \<Rightarrow> False))"

definition getNodeBalancerByIP :: "'w env \<Rightarrow> Service \<Rightarrow> Addr \<Rightarrow> ('w, NodeBalancer) ccm" where
  "getNodeBalancerByIP E service ip =
     (let filter = (if Addr_Is6 ip then ''{\"ipv6\": \"'' else ''{\"ipv4\": \"'') @ Addr_String ip @ ''\"}'';
          notFound = LbNotFound (getServiceNn service) 0;
          frontendSubnetID = getAnn (svc_Annotations service) NodeBalancerFrontendSubnetID in
      bindE (api_ListNodeBalancers E filter) (\<lambda>lbs.
      case lbs of
        [] \<Rightarrow> throwE notFound
      | lb0 # _ \<Rightarrow>
          if frontendSubnetID \<noteq> [] then
            (case find_first (inFrontendSubnet frontendSubnetID) lbs of
               Some lb \<Rightarrow> retE lb | None \<Rightarrow> throwE notFound)
          else retE lb0))"

definition getNodeBalancerByID :: "'w env \<Rightarrow> Service \<Rightarrow> int \<Rightarrow> ('w, NodeBalancer) ccm" where
  "getNodeBalancerByID E service nbID =
     handleE (api_GetNodeBalancer E nbID)
       (\<lambda>err. if asLinodeError err = Some 404 then throwE (LbNotFound (getServiceNn service) nbID)
              else throwE err)
       retE"

definition getLatestServiceLoadBalancerStatus ::
  "'w env \<Rightarrow> Service \<Rightarrow> ('w, LoadBalancerIngress list) ccm" where
  "getLatestServiceLoadBalancerStatus E service =
     thenE (retrieveKubeClient E)
     (bindE (withKubeClient (api_GetService E (svc_Namespace service) (svc_Name service))) (\<lambda>latest.
      retE (svc_Ingress latest)))"

fun nodeBalancerFromIngress ::
  "'w env \<Rightarrow> Service \<Rightarrow> LoadBalancerIngress list \<Rightarrow> ('w, NodeBalancer) ccm" where
  "nodeBalancerFromIngress E service [] = throwE (LbNotFound (getServiceNn service) 0)"
| "nodeBalancerFromIngress E service (ingress # rest) =
     (let byHostname =
            (if ing_Hostname ingress \<noteq> [] then getNodeBalancerByHostname E service (ing_Hostname ingress)
             else nodeBalancerFromIngress E service rest) in
      if ing_IP ingress \<noteq> [] then
        (case ParseAddr (ing_IP ingress) of
           Ok address \<Rightarrow> getNodeBalancerByIP E service address
         | Err _ \<Rightarrow> byHostname
         | Panic \<Rightarrow> panicE)
      else byHostname)"

definition getNodeBalancerByStatus :: "'w env \<Rightarrow> Service \<Rightarrow> ('w, NodeBalancer) ccm" where
  "getNodeBalancerByStatus E service =
     bindE (handleE (getLatestServiceLoadBalancerStatus E service)
              (\<lambda>_. retE (svc_Ingress service)) retE) (\<lambda>ingresses.
     nodeBalancerFromIngress E service ingresses)"

definition getNodeBalancerForService :: "'w env \<Rightarrow> Service \<Rightarrow> ('w, NodeBalancer) ccm" where
  "getNodeBalancerForService E service =
     (case Atoi (getAnn (svc_Annotations service) AnnLinodeNodeBalancerID) of
        Ok nbID \<Rightarrow> if nbID \<noteq> 0 then getNodeBalancerByID E service nbID
                   else getNodeBalancerByStatus E service
      | _ \<Rightarrow> getNodeBalancerByStatus E service)"

definition shouldPreserveNodeBalancer :: "Service \<Rightarrow> bool" where
  "shouldPreserveNodeBalancer service =
     (getServiceBoolAnnotation service AnnLinodeLoadBalancerPreserve = Some True)"

definition shouldRetainReservedIP :: "Service \<Rightarrow> bool" where
  "shouldRetainReservedIP service =
     (case getServiceBoolAnnotation service AnnLinodeLoadBalancerRetainReservedIPv4 of
        None \<Rightarrow> True | Some b \<Rightarrow> b)"

definition cleanupOldNodeBalancer :: "'w env \<Rightarrow> Service \<Rightarrow> ('w, unit) ccm" where
  "cleanupOldNodeBalancer E service =
     (if \<not> hasAnn (svc_Annotations service) AnnLinodeNodeBalancerID then retE ()
      else
        handleE (getNodeBalancerByStatus E service)
          (\<lambda>err. if asLbNotFound err then retE () else throwE err)
          (\<lambda>previousNB.
            bindE (getNodeBalancerForService E service) (\<lambda>nb.
            if nb_ID previousNB = nb_ID nb then retE ()
            else api_DeleteNodeBalancer E (nb_ID previousNB))))"

definition statusOf :: "'w env \<Rightarrow> Service \<Rightarrow> NodeBalancer \<Rightarrow> ('w, LoadBalancerIngress list) ccm" where
  "statusOf E service nb =
     bindE (lookupEnvE E ''LINODE_HOSTNAME_ONLY_INGRESS'') (\<lambda>hostnameOnlyEnv.
     liftR (makeLoadBalancerStatus (ev_opts E) hostnameOnlyEnv service nb))"

definition GetLoadBalancer ::
  "'w env \<Rightarrow> string \<Rightarrow> Service \<Rightarrow> ('w, LoadBalancerIngress list option) ccm" where
  "GetLoadBalancer E clusterName service =
     handleE (getNodeBalancerForService E service)
       (\<lambda>err. if asLbNotFound err then retE None else throwE err)
       (\<lambda>nb. bindE (statusOf E service nb) (\<lambda>status. retE (Some status)))"

section \<open>Updating a NodeBalancer\<close>

definition createIPChangeWarningEvent ::
  "'w env \<Rightarrow> Service \<Rightarrow> NodeBalancer \<Rightarrow> ('w, unit) ccm" where
  "createIPChangeWarningEvent E service nb =
     withKubeClient (
       bindE (nowE E) (\<lambda>now.
       bindE (liftR (derefR (nb_IPv4 nb))) (\<lambda>_.
       ignoreE (api_CreateEvent E (svc_Namespace service)
         (''nodebalancer-ipv4-change-ignored-'' @ Itoa (now div Second - 62135596800))))))"

definition deleteUnusedConfigs ::
  "'w env \<Rightarrow> NodeBalancerConfig list \<Rightarrow> ServicePort list \<Rightarrow> ('w, unit) ccm" where
  "deleteUnusedConfigs E nbConfigs servicePorts =
     forE nbConfigs (\<lambda>nbc.
       if nbc_Port nbc \<in> set (map sp_Port servicePorts) then retE ()
       else api_DeleteNodeBalancerConfig E (nbc_NodeBalancerID nbc) (nbc_ID nbc))"

definition nodeIDs :: "NodeBalancerNode list \<Rightarrow> (string \<times> int) list" where
  "nodeIDs nodes = foldl (\<lambda>m n. AList.update (nbn_Address n) (nbn_ID n) m) [] nodes"

text \<open>\<open>[port %d]\<close> in front of an error.\<close>

definition portErr :: "ServicePort \<Rightarrow> string \<Rightarrow> gerr \<Rightarrow> gerr" where
  "portErr port msg = Wrapf (''[port %d] '' @ msg @ '': %w'') [Itoa (sp_Port port)]"

definition currentNodes ::
  "'w env \<Rightarrow> NodeBalancer \<Rightarrow> NodeBalancerConfig option \<Rightarrow> ('w, NodeBalancerNode list) ccm" where
  "currentNodes E nb existing =
     (case existing of
        Some cfg \<Rightarrow> handleE (api_ListNodeBalancerNodes E (nb_ID nb) (nbc_ID cfg)) (\<lambda>_. retE []) retE
      | None \<Rightarrow> retE [])"

text \<open>The config to rebuild and the options for it. The API does not return the certificate and
  the key of a config, so that those that were sent are kept.\<close>

definition rebuildTarget ::
  "'w env \<Rightarrow> NodeBalancer \<Rightarrow> ServicePort \<Rightarrow> NodeBalancerConfig option \<Rightarrow> NodeBalancerConfig \<Rightarrow>
   ('w, int \<times> ConfigOptions) ccm" where
  "rebuildTarget E nb port existing newNBCfg =
     (case existing of
        Some cfg \<Rightarrow> retE (nbc_ID cfg, ev_GetRebuildOptions E newNBCfg)
      | None \<Rightarrow>
          bindE (wrapE (portErr port ''error creating NodeBalancer config'')
                   (api_CreateNodeBalancerConfig E (nb_ID nb) (ev_GetCreateOptions E newNBCfg))) (\<lambda>cfg.
          let opts = ev_GetRebuildOptions E cfg in
          retE (nbc_ID cfg, opts\<lparr>co_Settings := (co_Settings opts)
             \<lparr>nbc_SSLCert := nbc_SSLCert newNBCfg, nbc_SSLKey := nbc_SSLKey newNBCfg\<rparr>\<rparr>)))"

definition updatePort ::
  "'w env \<Rightarrow> Service \<Rightarrow> Node list \<Rightarrow> NodeBalancer \<Rightarrow> NodeBalancerConfig list \<Rightarrow> ServicePort \<Rightarrow> ('w, unit) ccm" where
  "updatePort E service nodes nb nbCfgs port =
     bindE (buildNodeBalancerConfig E service port) (\<lambda>newNBCfg.
     let existing = find_first (\<lambda>nbc. nbc_Port nbc = sp_Port port) nbCfgs;
         useIPv6Backends = resolveIPv6NodeBalancerBackendState (ev_opts E) service in
     bindE (currentNodes E nb existing) (\<lambda>currentNBNodes.
     bindE (wrapE (Wrapf ''Error getting subnet ID for service %s: %w'' [svc_Name service])
              (getBackendSubnetID E service useIPv6Backends)) (\<lambda>subnetID.
     bindE (liftR (mapErr (portErr port ''error building NodeBalancer backend node configs'')
              (buildNodeBalancerConfigNodes service nodes (sp_NodePort port) subnetID useIPv6Backends
                 (nbc_Protocol newNBCfg) (nodeIDs currentNBNodes)))) (\<lambda>newNBNodes.
     bindE (rebuildTarget E nb port existing newNBCfg) (\<lambda>(cfgID, rebuildOpts).
     wrapE (portErr port ''error rebuilding NodeBalancer config'')
       (api_RebuildNodeBalancerConfig E (nb_ID nb) cfgID (rebuildOpts\<lparr>co_Nodes := newNBNodes\<rparr>)))))))"

definition ipv4Changed :: "Service \<Rightarrow> NodeBalancer \<Rightarrow> bool res" where
  "ipv4Changed service nb =
     (case svcAnn service AnnLinodeLoadBalancerReservedIPv4 of
        None \<Rightarrow> Ok False
      | Some ipv4 \<Rightarrow> bindR (derefR (nb_IPv4 nb)) (\<lambda>cur. Ok (ipv4 \<noteq> cur)))"

definition syncThrottle :: "'w env \<Rightarrow> Service \<Rightarrow> NodeBalancer \<Rightarrow> ('w, NodeBalancer) ccm" where
  "syncThrottle E service nb =
     (let connThrottle = getConnectionThrottle service in
      if connThrottle \<noteq> nb_ClientConnThrottle nb then
        api_UpdateNodeBalancer E (nb_ID nb) ((ev_GetUpdateOptions E nb)\<lparr>nbu_ClientConnThrottle := Some connThrottle\<rparr>)
      else retE nb)"

definition syncTags :: "'w env \<Rightarrow> string list \<Rightarrow> NodeBalancer \<Rightarrow> ('w, NodeBalancer) ccm" where
  "syncTags E tags nb =
     (if nb_Tags nb \<noteq> Some tags then
        api_UpdateNodeBalancer E (nb_ID nb) ((ev_GetUpdateOptions E nb)\<lparr>nbu_Tags := Some tags\<rparr>)
      else retE nb)"

definition updateNodeBalancer ::
  "'w env \<Rightarrow> string \<Rightarrow> Service \<Rightarrow> Node list \<Rightarrow> NodeBalancer \<Rightarrow> ('w, unit) ccm" where
  "updateNodeBalancer E clusterName service nodes nb =
     (if nodes = [] then
        throwE (Wrapf ''%w: service %s'' [getServiceNn service] ErrNoNodesAvailable)
      else
        bindE (liftR (ipv4Changed service nb)) (\<lambda>changed.
        thenE (if changed then createIPChangeWarningEvent E service nb else retE ())
        (bindE (syncThrottle E service nb) (\<lambda>nb.
         let tags = GetLoadBalancerTags (ev_opts E) clusterName service in
         bindE (syncTags E tags nb) (\<lambda>nb.
         bindE (GetLoadBalancerName E) (\<lambda>name.
         thenE (UpdateNodeBalancerFirewall E name tags service nb)
         (bindE (api_ListNodeBalancerConfigs E (nb_ID nb)) (\<lambda>nbCfgs.
          thenE (deleteUnusedConfigs E nbCfgs (svc_Ports service))
          (forE (svc_Ports service) (updatePort E service nodes nb nbCfgs)))))))))) "

section \<open>The operations of the interface\<close>

definition ensureNodeBalancer ::
  "'w env \<Rightarrow> string \<Rightarrow> Service \<Rightarrow> Node list \<Rightarrow> ('w, NodeBalancer) ccm" where
  "ensureNodeBalancer E clusterName service nodes =
     handleE (getNodeBalancerForService E service)
       (\<lambda>err. if asLbNotFound err then
                if getAnn (svc_Annotations service) AnnLinodeNodeBalancerID \<noteq> [] then throwE err
                else buildLoadBalancerRequest E clusterName service nodes
              else throwE err)
       (\<lambda>nb. thenE (updateNodeBalancer E clusterName service nodes nb) (retE nb))"

definition EnsureLoadBalancer ::
  "'w env \<Rightarrow> string \<Rightarrow> Service \<Rightarrow> Node list \<Rightarrow> ('w, LoadBalancerIngress list) ccm" where
  "EnsureLoadBalancer E clusterName service nodes =
     bindE (ensureNodeBalancer E clusterName service nodes) (\<lambda>nb.
     bindE (statusOf E service nb) (\<lambda>lbStatus.
     thenE (if shouldPreserveNodeBalancer service then retE () else cleanupOldNodeBalancer E service)
     (retE lbStatus)))"

definition UpdateLoadBalancer ::
  "'w env \<Rightarrow> string \<Rightarrow> Service \<Rightarrow> Node list \<Rightarrow> ('w, unit) ccm" where
  "UpdateLoadBalancer E clusterName service nodes =
     bindE (handleE (getLatestServiceLoadBalancerStatus E service)
              (\<lambda>_. retE (svc_Ingress service)) retE) (\<lambda>latest.
     let serviceWithStatus = service\<lparr>svc_Ingress := latest\<rparr> in
     bindE (getNodeBalancerForService E serviceWithStatus) (\<lambda>nb.
     thenE (if shouldPreserveNodeBalancer service then retE () else cleanupOldNodeBalancer E service)
     (updateNodeBalancer E clusterName serviceWithStatus nodes nb)))"

definition EnsureLoadBalancerDeleted :: "'w env \<Rightarrow> string \<Rightarrow> Service \<Rightarrow> ('w, unit) ccm" where
  "EnsureLoadBalancerDeleted E clusterName service =
     (if svc_Ingress service = [] then retE ()
      else
        handleE (getNodeBalancerForService E service)
          (\<lambda>err. if asLbNotFound err then retE () else throwE err)
          (\<lambda>nb.
            if shouldPreserveNodeBalancer service then retE ()
            else
              thenE (DeleteNodeBalancerFirewall E service nb)
              (thenE (if shouldRetainReservedIP service then retE ()
                      else bindE (liftR (derefR (nb_IPv4 nb))) (\<lambda>ipv4.
                           api_DeleteReservedIPAddress E ipv4))
              (api_DeleteNodeBalancer E (nb_ID nb)))))"

section \<open>Calls\<close>

fun isCreateNB :: "call \<Rightarrow> bool" where
  "isCreateNB (NB (Call_CreateNodeBalancer _)) = True"
| "isCreateNB _ = False"

fun isDeleteNB :: "call \<Rightarrow> bool" where
  "isDeleteNB (NB (Call_DeleteNodeBalancer _)) = True"
| "isDeleteNB _ = False"

text \<open>The calls an update may issue: anything but creating and deleting NodeBalancers and
  reserved addresses, and changing instances or CIDRs.\<close>

fun updateCall :: "call \<Rightarrow> bool" where
  "updateCall (NB (Call_UpdateNodeBalancer _ _)) = True"
| "updateCall (NB c) = (\<not> nbWrite c)"
| "updateCall (Inst c) = (\<not> instWrite c)"
| "updateCall (Cidr c) = False"
| "updateCall _ = True"

lemma apiRead_updateCall:
  "\<not> linodeWrite c \<Longrightarrow> (case c of Queue _ \<Rightarrow> False | Cidr _ \<Rightarrow> False | _ \<Rightarrow> True) \<Longrightarrow> updateCall c"
  by (cases c rule: updateCall.cases) auto

lemma updateCall_kinds: "updateCall c \<Longrightarrow> \<not> isCreateNB c \<and> \<not> isDeleteNB c"
  by (cases c rule: updateCall.cases) auto

lemma not_linodeWrite_kinds [simp]: "isCreateNB c \<Longrightarrow> linodeWrite c" "isDeleteNB c \<Longrightarrow> linodeWrite c"
  by (cases c rule: updateCall.cases; simp)+

lemma emits_lookup [emits_intros]:
  assumes "\<And>c. apiRead c \<Longrightarrow> P c"
  shows "emits P (getNodeBalancerByID E svc i)" "emits P (getNodeBalancerByIP E svc a)"
    "emits P (getNodeBalancerByHostname E svc h)" "emits P (getLatestServiceLoadBalancerStatus E svc)"
    "emits P (getNodeBalancerByStatus E svc)" "emits P (getNodeBalancerForService E svc)"
    "emits P (statusOf E svc nb)"
proof -
  show i: "emits P (getNodeBalancerByID E svc i)" for i
    unfolding getNodeBalancerByID_def api_defs by (intro emits_intros; simp add: assms)
  show a: "emits P (getNodeBalancerByIP E svc a)" for a
    unfolding getNodeBalancerByIP_def api_defs by (intro emits_intros; simp add: assms)
  show h: "emits P (getNodeBalancerByHostname E svc h)" for h
    unfolding getNodeBalancerByHostname_def api_defs by (intro emits_intros; simp add: assms)
  show l: "emits P (getLatestServiceLoadBalancerStatus E svc)"
    unfolding getLatestServiceLoadBalancerStatus_def api_defs by (intro emits_intros; simp add: assms)
  have "emits P (nodeBalancerFromIngress E svc ingresses)" for ingresses
    by (induction ingresses)
      (auto intro!: emits_intros a h split: res.split)
  then show st: "emits P (getNodeBalancerByStatus E svc)"
    unfolding getNodeBalancerByStatus_def by (intro emits_intros l)
  show "emits P (getNodeBalancerForService E svc)"
    unfolding getNodeBalancerForService_def by (intro emits_intros i st)
  show "emits P (statusOf E svc nb)"
    unfolding statusOf_def by (intro emits_intros)
qed

lemma emits_firewall_update:
  assumes "\<And>c. P (FW c)"
  shows "emits P (UpdateNodeBalancerFirewall E name tags svc nb)" "emits P (DeleteNodeBalancerFirewall E svc nb)"
proof -
  have d: "emits P (getNodeBalancerDeviceID E i j)" for i j
    unfolding getNodeBalancerDeviceID_def api_defs by (intro emits_intros; simp add: assms)
  show "emits P (UpdateNodeBalancerFirewall E name tags svc nb)"
    unfolding UpdateNodeBalancerFirewall_def updateServiceFirewall_def updateNodeBalancerFirewallWithACL_def api_defs
    by (intro emits_intros d; simp add: assms)
  show "emits P (DeleteNodeBalancerFirewall E svc nb)"
    unfolding DeleteNodeBalancerFirewall_def DeleteFirewall_def api_defs
    by (intro emits_intros; simp add: assms)
qed

lemma emits_updatePort:
  assumes "\<And>c. apiRead c \<Longrightarrow> P c" "\<And>c. P (Cfg c)"
  shows "emits P (updatePort E svc nodes nb cfgs port)"
  unfolding updatePort_def currentNodes_def rebuildTarget_def api_defs by (intro emits_intros; simp add: assms)

lemma emits_sync:
  assumes "\<And>i opts. P (NB (Call_UpdateNodeBalancer i opts))"
  shows "emits P (syncThrottle E svc nb)" "emits P (syncTags E tags nb)"
  unfolding syncThrottle_def syncTags_def api_defs by (intro emits_intros; simp add: assms)+

lemma emits_ip_change: "(\<And>c. apiRead c \<Longrightarrow> P c) \<Longrightarrow> emits P (createIPChangeWarningEvent E svc nb)"
  unfolding createIPChangeWarningEvent_def api_defs by (intro emits_intros; simp)

lemma emits_updateNodeBalancer [emits_intros]:
  assumes "\<And>c. updateCall c \<Longrightarrow> P c"
  shows "emits P (updateNodeBalancer E cluster svc nodes nb)"
  unfolding updateNodeBalancer_def deleteUnusedConfigs_def api_defs
  by (intro emits_intros emits_firewall_update emits_updatePort emits_sync emits_ip_change;
      simp add: assms apiRead_updateCall)

lemma emits_buildLoadBalancerRequest:
  assumes "\<And>c. apiRead c \<Longrightarrow> P c" "\<And>opts. P (FW (Call_CreateFirewall opts))"
    "\<And>opts. P (NB (Call_CreateNodeBalancer opts))"
  shows "emits P (buildLoadBalancerRequest E cluster svc nodes)"
  unfolding buildLoadBalancerRequest_def createNodeBalancer_def api_defs
  by (intro emits_intros; simp add: assms)

lemma at_most_buildLoadBalancerRequest:
  "at_most 1 isCreateNB (buildLoadBalancerRequest E cluster svc nodes)"
proof -
  have "at_most 1 isCreateNB (createNodeBalancer E cluster svc configs)" for configs
    unfolding createNodeBalancer_def Let_def api_defs
    by (intro at_most_after at_most_callE emits_intros) auto
  then show ?thesis
    unfolding buildLoadBalancerRequest_def Let_def
    by (intro at_most_after at_most_emits [of _ "throwE e" for e]) (auto intro!: emits_intros)
qed

lemma no_create:
  "emits (\<lambda>c. \<not> isCreateNB c) (cleanupOldNodeBalancer E svc)"
  "emits (\<lambda>c. \<not> isCreateNB c) (updateNodeBalancer E cluster svc nodes nb)"
  "emits (\<lambda>c. \<not> isCreateNB c) (getNodeBalancerForService E svc)"
  "emits (\<lambda>c. \<not> isCreateNB c) (statusOf E svc nb)"
  "emits (\<lambda>c. \<not> isCreateNB c) (getLatestServiceLoadBalancerStatus E svc)"
  unfolding cleanupOldNodeBalancer_def api_defs
  by ((intro emits_intros); auto dest: updateCall_kinds)+

lemma at_most_ensure: "at_most 1 isCreateNB (EnsureLoadBalancer E cluster svc nodes)"
proof -
  have "at_most 1 isCreateNB (ensureNodeBalancer E cluster svc nodes)"
    unfolding ensureNodeBalancer_def
    by (intro at_most_after no_create at_most_buildLoadBalancerRequest at_most_emits [of _ "throwE e" for e]
        at_most_emits [of _ "thenE m n" for m n] emits_intros)
  then have "at_most (1 + 0) isCreateNB (EnsureLoadBalancer E cluster svc nodes)"
    unfolding EnsureLoadBalancer_def
    by (rule at_most_bindE) (intro at_most_emits emits_intros no_create)
  then show ?thesis by simp
qed

lemma ensure_without_nodes:
  "yields (\<lambda>_. False) (ensureNodeBalancer E cluster svc [])"
  "emits (\<lambda>c. \<not> linodeWrite c) (ensureNodeBalancer E cluster svc [])"
proof -
  show "yields (\<lambda>_. False) (ensureNodeBalancer E cluster svc [])"
    by (auto intro!: yieldsI simp: ensureNodeBalancer_def eff_ok updateNodeBalancer_def
        buildLoadBalancerRequest_def split: if_splits)
  show "emits (\<lambda>c. \<not> linodeWrite c) (ensureNodeBalancer E cluster svc [])"
    unfolding ensureNodeBalancer_def updateNodeBalancer_def buildLoadBalancerRequest_def
    by (intro emits_intros) simp_all
qed

section \<open>Updates of the configs\<close>

fun isCfgWrite :: "call \<Rightarrow> bool" where
  "isCfgWrite (Cfg c) = cfgWrite c"
| "isCfgWrite _ = False"

lemma isCfgWrite_linodeWrite: "\<not> linodeWrite c \<Longrightarrow> \<not> isCfgWrite c"
  by (cases c) auto

text \<open>What is sent for one port: the config that exists for it is rebuilt, or one is created and
  then rebuilt, with one backend for each of \<open>n\<close> nodes.\<close>

definition port_ops :: "int \<Rightarrow> NodeBalancerConfig list \<Rightarrow> nat \<Rightarrow> ServicePort \<Rightarrow> call list \<Rightarrow> bool" where
  "port_ops nbID cfgs n port part \<longleftrightarrow>
     (\<exists>cfgID opts. length (co_Nodes opts) = n \<and>
        (case find_first (\<lambda>nbc. nbc_Port nbc = sp_Port port) cfgs of
           Some cfg \<Rightarrow> cfgID = nbc_ID cfg \<and> part = [Cfg (Call_RebuildNodeBalancerConfig nbID cfgID opts)]
         | None \<Rightarrow> \<exists>createOpts. part = [Cfg (Call_CreateNodeBalancerConfig nbID createOpts),
             Cfg (Call_RebuildNodeBalancerConfig nbID cfgID opts)]))"

definition unusedConfigs :: "NodeBalancerConfig list \<Rightarrow> ServicePort list \<Rightarrow> NodeBalancerConfig list" where
  "unusedConfigs cfgs ports = filter (\<lambda>nbc. nbc_Port nbc \<notin> set (map sp_Port ports)) cfgs"

abbreviation deleteConfig :: "NodeBalancerConfig \<Rightarrow> call" where
  "deleteConfig nbc \<equiv> Cfg (Call_DeleteNodeBalancerConfig (nbc_NodeBalancerID nbc) (nbc_ID nbc))"

lemma deleteUnusedConfigs_ops:
  assumes "deleteUnusedConfigs E cfgs ports s = (Ok (), t)"
  shows "calls t = calls s @ map deleteConfig (unusedConfigs cfgs ports)"
proof -
  let ?R = "\<lambda>nbc part. part = (if nbc_Port nbc \<in> set (map sp_Port ports) then [] else [deleteConfig nbc])"
  have "\<exists>parts. calls t = calls s @ concat parts \<and> list_all2 ?R cfgs parts"
    using assms unfolding deleteUnusedConfigs_def
    by (rule forE_chunks) (auto simp: eff_ok api_defs split: if_splits)
  then obtain parts where "calls t = calls s @ concat parts" and R: "list_all2 ?R cfgs parts" by blast
  moreover from R have "concat parts = map deleteConfig (unusedConfigs cfgs ports)"
    by (induction rule: list_all2_induct) (auto simp: unusedConfigs_def)
  ultimately show ?thesis by simp
qed

lemma no_cfg_write:
  "emits (\<lambda>c. \<not> isCfgWrite c) (buildNodeBalancerConfig E svc port)"
  "emits (\<lambda>c. \<not> isCfgWrite c) (getBackendSubnetID E svc b)"
  "emits (\<lambda>c. \<not> isCfgWrite c) (createIPChangeWarningEvent E svc nb)"
  "emits (\<lambda>c. \<not> isCfgWrite c) (UpdateNodeBalancerFirewall E name tags svc nb)"
  "emits (\<lambda>c. \<not> isCfgWrite c) (syncThrottle E svc nb)" "emits (\<lambda>c. \<not> isCfgWrite c) (syncTags E tags nb)"
  "emits (\<lambda>c. \<not> isCfgWrite c) (GetLoadBalancerName E)"
  by (intro emits_intros emits_firewall_update emits_sync emits_ip_change; simp add: isCfgWrite_linodeWrite)+

lemma currentNodes_cfg: "emits (\<lambda>c. \<not> isCfgWrite c) (currentNodes E nb existing)"
  unfolding currentNodes_def api_defs by (intro emits_intros) simp

lemma rebuildTarget_Ok:
  assumes "rebuildTarget E nb port existing cfg0 s = (Ok (cfgID, opts), t)"
  shows "case existing of
      Some cfg \<Rightarrow> cfgID = nbc_ID cfg \<and> t = s
    | None \<Rightarrow> \<exists>co. calls t = calls s @ [Cfg (Call_CreateNodeBalancerConfig (nb_ID nb) co)]"
  using assms by (auto simp: rebuildTarget_def eff_ok api_defs Let_def split: option.splits)

lemma updatePort_ops:
  assumes "updatePort E svc nodes nb cfgs port s = (Ok (), t)"
  shows "\<exists>part. filter isCfgWrite (calls t) = filter isCfgWrite (calls s) @ part \<and>
    port_ops (nb_ID nb) cfgs (length nodes) port part"
proof -
  define existing where "existing = find_first (\<lambda>nbc. nbc_Port nbc = sp_Port port) cfgs"
  define v6 where "v6 = resolveIPv6NodeBalancerBackendState (ev_opts E) svc"
  from assms obtain cfg0 s1 ns s2 subnet s3 newNodes cfgID opts s4 where
    steps: "buildNodeBalancerConfig E svc port s = (Ok cfg0, s1)" "currentNodes E nb existing s1 = (Ok ns, s2)"
      "getBackendSubnetID E svc v6 s2 = (Ok subnet, s3)"
    and nodes: "buildNodeBalancerConfigNodes svc nodes (sp_NodePort port) subnet v6 (nbc_Protocol cfg0)
      (nodeIDs ns) = Ok newNodes"
    and cfg: "rebuildTarget E nb port existing cfg0 s3 = (Ok (cfgID, opts), s4)"
    and t: "api_RebuildNodeBalancerConfig E (nb_ID nb) cfgID (opts\<lparr>co_Nodes := newNodes\<rparr>) s4 = (Ok (), t)"
    unfolding updatePort_def existing_def [symmetric] v6_def [symmetric] Let_def
    by (auto simp: eff_ok res_simps)
  have "filter isCfgWrite (calls s3) = filter isCfgWrite (calls s)"
    using steps by (metis emits_filter no_cfg_write(1,2) currentNodes_cfg)
  moreover have "length newNodes = length nodes"
    using nodes by (auto simp: buildNodeBalancerConfigNodes_def dest: mapR_Ok_length)
  moreover have "calls t = calls s4 @ [Cfg (Call_RebuildNodeBalancerConfig (nb_ID nb) cfgID (opts\<lparr>co_Nodes := newNodes\<rparr>))]"
    using t by (auto simp: eff_ok api_defs)
  ultimately show ?thesis
    using rebuildTarget_Ok [OF cfg] unfolding port_ops_def existing_def [symmetric]
    by (cases existing) (auto intro!: exI [of _ cfgID] exI [of _ "opts\<lparr>co_Nodes := newNodes\<rparr>"])
qed

section \<open>Properties\<close>

text \<open>C28: When nothing is deleted. A service that never had an ingress is done at once, with no
  call at all. A service that asks to preserve its NodeBalancer changes nothing at Linode. When
  the NodeBalancer is not found there is nothing to do and the deletion succeeds; any other
  error of the lookup is returned, so that it is tried again.\<close>

theorem EnsureLoadBalancerDeleted_guards:
  "(svc_Ingress svc = [] \<longrightarrow> EnsureLoadBalancerDeleted E cluster svc s = (Ok (), s)) \<and>
   (shouldPreserveNodeBalancer svc \<longrightarrow>
      (\<forall>c \<in> set (issued (EnsureLoadBalancerDeleted E cluster svc) s). \<not> linodeWrite c)) \<and>
   (\<forall>e t. svc_Ingress svc \<noteq> [] \<and> getNodeBalancerForService E svc s = (Err e, t) \<longrightarrow>
      EnsureLoadBalancerDeleted E cluster svc s = (if asLbNotFound e then Ok () else Err e, t))"
proof (intro conjI impI ballI allI)
  show "EnsureLoadBalancerDeleted E cluster svc s = (Ok (), s)" if "svc_Ingress svc = []"
    using that by (simp add: EnsureLoadBalancerDeleted_def eff_simps)
  have "emits (\<lambda>c. \<not> linodeWrite c) (EnsureLoadBalancerDeleted E cluster svc)" if "shouldPreserveNodeBalancer svc"
    unfolding EnsureLoadBalancerDeleted_def using that by (intro emits_intros; simp)
  then show "\<not> linodeWrite c" if "shouldPreserveNodeBalancer svc"
    "c \<in> set (issued (EnsureLoadBalancerDeleted E cluster svc) s)" for c
    using that emits_issued by blast
  show "EnsureLoadBalancerDeleted E cluster svc s = (if asLbNotFound e then Ok () else Err e, t)"
    if "svc_Ingress svc \<noteq> [] \<and> getNodeBalancerForService E svc s = (Err e, t)" for e t
    using that by (simp add: EnsureLoadBalancerDeleted_def eff_simps)
qed

definition oldService :: Service where
  "oldService = sampleService\<lparr>svc_Annotations := [(AnnLinodeNodeBalancerID, ''17'')],
     svc_Ingress := [\<lparr>ing_IP = ''192.0.2.1'', ing_Hostname = []\<rparr>]\<rparr>"

lemma oldService_id:
  "Atoi (getAnn (svc_Annotations oldService) AnnLinodeNodeBalancerID) = Ok 17"
  "svc_Ingress oldService \<noteq> []" "\<not> shouldPreserveNodeBalancer oldService" "shouldRetainReservedIP oldService"
  "\<not> hasAnn (svc_Annotations oldService) AnnLinodeCloudFirewallACL"
  by code_simp+

theorem EnsureLoadBalancerDeleted_guards_witness:
  "fst (EnsureLoadBalancerDeleted sampleEnv ''c'' oldService (sampleState ())) = Err (Errorf ''unavailable'' [])"
proof -
  have "getNodeBalancerForService sampleEnv oldService (sampleState ()) = (Err (Errorf ''unavailable'' []),
      (sampleState ())\<lparr>calls := [NB (Call_GetNodeBalancer 17)]\<rparr>)"
    by (simp add: getNodeBalancerForService_def oldService_id getNodeBalancerByID_def api_defs eff_simps
        sample_defs asLinodeError_def)
  then show ?thesis
    using EnsureLoadBalancerDeleted_guards [of oldService sampleEnv "''c''" "sampleState ()"]
    by (simp add: oldService_id asLbNotFound_def)
qed


definition deleteEnv :: "unit env" where
  "deleteEnv = sampleEnv\<lparr>ev_client := offlineClient\<lparr>
     cl_GetNodeBalancer := (\<lambda>i w. (Inr (sampleNB\<lparr>nb_ID := i\<rparr>), w)),
     cl_DeleteNodeBalancer := (\<lambda>_ w. (Inr (), w))\<rparr>\<rparr>"


text \<open>C9: At most one NodeBalancer is created. Ensuring a load balancer creates at most one
  NodeBalancer, and none at all for a service whose annotation names one or when there is no
  node to serve it (then nothing is changed and the call fails). Updating never creates one.\<close>

theorem nodebalancer_created_once:
  "length (filter isCreateNB (issued (EnsureLoadBalancer E cluster svc nodes) s)) \<le> 1 \<and>
   (getAnn (svc_Annotations svc) AnnLinodeNodeBalancerID \<noteq> [] \<longrightarrow>
      filter isCreateNB (issued (EnsureLoadBalancer E cluster svc nodes) s) = []) \<and>
   filter isCreateNB (issued (UpdateLoadBalancer E cluster svc nodes) s) = [] \<and>
   (nodes = [] \<longrightarrow> filter linodeWrite (issued (EnsureLoadBalancer E cluster svc nodes) s) = [] \<and>
      \<not> isOk (fst (EnsureLoadBalancer E cluster svc nodes s)))"
proof (intro conjI impI)
  show "length (filter isCreateNB (issued (EnsureLoadBalancer E cluster svc nodes) s)) \<le> 1"
    using at_most_ensure by (rule at_most_issued)
  have "emits (\<lambda>c. \<not> isCreateNB c) (UpdateLoadBalancer E cluster svc nodes)"
    unfolding UpdateLoadBalancer_def by (intro emits_intros no_create)
  then show "filter isCreateNB (issued (UpdateLoadBalancer E cluster svc nodes) s) = []"
    by (auto simp: filter_empty_conv dest: emits_issued)
  show "filter isCreateNB (issued (EnsureLoadBalancer E cluster svc nodes) s) = []"
    if "getAnn (svc_Annotations svc) AnnLinodeNodeBalancerID \<noteq> []"
  proof -
    have "emits (\<lambda>c. \<not> isCreateNB c) (EnsureLoadBalancer E cluster svc nodes)"
      unfolding EnsureLoadBalancer_def ensureNodeBalancer_def using that
      by (intro emits_intros no_create) auto
    then show ?thesis by (auto simp: filter_empty_conv dest: emits_issued)
  qed
  assume [simp]: "nodes = []"
  have "emits (\<lambda>c. \<not> linodeWrite c) (EnsureLoadBalancer E cluster svc nodes)"
    unfolding EnsureLoadBalancer_def
    by (rule emits.keeps_bindE_yields [where V = "\<lambda>_. False"]) (simp_all add: ensure_without_nodes)
  then show "filter linodeWrite (issued (EnsureLoadBalancer E cluster svc nodes) s) = []"
    by (auto simp: filter_empty_conv dest: emits_issued)
  have "EnsureLoadBalancer E cluster svc nodes s \<noteq> (Ok a, t)" for a t
    using ensure_without_nodes(1) [of E cluster svc]
    by (auto simp: EnsureLoadBalancer_def yields_def bindE_Ok_iff)
  then show "\<not> isOk (fst (EnsureLoadBalancer E cluster svc nodes s))"
    by (cases "EnsureLoadBalancer E cluster svc nodes s") (auto simp: isOk_def split: res.splits)
qed

theorem nodebalancer_created_once_witness:
  "filter isCreateNB (issued (EnsureLoadBalancer deleteEnv ''c'' oldService [sampleNode]) (sampleState ())) = [] \<and>
   \<not> isOk (fst (EnsureLoadBalancer deleteEnv ''c'' oldService [] (sampleState ())))"
proof -
  have "getAnn (svc_Annotations oldService) AnnLinodeNodeBalancerID \<noteq> []" by code_simp
  then show ?thesis
    using nodebalancer_created_once [of deleteEnv "''c''" oldService "[sampleNode]" "sampleState ()"]
      nodebalancer_created_once [of deleteEnv "''c''" oldService "[]" "sampleState ()"] by auto
qed

text \<open>C8: A NodeBalancer named by the service is kept. When the annotation of a service gives the ID
  of its NodeBalancer, neither ensuring nor updating the load balancer ever deletes that one,
  whatever the status of the service says. (The API answers a request for a NodeBalancer with
  the one asked for.)\<close>

theorem annotated_nodebalancer_kept:
  assumes "\<And>i w nb w'. cl_GetNodeBalancer (ev_client E) i w = (Inr nb, w') \<Longrightarrow> nb_ID nb = i"
    and "Atoi (getAnn (svc_Annotations svc) AnnLinodeNodeBalancerID) = Ok i" "i \<noteq> 0"
  shows "NB (Call_DeleteNodeBalancer i) \<notin> set (issued (EnsureLoadBalancer E cluster svc nodes) s) \<and>
    NB (Call_DeleteNodeBalancer i) \<notin> set (issued (UpdateLoadBalancer E cluster svc nodes) s)"
proof -
  let ?P = "\<lambda>c. c \<noteq> NB (Call_DeleteNodeBalancer i)"
  have kept: "?P c" if "\<not> linodeWrite c \<or> updateCall c" for c using that by auto
  have "yields (\<lambda>nb. nb_ID nb = i) (getNodeBalancerForService E svc)"
    using assms by (auto intro!: yieldsI
        simp: getNodeBalancerForService_def getNodeBalancerByID_def eff_ok api_defs split: if_splits)
  then have "emits ?P (bindE (getNodeBalancerForService E svc) (\<lambda>nb.
      if nb_ID prev = nb_ID nb then retE () else api_DeleteNodeBalancer E (nb_ID prev)))" for prev
    by (rule emits.keeps_bindE_yields [rotated]) (auto simp: api_defs kept intro!: emits_intros)
  then have cleanup: "emits ?P (cleanupOldNodeBalancer E svc)"
    unfolding cleanupOldNodeBalancer_def
    by (intro emits.keeps_if emits.keeps_handleE emits.keeps_pure emits_lookup) (auto simp: kept)
  have build: "emits ?P (buildLoadBalancerRequest E cluster svc nodes)"
    by (rule emits_buildLoadBalancerRequest) auto
  have "emits ?P (EnsureLoadBalancer E cluster svc nodes)" "emits ?P (UpdateLoadBalancer E cluster svc nodes)"
    unfolding EnsureLoadBalancer_def ensureNodeBalancer_def UpdateLoadBalancer_def
    by (intro emits_intros cleanup build; auto simp: kept)+
  then show ?thesis by (auto dest: emits_issued)
qed

theorem annotated_nodebalancer_kept_witness:
  "NB (Call_DeleteNodeBalancer 17) \<notin>
     set (issued (UpdateLoadBalancer deleteEnv ''c'' oldService [sampleNode]) (sampleState ()))"
proof -
  have "nb_ID nb = i" if "cl_GetNodeBalancer (ev_client deleteEnv) i w = (Inr nb, w')" for i w nb w'
    using that by (auto simp: deleteEnv_def)
  from annotated_nodebalancer_kept [of deleteEnv oldService 17, OF this oldService_id(1)]
  show ?thesis by simp
qed


definition staleConfig :: NodeBalancerConfig where
  "staleConfig = emptyNBConfig\<lparr>nbc_ID := 3, nbc_NodeBalancerID := 17, nbc_Port := 8080\<rparr>"

definition configEnv :: "unit env" where
  "configEnv = sampleEnv\<lparr>ev_Now := (\<lambda>_. 63000000000 * Second),
     ev_client := offlineClient\<lparr>
       cl_ListNodeBalancerFirewalls := (\<lambda>_ w. (Inr [], w)),
       cl_ListNodeBalancerConfigs := (\<lambda>_ w. (Inr [staleConfig], w)),
       cl_DeleteNodeBalancerConfig := (\<lambda>_ _ w. (Inr (), w)),
       cl_CreateNodeBalancerConfig := (\<lambda>_ opts w. (Inr ((co_Settings opts)\<lparr>nbc_ID := 5\<rparr>), w)),
       cl_RebuildNodeBalancerConfig := (\<lambda>_ _ _ w. (Inr (), w))\<rparr>\<rparr>"


section \<open>Corner cases\<close>

text \<open>The warning event is the one use of the Kubernetes client that is not preceded by
  \<open>retrieveKubeClient\<close>. A service that gives the ID of its NodeBalancer and whose reserved
  address differs from that of the NodeBalancer makes the process panic, unless an earlier call
  happened to create the client.\<close>

lemma ip_change_event_panics:
  assumes "lb_kubeClient s \<noteq> KubeClientset" "nodes \<noteq> []"
    and "svcAnn svc AnnLinodeLoadBalancerReservedIPv4 = Some ip" "nb_IPv4 nb = Some cur" "ip \<noteq> cur"
  shows "updateNodeBalancer E cluster svc nodes nb s = (Panic, s)"
  using assms by (simp add: updateNodeBalancer_def ipv4Changed_def createIPChangeWarningEvent_def
      withKubeClient_def eff_simps)

text \<open>A failure to create the client is reported once; the nil client that is stored then makes
  the next use panic.\<close>

lemma failed_client_panics_later:
  assumes "lb_kubeClient s = NoKubeClient"
    and "retrieveKubeClient E s = (Err e, t)" "Kube (Call_NewForConfig cfg) \<in> set (calls t)"
    and "Kube (Call_NewForConfig cfg) \<notin> set (calls s)"
  shows "getLatestServiceLoadBalancerStatus E svc t = (Panic, t)"
proof -
  have "lb_kubeClient t = NilClientset"
    using assms by (auto simp: retrieveKubeClient_def eff_simps api_defs Let_def
        split: prod.splits sum.splits option.splits if_splits)
  then show ?thesis
    by (simp add: getLatestServiceLoadBalancerStatus_def retrieveKubeClient_def withKubeClient_def eff_simps)
qed

text \<open>A config is found by its port alone, so that two ports of a service with the same number
  and different protocols are given the same config: the second rebuilds what the first built.\<close>

lemma same_number_same_config:
  assumes "sp_Port p = sp_Port q" "port_ops nbID cfgs n p [Cfg (Call_RebuildNodeBalancerConfig nbID i opts)]"
  shows "find_first (\<lambda>nbc. nbc_Port nbc = sp_Port q) cfgs \<noteq> None \<and>
    nbc_ID (the (find_first (\<lambda>nbc. nbc_Port nbc = sp_Port q) cfgs)) = i"
  using assms by (auto simp: port_ops_def split: option.splits)

end
