(* ===== verification/Client_Metrics.thy ===== *)
theory Client_Metrics
  imports NodeBalancers
begin

text \<open>
  \<open>client_with_metrics.go\<close>: the client that the program uses wraps another one and counts, for each
  method, the calls that succeeded and those that failed. The counters belong to a library; what is
  modelled is which of them are incremented, in which order.
\<close>

type_synonym counters = "(string \<times> string) list"

text \<open>The deferred function around a call.\<close>

definition counted :: "string \<Rightarrow> ('w, 'a) op \<Rightarrow> ('w \<times> counters, 'a) op" where
  "counted method f = (\<lambda>(w, log).
     case f w of
       (Inl err, w') \<Rightarrow> (Inl err, (w', log @ [(method, ''error'')]))
     | (Inr a, w') \<Rightarrow> (Inr a, (w', log @ [(method, ''ok'')])))"

section \<open>The methods\<close>

definition prom_CreateFirewall :: "'w client \<Rightarrow> FirewallCreateOptions \<Rightarrow> ('w \<times> counters, Firewall) op" where
  "prom_CreateFirewall base a = counted ''CreateFirewall'' (cl_CreateFirewall base a)"

definition prom_CreateFirewallDevice :: "'w client \<Rightarrow> int \<Rightarrow> int \<Rightarrow> ('w \<times> counters, unit) op" where
  "prom_CreateFirewallDevice base a b = counted ''CreateFirewallDevice'' (cl_CreateFirewallDevice base a b)"

definition prom_CreateNodeBalancer :: "'w client \<Rightarrow> NodeBalancerCreateOptions \<Rightarrow> ('w \<times> counters, NodeBalancer) op" where
  "prom_CreateNodeBalancer base a = counted ''CreateNodeBalancer'' (cl_CreateNodeBalancer base a)"

definition prom_CreateNodeBalancerConfig :: "'w client \<Rightarrow> int \<Rightarrow> ConfigOptions \<Rightarrow> ('w \<times> counters, NodeBalancerConfig) op" where
  "prom_CreateNodeBalancerConfig base a b = counted ''CreateNodeBalancerConfig'' (cl_CreateNodeBalancerConfig base a b)"

definition prom_DeleteFirewall :: "'w client \<Rightarrow> int \<Rightarrow> ('w \<times> counters, unit) op" where
  "prom_DeleteFirewall base a = counted ''DeleteFirewall'' (cl_DeleteFirewall base a)"

definition prom_DeleteFirewallDevice :: "'w client \<Rightarrow> int \<Rightarrow> int \<Rightarrow> ('w \<times> counters, unit) op" where
  "prom_DeleteFirewallDevice base a b = counted ''DeleteFirewallDevice'' (cl_DeleteFirewallDevice base a b)"

definition prom_DeleteNodeBalancer :: "'w client \<Rightarrow> int \<Rightarrow> ('w \<times> counters, unit) op" where
  "prom_DeleteNodeBalancer base a = counted ''DeleteNodeBalancer'' (cl_DeleteNodeBalancer base a)"

definition prom_DeleteNodeBalancerConfig :: "'w client \<Rightarrow> int \<Rightarrow> int \<Rightarrow> ('w \<times> counters, unit) op" where
  "prom_DeleteNodeBalancerConfig base a b = counted ''DeleteNodeBalancerConfig'' (cl_DeleteNodeBalancerConfig base a b)"

definition prom_DeleteReservedIPAddress :: "'w client \<Rightarrow> string \<Rightarrow> ('w \<times> counters, unit) op" where
  "prom_DeleteReservedIPAddress base a = counted ''DeleteReservedIPAddress'' (cl_DeleteReservedIPAddress base a)"

definition prom_GetInstance :: "'w client \<Rightarrow> int \<Rightarrow> ('w \<times> counters, Instance) op" where
  "prom_GetInstance base a = counted ''GetInstance'' (cl_GetInstance base a)"

definition prom_GetNodeBalancer :: "'w client \<Rightarrow> int \<Rightarrow> ('w \<times> counters, NodeBalancer) op" where
  "prom_GetNodeBalancer base a = counted ''GetNodeBalancer'' (cl_GetNodeBalancer base a)"

definition prom_GetProfile :: "'w client \<Rightarrow> ('w \<times> counters, unit) op" where
  "prom_GetProfile base = counted ''GetProfile'' (cl_GetProfile base)"

definition prom_GetVPC :: "'w client \<Rightarrow> int \<Rightarrow> ('w \<times> counters, VPC) op" where
  "prom_GetVPC base a = counted ''GetVPC'' (cl_GetVPC base a)"

definition prom_GetVPCSubnet :: "'w client \<Rightarrow> int \<Rightarrow> int \<Rightarrow> ('w \<times> counters, VPCSubnet) op" where
  "prom_GetVPCSubnet base a b = counted ''GetVPCSubnet'' (cl_GetVPCSubnet base a b)"

definition prom_ListFirewallDevices :: "'w client \<Rightarrow> int \<Rightarrow> ('w \<times> counters, FirewallDevice list) op" where
  "prom_ListFirewallDevices base a = counted ''ListFirewallDevices'' (cl_ListFirewallDevices base a)"

definition prom_ListInstanceConfigs :: "'w client \<Rightarrow> int \<Rightarrow> ('w \<times> counters, InstanceConfigInterface list list) op" where
  "prom_ListInstanceConfigs base a = counted ''ListInstanceConfigs'' (cl_ListInstanceConfigs base a)"

definition prom_ListInstances :: "'w client \<Rightarrow> string \<Rightarrow> ('w \<times> counters, Instance list) op" where
  "prom_ListInstances base a = counted ''ListInstances'' (cl_ListInstances base a)"

definition prom_ListInterfaces :: "'w client \<Rightarrow> int \<Rightarrow> ('w \<times> counters, LinodeInterface list) op" where
  "prom_ListInterfaces base a = counted ''ListInterfaces'' (cl_ListInterfaces base a)"

definition prom_ListNodeBalancerConfigs :: "'w client \<Rightarrow> int \<Rightarrow> ('w \<times> counters, NodeBalancerConfig list) op" where
  "prom_ListNodeBalancerConfigs base a = counted ''ListNodeBalancerConfigs'' (cl_ListNodeBalancerConfigs base a)"

definition prom_ListNodeBalancerFirewalls :: "'w client \<Rightarrow> int \<Rightarrow> ('w \<times> counters, Firewall list) op" where
  "prom_ListNodeBalancerFirewalls base a = counted ''ListNodeBalancerFirewalls'' (cl_ListNodeBalancerFirewalls base a)"

definition prom_ListNodeBalancerNodes :: "'w client \<Rightarrow> int \<Rightarrow> int \<Rightarrow> ('w \<times> counters, NodeBalancerNode list) op" where
  "prom_ListNodeBalancerNodes base a b = counted ''ListNodeBalancerNodes'' (cl_ListNodeBalancerNodes base a b)"

definition prom_ListNodeBalancers :: "'w client \<Rightarrow> string \<Rightarrow> ('w \<times> counters, NodeBalancer list) op" where
  "prom_ListNodeBalancers base a = counted ''ListNodeBalancers'' (cl_ListNodeBalancers base a)"

definition prom_ListVPCIPAddresses :: "'w client \<Rightarrow> int \<Rightarrow> string \<Rightarrow> ('w \<times> counters, VPCIP list) op" where
  "prom_ListVPCIPAddresses base a b = counted ''ListVPCIPAddresses'' (cl_ListVPCIPAddresses base a b)"

definition prom_ListVPCIPv6Addresses :: "'w client \<Rightarrow> int \<Rightarrow> string \<Rightarrow> ('w \<times> counters, VPCIP list) op" where
  "prom_ListVPCIPv6Addresses base a b = counted ''ListVPCIPv6Addresses'' (cl_ListVPCIPv6Addresses base a b)"

definition prom_ListVPCSubnets :: "'w client \<Rightarrow> int \<Rightarrow> ('w \<times> counters, VPCSubnet list) op" where
  "prom_ListVPCSubnets base a = counted ''ListVPCSubnets'' (cl_ListVPCSubnets base a)"

definition prom_ListVPCs :: "'w client \<Rightarrow> ('w \<times> counters, VPC list) op" where
  "prom_ListVPCs base = counted ''ListVPCs'' (cl_ListVPCs base)"

definition prom_RebuildNodeBalancerConfig :: "'w client \<Rightarrow> int \<Rightarrow> int \<Rightarrow> ConfigOptions \<Rightarrow> ('w \<times> counters, unit) op" where
  "prom_RebuildNodeBalancerConfig base a b c = counted ''RebuildNodeBalancerConfig'' (cl_RebuildNodeBalancerConfig base a b c)"

definition prom_UpdateFirewallRules :: "'w client \<Rightarrow> int \<Rightarrow> FirewallRules \<Rightarrow> ('w \<times> counters, unit) op" where
  "prom_UpdateFirewallRules base a b = counted ''UpdateFirewallRules'' (cl_UpdateFirewallRules base a b)"

definition prom_UpdateInstanceConfigInterface :: "'w client \<Rightarrow> int \<Rightarrow> int \<Rightarrow> int \<Rightarrow> string list \<Rightarrow> ('w \<times> counters, unit) op" where
  "prom_UpdateInstanceConfigInterface base a b c d = counted ''UpdateInstanceConfigInterface'' (cl_UpdateInstanceConfigInterface base a b c d)"

definition prom_UpdateInterface :: "'w client \<Rightarrow> int \<Rightarrow> int \<Rightarrow> string list \<Rightarrow> ('w \<times> counters, unit) op" where
  "prom_UpdateInterface base a b c = counted ''UpdateInterface'' (cl_UpdateInterface base a b c)"

definition prom_UpdateNodeBalancer :: "'w client \<Rightarrow> int \<Rightarrow> NodeBalancerUpdateOptions \<Rightarrow> ('w \<times> counters, NodeBalancer) op" where
  "prom_UpdateNodeBalancer base a b = counted ''UpdateNodeBalancer'' (cl_UpdateNodeBalancer base a b)"

definition NewClientWithPrometheus :: "'w client \<Rightarrow> ('w \<times> counters) client" where
  "NewClientWithPrometheus base = \<lparr>
     cl_GetInstance = prom_GetInstance base,
     cl_ListInstances = prom_ListInstances base,
     cl_ListInstanceConfigs = prom_ListInstanceConfigs base,
     cl_UpdateInstanceConfigInterface = prom_UpdateInstanceConfigInterface base,
     cl_ListInterfaces = prom_ListInterfaces base,
     cl_UpdateInterface = prom_UpdateInterface base,
     cl_GetVPC = prom_GetVPC base,
     cl_GetVPCSubnet = prom_GetVPCSubnet base,
     cl_ListVPCs = prom_ListVPCs base,
     cl_ListVPCIPAddresses = prom_ListVPCIPAddresses base,
     cl_ListVPCIPv6Addresses = prom_ListVPCIPv6Addresses base,
     cl_ListVPCSubnets = prom_ListVPCSubnets base,
     cl_CreateNodeBalancer = prom_CreateNodeBalancer base,
     cl_GetNodeBalancer = prom_GetNodeBalancer base,
     cl_UpdateNodeBalancer = prom_UpdateNodeBalancer base,
     cl_DeleteNodeBalancer = prom_DeleteNodeBalancer base,
     cl_ListNodeBalancers = prom_ListNodeBalancers base,
     cl_ListNodeBalancerNodes = prom_ListNodeBalancerNodes base,
     cl_CreateNodeBalancerConfig = prom_CreateNodeBalancerConfig base,
     cl_DeleteNodeBalancerConfig = prom_DeleteNodeBalancerConfig base,
     cl_ListNodeBalancerConfigs = prom_ListNodeBalancerConfigs base,
     cl_RebuildNodeBalancerConfig = prom_RebuildNodeBalancerConfig base,
     cl_ListNodeBalancerFirewalls = prom_ListNodeBalancerFirewalls base,
     cl_ListFirewallDevices = prom_ListFirewallDevices base,
     cl_DeleteFirewallDevice = prom_DeleteFirewallDevice base,
     cl_CreateFirewallDevice = prom_CreateFirewallDevice base,
     cl_CreateFirewall = prom_CreateFirewall base,
     cl_DeleteFirewall = prom_DeleteFirewall base,
     cl_UpdateFirewallRules = prom_UpdateFirewallRules base,
     cl_DeleteReservedIPAddress = prom_DeleteReservedIPAddress base,
     cl_GetProfile = prom_GetProfile base\<rparr>"

lemmas prom_defs = prom_CreateFirewall_def
  prom_CreateFirewallDevice_def
  prom_CreateNodeBalancer_def
  prom_CreateNodeBalancerConfig_def
  prom_DeleteFirewall_def
  prom_DeleteFirewallDevice_def
  prom_DeleteNodeBalancer_def
  prom_DeleteNodeBalancerConfig_def
  prom_DeleteReservedIPAddress_def
  prom_GetInstance_def
  prom_GetNodeBalancer_def
  prom_GetProfile_def
  prom_GetVPC_def
  prom_GetVPCSubnet_def
  prom_ListFirewallDevices_def
  prom_ListInstanceConfigs_def
  prom_ListInstances_def
  prom_ListInterfaces_def
  prom_ListNodeBalancerConfigs_def
  prom_ListNodeBalancerFirewalls_def
  prom_ListNodeBalancerNodes_def
  prom_ListNodeBalancers_def
  prom_ListVPCIPAddresses_def
  prom_ListVPCIPv6Addresses_def
  prom_ListVPCSubnets_def
  prom_ListVPCs_def
  prom_RebuildNodeBalancerConfig_def
  prom_UpdateFirewallRules_def
  prom_UpdateInstanceConfigInterface_def
  prom_UpdateInterface_def
  prom_UpdateNodeBalancer_def

section \<open>Methods that the program does not call\<close>

text \<open>The other methods of the interface \<open>Client\<close>. The options and results that occur nowhere else in
  the program are types of the library, of which nothing is assumed.\<close>

record ('w, 'add, 'create, 'reserve, 'share, 'ip, 'ips) restClient =
  cl_AddInstanceIPAddress :: "int \<Rightarrow> 'add \<Rightarrow> ('w, 'ip) op"
  cl_CreateInstance :: "'create \<Rightarrow> ('w, Instance) op"
  cl_DeleteInstanceIPAddress :: "int \<Rightarrow> string \<Rightarrow> ('w, unit) op"
  cl_GetFirewall :: "int \<Rightarrow> ('w, Firewall) op"
  cl_GetInstanceIPAddresses :: "int \<Rightarrow> ('w, 'ips) op"
  cl_ReserveIPAddress :: "'reserve \<Rightarrow> ('w, 'ip) op"
  cl_ShareIPAddresses :: "'share \<Rightarrow> ('w, unit) op"

definition prom_AddInstanceIPAddress ::
  "('w, 'add, 'create, 'reserve, 'share, 'ip, 'ips) restClient \<Rightarrow> int \<Rightarrow> 'add \<Rightarrow> ('w \<times> counters, 'ip) op" where
  "prom_AddInstanceIPAddress base a b = counted ''AddInstanceIPAddress'' (cl_AddInstanceIPAddress base a b)"

definition prom_CreateInstance ::
  "('w, 'add, 'create, 'reserve, 'share, 'ip, 'ips) restClient \<Rightarrow> 'create \<Rightarrow> ('w \<times> counters, Instance) op" where
  "prom_CreateInstance base a = counted ''CreateInstance'' (cl_CreateInstance base a)"

definition prom_DeleteInstanceIPAddress ::
  "('w, 'add, 'create, 'reserve, 'share, 'ip, 'ips) restClient \<Rightarrow> int \<Rightarrow> string \<Rightarrow> ('w \<times> counters, unit) op" where
  "prom_DeleteInstanceIPAddress base a b = counted ''DeleteInstanceIPAddress'' (cl_DeleteInstanceIPAddress base a b)"

definition prom_GetFirewall ::
  "('w, 'add, 'create, 'reserve, 'share, 'ip, 'ips) restClient \<Rightarrow> int \<Rightarrow> ('w \<times> counters, Firewall) op" where
  "prom_GetFirewall base a = counted ''GetFirewall'' (cl_GetFirewall base a)"

definition prom_GetInstanceIPAddresses ::
  "('w, 'add, 'create, 'reserve, 'share, 'ip, 'ips) restClient \<Rightarrow> int \<Rightarrow> ('w \<times> counters, 'ips) op" where
  "prom_GetInstanceIPAddresses base a = counted ''GetInstanceIPAddresses'' (cl_GetInstanceIPAddresses base a)"

definition prom_ReserveIPAddress ::
  "('w, 'add, 'create, 'reserve, 'share, 'ip, 'ips) restClient \<Rightarrow> 'reserve \<Rightarrow> ('w \<times> counters, 'ip) op" where
  "prom_ReserveIPAddress base a = counted ''ReserveIPAddress'' (cl_ReserveIPAddress base a)"

definition prom_ShareIPAddresses ::
  "('w, 'add, 'create, 'reserve, 'share, 'ip, 'ips) restClient \<Rightarrow> 'share \<Rightarrow> ('w \<times> counters, unit) op" where
  "prom_ShareIPAddresses base a = counted ''ShareIPAddresses'' (cl_ShareIPAddresses base a)"

text \<open>A counted call gives what the call gives, and increments the counter of its method and its
  result.\<close>

lemma counted_result:
  "counted method f (w, log) = (r, w', log') \<longleftrightarrow>
     f w = (r, w') \<and> log' = log @ [(method, case r of Inl _ \<Rightarrow> ''error'' | Inr _ \<Rightarrow> ''ok'')]"
  by (auto simp: counted_def split: prod.splits sum.splits)

section \<open>Simulation\<close>

text \<open>The counter that a call of the trace belongs to.\<close>

fun methodName :: "call \<Rightarrow> string option" where
  "methodName (Inst (Call_GetInstance _)) = Some ''GetInstance''"
| "methodName (Inst (Call_ListInstances _)) = Some ''ListInstances''"
| "methodName (Inst (Call_ListInstanceConfigs _)) = Some ''ListInstanceConfigs''"
| "methodName (Inst (Call_UpdateInstanceConfigInterface _ _ _ _)) = Some ''UpdateInstanceConfigInterface''"
| "methodName (Inst (Call_ListInterfaces _)) = Some ''ListInterfaces''"
| "methodName (Inst (Call_UpdateInterface _ _ _)) = Some ''UpdateInterface''"
| "methodName (Vpc (Call_GetVPC _)) = Some ''GetVPC''"
| "methodName (Vpc (Call_GetVPCSubnet _ _)) = Some ''GetVPCSubnet''"
| "methodName (Vpc Call_ListVPCs) = Some ''ListVPCs''"
| "methodName (Vpc (Call_ListVPCIPAddresses _ _)) = Some ''ListVPCIPAddresses''"
| "methodName (Vpc (Call_ListVPCIPv6Addresses _ _)) = Some ''ListVPCIPv6Addresses''"
| "methodName (Vpc (Call_ListVPCSubnets _)) = Some ''ListVPCSubnets''"
| "methodName (NB (Call_CreateNodeBalancer _)) = Some ''CreateNodeBalancer''"
| "methodName (NB (Call_GetNodeBalancer _)) = Some ''GetNodeBalancer''"
| "methodName (NB (Call_UpdateNodeBalancer _ _)) = Some ''UpdateNodeBalancer''"
| "methodName (NB (Call_DeleteNodeBalancer _)) = Some ''DeleteNodeBalancer''"
| "methodName (NB (Call_ListNodeBalancers _)) = Some ''ListNodeBalancers''"
| "methodName (Cfg (Call_ListNodeBalancerNodes _ _)) = Some ''ListNodeBalancerNodes''"
| "methodName (Cfg (Call_CreateNodeBalancerConfig _ _)) = Some ''CreateNodeBalancerConfig''"
| "methodName (Cfg (Call_DeleteNodeBalancerConfig _ _)) = Some ''DeleteNodeBalancerConfig''"
| "methodName (Cfg (Call_ListNodeBalancerConfigs _)) = Some ''ListNodeBalancerConfigs''"
| "methodName (Cfg (Call_RebuildNodeBalancerConfig _ _ _)) = Some ''RebuildNodeBalancerConfig''"
| "methodName (FW (Call_ListNodeBalancerFirewalls _)) = Some ''ListNodeBalancerFirewalls''"
| "methodName (FW (Call_ListFirewallDevices _)) = Some ''ListFirewallDevices''"
| "methodName (FW (Call_DeleteFirewallDevice _ _)) = Some ''DeleteFirewallDevice''"
| "methodName (FW (Call_CreateFirewallDevice _ _)) = Some ''CreateFirewallDevice''"
| "methodName (FW (Call_CreateFirewall _)) = Some ''CreateFirewall''"
| "methodName (FW (Call_DeleteFirewall _)) = Some ''DeleteFirewall''"
| "methodName (FW (Call_UpdateFirewallRules _ _)) = Some ''UpdateFirewallRules''"
| "methodName (NB (Call_DeleteReservedIPAddress _)) = Some ''DeleteReservedIPAddress''"
| "methodName (Inst Call_GetProfile) = Some ''GetProfile''"
| "methodName (Kube _) = None"
| "methodName (Cidr _) = None"
| "methodName (Queue _) = None"

text \<open>A state of the program with counters, without them.\<close>

definition strip :: "('w \<times> counters) sys \<Rightarrow> 'w sys" where
  "strip s = \<lparr>world = fst (world s), calls = calls s, VpcIDs = VpcIDs s, SubnetIDs = SubnetIDs s,
     st_nodeCache = st_nodeCache s, registeredK8sNodeCache = registeredK8sNodeCache s,
     st_routeCache = st_routeCache s, ipv6ConfiguredRoutes = ipv6ConfiguredRoutes s,
     lb_kubeClient = lb_kubeClient s, metadataLastUpdate = metadataLastUpdate s, nodeLastAdded = nodeLastAdded s\<rparr>"

text \<open>The counters incremented between two states are those of the calls issued.\<close>

definition counters_agree :: "('w \<times> counters) sys \<Rightarrow> ('w \<times> counters) sys \<Rightarrow> bool" where
  "counters_agree s t \<longleftrightarrow> (\<exists>cs log. calls t = calls s @ cs \<and> snd (world t) = snd (world s) @ log \<and>
     map fst log = List.map_filter methodName cs)"

text \<open>\<open>metered m' m\<close>: \<open>m'\<close>, which runs with counters, does what \<open>m\<close> does without.\<close>

definition metered :: "('w \<times> counters, 'a) ccm \<Rightarrow> ('w, 'a) ccm \<Rightarrow> bool" where
  "metered m' m \<longleftrightarrow> (\<forall>s. m (strip s) = (fst (m' s), strip (snd (m' s))) \<and> counters_agree s (snd (m' s)))"

named_theorems metered_intros "rules for computations that run with counters"

lemma strip_simps [simp]:
  "world (strip s) = fst (world s)" "calls (strip s) = calls s" "lb_kubeClient (strip s) = lb_kubeClient s"
  by (simp_all add: strip_def)

lemma counters_agree_refl [simp]: "counters_agree s s"
  by (simp add: counters_agree_def List.map_filter_simps)

lemma counters_agree_trans: "counters_agree s t \<Longrightarrow> counters_agree t u \<Longrightarrow> counters_agree s u"
  unfolding counters_agree_def by (auto simp: List.map_filter_def) 

lemma meteredD:
  assumes "metered m' m" "m' s = (r, t)"
  shows "m (strip s) = (r, strip t)" "counters_agree s t"
  using assms by (auto simp: metered_def dest!: spec [of _ s])

lemma metered_pure [metered_intros]:
  "metered (retE a) (retE a)" "metered (throwE e) (throwE e)" "metered panicE panicE" "metered (liftR r) (liftR r)"
  by (simp_all add: metered_def eff_simps)

lemma metered_getsE [metered_intros]: "(\<And>s. g (strip s) = f s) \<Longrightarrow> metered (getsE f) (getsE g)"
  by (simp add: metered_def eff_simps)

lemma metered_modifyE [metered_intros]:
  assumes "\<And>s. v (strip s) = strip (u s)" "\<And>s. world (u s) = world s" "\<And>s. calls (u s) = calls s"
  shows "metered (modifyE u) (modifyE v)"
  using assms by (simp add: metered_def eff_simps counters_agree_def List.map_filter_simps)

lemma metered_handleE [metered_intros]:
  assumes "metered m' m" "\<And>e. metered (h' e) (h e)" "\<And>a. metered (f' a) (f a)"
  shows "metered (handleE m' h' f') (handleE m h f)"
  unfolding metered_def
proof
  fix s
  obtain r t where m: "m' s = (r, t)" by fastforce
  note first = meteredD [OF assms(1) m]
  show "handleE m h f (strip s) = (fst (handleE m' h' f' s), strip (snd (handleE m' h' f' s))) \<and>
      counters_agree s (snd (handleE m' h' f' s))"
    using first m assms(2,3) counters_agree_trans [OF first(2)]
    by (cases r) (auto simp: handleE_apply metered_def)
qed

lemma metered_bindE [metered_intros]:
  "metered m' m \<Longrightarrow> (\<And>a. metered (f' a) (f a)) \<Longrightarrow> metered (bindE m' f') (bindE m f)"
  unfolding bindE_def by (intro metered_intros)

lemma metered_thenE [metered_intros]: "metered m' m \<Longrightarrow> metered k' k \<Longrightarrow> metered (thenE m' k') (thenE m k)"
  unfolding thenE_def by (intro metered_intros)

lemma metered_wrapE [metered_intros]: "metered m' m \<Longrightarrow> metered (wrapE w m') (wrapE w m)"
  unfolding wrapE_def by (intro metered_intros)

lemma metered_cases [metered_intros]:
  "(b \<Longrightarrow> metered m' m) \<Longrightarrow> (\<not> b \<Longrightarrow> metered k' k) \<Longrightarrow> metered (if b then m' else k') (if b then m else k)"
  "(p = None \<Longrightarrow> metered m' m) \<Longrightarrow> (\<And>x. p = Some x \<Longrightarrow> metered (f' x) (f x)) \<Longrightarrow>
   metered (case p of None \<Rightarrow> m' | Some x \<Rightarrow> f' x) (case p of None \<Rightarrow> m | Some x \<Rightarrow> f x)"
  "(xs = [] \<Longrightarrow> metered m' m) \<Longrightarrow> (\<And>y ys. xs = y # ys \<Longrightarrow> metered (g' y ys) (g y ys)) \<Longrightarrow>
   metered (case xs of [] \<Rightarrow> m' | y # ys \<Rightarrow> g' y ys) (case xs of [] \<Rightarrow> m | y # ys \<Rightarrow> g y ys)"
  "(\<And>x. z = Ok x \<Longrightarrow> metered (h1' x) (h1 x)) \<Longrightarrow> (\<And>e. z = Err e \<Longrightarrow> metered (h2' e) (h2 e)) \<Longrightarrow>
   (z = Panic \<Longrightarrow> metered m' m) \<Longrightarrow>
   metered (case z of Ok x \<Rightarrow> h1' x | Err e \<Rightarrow> h2' e | Panic \<Rightarrow> m') (case z of Ok x \<Rightarrow> h1 x | Err e \<Rightarrow> h2 e | Panic \<Rightarrow> m)"
  by (auto split: option.split list.split res.split)

lemma metered_callE:
  assumes "methodName c = Some n" "f' = counted n f"
  shows "metered (callE c f') (callE c f)"
  using assms
  by (auto simp: metered_def eff_simps counted_def strip_def counters_agree_def List.map_filter_simps
      split: prod.split sum.split)

text \<open>Calls to other services do not touch the counters.\<close>

definition uncounted :: "('w, 'a) op \<Rightarrow> ('w \<times> counters, 'a) op" where
  "uncounted f = (\<lambda>(w, log). case f w of (r, w') \<Rightarrow> (r, (w', log)))"

lemma metered_uncounted:
  assumes "methodName c = None" "f' = uncounted f"
  shows "metered (callE c f') (callE c f)"
  using assms
  by (auto simp: metered_def eff_simps uncounted_def strip_def counters_agree_def List.map_filter_simps
      split: prod.split sum.split)

section \<open>The program with counters\<close>

text \<open>\<open>E'\<close> is the environment \<open>E\<close> with the client replaced by the one that counts.\<close>

definition instrumented :: "('w \<times> counters) env \<Rightarrow> 'w env \<Rightarrow> bool" where
  "instrumented E' E \<longleftrightarrow>
     ev_client E' = NewClientWithPrometheus (ev_client E) \<and> ev_opts E' = ev_opts E \<and>
     (\<forall>k. ku_Config (ev_kube E') k = uncounted (ku_Config (ev_kube E) k)) \<and>
     (\<forall>k. ku_NewForConfig (ev_kube E') k = uncounted (ku_NewForConfig (ev_kube E) k)) \<and>
     (\<forall>a b. ku_GetService (ev_kube E') a b = uncounted (ku_GetService (ev_kube E) a b))"

lemma metered_client:
  assumes "instrumented E' E"
  shows "metered (api_GetInstance E' a1) (api_GetInstance E a1)"
    and "metered (api_ListInstances E' a2) (api_ListInstances E a2)"
    and "metered (api_ListInstanceConfigs E' a3) (api_ListInstanceConfigs E a3)"
    and "metered (api_UpdateInstanceConfigInterface E' a4 b4 c4 d4) (api_UpdateInstanceConfigInterface E a4 b4 c4 d4)"
    and "metered (api_ListInterfaces E' a5) (api_ListInterfaces E a5)"
    and "metered (api_UpdateInterface E' a6 b6 c6) (api_UpdateInterface E a6 b6 c6)"
    and "metered (api_GetVPC E' a7) (api_GetVPC E a7)"
    and "metered (api_GetVPCSubnet E' a8 b8) (api_GetVPCSubnet E a8 b8)"
    and "metered (api_ListVPCs E') (api_ListVPCs E)"
    and "metered (api_ListVPCIPAddresses E' a10 b10) (api_ListVPCIPAddresses E a10 b10)"
    and "metered (api_ListVPCIPv6Addresses E' a11 b11) (api_ListVPCIPv6Addresses E a11 b11)"
    and "metered (api_ListVPCSubnets E' a12) (api_ListVPCSubnets E a12)"
    and "metered (api_CreateNodeBalancer E' a13) (api_CreateNodeBalancer E a13)"
    and "metered (api_GetNodeBalancer E' a14) (api_GetNodeBalancer E a14)"
    and "metered (api_UpdateNodeBalancer E' a15 b15) (api_UpdateNodeBalancer E a15 b15)"
    and "metered (api_DeleteNodeBalancer E' a16) (api_DeleteNodeBalancer E a16)"
    and "metered (api_ListNodeBalancers E' a17) (api_ListNodeBalancers E a17)"
    and "metered (api_ListNodeBalancerNodes E' a18 b18) (api_ListNodeBalancerNodes E a18 b18)"
    and "metered (api_CreateNodeBalancerConfig E' a19 b19) (api_CreateNodeBalancerConfig E a19 b19)"
    and "metered (api_DeleteNodeBalancerConfig E' a20 b20) (api_DeleteNodeBalancerConfig E a20 b20)"
    and "metered (api_ListNodeBalancerConfigs E' a21) (api_ListNodeBalancerConfigs E a21)"
    and "metered (api_RebuildNodeBalancerConfig E' a22 b22 c22) (api_RebuildNodeBalancerConfig E a22 b22 c22)"
    and "metered (api_ListNodeBalancerFirewalls E' a23) (api_ListNodeBalancerFirewalls E a23)"
    and "metered (api_ListFirewallDevices E' a24) (api_ListFirewallDevices E a24)"
    and "metered (api_DeleteFirewallDevice E' a25 b25) (api_DeleteFirewallDevice E a25 b25)"
    and "metered (api_CreateFirewallDevice E' a26 b26) (api_CreateFirewallDevice E a26 b26)"
    and "metered (api_CreateFirewall E' a27) (api_CreateFirewall E a27)"
    and "metered (api_DeleteFirewall E' a28) (api_DeleteFirewall E a28)"
    and "metered (api_UpdateFirewallRules E' a29 b29) (api_UpdateFirewallRules E a29 b29)"
    and "metered (api_DeleteReservedIPAddress E' a30) (api_DeleteReservedIPAddress E a30)"
    and "metered (api_GetProfile E') (api_GetProfile E)"
  using assms unfolding api_defs instrumented_def NewClientWithPrometheus_def
  by (auto intro!: metered_callE simp: prom_defs)

lemma metered_kube:
  assumes "instrumented E' E"
  shows "metered (api_KubeConfig E' a) (api_KubeConfig E a)"
    and "metered (api_NewForConfig E' b) (api_NewForConfig E b)"
    and "metered (api_GetService E' c d) (api_GetService E c d)"
  using assms unfolding api_defs instrumented_def by (auto intro!: metered_uncounted)

lemma metered_lookup:
  assumes "instrumented E' E"
  shows "metered (getNodeBalancerForService E' service) (getNodeBalancerForService E service)"
proof -
  note I = metered_intros metered_client [OF assms] metered_kube [OF assms]
  have opts: "ev_opts E' = ev_opts E" using assms by (simp add: instrumented_def)
  have byHostname: "metered (getNodeBalancerByHostname E' service h) (getNodeBalancerByHostname E service h)" for h
    unfolding getNodeBalancerByHostname_def by (intro I)
  have byIP: "metered (getNodeBalancerByIP E' service ip) (getNodeBalancerByIP E service ip)" for ip
    unfolding getNodeBalancerByIP_def Let_def by (intro I)
  have "metered (nodeBalancerFromIngress E' service is) (nodeBalancerFromIngress E service is)" for "is"
    by (induction "is") (auto simp: Let_def intro!: I byHostname byIP)
  moreover have "metered (retrieveKubeClient E') (retrieveKubeClient E)"
    unfolding retrieveKubeClient_def opts Let_def by (intro I) (simp_all add: strip_def)
  ultimately have byStatus: "metered (getNodeBalancerByStatus E' service) (getNodeBalancerByStatus E service)"
    unfolding getNodeBalancerByStatus_def getLatestServiceLoadBalancerStatus_def withKubeClient_def
    by (intro I) simp_all
  have "metered (getNodeBalancerByID E' service i) (getNodeBalancerByID E service i)" for i
    unfolding getNodeBalancerByID_def by (intro I)
  with byStatus show ?thesis
    unfolding getNodeBalancerForService_def by (intro I)
qed

section \<open>Properties\<close>


lemma uncounted_unavailable [simp]: "uncounted unavailable = unavailable"
  by (rule ext) (simp add: uncounted_def unavailable_def split: prod.split)

definition countingEnv :: "(unit \<times> counters) env" where
  "countingEnv = sampleEnv\<lparr>ev_client := NewClientWithPrometheus (ev_client deleteEnv), ev_opts := ev_opts deleteEnv\<rparr>"


end
