(* ===== verification/Retry_Worker.thy ===== *)
theory Retry_Worker
  imports CCM_Calls
begin

text \<open>
  The contract of the two workers that drain a delaying queue: \<open>processNextDeletion\<close>
  (\<open>service_controller.go\<close>) and \<open>processNext\<close> (\<open>node_controller.go\<close>). A worker
  takes an item; unless the item is to be skipped it handles it, and puts it back for a minute
  later when the Linode API answered with a server error or with too many requests; and it
  marks the item as done.
\<close>

definition retryInterval :: int where
  "retryInterval = 60 * Second"

definition retryable :: "gerr \<Rightarrow> bool" where
  "retryable err = (case asLinodeError err of Some code \<Rightarrow> code \<ge> 500 \<or> code = 429 | None \<Rightarrow> False)"

fun isQueue :: "call \<Rightarrow> bool" where
  "isQueue (Queue _) = True"
| "isQueue _ = False"

lemma filter_isQueue_callE: "\<not> isQueue c \<Longrightarrow> emits (\<lambda>c. \<not> isQueue c) (callE c f)"
  by (rule emits_callE)

lemma not_linodeWrite_queue: "isQueue c \<Longrightarrow> \<not> linodeWrite c"
  by (cases c) auto

lemma queue_done:
  "calls (snd (deferE m (api_QueueDone E q item) s)) = calls (snd (m s)) @ [Queue (Call_QueueDone q item)]"
  "fst (deferE m (api_QueueDone E q item) s) = fst (m s)"
  by (simp_all add: deferE_def api_QueueDone_def queueE_def callE_def split: prod.split)

text \<open>What is put back after handling an item.\<close>

definition requeued :: "queue_name \<Rightarrow> queue_item \<Rightarrow> unit res \<Rightarrow> call list" where
  "requeued q item r = (case r of
     Err e \<Rightarrow> if retryable e then [Queue (Call_QueueAddAfter q item retryInterval)] else []
   | _ \<Rightarrow> [])"

section \<open>The loop of a worker\<close>

text \<open>\<open>for processNext() {}\<close>: the loop ends when the queue has been shut down. Up to \<open>n\<close> items are
  considered; the result says whether the loop has ended.\<close>

fun workerLoop :: "nat \<Rightarrow> ('s, bool) eff \<Rightarrow> ('s, bool) eff" where
  "workerLoop 0 next = retE False"
| "workerLoop (Suc n) next = bindE next (\<lambda>more. if more then workerLoop n next else retE True)"

lemma workerLoop_fuel:
  assumes "workerLoop n next s = (Ok True, t)" "n \<le> k"
  shows "workerLoop k next s = (Ok True, t)"
  using assms
proof (induction n arbitrary: k s)
  case (Suc n)
  from \<open>Suc n \<le> k\<close> obtain k' where "k = Suc k'" "n \<le> k'" by (cases k) auto
  with Suc show ?case by (auto simp: bindE_Ok_iff split: if_splits)
qed (simp add: eff_apply)

text \<open>A worker whose queue holds fewer items after each round, as one that has been shut down, returns.\<close>

lemma workerLoop_ends:
  assumes "\<And>s r t. next s = (r, t) \<Longrightarrow> \<exists>more. r = Ok more \<and> (more \<longrightarrow> pending t < (pending s :: nat))"
  shows "pending s < n \<Longrightarrow> \<exists>t. workerLoop n next s = (Ok True, t)"
proof (induction n arbitrary: s)
  case (Suc n)
  obtain r t where run: "next s = (r, t)" by fastforce
  from assms [OF run] obtain more where "r = Ok more" "more \<longrightarrow> pending t < pending s" by blast
  with run Suc show ?case by (auto simp: bindE_apply eff_apply)
qed simp

context eff_preorder
begin

lemma keeps_workerLoop: "keeps R next \<Longrightarrow> keeps R (workerLoop n next)"
  by (induction n) (auto intro!: keeps_rules)

end

section \<open>The contract\<close>

locale retry_worker =
  fixes E :: "'w env"
    and q :: queue_name
    and processNext :: "('w, bool) ccm"
    and wanted :: "queue_item \<Rightarrow> 'w sys \<Rightarrow> bool"
    and handle :: "queue_item \<Rightarrow> ('w, unit) ccm"
    and finish :: "('w, unit) ccm"
  assumes step: "processNext =
      bindE (api_QueueGet E q) (\<lambda>got. case got of
        None \<Rightarrow> retE False
      | Some item \<Rightarrow>
          deferE (bindE (getsE (wanted item)) (\<lambda>w.
            if w then
              thenE (handleE (handle item)
                (\<lambda>err. if retryable err then api_QueueAddAfter E q item retryInterval else retE ()) retE)
              (thenE finish (retE True))
            else retE True))
          (api_QueueDone E q item))"
    and handle_quiet: "emits (\<lambda>c. \<not> isQueue c) (handle item)"
    and finish_quiet: "emits (\<lambda>c. \<not> isQueue c) finish"
begin

lemma worker_quits:
  assumes "api_QueueGet E q s = (Ok None, s1)"
  shows "processNext s = (Ok False, s1)"
  using assms by (simp add: step bindE_apply eff_apply)

lemma worker_skips:
  assumes "api_QueueGet E q s = (Ok (Some item), s1)" "\<not> wanted item s1"
  shows "fst (processNext s) = Ok True \<and> calls (snd (processNext s)) = calls s1 @ [Queue (Call_QueueDone q item)]"
  using assms by (simp add: step bindE_apply eff_apply queue_done)

lemma worker_protocol:
  assumes "api_QueueGet E q s = (Ok (Some item), s1)" "wanted item s1"
  shows "filter isQueue (calls (snd (processNext s))) =
    filter isQueue (calls s1) @ requeued q item (fst (handle item s1)) @ [Queue (Call_QueueDone q item)]"
proof -
  obtain r s2 where h: "handle item s1 = (r, s2)" by fastforce
  have s2: "filter isQueue (calls s2) = filter isQueue (calls s1)"
    using emits_filter [OF handle_quiet h] .
  have fin: "filter isQueue (calls v) = filter isQueue (calls u)" if "finish u = (x, v)" for u x v
    using emits_filter [OF finish_quiet that] .
  have "filter isQueue (calls (snd (thenE (handleE (handle item)
      (\<lambda>err. if retryable err then api_QueueAddAfter E q item retryInterval else retE ()) retE)
      (thenE finish (retE True)) s1))) = filter isQueue (calls s1) @ requeued q item r"
    using h s2 by (cases r) (auto simp: eff_simps api_QueueAddAfter_def queueE_def requeued_def
        dest!: fin split: prod.split res.split)
  then show ?thesis
    using assms h by (simp add: step bindE_apply eff_apply queue_done)
qed

end

end
