(* ===== verification/Service_Controller.thy ===== *)
theory Service_Controller
  imports NodeBalancers Retry_Worker
begin

text \<open>
  \<open>service_controller.go\<close>: services that are deleted, or stop being load balancers, are
  queued, and a worker deletes their NodeBalancers.
\<close>

definition ServiceTypeLoadBalancer :: string where
  "ServiceTypeLoadBalancer = ''LoadBalancer''"

definition onServiceDelete :: "'w env \<Rightarrow> Service informerObj \<Rightarrow> ('w, unit) ccm" where
  "onServiceDelete E obj =
     (case obj of
        Obj service \<Rightarrow>
          if svc_Type service \<noteq> ServiceTypeLoadBalancer then retE ()
          else api_QueueAdd E ServiceQueue (QService service)
      | _ \<Rightarrow> retE ())"

definition onServiceUpdate ::
  "'w env \<Rightarrow> Service informerObj \<Rightarrow> Service informerObj \<Rightarrow> ('w, unit) ccm" where
  "onServiceUpdate E oldObj newObj =
     (case (newObj, oldObj) of
        (Obj newSvc, Obj oldSvc) \<Rightarrow>
          if svc_Type newSvc \<noteq> ServiceTypeLoadBalancer \<and> svc_Type oldSvc = ServiceTypeLoadBalancer
          then api_QueueAdd E ServiceQueue (QService oldSvc) else retE ()
      | _ \<Rightarrow> retE ())"

definition handleServiceDeleted :: "'w env \<Rightarrow> Service \<Rightarrow> ('w, unit) ccm" where
  "handleServiceDeleted E service =
     EnsureLoadBalancerDeleted E (TrimPrefix (svc_Namespace service) ''kube-system-'') service"

definition processNextDeletion :: "'w env \<Rightarrow> ('w, bool) ccm" where
  "processNextDeletion E =
     bindE (api_QueueGet E ServiceQueue) (\<lambda>got. case got of
       None \<Rightarrow> retE False
     | Some key \<Rightarrow>
         deferE
           (case key of
              QService service \<Rightarrow>
                thenE (handleE (handleServiceDeleted E service)
                  (\<lambda>err. if retryable err then api_QueueAddAfter E ServiceQueue (QService service) retryInterval
                         else retE ()) retE)
                (retE True)
            | _ \<Rightarrow> retE True)
           (api_QueueDone E ServiceQueue key))"

definition serviceWorker :: "'w env \<Rightarrow> nat \<Rightarrow> ('w, bool) ccm" where
  "serviceWorker E n = workerLoop n (processNextDeletion E)"

section \<open>The worker\<close>

definition isServiceItem :: "queue_item \<Rightarrow> bool" where
  "isServiceItem item = (case item of QService _ \<Rightarrow> True | _ \<Rightarrow> False)"

definition handleServiceItem :: "'w env \<Rightarrow> queue_item \<Rightarrow> ('w, unit) ccm" where
  "handleServiceItem E item = (case item of QService service \<Rightarrow> handleServiceDeleted E service | _ \<Rightarrow> retE ())"

lemma emits_deletion:
  assumes "\<And>c. apiRead c \<Longrightarrow> P c" "\<And>c. P (FW c)" "\<And>c. P (NB c)"
  shows "emits P (EnsureLoadBalancerDeleted E cluster svc)"
  unfolding EnsureLoadBalancerDeleted_def api_defs
  by (intro emits_intros emits_firewall_update; simp add: assms)

interpretation service_worker: retry_worker E ServiceQueue "processNextDeletion E"
    "\<lambda>item _. isServiceItem item" "handleServiceItem E" "retE ()" for E :: "'w env"
proof unfold_locales
  show "emits (\<lambda>c. \<not> isQueue c) (handleServiceItem E item)" for item
    unfolding handleServiceItem_def handleServiceDeleted_def
    by (cases item) (auto intro!: emits_intros emits_deletion elim: isQueue.elims)
  show "emits (\<lambda>c. \<not> isQueue c) (retE ())" by (intro emits_intros)
  show "processNextDeletion E = bindE (api_QueueGet E ServiceQueue) (\<lambda>got. case got of
        None \<Rightarrow> retE False
      | Some item \<Rightarrow>
          deferE (bindE (getsE (\<lambda>_. isServiceItem item)) (\<lambda>w.
            if w then
              thenE (handleE (handleServiceItem E item)
                (\<lambda>err. if retryable err then api_QueueAddAfter E ServiceQueue item retryInterval else retE ()) retE)
              (thenE (retE ()) (retE True))
            else retE True))
          (api_QueueDone E ServiceQueue item))"
    unfolding processNextDeletion_def
    by (rule arg_cong [where f = "bindE (api_QueueGet E ServiceQueue)"], rule ext)
      (auto simp: isServiceItem_def handleServiceItem_def thenE_def bindE_getsE split: option.split queue_item.split)
qed

section \<open>Properties\<close>

text \<open>C23: Deletions are retried exactly while the API is unavailable. A service taken from the queue
  is handled once and marked as done, whatever happens. It is put back, for a minute later, when
  and only when the deletion failed with an error of the Linode API of 500 or more or 429; every
  other failure is final. Anything in the queue that is not a service is dropped, and the worker
  stops when the queue is shut down.\<close>

theorem service_deletion_retried:
  assumes "api_QueueGet E ServiceQueue s = (Ok got, s1)"
  shows "case got of
      None \<Rightarrow> processNextDeletion E s = (Ok False, s1)
    | Some (QService svc) \<Rightarrow>
        filter isQueue (calls (snd (processNextDeletion E s))) = filter isQueue (calls s1) @
          requeued ServiceQueue (QService svc) (fst (handleServiceDeleted E svc s1)) @
          [Queue (Call_QueueDone ServiceQueue (QService svc))]
    | Some item \<Rightarrow> calls (snd (processNextDeletion E s)) = calls s1 @ [Queue (Call_QueueDone ServiceQueue item)]"
proof (cases got)
  case None
  then show ?thesis using assms service_worker.worker_quits by simp
next
  case (Some item)
  have skips: "\<not> isServiceItem item \<Longrightarrow>
      calls (snd (processNextDeletion E s)) = calls s1 @ [Queue (Call_QueueDone ServiceQueue item)]"
    using assms Some service_worker.worker_skips by blast
  show ?thesis
  proof (cases "isServiceItem item")
    case True
    then obtain svc where "item = QService svc" by (auto simp: isServiceItem_def split: queue_item.splits)
    then show ?thesis
      using service_worker.worker_protocol [OF assms [unfolded Some] True] Some
      by (simp add: handleServiceItem_def)
  next
    case False
    then show ?thesis using skips Some by (auto simp: isServiceItem_def split: queue_item.splits)
  qed
qed

definition busyEnv :: "unit env" where
  "busyEnv = sampleEnv\<lparr>ev_kube := offlineKube\<lparr>ku_QueueGet := (\<lambda>_ w. (Some (QService oldService), w))\<rparr>,
     ev_client := offlineClient\<lparr>cl_GetNodeBalancer := (\<lambda>_ w. (Inl (LinodeError 503 []), w))\<rparr>\<rparr>"

theorem service_deletion_retried_witness:
  "Queue (Call_QueueAddAfter ServiceQueue (QService oldService) retryInterval) \<in>
     set (calls (snd (processNextDeletion busyEnv (sampleState ()))))"
proof -
  have get: "api_QueueGet busyEnv ServiceQueue (sampleState ()) = (Ok (Some (QService oldService)),
      (sampleState ())\<lparr>calls := [Queue (Call_QueueGet ServiceQueue)]\<rparr>)"
    by (simp add: api_QueueGet_def eff_simps busyEnv_def sampleState_def)
  have "fst (handleServiceDeleted busyEnv oldService ((sampleState ())\<lparr>calls := [Queue (Call_QueueGet ServiceQueue)]\<rparr>)) =
      Err (LinodeError 503 [])"
    by code_simp
  then have "Queue (Call_QueueAddAfter ServiceQueue (QService oldService) retryInterval) \<in>
      set (filter isQueue (calls (snd (processNextDeletion busyEnv (sampleState ())))))"
    using service_deletion_retried [OF get] by (simp add: requeued_def retryable_def asLinodeError_def)
  then show ?thesis by simp
qed

section \<open>Corner cases\<close>

text \<open>A deletion that the informer missed is handed over as a marker, not as a service: it is
  ignored, and the NodeBalancer of that service stays.\<close>

lemma missed_deletion_ignored: "onServiceDelete E (Tombstone svc) s = (Ok (), s)"
  by (simp add: onServiceDelete_def eff_simps)

end
