(* ===== verification/Ttl_Cache.thy ===== *)
theory Ttl_Cache
  imports CCM_Calls
begin

text \<open>
  The contract of the three caches with a time to live: \<open>nodeCache\<close>
  (\<open>services/instances.go\<close>), \<open>k8sNodeCache\<close> (\<open>node_controller.go\<close>) and
  \<open>routeCache\<close> (\<open>route_controller.go\<close>). A refresh does nothing while the content is
  younger than its time to live; otherwise it either replaces the content and stamps it with
  the current time, or leaves both alone.
\<close>

locale ttl_cache =
  fixes content :: "'s \<Rightarrow> 'c"
    and stamp :: "'s \<Rightarrow> int"
    and life :: "'s \<Rightarrow> int"
    and clock :: "'s \<Rightarrow> int"
    and refresh :: "('s, unit) eff"
  assumes refresh_fresh: "Since (clock s) (stamp s) < life s \<Longrightarrow> refresh s = (Ok (), s)"
    and refresh_replaces: "refresh s = (r, t) \<Longrightarrow>
      content t = content s \<and> stamp t = stamp s \<or> r = Ok () \<and> stamp t = clock t"
    and refresh_life: "refresh s = (r, t) \<Longrightarrow> life t = life s"
begin

lemma refresh_all_or_nothing:
  "refresh s = (r, t) \<Longrightarrow> content t \<noteq> content s \<Longrightarrow> r = Ok () \<and> stamp t = clock t"
  using refresh_replaces by blast

lemma refresh_Err: "refresh s = (Err e, t) \<Longrightarrow> content t = content s \<and> stamp t = stamp s"
  using refresh_replaces by fastforce

text \<open>A refresh that stamped the content makes a later one a no-operation, as long as the
  clock has advanced by less than the time to live.\<close>

lemma refresh_stays_fresh:
  assumes "refresh s = (Ok (), t)" "stamp t = clock t"
    and "stamp u = stamp t" "life u = life t" "clock t \<le> clock u" "clock u - clock t < life s"
    and "life s < 2 ^ 63"
  shows "refresh u = (Ok (), u)"
proof (rule refresh_fresh)
  show "Since (clock u) (stamp u) < life u"
    using assms refresh_life [OF assms(1)] by (auto simp: Since_def)
qed

lemma refresh_twice:
  assumes "refresh s = (Ok (), t)" "stamp t = clock t" "0 < life s" "life s < 2 ^ 63"
  shows "refresh t = (Ok (), t)"
  using refresh_stays_fresh [OF assms(1,2), of t] assms(3,4) by simp

end

end
