(* ===== verification/Instances.thy ===== *)
theory Instances
  imports Vpc_Service Ttl_Cache
begin

text \<open>
  \<open>services/instances.go\<close>: the cache of Linode instances with the addresses of each, the
  lookup of the instance behind a Kubernetes node, and the three questions the node lifecycle
  controllers ask (does the instance exist, is it shut down, what are its addresses).
\<close>

section \<open>The cache\<close>

definition getInstanceAddresses ::
  "Options \<Rightarrow> Instance \<Rightarrow> string list \<Rightarrow> (string \<times> NodeAddressType) list \<Rightarrow> nodeIP list" where
  "getInstanceAddresses opts inst vpcips vpcIPv6AddrTypes =
     (let vpcIPv4 = map (\<lambda>ip. \<lparr>nip_ip = ip, nip_ipType = NodeInternalIP\<rparr>)
            (filter (\<lambda>ip. map_of vpcIPv6AddrTypes ip = None) vpcips);
          vpcIPv6Addrs = concat (map (\<lambda>ip. case map_of vpcIPv6AddrTypes ip of
              Some ipType \<Rightarrow> [\<lparr>nip_ip = ip, nip_ipType = ipType\<rparr>] | None \<Rightarrow> []) vpcips);
          public = map (\<lambda>ip. \<lparr>nip_ip = IP_String ip,
              nip_ipType = (if IsPrivate ip (opt_LinodeExternalNetwork opts)
                            then NodeInternalIP else NodeExternalIP)\<rparr>) (inst_IPv4 inst);
          slaac = (if inst_IPv6 inst \<noteq> []
              then [\<lparr>nip_ip = TrimSuffix (inst_IPv6 inst) ''/128'', nip_ipType = NodeExternalIP\<rparr>] else [])
      in vpcIPv4 @ public @ vpcIPv6Addrs @ slaac)"

text \<open>Appending to the slice a map has under a key.\<close>

definition appendAt :: "'k \<Rightarrow> 'v \<Rightarrow> ('k \<times> 'v list) list \<Rightarrow> ('k \<times> 'v list) list" where
  "appendAt k v al = AList.update k ((case map_of al k of Some vs \<Rightarrow> vs | None \<Rightarrow> []) @ [v]) al"

definition lookupList :: "('k \<times> 'v list) list \<Rightarrow> 'k \<Rightarrow> 'v list" where
  "lookupList al k = (case map_of al k of Some vs \<Rightarrow> vs | None \<Rightarrow> [])"

type_synonym vpc_nodes = "(int \<times> string list) list \<times> (string \<times> NodeAddressType) list"

definition addVPCIPv4 :: "VPCIP list \<Rightarrow> vpc_nodes \<Rightarrow> vpc_nodes" where
  "addVPCIPv4 resp acc = foldl (\<lambda>(nodes, types) vpcip.
     case vip_Address vpcip of
       None \<Rightarrow> (nodes, types)
     | Some a \<Rightarrow> (appendAt (vip_LinodeID vpcip) a nodes, types)) acc resp"

definition addVPCIPv6 :: "VPCIP list \<Rightarrow> vpc_nodes \<Rightarrow> vpc_nodes" where
  "addVPCIPv6 resp acc = foldl (\<lambda>acc vpcip.
     let addrType = (if vip_IPv6IsPublic vpcip = Some True then NodeExternalIP else NodeInternalIP) in
     foldl (\<lambda>(nodes, types) a.
       (appendAt (vip_LinodeID vpcip) a nodes, AList.update a addrType types)) acc (vip_IPv6Addresses vpcip))
     acc resp"

definition collectVPCNodes :: "'w env \<Rightarrow> ('w, vpc_nodes) ccm" where
  "collectVPCNodes E =
     foldE (\<lambda>acc name.
       let vpcName = TrimSpace name in
       if vpcName = [] then retE acc
       else
         bindE (wrapE (Wrapf ''failed updating instances cache for VPC %s: %w'' [vpcName])
                 (GetVPCIPAddresses E vpcName)) (\<lambda>resp.
         bindE (wrapE (Wrapf ''failed updating instances cache for VPC %s: %w'' [vpcName])
                 (GetVPCIPv6Addresses E vpcName)) (\<lambda>resp6.
         retE (addVPCIPv6 resp6 (addVPCIPv4 resp acc)))))
     ([], []) (opt_VPCNames (ev_opts E))"

definition newNodes :: "Options \<Rightarrow> vpc_nodes \<Rightarrow> Instance list \<Rightarrow> (int \<times> linodeInstance) list" where
  "newNodes opts vn instances =
     foldl (\<lambda>m inst.
       let ips = lookupList (fst vn) (inst_ID inst) in
       if opt_VPCNames opts \<noteq> [] \<and> ips = [] then m
       else AList.update (inst_ID inst)
              \<lparr>lin_instance = inst, lin_ips = getInstanceAddresses opts inst ips (snd vn)\<rparr> m)
     [] instances"

definition refreshInstances :: "'w env \<Rightarrow> ('w, unit) ccm" where
  "refreshInstances E =
     bindE (nowE E) (\<lambda>now.
     bindE (getsE st_nodeCache) (\<lambda>nc.
     if Since now (nc_lastUpdate nc) < nc_ttl nc then retE ()
     else
       bindE (case ev_MarshalTagFilter E (opt_LinodeTagFilter (ev_opts E)) of
                Inl e \<Rightarrow> throwE (Wrapf ''failed to marshal filter: %w'' [] e) | Inr j \<Rightarrow> retE j) (\<lambda>filterJSON.
       bindE (api_ListInstances E filterJSON) (\<lambda>instances.
       bindE (collectVPCNodes E) (\<lambda>vn.
       bindE (nowE E) (\<lambda>now'.
       modifyE (\<lambda>s. s\<lparr>st_nodeCache := (st_nodeCache s)
         \<lparr>nc_nodes := newNodes (ev_opts E) vn instances, nc_lastUpdate := now'\<rparr>\<rparr>)))))))"

definition NewInstances :: "string option \<Rightarrow> nodeCache" where
  "NewInstances raw = \<lparr>nc_nodes = [], nc_lastUpdate = 0, nc_ttl = Seconds (ttlSeconds raw 15)\<rparr>"

section \<open>Lookup\<close>

text \<open>The nodes of the cache, in the order in which \<open>range\<close> visits the map.\<close>

definition rangeNodes :: "'w env \<Rightarrow> ('w, linodeInstance list) ccm" where
  "rangeNodes E = getsE (\<lambda>s. let nodes = nc_nodes (st_nodeCache s) in
     map snd (visit (ev_rangeOrder E (world s) (length nodes)) nodes))"

definition nodeIPAddresses :: "Node \<Rightarrow> string list" where
  "nodeIPAddresses kNode = map na_Address
     (filter (\<lambda>a. na_Type a = NodeExternalIP \<or> na_Type a = NodeInternalIP) (node_Addresses kNode))"

definition linodeByIP :: "'w env \<Rightarrow> Node \<Rightarrow> ('w, Instance) ccm" where
  "linodeByIP E kNode =
     (let kNodeAddresses = nodeIPAddresses kNode in
      if kNodeAddresses = [] then throwE (Errorf ''no IP address found on node %s'' [node_Name kNode])
      else
        bindE (rangeNodes E) (\<lambda>nodes.
        case find_first (\<lambda>n. \<exists>ip\<in>set (inst_IPv4 (lin_instance n)).
               \<not> IsPrivate ip (opt_LinodeExternalNetwork (ev_opts E)) \<and> IP_String ip \<in> set kNodeAddresses) nodes of
          Some n \<Rightarrow> retE (lin_instance n)
        | None \<Rightarrow> throwE InstanceNotFound))"

definition linodeByName :: "'w env \<Rightarrow> string \<Rightarrow> ('w, Instance option) ccm" where
  "linodeByName E nodeName =
     bindE (rangeNodes E) (\<lambda>nodes.
     retE (map_option lin_instance (find_first (\<lambda>n. inst_Label (lin_instance n) = nodeName) nodes)))"

definition linodeByID :: "int \<Rightarrow> ('w, Instance) ccm" where
  "linodeByID i =
     bindE (getsE (\<lambda>s. map_of (nc_nodes (st_nodeCache s)) i)) (\<lambda>n.
     case n of Some l \<Rightarrow> retE (lin_instance l) | None \<Rightarrow> throwE InstanceNotFound)"

definition ListAllInstances :: "'w env \<Rightarrow> ('w, Instance list) ccm" where
  "ListAllInstances E =
     thenE (refreshInstances E) (bindE (rangeNodes E) (\<lambda>nodes. retE (map lin_instance nodes)))"

definition findInCache :: "'w env \<Rightarrow> Node \<Rightarrow> ('w, Instance) ccm" where
  "findInCache E node =
     (let providerID = node_ProviderID node in
      if providerID \<noteq> [] \<and> IsLinodeProviderID providerID then
        bindE (liftR (ParseProviderID providerID)) (\<lambda>i. linodeByID i)
      else
        bindE (linodeByName E (node_Name node)) (\<lambda>found.
        case found of Some inst \<Rightarrow> retE inst | None \<Rightarrow> linodeByIP E node))"

definition LookupLinode :: "'w env \<Rightarrow> Node \<Rightarrow> ('w, Instance) ccm" where
  "LookupLinode E node = thenE (refreshInstances E) (findInCache E node)"

section \<open>InstancesV2\<close>

definition InstanceExists :: "'w env \<Rightarrow> Node \<Rightarrow> ('w, bool) ccm" where
  "InstanceExists E node =
     handleE (LookupLinode E node)
       (\<lambda>err. if isInstanceNotFound err then retE False else throwE err)
       (\<lambda>_. retE True)"

definition InstanceShutdown :: "'w env \<Rightarrow> Node \<Rightarrow> ('w, bool) ccm" where
  "InstanceShutdown E node =
     bindE (LookupLinode E node) (\<lambda>inst.
     retE (inst_Status inst = InstanceOffline \<or> inst_Status inst = InstanceShuttingDown))"

definition getLinodeAddresses :: "'w env \<Rightarrow> Node \<Rightarrow> ('w, nodeIP list) ccm" where
  "getLinodeAddresses E node =
     bindE (LookupLinode E node) (\<lambda>inst.
     bindE (getsE (\<lambda>s. map_of (nc_nodes (st_nodeCache s)) (inst_ID inst))) (\<lambda>n.
     case n of
       None \<Rightarrow> throwE (InstanceNoIPAddresses (inst_ID inst))
     | Some l \<Rightarrow> if lin_ips l = [] then throwE (InstanceNoIPAddresses (inst_ID inst))
                 else retE (lin_ips l)))"

record instanceMetadata =
  meta_ProviderID :: string
  meta_NodeAddresses :: "NodeAddress list"
  meta_InstanceType :: string
  meta_Region :: string

text \<open>The internal addresses the kubelet set that are not known yet.\<close>

fun kubeletAddresses :: "string list \<Rightarrow> NodeAddress list \<Rightarrow> NodeAddress list" where
  "kubeletAddresses uniqueAddrs [] = []"
| "kubeletAddresses uniqueAddrs (addr # addrs) =
     (if na_Address addr \<in> set uniqueAddrs then kubeletAddresses uniqueAddrs addrs
      else if na_Type addr = NodeInternalIP then
        \<lparr>na_Type = na_Type addr, na_Address = na_Address addr\<rparr> #
          kubeletAddresses (na_Address addr # uniqueAddrs) addrs
      else kubeletAddresses uniqueAddrs addrs)"

definition metadataAddresses :: "Instance \<Rightarrow> nodeIP list \<Rightarrow> NodeAddress list \<Rightarrow> NodeAddress list" where
  "metadataAddresses linode ips kubelet =
     (let addresses = \<lparr>na_Type = NodeHostName, na_Address = inst_Label linode\<rparr> #
            map (\<lambda>ip. \<lparr>na_Type = nip_ipType ip, na_Address = nip_ip ip\<rparr>) ips
      in addresses @ kubeletAddresses (map na_Address addresses) kubelet)"

definition InstanceMetadata :: "'w env \<Rightarrow> Node \<Rightarrow> ('w, instanceMetadata) ccm" where
  "InstanceMetadata E node =
     bindE (LookupLinode E node) (\<lambda>linode.
     bindE (getLinodeAddresses E node) (\<lambda>ips.
     if ips = [] then throwE (InstanceNoIPAddresses (inst_ID linode))
     else retE \<lparr>meta_ProviderID = ProviderIDPrefix @ Itoa (inst_ID linode),
            meta_NodeAddresses = metadataAddresses linode ips (node_Addresses node),
            meta_InstanceType = inst_Type linode, meta_Region = inst_Region linode\<rparr>))"

section \<open>The cache meets its contract\<close>

lemma leaves_collectVPCNodes:
  fixes f :: "'w sys \<Rightarrow> 'v"
  assumes "\<And>s w cs. f (s\<lparr>world := w, calls := cs\<rparr>) = f s"
    and "\<And>s x. f (s\<lparr>VpcIDs := x\<rparr>) = f s" "\<And>s x. f (s\<lparr>SubnetIDs := x\<rparr>) = f s"
  shows "leaves f (collectVPCNodes E)"
  unfolding collectVPCNodes_def Let_def by (intro leaves_intros leaves_vpc assms)

lemma leaves_nodeCache: "leaves st_nodeCache (collectVPCNodes E)"
  by (rule leaves_collectVPCNodes) simp_all

lemma leaves_refreshInstances:
  fixes f :: "'w sys \<Rightarrow> 'v"
  assumes "\<And>s w cs. f (s\<lparr>world := w, calls := cs\<rparr>) = f s"
    and "\<And>s x. f (s\<lparr>VpcIDs := x\<rparr>) = f s" "\<And>s x. f (s\<lparr>SubnetIDs := x\<rparr>) = f s"
    and "\<And>s x. f (s\<lparr>st_nodeCache := x\<rparr>) = f s"
  shows "leaves f (refreshInstances E)"
  unfolding refreshInstances_def nowE_def api_defs
  by (intro leaves_intros leaves_collectVPCNodes; (cases "ev_MarshalTagFilter E (opt_LinodeTagFilter (ev_opts E))")?;
      auto simp: assms intro!: leaves_intros)

lemma emits_refreshInstances [emits_intros]:
  assumes "\<And>f. P (Inst (Call_ListInstances f))" "\<And>c. P (Vpc c)"
  shows "emits P (refreshInstances E)"
  unfolding refreshInstances_def collectVPCNodes_def api_defs Let_def
  by (intro emits_intros; (cases "ev_MarshalTagFilter E (opt_LinodeTagFilter (ev_opts E))")?;
      auto simp: assms intro!: emits_intros)

text \<open>The load part of a refresh, which only happens once the time to live is over.\<close>

definition loadInstances :: "'w env \<Rightarrow> ('w, Instance list \<times> vpc_nodes) ccm" where
  "loadInstances E =
     bindE (case ev_MarshalTagFilter E (opt_LinodeTagFilter (ev_opts E)) of
              Inl e \<Rightarrow> throwE (Wrapf ''failed to marshal filter: %w'' [] e) | Inr j \<Rightarrow> retE j) (\<lambda>filterJSON.
     bindE (api_ListInstances E filterJSON) (\<lambda>instances.
     bindE (collectVPCNodes E) (\<lambda>vn. retE (instances, vn))))"

lemma leaves_loadInstances: "leaves st_nodeCache (loadInstances E)"
  unfolding loadInstances_def api_defs
  by (intro leaves_intros leaves_nodeCache; cases "ev_MarshalTagFilter E (opt_LinodeTagFilter (ev_opts E))")
     (auto intro!: leaves_intros)

lemma refreshInstances_alt:
  "refreshInstances E s =
     (if Since (ev_Now E (world s)) (nc_lastUpdate (st_nodeCache s)) < nc_ttl (st_nodeCache s) then (Ok (), s)
      else case loadInstances E s of
        (Ok (instances, vn), t) \<Rightarrow> (Ok (), t\<lparr>st_nodeCache := (st_nodeCache t)
          \<lparr>nc_nodes := newNodes (ev_opts E) vn instances, nc_lastUpdate := ev_Now E (world t)\<rparr>\<rparr>)
      | (Err e, t) \<Rightarrow> (Err e, t)
      | (Panic, t) \<Rightarrow> (Panic, t))"
  by (simp add: refreshInstances_def loadInstances_def nowE_def eff_simps split: prod.split res.split)

interpretation instances_cache: ttl_cache
  "\<lambda>s. nc_nodes (st_nodeCache s)" "\<lambda>s. nc_lastUpdate (st_nodeCache s)" "\<lambda>s. nc_ttl (st_nodeCache s)"
  "\<lambda>s. ev_Now E (world s)" "refreshInstances E" for E :: "'w env"
  by unfold_locales
     (auto simp: refreshInstances_alt dest!: leavesD [OF leaves_loadInstances]
       split: if_splits prod.splits res.splits)

section \<open>Invariant: entries are filed under their own ID\<close>

definition cache_wf :: "(int \<times> linodeInstance) list \<Rightarrow> bool" where
  "cache_wf nodes \<longleftrightarrow> distinct (map fst nodes) \<and> (\<forall>(i, l)\<in>set nodes. inst_ID (lin_instance l) = i)"

lemma cache_wf_update:
  "cache_wf nodes \<Longrightarrow> inst_ID (lin_instance l) = i \<Longrightarrow> cache_wf (AList.update i l nodes)"
  using set_AList_update [of i l nodes] by (fastforce simp: cache_wf_def distinct_update)

lemma cache_wf_map_of: "cache_wf nodes \<Longrightarrow> map_of nodes i = Some l \<Longrightarrow> inst_ID (lin_instance l) = i"
  by (auto simp: cache_wf_def dest!: map_of_SomeD)

lemma newNodes_wf: "cache_wf (newNodes opts vn instances)"
proof -
  have "cache_wf (foldl (\<lambda>m inst.
       let ips = lookupList (fst vn) (inst_ID inst) in
       if opt_VPCNames opts \<noteq> [] \<and> ips = [] then m
       else AList.update (inst_ID inst)
              \<lparr>lin_instance = inst, lin_ips = getInstanceAddresses opts inst ips (snd vn)\<rparr> m) acc instances)"
    if "cache_wf acc" for acc
    using that by (induction instances arbitrary: acc) (simp_all add: Let_def cache_wf_update)
  moreover have "cache_wf []" by (simp add: cache_wf_def)
  ultimately show ?thesis by (simp add: newNodes_def)
qed

lemma refreshInstances_wf:
  "refreshInstances E s = (r, t) \<Longrightarrow> cache_wf (nc_nodes (st_nodeCache s)) \<Longrightarrow> cache_wf (nc_nodes (st_nodeCache t))"
  by (auto simp: refreshInstances_alt newNodes_wf dest!: leavesD [OF leaves_loadInstances]
      split: if_splits prod.splits res.splits)

text \<open>What the rebuilt cache holds: with VPCs configured, the instances that have an address
  in one of them, otherwise all; the last one for an ID.\<close>

definition cached :: "Options \<Rightarrow> vpc_nodes \<Rightarrow> Instance \<Rightarrow> bool" where
  "cached opts vn inst \<longleftrightarrow> opt_VPCNames opts = [] \<or> lookupList (fst vn) (inst_ID inst) \<noteq> []"

lemma newNodes_content:
  "map_of (newNodes opts vn instances) i =
     map_option (\<lambda>inst. \<lparr>lin_instance = inst,
         lin_ips = getInstanceAddresses opts inst (lookupList (fst vn) i) (snd vn)\<rparr>)
       (find_first (\<lambda>inst. inst_ID inst = i \<and> cached opts vn inst) (rev instances))"
  by (induction instances rule: rev_induct)
     (auto simp: newNodes_def Let_def cached_def split: option.splits)

section \<open>Lookups\<close>

lemma leaves_lookups:
  "leaves f (linodeByID i)" "leaves f (linodeByName E n)" "leaves f (linodeByIP E node)"
  unfolding linodeByID_def linodeByName_def linodeByIP_def rangeNodes_def Let_def
  by (intro leaves_intros)+

lemma leaves_findInCache: "leaves f (findInCache E node)"
  unfolding findInCache_def Let_def by (intro leaves_intros leaves_lookups)

lemma emits_findInCache: "emits P (findInCache E node)"
  unfolding findInCache_def linodeByID_def linodeByName_def linodeByIP_def rangeNodes_def Let_def
  by (intro emits_intros)

lemma linodeByID_iff:
  "linodeByID i s = (case map_of (nc_nodes (st_nodeCache s)) i of
     Some l \<Rightarrow> (Ok (lin_instance l), s) | None \<Rightarrow> (Err InstanceNotFound, s))"
  by (simp add: linodeByID_def eff_simps split: option.split)

lemma LookupLinode_providerID:
  assumes "ParseProviderID (node_ProviderID node) = Ok i"
  shows "LookupLinode E node = thenE (refreshInstances E) (linodeByID i)"
proof -
  have "IsLinodeProviderID (node_ProviderID node)" "node_ProviderID node \<noteq> []"
    using ParseProviderID_Ok [OF assms] by (auto simp: IsLinodeProviderID_def) (simp add: ProviderIDPrefix_def)
  with assms show ?thesis by (simp add: LookupLinode_def findInCache_def)
qed

lemma LookupLinode_wf:
  assumes "LookupLinode E node s = (r, t)" "cache_wf (nc_nodes (st_nodeCache s))"
  shows "cache_wf (nc_nodes (st_nodeCache t))"
proof -
  obtain r1 s1 where ref: "refreshInstances E s = (r1, s1)" by fastforce
  have wf: "cache_wf (nc_nodes (st_nodeCache s1))" using ref assms(2) by (rule refreshInstances_wf)
  show ?thesis
    using assms(1) ref wf leavesD [OF leaves_findInCache [of st_nodeCache E node]]
    by (cases r1) (auto simp: LookupLinode_def thenE_apply)
qed

section \<open>Addresses\<close>

lemma find_first_map: "find_first P (map f xs) = map_option f (find_first (\<lambda>x. P (f x)) xs)"
  by (induction xs) auto

lemma kubeletAddresses_sound:
  "a \<in> set (kubeletAddresses u as) \<Longrightarrow> a \<in> set as \<and> na_Type a = NodeInternalIP \<and> na_Address a \<notin> set u"
  by (induction u as rule: kubeletAddresses.induct) (auto split: if_splits)

lemma kubeletAddresses_complete:
  "a \<in> set as \<Longrightarrow> na_Type a = NodeInternalIP \<Longrightarrow>
   na_Address a \<in> set u \<union> na_Address ` set (kubeletAddresses u as)"
  by (induction u as rule: kubeletAddresses.induct) (auto split: if_splits)

lemma kubeletAddresses_distinct: "distinct (map na_Address (kubeletAddresses u as))"
  by (induction u as rule: kubeletAddresses.induct) (auto dest!: kubeletAddresses_sound)

section \<open>Properties\<close>


definition instanceEnv :: "int env" where
  "instanceEnv = sampleEnv\<lparr>ev_Now := (\<lambda>w. w), ev_client := offlineClient\<lparr>
     cl_ListInstances := (\<lambda>_ w. (Inr [\<lparr>inst_ID = 42, inst_Label = ''n1'', inst_Status = ''running'',
       inst_IPv4 = [[192, 0, 2, 7], [192, 168, 128, 1]], inst_IPv6 = ''2001:db8::7/128'', inst_HostUUID = ''u1'',
       inst_Type = ''g6-standard-1'', inst_Region = ''us-ord'', inst_InterfaceGeneration = []\<rparr>], w))\<rparr>\<rparr>"


text \<open>C34: While the cache is younger than its time to live, looking up a node issues no
  call: after a successful refresh at one time, every lookup before that time plus the time
  to live is answered from the cache.\<close>

theorem LookupLinode_cached:
  assumes "refreshInstances E s = (Ok (), t)" "nc_lastUpdate (st_nodeCache t) = ev_Now E (world t)"
    and "st_nodeCache u = st_nodeCache t" "ev_Now E (world t) \<le> ev_Now E (world u)"
    and "ev_Now E (world u) - ev_Now E (world t) < nc_ttl (st_nodeCache s)"
    and "nc_ttl (st_nodeCache s) < 2 ^ 63"
  shows "issued (LookupLinode E node) u = []"
proof -
  have "refreshInstances E u = (Ok (), u)"
    using assms by (intro instances_cache.refresh_stays_fresh [OF assms(1,2)]) simp_all
  then show ?thesis
    using emits_none [OF emits_findInCache [of "\<lambda>_. False" E node], of u]
    by (simp add: issued_def LookupLinode_def thenE_apply)
qed

theorem LookupLinode_cached_witness:
  "issued (LookupLinode instanceEnv sampleNode) (snd (refreshInstances instanceEnv (sampleState (10 ^ 18)))) = []"
proof (rule LookupLinode_cached [OF prod_eqI])
  show "fst (refreshInstances instanceEnv (sampleState (10 ^ 18))) =
      fst (Ok (), snd (refreshInstances instanceEnv (sampleState (10 ^ 18))))"
    by code_simp
  show "nc_lastUpdate (st_nodeCache (snd (refreshInstances instanceEnv (sampleState (10 ^ 18))))) =
      ev_Now instanceEnv (world (snd (refreshInstances instanceEnv (sampleState (10 ^ 18)))))"
    by code_simp
qed (simp_all add: sampleState_def Second_def)

text \<open>A node whose provider ID names Linode \<open>i\<close> is reported as missing only when a
  successful refresh no longer lists that Linode. When the refresh fails the error is
  returned, so that an unreachable API never makes a node look deleted.\<close>

lemma InstanceExists_exact:
  assumes "ParseProviderID (node_ProviderID node) = Ok i"
  shows "case refreshInstances E s of
     (Ok _, t) \<Rightarrow> InstanceExists E node s = (Ok (map_of (nc_nodes (st_nodeCache t)) i \<noteq> None), t)
   | (Err e, t) \<Rightarrow> InstanceExists E node s = (if isInstanceNotFound e then Ok False else Err e, t)
   | (Panic, t) \<Rightarrow> InstanceExists E node s = (Panic, t)"
  using assms
  by (auto simp: InstanceExists_def LookupLinode_providerID linodeByID_iff eff_simps isInstanceNotFound_def
      split: prod.split res.split option.split)

lemma InstanceExists_exact_witness:
  "fst (InstanceExists instanceEnv sampleNode (sampleState (10 ^ 18))) = Ok True"
proof -
  have p: "ParseProviderID (node_ProviderID sampleNode) = Ok 42" by code_simp
  have "fst (refreshInstances instanceEnv (sampleState (10 ^ 18))) = Ok ()"
    "map_of (nc_nodes (st_nodeCache (snd (refreshInstances instanceEnv (sampleState (10 ^ 18)))))) 42 \<noteq> None"
    by code_simp+
  with InstanceExists_exact [OF p, of instanceEnv "sampleState (10 ^ 18)"] show ?thesis
    by (auto split: prod.splits)
qed





section \<open>Corner cases\<close>

text \<open>A time to live of more than about 292 years overflows to a negative duration, and the
  cache then refreshes on every lookup.\<close>

lemma NewInstances_overflow: "nc_ttl (NewInstances (Some ''9223372037'')) < 0"
  by code_simp

end
