(* ===== verification/Node_Controller.thy ===== *)
theory Node_Controller
  imports Instances Retry_Worker
begin

text \<open>
  \<open>node_controller.go\<close>: the cache of the nodes registered in Kubernetes, and the worker
  that keeps the metadata of the nodes (host UUID, provider ID, private IPv4, public IPv6) in
  line with their Linodes.
\<close>

section \<open>The cache of registered nodes\<close>

definition newK8sNodeCache :: "string option \<Rightarrow> k8sNodeCache" where
  "newK8sNodeCache raw =
     \<lparr>kc_nodes = [], kc_providerIDs = [], kc_lastUpdate = 0, kc_ttl = Seconds (ttlSeconds raw 300)\<rparr>"

definition cacheNode :: "Node \<Rightarrow> k8sNodeCache \<Rightarrow> k8sNodeCache" where
  "cacheNode node c =
     (if node_ProviderID node = [] then c
      else c\<lparr>kc_nodes := AList.update (node_Name node) node (kc_nodes c),
             kc_providerIDs := AList.update (node_ProviderID node) (node_Name node) (kc_providerIDs c)\<rparr>)"

definition updateCache :: "'w env \<Rightarrow> ('w, unit) ccm" where
  "updateCache E =
     bindE (nowE E) (\<lambda>now.
     bindE (getsE registeredK8sNodeCache) (\<lambda>c.
     if Since now (kc_lastUpdate c) < kc_ttl c then retE ()
     else
       handleE (api_ListNodes E) (\<lambda>_. retE ()) (\<lambda>items.
       bindE (nowE E) (\<lambda>stamp.
       modifyE (\<lambda>s.
         s\<lparr>registeredK8sNodeCache := (foldl (\<lambda>c node. cacheNode node c)
             ((registeredK8sNodeCache s)\<lparr>kc_nodes := [], kc_providerIDs := []\<rparr>) items)
             \<lparr>kc_lastUpdate := stamp\<rparr>\<rparr>)))))"

definition addNodeToCache :: "Node \<Rightarrow> ('w, unit) ccm" where
  "addNodeToCache node =
     modifyE (\<lambda>s. s\<lparr>registeredK8sNodeCache := cacheNode node (registeredK8sNodeCache s)\<rparr>)"

definition getNodeLabel :: "k8sNodeCache \<Rightarrow> string \<Rightarrow> string \<Rightarrow> string option" where
  "getNodeLabel c providerID instanceLabel =
     (if map_of (kc_nodes c) instanceLabel \<noteq> None then Some instanceLabel
      else map_of (kc_providerIDs c) providerID)"

definition getProviderID :: "k8sNodeCache \<Rightarrow> string \<Rightarrow> string option" where
  "getProviderID c nodeName = map_option node_ProviderID (map_of (kc_nodes c) nodeName)"

section \<open>Metadata of a node\<close>

definition metadataTTL :: "string option \<Rightarrow> int" where
  "metadataTTL raw = Seconds (ttlSeconds raw 300)"

definition addNodeToQueue :: "'w env \<Rightarrow> Node \<Rightarrow> ('w, unit) ccm" where
  "addNodeToQueue E node =
     bindE (nowE E) (\<lambda>currTime.
     thenE (modifyE (\<lambda>s. s\<lparr>nodeLastAdded := AList.update (node_Name node) currTime (nodeLastAdded s)\<rparr>))
     (api_QueueAdd E NodeQueue (QNode node currTime)))"

text \<open>The event handlers: anything but a node is ignored.\<close>

definition nodeAddFunc :: "'w env \<Rightarrow> Node informerObj \<Rightarrow> ('w, unit) ccm" where
  "nodeAddFunc E obj = (case obj of Obj node \<Rightarrow> addNodeToQueue E node | _ \<Rightarrow> retE ())"

definition nodeUpdateFunc :: "'w env \<Rightarrow> Node informerObj \<Rightarrow> Node informerObj \<Rightarrow> ('w, unit) ccm" where
  "nodeUpdateFunc E oldObj newObj = (case newObj of Obj node \<Rightarrow> addNodeToQueue E node | _ \<Rightarrow> retE ())"

definition LastMetadataUpdate :: "string \<Rightarrow> ('w, int) ccm" where
  "LastMetadataUpdate nodeName =
     getsE (\<lambda>s. case map_of (metadataLastUpdate s) nodeName of Some t \<Rightarrow> t | None \<Rightarrow> 0)"

definition SetLastMetadataUpdate :: "'w env \<Rightarrow> string \<Rightarrow> ('w, unit) ccm" where
  "SetLastMetadataUpdate E nodeName =
     bindE (nowE E) (\<lambda>now.
     modifyE (\<lambda>s. s\<lparr>metadataLastUpdate := AList.update nodeName now (metadataLastUpdate s)\<rparr>))"

definition expectedPrivateIP :: "Options \<Rightarrow> Instance \<Rightarrow> string" where
  "expectedPrivateIP opts linode =
     (case find_first (\<lambda>addr. IsPrivate addr (opt_LinodeExternalNetwork opts)) (inst_IPv4 linode) of
        Some addr \<Rightarrow> IP_String addr | None \<Rightarrow> [])"

text \<open>The fields that are compared, and the copy of the node that is written. Writing to a nil map
  panics.\<close>

definition metadataCurrent :: "Options \<Rightarrow> Instance \<Rightarrow> Node \<Rightarrow> bool" where
  "metadataCurrent opts linode node =
     (getAnn (mapOf (node_Labels node)) AnnLinodeHostUUID = inst_HostUUID linode \<and>
      node_ProviderID node \<noteq> [] \<and>
      getAnn (mapOf (node_Annotations node)) AnnLinodeNodePrivateIP = expectedPrivateIP opts linode \<and>
      getAnn (mapOf (node_Annotations node)) AnnLinodeNodePublicIPv6 = inst_IPv6 linode)"

definition setMap :: "go_map option \<Rightarrow> string \<Rightarrow> string \<Rightarrow> go_map option res" where
  "setMap m k v = bindR (derefR m) (\<lambda>kv. Ok (Some (AList.update k v kv)))"

definition patchNode :: "Options \<Rightarrow> Instance \<Rightarrow> Node \<Rightarrow> Node res" where
  "patchNode opts linode node =
     (let privateIP = expectedPrivateIP opts linode; publicIPv6 = inst_IPv6 linode;
          read = (\<lambda>m k. getAnn (mapOf m) k) in
      bindR (if read (node_Labels node) AnnLinodeHostUUID \<noteq> inst_HostUUID linode
             then setMap (node_Labels node) AnnLinodeHostUUID (inst_HostUUID linode)
             else Ok (node_Labels node)) (\<lambda>labels.
      bindR (if read (node_Annotations node) AnnLinodeNodePrivateIP \<noteq> privateIP \<and> privateIP \<noteq> []
             then setMap (node_Annotations node) AnnLinodeNodePrivateIP privateIP
             else Ok (node_Annotations node)) (\<lambda>anns.
      bindR (if read anns AnnLinodeNodePublicIPv6 \<noteq> publicIPv6 \<and> publicIPv6 \<noteq> []
             then setMap anns AnnLinodeNodePublicIPv6 publicIPv6 else Ok anns) (\<lambda>anns.
      Ok (node\<lparr>node_Labels := labels, node_Annotations := anns,
            node_ProviderID := (if node_ProviderID node = [] then ProviderIDPrefix @ Itoa (inst_ID linode)
                                else node_ProviderID node)\<rparr>)))))"

definition updateOnce :: "'w env \<Rightarrow> Instance \<Rightarrow> string \<Rightarrow> ('w, Node) ccm" where
  "updateOnce E linode name =
     bindE (api_GetNode E name) (\<lambda>nodeResult.
     bindE (liftR (patchNode (ev_opts E) linode nodeResult)) (\<lambda>patched.
     api_UpdateNode E patched))"

definition handleNode :: "'w env \<Rightarrow> int \<Rightarrow> Node \<Rightarrow> ('w, unit) ccm" where
  "handleNode E ttl node =
     bindE (LastMetadataUpdate (node_Name node)) (\<lambda>lastUpdate.
     bindE (nowE E) (\<lambda>now.
     if hasAnn (mapOf (node_Labels node)) AnnLinodeHostUUID \<and>
        hasAnn (mapOf (node_Annotations node)) AnnLinodeNodePrivateIP \<and>
        hasAnn (mapOf (node_Annotations node)) AnnLinodeNodePublicIPv6 \<and> Since now lastUpdate < ttl
     then retE ()
     else
       bindE (LookupLinode E node) (\<lambda>linode.
       if metadataCurrent (ev_opts E) linode node then SetLastMetadataUpdate E (node_Name node)
       else
         bindE (ku_RetryOnConflict (ev_kube E) (updateOnce E linode (node_Name node))) (\<lambda>updatedNode.
         thenE (addNodeToCache updatedNode) (SetLastMetadataUpdate E (node_Name node))))))"

definition processNext :: "'w env \<Rightarrow> int \<Rightarrow> ('w, bool) ccm" where
  "processNext E ttl =
     bindE (api_QueueGet E NodeQueue) (\<lambda>got. case got of
       None \<Rightarrow> retE False
     | Some request \<Rightarrow>
         deferE
           (case request of
              QNode node timestamp \<Rightarrow>
                bindE (getsE (\<lambda>s. map_of (nodeLastAdded s) (node_Name node))) (\<lambda>latest.
                if (case latest of None \<Rightarrow> True | Some latestTimestamp \<Rightarrow> timestamp < latestTimestamp)
                then retE True
                else
                  thenE (handleE (handleNode E ttl node)
                    (\<lambda>err. if retryable err then api_QueueAddAfter E NodeQueue request retryInterval
                           else retE ()) retE)
                  (thenE (updateCache E) (retE True)))
            | _ \<Rightarrow> retE True)
           (api_QueueDone E NodeQueue request))"

definition nodeWorker :: "'w env \<Rightarrow> int \<Rightarrow> nat \<Rightarrow> ('w, bool) ccm" where
  "nodeWorker E ttl n = workerLoop n (processNext E ttl)"

section \<open>Retries on conflict\<close>

text \<open>What \<open>retry.RetryOnConflict\<close> is documented to do: run the function, and again, a bounded
  number of times, as long as it fails with a conflict; the last error is returned.\<close>

fun retryRuns :: "nat \<Rightarrow> ('s, 'a) eff \<Rightarrow> ('s, 'a) eff" where
  "retryRuns 0 m = m"
| "retryRuns (Suc n) m = handleE m (\<lambda>e. if isKubeReason KubeConflict e then retryRuns n m else throwE e) retE"

definition withRetries :: "nat \<Rightarrow> 'w env \<Rightarrow> 'w env" where
  "withRetries n E = E\<lparr>ev_kube := (ev_kube E)\<lparr>ku_RetryOnConflict := retryRuns n\<rparr>\<rparr>"

lemma withRetries_id: "ku_RetryOnConflict (ev_kube E) = retryRuns n \<Longrightarrow> withRetries n E = E"
  by (simp add: withRetries_def)

lemma withRetries_kube [simp]: "ku_RetryOnConflict (ev_kube (withRetries n E)) = retryRuns n"
  by (simp add: withRetries_def)

context eff_preorder
begin

lemma keeps_retryRuns: "keeps R m \<Longrightarrow> keeps R (retryRuns n m)"
  by (induction n) (auto intro!: keeps_rules)

end

section \<open>Calls and frames\<close>

lemma emits_LookupLinode [emits_intros]:
  assumes "\<And>f. P (Inst (Call_ListInstances f))" "\<And>c. P (Vpc c)"
  shows "emits P (LookupLinode E node)"
  unfolding LookupLinode_def by (intro emits_intros emits_findInCache assms)

lemma leaves_LookupLinode:
  fixes f :: "'w sys \<Rightarrow> 'v"
  assumes "\<And>s w cs. f (s\<lparr>world := w, calls := cs\<rparr>) = f s"
    and "\<And>s x. f (s\<lparr>VpcIDs := x\<rparr>) = f s" "\<And>s x. f (s\<lparr>SubnetIDs := x\<rparr>) = f s"
    and "\<And>s x. f (s\<lparr>st_nodeCache := x\<rparr>) = f s"
  shows "leaves f (LookupLinode E node)"
  unfolding LookupLinode_def by (intro leaves_intros leaves_refreshInstances leaves_findInCache assms)

lemma emits_handleNode:
  assumes "\<And>c. apiRead c \<Longrightarrow> P c"
  shows "emits P (handleNode (withRetries n E) ttl node)"
  unfolding handleNode_def updateOnce_def LastMetadataUpdate_def SetLastMetadataUpdate_def addNodeToCache_def
    withRetries_kube api_defs
  by (intro emits_intros emits.keeps_retryRuns; simp add: assms)

lemma emits_updateCache:
  assumes "P (Kube Call_ListNodes)"
  shows "emits P (updateCache E)"
  unfolding updateCache_def api_defs by (intro emits_intros; simp add: assms)

section \<open>The worker\<close>

definition isLatest :: "queue_item \<Rightarrow> 'w sys \<Rightarrow> bool" where
  "isLatest item s = (case item of
     QNode node timestamp \<Rightarrow>
       (case map_of (nodeLastAdded s) (node_Name node) of
          Some latestTimestamp \<Rightarrow> \<not> timestamp < latestTimestamp | None \<Rightarrow> False)
   | _ \<Rightarrow> False)"

definition handleNodeItem :: "'w env \<Rightarrow> int \<Rightarrow> queue_item \<Rightarrow> ('w, unit) ccm" where
  "handleNodeItem E ttl item = (case item of QNode node _ \<Rightarrow> handleNode E ttl node | _ \<Rightarrow> retE ())"

interpretation node_worker: retry_worker "withRetries n E" NodeQueue "processNext (withRetries n E) ttl"
    isLatest "handleNodeItem (withRetries n E) ttl" "updateCache (withRetries n E)"
  for n and E :: "'w env" and ttl
proof unfold_locales
  show "emits (\<lambda>c. \<not> isQueue c) (handleNodeItem (withRetries n E) ttl item)" for item
    unfolding handleNodeItem_def
    by (cases item) (auto intro!: emits_intros emits_handleNode elim: isQueue.elims)
  show "emits (\<lambda>c. \<not> isQueue c) (updateCache (withRetries n E))"
    by (rule emits_updateCache) simp
  show "processNext (withRetries n E) ttl = bindE (api_QueueGet (withRetries n E) NodeQueue) (\<lambda>got. case got of
        None \<Rightarrow> retE False
      | Some item \<Rightarrow>
          deferE (bindE (getsE (isLatest item)) (\<lambda>w.
            if w then
              thenE (handleE (handleNodeItem (withRetries n E) ttl item)
                (\<lambda>err. if retryable err then api_QueueAddAfter (withRetries n E) NodeQueue item retryInterval
                       else retE ()) retE)
              (thenE (updateCache (withRetries n E)) (retE True))
            else retE True))
          (api_QueueDone (withRetries n E) NodeQueue item))"
    unfolding processNext_def
    by (rule arg_cong [where f = "bindE (api_QueueGet (withRetries n E) NodeQueue)"], rule ext,
        simp split: option.split, intro allI impI, rule arg_cong2 [where f = deferE], rule ext)
      (auto simp: isLatest_def handleNodeItem_def bindE_apply eff_apply split: option.split queue_item.split)
qed

section \<open>The cache\<close>

abbreviation fillCache :: "k8sNodeCache \<Rightarrow> Node list \<Rightarrow> k8sNodeCache" where
  "fillCache c items \<equiv> foldl (\<lambda>c node. cacheNode node c) (c\<lparr>kc_nodes := [], kc_providerIDs := []\<rparr>) items"

lemma cacheNode_frame [simp]:
  "kc_ttl (cacheNode node c) = kc_ttl c" "kc_lastUpdate (cacheNode node c) = kc_lastUpdate c"
  by (simp_all add: cacheNode_def)

lemma fillCache_frame [simp]:
  "kc_ttl (foldl (\<lambda>c node. cacheNode node c) c items) = kc_ttl c"
  "kc_lastUpdate (foldl (\<lambda>c node. cacheNode node c) c items) = kc_lastUpdate c"
  by (induction items arbitrary: c) simp_all

lemma updateCache_alt:
  "updateCache E s =
     (let c = registeredK8sNodeCache s in
      if Since (ev_Now E (world s)) (kc_lastUpdate c) < kc_ttl c then (Ok (), s)
      else case ku_ListNodes (ev_kube E) (world s) of
        (Inl e, w) \<Rightarrow> (Ok (), s\<lparr>world := w, calls := calls s @ [Kube Call_ListNodes]\<rparr>)
      | (Inr items, w) \<Rightarrow> (Ok (), s\<lparr>world := w, calls := calls s @ [Kube Call_ListNodes],
          registeredK8sNodeCache := (fillCache c items)\<lparr>kc_lastUpdate := ev_Now E w\<rparr>\<rparr>))"
  by (simp add: updateCache_def nowE_def api_defs eff_simps Let_def split: prod.split sum.split)

interpretation node_cache: ttl_cache
  "\<lambda>s. (kc_nodes (registeredK8sNodeCache s), kc_providerIDs (registeredK8sNodeCache s))"
  "\<lambda>s. kc_lastUpdate (registeredK8sNodeCache s)" "\<lambda>s. kc_ttl (registeredK8sNodeCache s)"
  "\<lambda>s. ev_Now E (world s)" "updateCache E" for E :: "'w env"
  by unfold_locales (auto simp: updateCache_alt Let_def split: if_splits prod.splits sum.splits)

text \<open>The two maps agree: a node is filed under its own name, has a provider ID, and that ID is
  filed; a filed ID leads to a node that is filed.\<close>

definition kc_wf :: "k8sNodeCache \<Rightarrow> bool" where
  "kc_wf c \<longleftrightarrow>
     (\<forall>name node. map_of (kc_nodes c) name = Some node \<longrightarrow>
        node_Name node = name \<and> node_ProviderID node \<noteq> [] \<and>
        map_of (kc_providerIDs c) (node_ProviderID node) \<noteq> None) \<and>
     (\<forall>pid name. map_of (kc_providerIDs c) pid = Some name \<longrightarrow> pid \<noteq> [] \<and> map_of (kc_nodes c) name \<noteq> None)"

lemma kc_wf_cacheNode: "kc_wf c \<Longrightarrow> kc_wf (cacheNode node c)"
  by (auto simp: kc_wf_def cacheNode_def update_conv split: if_splits)

lemma kc_wf_fold: "kc_wf c \<Longrightarrow> kc_wf (foldl (\<lambda>c node. cacheNode node c) c items)"
  by (induction items arbitrary: c) (simp_all add: kc_wf_cacheNode)

lemma kc_wf_stamp [simp]: "kc_wf (c\<lparr>kc_lastUpdate := x\<rparr>) = kc_wf c"
  by (simp add: kc_wf_def)

lemma kc_wf_empty: "kc_wf (c\<lparr>kc_nodes := [], kc_providerIDs := []\<rparr>)"
  by (simp add: kc_wf_def)

section \<open>The patch\<close>

lemma setMap_Ok: "setMap m k v = Ok m' \<Longrightarrow> getAnn (mapOf m') k' = (if k' = k then v else getAnn (mapOf m) k')"
  by (auto simp: setMap_def res_simps getAnn_def mapOf_def update_conv split: option.splits)

text \<open>Setting an entry unless it is up to date, as the code does.\<close>

lemma setMap_if_Ok:
  assumes "(if getAnn (mapOf m) k \<noteq> v \<and> b then setMap m k v else Ok m) = Ok m'"
  shows "getAnn (mapOf m') k' = (if k' = k \<and> b then v else getAnn (mapOf m) k')"
  using assms setMap_Ok [of m k v m' k'] by (auto split: if_splits)

lemma metadata_keys_differ: "AnnLinodeNodePublicIPv6 \<noteq> AnnLinodeNodePrivateIP"
  by (simp add: annotation_defs)

lemma patchNode_Ok:
  assumes "patchNode opts linode node = Ok node'"
  shows "getAnn (mapOf (node_Labels node')) k =
      (if k = AnnLinodeHostUUID then inst_HostUUID linode else getAnn (mapOf (node_Labels node)) k)"
    "getAnn (mapOf (node_Annotations node')) k =
      (if k = AnnLinodeNodePrivateIP \<and> expectedPrivateIP opts linode \<noteq> [] then expectedPrivateIP opts linode
       else if k = AnnLinodeNodePublicIPv6 \<and> inst_IPv6 linode \<noteq> [] then inst_IPv6 linode
       else getAnn (mapOf (node_Annotations node)) k)"
    "node_ProviderID node' = (if node_ProviderID node = [] then ProviderIDPrefix @ Itoa (inst_ID linode)
      else node_ProviderID node)"
    "node_Name node' = node_Name node"
proof -
  let ?ip = "expectedPrivateIP opts linode" and ?v6 = "inst_IPv6 linode"
  from assms obtain labels a1 a2 where
    l: "(if getAnn (mapOf (node_Labels node)) AnnLinodeHostUUID \<noteq> inst_HostUUID linode \<and> True
         then setMap (node_Labels node) AnnLinodeHostUUID (inst_HostUUID linode) else Ok (node_Labels node)) = Ok labels"
    and a1: "(if getAnn (mapOf (node_Annotations node)) AnnLinodeNodePrivateIP \<noteq> ?ip \<and> ?ip \<noteq> []
         then setMap (node_Annotations node) AnnLinodeNodePrivateIP ?ip else Ok (node_Annotations node)) = Ok a1"
    and a2: "(if getAnn (mapOf a1) AnnLinodeNodePublicIPv6 \<noteq> ?v6 \<and> ?v6 \<noteq> []
         then setMap a1 AnnLinodeNodePublicIPv6 ?v6 else Ok a1) = Ok a2"
    and n: "node' = node\<lparr>node_Labels := labels, node_Annotations := a2,
      node_ProviderID := (if node_ProviderID node = [] then ProviderIDPrefix @ Itoa (inst_ID linode)
        else node_ProviderID node)\<rparr>"
    unfolding patchNode_def Let_def by (auto simp only: res_simps res.inject simp_thms)
  show "getAnn (mapOf (node_Labels node')) k =
      (if k = AnnLinodeHostUUID then inst_HostUUID linode else getAnn (mapOf (node_Labels node)) k)"
    using setMap_if_Ok [OF l, of k] by (simp add: n)
  show "getAnn (mapOf (node_Annotations node')) k =
      (if k = AnnLinodeNodePrivateIP \<and> ?ip \<noteq> [] then ?ip
       else if k = AnnLinodeNodePublicIPv6 \<and> ?v6 \<noteq> [] then ?v6
       else getAnn (mapOf (node_Annotations node)) k)"
    using setMap_if_Ok [OF a1, of k] setMap_if_Ok [OF a2, of k] metadata_keys_differ by (auto simp: n)
  show "node_ProviderID node' = (if node_ProviderID node = [] then ProviderIDPrefix @ Itoa (inst_ID linode)
      else node_ProviderID node)" "node_Name node' = node_Name node"
    by (simp_all add: n)
qed

lemma patchNode_current: "metadataCurrent opts linode node \<Longrightarrow> patchNode opts linode node = Ok node"
  by (simp add: patchNode_def metadataCurrent_def)

section \<open>Properties\<close>

text \<open>C17: Only the latest request for a node is served. A request that is older than the last one
  queued for that node is dropped without any call but its completion, so that an update that
  was delayed never overwrites a newer one. The latest request is handled, put back for a minute
  later exactly when the Linode API failed with 500 or more or 429, and marked as done.\<close>

theorem node_request_latest_only:
  assumes "ku_RetryOnConflict (ev_kube E) = retryRuns n"
    and "api_QueueGet E NodeQueue s = (Ok (Some (QNode node ts)), s1)"
  shows "if (case map_of (nodeLastAdded s1) (node_Name node) of None \<Rightarrow> True | Some latest \<Rightarrow> ts < latest)
    then fst (processNext E ttl s) = Ok True \<and>
      calls (snd (processNext E ttl s)) = calls s1 @ [Queue (Call_QueueDone NodeQueue (QNode node ts))]
    else filter isQueue (calls (snd (processNext E ttl s))) = filter isQueue (calls s1) @
      requeued NodeQueue (QNode node ts) (fst (handleNode E ttl node s1)) @
      [Queue (Call_QueueDone NodeQueue (QNode node ts))]"
proof -
  have E: "withRetries n E = E" by (rule withRetries_id [OF assms(1)])
  have latest: "isLatest (QNode node ts) s1 \<longleftrightarrow>
      \<not> (case map_of (nodeLastAdded s1) (node_Name node) of None \<Rightarrow> True | Some latest \<Rightarrow> ts < latest)"
    by (simp add: isLatest_def split: option.split)
  show ?thesis
    using node_worker.worker_skips [of n E, unfolded E, OF assms(2)]
      node_worker.worker_protocol [of n E, unfolded E, OF assms(2)]
    by (simp add: latest handleNodeItem_def)
qed

definition staleEnv :: "unit env" where
  "staleEnv = sampleEnv\<lparr>ev_kube := offlineKube\<lparr>ku_QueueGet := (\<lambda>_ w. (Some (QNode sampleNode 5), w)),
     ku_RetryOnConflict := retryRuns 4\<rparr>\<rparr>"

theorem node_request_latest_only_witness:
  "calls (snd (processNext staleEnv 0 ((sampleState ())\<lparr>nodeLastAdded := [(''n1'', 9)]\<rparr>))) =
     [Queue (Call_QueueGet NodeQueue), Queue (Call_QueueDone NodeQueue (QNode sampleNode 5))]"
proof -
  have "api_QueueGet staleEnv NodeQueue ((sampleState ())\<lparr>nodeLastAdded := [(''n1'', 9)]\<rparr>) =
      (Ok (Some (QNode sampleNode 5)), (sampleState ())\<lparr>nodeLastAdded := [(''n1'', 9)],
        calls := [Queue (Call_QueueGet NodeQueue)]\<rparr>)"
    by (simp add: api_QueueGet_def eff_simps staleEnv_def sampleState_def)
  from node_request_latest_only [OF _ this, of 4 0] show ?thesis
    by (simp add: staleEnv_def sampleNode_def)
qed

text \<open>C19: One write brings the metadata up to date. The patched node has the host UUID and the
  addresses of its Linode and a provider ID (its own, when it had one), every other label and
  annotation is as before, and handling it again finds nothing to change. (An address that the
  Linode no longer has must not be on the node, as it is never removed.)\<close>

theorem metadata_converges:
  assumes "patchNode opts linode node = Ok node'"
    and "expectedPrivateIP opts linode = [] \<longrightarrow> getAnn (mapOf (node_Annotations node)) AnnLinodeNodePrivateIP = []"
    and "inst_IPv6 linode = [] \<longrightarrow> getAnn (mapOf (node_Annotations node)) AnnLinodeNodePublicIPv6 = []"
  shows "metadataCurrent opts linode node' \<and> patchNode opts linode node' = Ok node' \<and>
    (node_ProviderID node \<noteq> [] \<longrightarrow> node_ProviderID node' = node_ProviderID node) \<and>
    (\<forall>k. k \<noteq> AnnLinodeHostUUID \<longrightarrow> getAnn (mapOf (node_Labels node')) k = getAnn (mapOf (node_Labels node)) k) \<and>
    (\<forall>k. k \<notin> {AnnLinodeNodePrivateIP, AnnLinodeNodePublicIPv6} \<longrightarrow>
       getAnn (mapOf (node_Annotations node')) k = getAnn (mapOf (node_Annotations node)) k)"
proof -
  note p = patchNode_Ok [OF assms(1)]
  have current: "metadataCurrent opts linode node'"
    using assms(2,3) metadata_keys_differ by (auto simp: metadataCurrent_def p ProviderIDPrefix_def)
  show ?thesis
    using current patchNode_current [OF current] by (auto simp: p)
qed

definition sampleLinode :: Instance where
  "sampleLinode = \<lparr>inst_ID = 42, inst_Label = ''n1'', inst_Status = ''running'', inst_IPv4 = [],
     inst_IPv6 = ''2001:db8::7/128'', inst_HostUUID = ''host-a'', inst_Type = ''g6-standard-1'',
     inst_Region = ''us-ord'', inst_InterfaceGeneration = []\<rparr>"

definition patchedNode :: Node where
  "patchedNode = sampleNode\<lparr>node_Labels := Some [(AnnLinodeHostUUID, ''host-a'')],
     node_Annotations := Some [(AnnLinodeNodePublicIPv6, ''2001:db8::7/128'')]\<rparr>"

theorem metadata_converges_witness: "metadataCurrent defaultOptions sampleLinode patchedNode"
proof -
  have "patchNode defaultOptions sampleLinode sampleNode = Ok patchedNode"
    by (simp add: patchNode_def sampleLinode_def patchedNode_def sampleNode_def expectedPrivateIP_def
        find_first_def setMap_def mapOf_def getAnn_def)
  from metadata_converges [OF this] show ?thesis
    by (simp add: sampleNode_def sampleLinode_def mapOf_def)
qed


definition patchEnv :: "unit env" where
  "patchEnv = sampleEnv\<lparr>ev_Now := (\<lambda>_. 63000000000 * Second),
     ev_client := offlineClient\<lparr>cl_ListInstances := (\<lambda>_ w. (Inr [sampleLinode], w))\<rparr>,
     ev_kube := offlineKube\<lparr>ku_GetNode := (\<lambda>_ w. (Inr sampleNode, w)),
       ku_UpdateNode := (\<lambda>n w. (Inr n, w)), ku_RetryOnConflict := retryRuns 4\<rparr>\<rparr>"


section \<open>Corner cases\<close>

text \<open>An address that the Linode has lost stays on the node: the patch does not remove it, so that the
  node never counts as current and is written again on every refresh.\<close>

lemma lost_private_ip_stays:
  assumes "expectedPrivateIP opts linode = []"
    and "getAnn (mapOf (node_Annotations node)) AnnLinodeNodePrivateIP \<noteq> []"
    and "patchNode opts linode node = Ok node'"
  shows "\<not> metadataCurrent opts linode node'"
  using assms(1,2) patchNode_Ok(2) [OF assms(3), of AnnLinodeNodePrivateIP] metadata_keys_differ
  by (simp add: metadataCurrent_def)

text \<open>A node without annotations makes the update panic.\<close>

lemma nil_annotations_panic:
  assumes "node_Annotations node = None" "node_Labels node = Some labels" "expectedPrivateIP opts linode \<noteq> []"
  shows "patchNode opts linode node = Panic"
  using assms by (simp add: patchNode_def setMap_def mapOf_def getAnn_def)

end
