(* ===== verification/Route_Controller.thy ===== *)
theory Route_Controller
  imports Node_Controller
begin

text \<open>
  \<open>route_controller.go\<close>: the routes of the pod networks. A route to a node is an address range
  on the VPC interface of its Linode. The ranges are read through a cache with a time to live.
  IPv6 routes are only remembered.
\<close>

section \<open>The cache\<close>

definition collectRoutes :: "'w env \<Rightarrow> ('w, (int \<times> VPCIP list) list) ccm" where
  "collectRoutes E =
     foldE (\<lambda>vpcNodes v.
       let vpcName = TrimSpace v in
       if vpcName = [] then retE vpcNodes
       else handleE (GetVPCIPAddresses E vpcName) (\<lambda>_. retE vpcNodes) (\<lambda>resp.
         retE (foldl (\<lambda>m r. appendAt (vip_LinodeID r) r m) vpcNodes resp)))
     [] (opt_VPCNames (ev_opts E))"

definition refreshRoutes :: "'w env \<Rightarrow> ('w, unit) ccm" where
  "refreshRoutes E =
     bindE (nowE E) (\<lambda>now.
     bindE (getsE st_routeCache) (\<lambda>rc.
     if Since now (rc_lastUpdate rc) < rc_ttl rc then retE ()
     else
       bindE (collectRoutes E) (\<lambda>vpcNodes.
       bindE (nowE E) (\<lambda>now'.
       modifyE (\<lambda>s. s\<lparr>st_routeCache := (st_routeCache s)\<lparr>rc_routes := vpcNodes, rc_lastUpdate := now'\<rparr>\<rparr>)))))"

definition newRoutes :: "Options \<Rightarrow> string option \<Rightarrow> routeCache res" where
  "newRoutes opts raw =
     (if opt_EnableRouteController opts \<and> opt_VPCNames opts = [] then
        Err (Errorf ''cannot enable route controller as vpc-names is empty'' [])
      else Ok \<lparr>rc_routes = [], rc_lastUpdate = 0, rc_ttl = Seconds (ttlSeconds raw 60)\<rparr>)"

definition instanceRoutesByID :: "int \<Rightarrow> ('w, VPCIP list) ccm" where
  "instanceRoutesByID i =
     bindE (getsE (\<lambda>s. map_of (rc_routes (st_routeCache s)) i)) (\<lambda>found.
     case found of
       Some instanceRoutes \<Rightarrow> retE instanceRoutes
     | None \<Rightarrow> throwE (Errorf ''no routes found for instance %d'' [Itoa i]))"

definition getInstanceRoutes :: "'w env \<Rightarrow> int \<Rightarrow> ('w, VPCIP list) ccm" where
  "getInstanceRoutes E i = thenE (refreshRoutes E) (instanceRoutesByID i)"

section \<open>Instances of nodes\<close>

definition namedNode :: "string \<Rightarrow> string \<Rightarrow> Node" where
  "namedNode name providerID = \<lparr>node_Name = name, node_Labels = None, node_Annotations = None,
     node_ProviderID = providerID, node_PodCIDRs = [], node_Addresses = [], node_Deleting = False\<rparr>"

definition getInstanceFromName :: "'w env \<Rightarrow> string \<Rightarrow> ('w, Instance) ccm" where
  "getInstanceFromName E name =
     bindE (getsE registeredK8sNodeCache) (\<lambda>c.
     LookupLinode E (namedNode name (case getProviderID c name of Some i \<Rightarrow> i | None \<Rightarrow> [])))"

section \<open>Creating and deleting routes\<close>

text \<open>The entries of an instance, VPC by VPC.\<close>

definition vpcEntries :: "int list \<Rightarrow> VPCIP list \<Rightarrow> VPCIP list" where
  "vpcEntries vpcids instanceRoutes =
     concat (map (\<lambda>vpcid. filter (\<lambda>ir. vip_VPCID ir = vpcid) instanceRoutes) vpcids)"

text \<open>The loop of \<open>CreateRoute\<close>: \<open>None\<close> when the route is already there, otherwise the ranges
  found and the last entry with an address.\<close>

fun scanCreate ::
  "string \<Rightarrow> VPCIP list \<Rightarrow> string list \<Rightarrow> VPCIP option \<Rightarrow> (string list \<times> VPCIP option) option res" where
  "scanCreate dest [] intfRoutes intfVPCIP = Ok (Some (intfRoutes, intfVPCIP))"
| "scanCreate dest (ir # irs) intfRoutes intfVPCIP =
     (if vip_Address ir \<noteq> None then scanCreate dest irs intfRoutes (Some ir)
      else if vip_AddressRange ir = Some dest then Ok None
      else bindR (derefR (vip_AddressRange ir)) (\<lambda>r. scanCreate dest irs (intfRoutes @ [r]) intfVPCIP))"

fun scanDelete ::
  "string \<Rightarrow> VPCIP list \<Rightarrow> string list \<Rightarrow> VPCIP option \<Rightarrow> (string list \<times> VPCIP option) res" where
  "scanDelete dest [] intfRoutes intfVPCIP = Ok (intfRoutes, intfVPCIP)"
| "scanDelete dest (ir # irs) intfRoutes intfVPCIP =
     (if vip_Address ir \<noteq> None then scanDelete dest irs intfRoutes (Some ir)
      else if vip_AddressRange ir = Some dest then scanDelete dest irs intfRoutes intfVPCIP
      else bindR (derefR (vip_AddressRange ir)) (\<lambda>r. scanDelete dest irs (intfRoutes @ [r]) intfVPCIP))"

definition handleInterfaces :: "'w env \<Rightarrow> string list \<Rightarrow> Instance \<Rightarrow> VPCIP \<Rightarrow> ('w, unit) ccm" where
  "handleInterfaces E intfRoutes inst intfVPCIP =
     (if inst_InterfaceGeneration inst = GenerationLinode
      then api_UpdateInterface E (inst_ID inst) (vip_InterfaceID intfVPCIP) intfRoutes
      else api_UpdateInstanceConfigInterface E (inst_ID inst) (vip_ConfigID intfVPCIP)
             (vip_InterfaceID intfVPCIP) intfRoutes)"

definition noInterface :: "string \<Rightarrow> Route \<Rightarrow> gerr" where
  "noInterface verb route =
     Errorf (''unable to '' @ verb @ '' route %s for node %s. no valid interface found'')
       [rt_DestinationCIDR route, rt_TargetNode route]"

definition CreateRoute :: "'w env \<Rightarrow> Route \<Rightarrow> ('w, unit) ccm" where
  "CreateRoute E route =
     bindE (liftR (ParseCIDR (rt_DestinationCIDR route))) (\<lambda>(ipAddr, _).
     if To4 ipAddr = None then
       modifyE (\<lambda>s. s\<lparr>ipv6ConfiguredRoutes := ipv6ConfiguredRoutes s @ [route]\<rparr>)
     else
       bindE (getInstanceFromName E (rt_TargetNode route)) (\<lambda>inst.
       bindE (getInstanceRoutes E (inst_ID inst)) (\<lambda>instanceRoutes.
       bindE (GetAllVPCIDs E) (\<lambda>vpcids.
       bindE (liftR (scanCreate (rt_DestinationCIDR route) (vpcEntries vpcids instanceRoutes) [] None)) (\<lambda>scan.
       case scan of
         None \<Rightarrow> retE ()
       | Some (intfRoutes, None) \<Rightarrow> throwE (noInterface ''add'' route)
       | Some (intfRoutes, Some intfVPCIP) \<Rightarrow>
           handleInterfaces E (intfRoutes @ [rt_DestinationCIDR route]) inst intfVPCIP)))))"

definition DeleteRoute :: "'w env \<Rightarrow> Route \<Rightarrow> ('w, unit) ccm" where
  "DeleteRoute E route =
     bindE (getInstanceFromName E (rt_TargetNode route)) (\<lambda>inst.
     bindE (getInstanceRoutes E (inst_ID inst)) (\<lambda>instanceRoutes.
     bindE (GetAllVPCIDs E) (\<lambda>vpcids.
     bindE (liftR (scanDelete (rt_DestinationCIDR route) (vpcEntries vpcids instanceRoutes) [] None)) (\<lambda>scan.
     case scan of
       (intfRoutes, None) \<Rightarrow> throwE (noInterface ''remove'' route)
     | (intfRoutes, Some intfVPCIP) \<Rightarrow> handleInterfaces E intfRoutes inst intfVPCIP))))"

section \<open>Listing routes\<close>

definition routesOf :: "string \<Rightarrow> int list \<Rightarrow> VPCIP list \<Rightarrow> Route list" where
  "routesOf label vpcids instanceRoutes =
     concat (map (\<lambda>ir. case vip_AddressRange ir of
         Some r \<Rightarrow> [\<lparr>rt_TargetNode = label, rt_DestinationCIDR = r\<rparr>] | None \<Rightarrow> [])
       (filter (\<lambda>ir. vip_Address ir = None) (vpcEntries vpcids instanceRoutes)))"

definition listInstanceRoutes :: "'w env \<Rightarrow> Route list \<Rightarrow> Instance \<Rightarrow> ('w, Route list) ccm" where
  "listInstanceRoutes E configuredRoutes inst =
     bindE (getsE registeredK8sNodeCache) (\<lambda>c.
     case getNodeLabel c (ProviderIDPrefix @ Itoa (inst_ID inst)) (inst_Label inst) of
       None \<Rightarrow> retE configuredRoutes
     | Some label \<Rightarrow>
         handleE (getInstanceRoutes E (inst_ID inst)) (\<lambda>_. retE configuredRoutes) (\<lambda>instanceRoutes.
         bindE (GetAllVPCIDs E) (\<lambda>vpcids.
         retE (configuredRoutes @ routesOf label vpcids instanceRoutes))))"

definition ListRoutes :: "'w env \<Rightarrow> ('w, Route list) ccm" where
  "ListRoutes E =
     bindE (ListAllInstances E) (\<lambda>instances.
     bindE (foldE (listInstanceRoutes E) [] instances) (\<lambda>configuredRoutes.
     bindE (getsE ipv6ConfiguredRoutes) (\<lambda>ipv6.
     retE (configuredRoutes @ ipv6))))"

section \<open>What the loops compute\<close>

definition rangesOf :: "VPCIP list \<Rightarrow> string list" where
  "rangesOf es = List.map_filter (\<lambda>ir. if vip_Address ir = None then vip_AddressRange ir else None) es"

definition interfaceOf :: "VPCIP list \<Rightarrow> VPCIP option" where
  "interfaceOf es = (case filter (\<lambda>ir. vip_Address ir \<noteq> None) es of [] \<Rightarrow> None | is \<Rightarrow> Some (last is))"

text \<open>An entry of the API is an address or a range.\<close>

definition entries_ok :: "VPCIP list \<Rightarrow> bool" where
  "entries_ok es \<longleftrightarrow> (\<forall>ir \<in> set es. vip_Address ir \<noteq> None \<or> vip_AddressRange ir \<noteq> None)"

lemma rangesOf_Cons:
  "rangesOf (ir # es) = (if vip_Address ir \<noteq> None then rangesOf es
     else case vip_AddressRange ir of Some r \<Rightarrow> r # rangesOf es | None \<Rightarrow> rangesOf es)"
  by (simp add: rangesOf_def map_filter_simps split: option.split)

lemma interfaceOf_Cons:
  "interfaceOf (ir # es) = (if vip_Address ir \<noteq> None
     then (case interfaceOf es of None \<Rightarrow> Some ir | Some i \<Rightarrow> Some i) else interfaceOf es)"
  by (simp add: interfaceOf_def split: list.split)

lemma scan_Nil [simp]: "rangesOf [] = []" "interfaceOf [] = None"
  by (simp_all add: rangesOf_def interfaceOf_def map_filter_simps)

lemma scanCreate_spec:
  assumes "entries_ok es"
  shows "scanCreate dest es rs i = Ok (if dest \<in> set (rangesOf es) then None
    else Some (rs @ rangesOf es, case interfaceOf es of None \<Rightarrow> i | Some j \<Rightarrow> Some j))"
  using assms
  by (induction es arbitrary: rs i)
    (auto simp: entries_ok_def rangesOf_Cons interfaceOf_Cons split: option.splits)

lemma scanDelete_spec:
  assumes "entries_ok es"
  shows "scanDelete dest es rs i = Ok (rs @ filter (\<lambda>r. r \<noteq> dest) (rangesOf es),
    case interfaceOf es of None \<Rightarrow> i | Some j \<Rightarrow> Some j)"
  using assms
  by (induction es arbitrary: rs i)
    (auto simp: entries_ok_def rangesOf_Cons interfaceOf_Cons split: option.splits)

section \<open>The route cache\<close>

lemma leaves_collectRoutes:
  fixes f :: "'w sys \<Rightarrow> 'v"
  assumes "\<And>s w cs. f (s\<lparr>world := w, calls := cs\<rparr>) = f s"
    and "\<And>s x. f (s\<lparr>VpcIDs := x\<rparr>) = f s" "\<And>s x. f (s\<lparr>SubnetIDs := x\<rparr>) = f s"
  shows "leaves f (collectRoutes E)"
  unfolding collectRoutes_def Let_def by (intro leaves_intros leaves_vpc assms)

lemma collectRoutes_no_Err: "collectRoutes E s \<noteq> (Err e, t)"
  unfolding collectRoutes_def Let_def
  by (rule foldE_no_Err) (auto simp: eff_simps split: prod.splits res.splits)

lemma refreshRoutes_alt:
  "refreshRoutes E s =
     (if Since (ev_Now E (world s)) (rc_lastUpdate (st_routeCache s)) < rc_ttl (st_routeCache s) then (Ok (), s)
      else case collectRoutes E s of
        (Ok routes, t) \<Rightarrow> (Ok (), t\<lparr>st_routeCache := (st_routeCache t)
          \<lparr>rc_routes := routes, rc_lastUpdate := ev_Now E (world t)\<rparr>\<rparr>)
      | (Err e, t) \<Rightarrow> (Err e, t)
      | (Panic, t) \<Rightarrow> (Panic, t))"
  by (simp add: refreshRoutes_def nowE_def eff_simps split: prod.split res.split)

interpretation routes_cache: ttl_cache
  "\<lambda>s. rc_routes (st_routeCache s)" "\<lambda>s. rc_lastUpdate (st_routeCache s)" "\<lambda>s. rc_ttl (st_routeCache s)"
  "\<lambda>s. ev_Now E (world s)" "refreshRoutes E" for E :: "'w env"
proof -
  have "leaves st_routeCache (collectRoutes E)" by (rule leaves_collectRoutes) simp_all
  from leavesD [OF this] show "ttl_cache (\<lambda>s. rc_routes (st_routeCache s)) (\<lambda>s. rc_lastUpdate (st_routeCache s))
      (\<lambda>s. rc_ttl (st_routeCache s)) (\<lambda>s. ev_Now E (world s)) (refreshRoutes E)"
    by unfold_locales (auto simp: refreshRoutes_alt split: if_splits prod.splits res.splits)
qed

lemma emits_getInstanceRoutes [emits_intros]:
  assumes "\<And>c. P (Vpc c)"
  shows "emits P (getInstanceRoutes E i)"
  unfolding getInstanceRoutes_def refreshRoutes_def collectRoutes_def instanceRoutesByID_def Let_def
  by (intro emits_intros; simp add: assms)

lemma leaves_routes:
  "leaves registeredK8sNodeCache (getInstanceRoutes E i)" "leaves ipv6ConfiguredRoutes (getInstanceRoutes E i)"
proof -
  have "leaves registeredK8sNodeCache (collectRoutes E)" "leaves ipv6ConfiguredRoutes (collectRoutes E)"
    by (rule leaves_collectRoutes; simp)+
  then show "leaves registeredK8sNodeCache (getInstanceRoutes E i)" "leaves ipv6ConfiguredRoutes (getInstanceRoutes E i)"
    unfolding getInstanceRoutes_def refreshRoutes_def instanceRoutesByID_def nowE_def
    by (intro leaves_intros; simp)+
qed

lemma leaves_ListAllInstances:
  "leaves registeredK8sNodeCache (ListAllInstances E)" "leaves ipv6ConfiguredRoutes (ListAllInstances E)"
  unfolding ListAllInstances_def rangeNodes_def by (intro leaves_intros leaves_refreshInstances; simp)+

lemma emits_ListRoutes: "emits (\<lambda>c. \<not> linodeWrite c) (ListRoutes E)"
  unfolding ListRoutes_def ListAllInstances_def rangeNodes_def listInstanceRoutes_def GetAllVPCIDs_def
  by (intro emits_intros; simp)

lemma leaves_ListRoutes: "leaves ipv6ConfiguredRoutes (ListRoutes E)"
  unfolding ListRoutes_def listInstanceRoutes_def GetAllVPCIDs_def
  by (intro leaves_intros leaves_ListAllInstances leaves_routes)

lemma routesOf_entry:
  assumes "r \<in> set (routesOf label vpcids irs)"
  shows "rt_TargetNode r = label"
    "\<exists>ir \<in> set irs. vip_Address ir = None \<and> vip_AddressRange ir = Some (rt_DestinationCIDR r)"
  using assms by (auto simp: routesOf_def vpcEntries_def split: option.splits)

lemma getNodeLabel_registered:
  "kc_wf c \<Longrightarrow> getNodeLabel c pid label = Some name \<Longrightarrow> map_of (kc_nodes c) name \<noteq> None"
  by (auto simp: getNodeLabel_def kc_wf_def split: if_splits)

text \<open>One round of the listing.\<close>

lemma listInstanceRoutes_adds:
  assumes "listInstanceRoutes E b inst u = (Ok b', v)" "kc_wf (registeredK8sNodeCache u)"
  shows "registeredK8sNodeCache v = registeredK8sNodeCache u \<and> ipv6ConfiguredRoutes v = ipv6ConfiguredRoutes u \<and>
    (\<exists>new. b' = b @ new \<and> (\<forall>r \<in> set new.
       map_of (kc_nodes (registeredK8sNodeCache u)) (rt_TargetNode r) \<noteq> None \<and>
       (\<exists>i irs x y. getInstanceRoutes E i x = (Ok irs, y) \<and>
          (\<exists>ir \<in> set irs. vip_Address ir = None \<and> vip_AddressRange ir = Some (rt_DestinationCIDR r)))))"
proof (cases "getNodeLabel (registeredK8sNodeCache u) (ProviderIDPrefix @ Itoa (inst_ID inst)) (inst_Label inst)")
  case None
  then show ?thesis using assms by (auto simp: listInstanceRoutes_def eff_ok)
next
  case (Some label)
  from assms(1) Some obtain r where run: "getInstanceRoutes E (inst_ID inst) u = (r, v)"
    and b': "b' = b \<or> (\<exists>irs vpcids. r = Ok irs \<and> b' = b @ routesOf label vpcids irs)"
    by (auto simp: listInstanceRoutes_def GetAllVPCIDs_def eff_ok)
  have "registeredK8sNodeCache v = registeredK8sNodeCache u" "ipv6ConfiguredRoutes v = ipv6ConfiguredRoutes u"
    using leavesD [OF leaves_routes(1) run] leavesD [OF leaves_routes(2) run] by simp_all
  moreover note b'
  moreover have "map_of (kc_nodes (registeredK8sNodeCache u)) label \<noteq> None"
    by (rule getNodeLabel_registered [OF assms(2) Some])
  ultimately show ?thesis using run routesOf_entry by fastforce
qed

section \<open>Properties\<close>


definition vpcAddress :: VPCIP where
  "vpcAddress = \<lparr>vip_Address = Some ''10.0.0.2'', vip_AddressRange = None, vip_VPCID = 1, vip_LinodeID = 42,
     vip_ConfigID = 6, vip_InterfaceID = 8, vip_IPv6Addresses = [], vip_IPv6IsPublic = None\<rparr>"

definition vpcRange :: "string \<Rightarrow> VPCIP" where
  "vpcRange r = vpcAddress\<lparr>vip_Address := None, vip_AddressRange := Some r\<rparr>"

definition routeEnv :: "unit env" where
  "routeEnv = sampleEnv\<lparr>ev_client := offlineClient\<lparr>
     cl_UpdateInstanceConfigInterface := (\<lambda>_ _ _ _ w. (Inr (), w))\<rparr>\<rparr>"

definition routeState :: "unit sys" where
  "routeState = (sampleState ())\<lparr>VpcIDs := [(''vpc'', 1)],
     st_nodeCache := \<lparr>nc_nodes = [(42, \<lparr>lin_instance = sampleLinode, lin_ips = []\<rparr>)], nc_lastUpdate = 0,
       nc_ttl = 15 * Second\<rparr>,
     registeredK8sNodeCache := \<lparr>kc_nodes = [(''n1'', sampleNode)], kc_providerIDs = [(''linode://42'', ''n1'')],
       kc_lastUpdate = 0, kc_ttl = 300 * Second\<rparr>,
     st_routeCache := \<lparr>rc_routes = [(42, [vpcAddress, vpcRange ''10.192.0.0/24''])], rc_lastUpdate = 0,
       rc_ttl = 60 * Second\<rparr>\<rparr>"

definition routeTo :: "string \<Rightarrow> Route" where
  "routeTo cidr = \<lparr>rt_TargetNode = ''n1'', rt_DestinationCIDR = cidr\<rparr>"




text \<open>IPv6 routes need nothing at Linode. Creating an IPv6 route always succeeds, without any call;
  the route is remembered, and is part of every later listing that succeeds.\<close>

lemma ipv6_route_listed:
  assumes "ParseCIDR (rt_DestinationCIDR route) = Ok (ip, net)" "To4 ip = None"
  shows "CreateRoute E route s = (Ok (), s\<lparr>ipv6ConfiguredRoutes := ipv6ConfiguredRoutes s @ [route]\<rparr>) \<and>
    (\<forall>t routes u. route \<in> set (ipv6ConfiguredRoutes t) \<and> ListRoutes E t = (Ok routes, u) \<longrightarrow> route \<in> set routes)"
proof (intro conjI allI impI)
  show "CreateRoute E route s = (Ok (), s\<lparr>ipv6ConfiguredRoutes := ipv6ConfiguredRoutes s @ [route]\<rparr>)"
    using assms by (simp add: CreateRoute_def eff_simps)
  fix t routes u
  assume run: "route \<in> set (ipv6ConfiguredRoutes t) \<and> ListRoutes E t = (Ok routes, u)"
  then obtain rs t' where "routes = rs @ ipv6ConfiguredRoutes t'" "t' = u"
    by (auto simp: ListRoutes_def eff_ok)
  moreover have "ipv6ConfiguredRoutes u = ipv6ConfiguredRoutes t"
    using leavesD [OF leaves_ListRoutes] run by blast
  ultimately show "route \<in> set routes" using run by simp
qed

section \<open>Corner cases\<close>

text \<open>The cache is not told of the updates that are sent. Within its time to live, an update is computed
  from the ranges before the previous update: after a deletion, a new route brings the deleted one
  back.\<close>

lemma stale_cache_resurrects_route:
  "calls (snd (thenE (DeleteRoute routeEnv (routeTo ''10.192.0.0/24''))
       (CreateRoute routeEnv (routeTo ''10.192.1.0/24'')) routeState)) =
     [Inst (Call_UpdateInstanceConfigInterface 42 6 8 []),
      Inst (Call_UpdateInstanceConfigInterface 42 6 8 [''10.192.0.0/24'', ''10.192.1.0/24''])]"
  by code_simp

text \<open>An IPv6 route that is deleted stays listed; its deletion sends the IPv4 ranges unchanged.\<close>

lemma deleted_ipv6_route_stays: "ipv6ConfiguredRoutes (snd (DeleteRoute E route s)) = ipv6ConfiguredRoutes s"
proof -
  have "leaves ipv6ConfiguredRoutes (DeleteRoute E route)"
    unfolding DeleteRoute_def getInstanceFromName_def handleInterfaces_def GetAllVPCIDs_def api_defs
    by (intro leaves_intros leaves_routes leaves_LookupLinode; simp)
  then show ?thesis by (simp add: keeps_def same_def)
qed

text \<open>When the addresses of a VPC cannot be read, the cache loses them and counts as fresh.\<close>

lemma failed_refresh_empties_cache:
  "rc_routes (st_routeCache (snd (refreshRoutes (routeEnv\<lparr>ev_Now := (\<lambda>_. 63000000000 * Second),
     ev_opts := defaultOptions\<lparr>opt_VPCNames := [''vpc'']\<rparr>\<rparr>) routeState))) = []"
  by code_simp

text \<open>An entry with neither an address nor a range makes an update panic.\<close>

lemma malformed_entry_panics:
  "vip_Address ir = None \<Longrightarrow> vip_AddressRange ir = None \<Longrightarrow> scanCreate dest (ir # irs) rs i = Panic"
  by simp

end
