(* ===== verification/Cloud_Allocator.thy ===== *)
theory Cloud_Allocator
  imports Retry_Worker Vpc_Service
begin

text \<open>
  \<open>cloud_allocator.go\<close> and \<open>cidr_allocator.go\<close>: pod networks for nodes. The IPv4 network of a node
  is taken from a set of CIDRs (\<open>cidrset\<close>, a library of Kubernetes, part of the world of the model),
  its IPv6 network from the range of its VPC interface. Both are written to the node.
\<close>

record cloudAllocator =
  ca_clusterCIDR :: IPNet
  ca_nodeCIDRMaskSizeIPv6 :: int
  ca_disableIPv6NodeCIDRAllocation :: bool

record CIDRAllocatorParams =
  ap_ClusterCIDRs :: "IPNet list"
  ap_ServiceCIDR :: "IPNet option"
  ap_SecondaryServiceCIDR :: "IPNet option"
  ap_NodeCIDRMaskSizes :: "int list"
  ap_DisableIPv6NodeCIDRAllocation :: bool

definition providerIDPrefix :: string where "providerIDPrefix = ''linode://''"
definition ipv6BitLen :: nat where "ipv6BitLen = 128"
definition ipv6PodCIDRMaskSize :: int where "ipv6PodCIDRMaskSize = 112"
definition cidrUpdateRetries :: nat where "cidrUpdateRetries = 3"

definition RangeAllocatorType :: string where "RangeAllocatorType = ''RangeAllocator''"
definition CloudAllocatorType :: string where "CloudAllocatorType = ''CloudAllocator''"

section \<open>The CIDRs of a node\<close>

definition ipnetToStringList :: "IPNet list \<Rightarrow> string list" where
  "ipnetToStringList inCIDRs = map IPNet_String inCIDRs"

definition notInCluster :: "string \<Rightarrow> string \<Rightarrow> nat \<Rightarrow> gerr" where
  "notInCluster name cidr idx =
     Errorf ''node:%s has an allocated cidr: %v at index:%v that does not exist in cluster cidrs configuration''
       [name, cidr, Itoa (int idx)]"

fun occupyLoop :: "'w env \<Rightarrow> string \<Rightarrow> nat \<Rightarrow> string list \<Rightarrow> ('w, unit) ccm" where
  "occupyLoop E name idx [] = retE ()"
| "occupyLoop E name idx (cidr # cidrs) =
     (case ku_ParseCIDRSloppy (ev_kube E) cidr of
        Inl _ \<Rightarrow> throwE (Errorf ''failed to parse node %s, CIDR %s'' [name, cidr])
      | Inr podCIDR \<Rightarrow>
          if To4 (ipnet_IP podCIDR) = None then retE ()
          else if idx \<ge> 1 then throwE (notInCluster name cidr idx)
          else thenE (wrapE (Wrapf ''failed to mark cidr[%v] at idx [%v] as occupied for node: %v: %w''
                  [IPNet_String podCIDR, Itoa (int idx), name]) (api_Occupy E podCIDR))
                (occupyLoop E name (Suc idx) cidrs))"

definition occupyCIDRs :: "'w env \<Rightarrow> Node \<Rightarrow> ('w, unit) ccm" where
  "occupyCIDRs E node = occupyLoop E (node_Name node) 0 (node_PodCIDRs node)"

fun releaseLoop :: "'w env \<Rightarrow> string \<Rightarrow> nat \<Rightarrow> string list \<Rightarrow> ('w, unit) ccm" where
  "releaseLoop E name idx [] = retE ()"
| "releaseLoop E name idx (cidr # cidrs) =
     (case ku_ParseCIDRSloppy (ev_kube E) cidr of
        Inl err \<Rightarrow> throwE (Wrapf ''failed to parse CIDR %s on Node %v: %w'' [cidr, name] err)
      | Inr podCIDR \<Rightarrow>
          if To4 (ipnet_IP podCIDR) = None then releaseLoop E name (Suc idx) cidrs
          else if idx \<ge> 1 then throwE (notInCluster name cidr idx)
          else thenE (wrapE (Wrapf ''error when releasing CIDR %v: %w'' [cidr]) (api_Release E podCIDR))
                (releaseLoop E name (Suc idx) cidrs))"

definition ReleaseCIDR :: "'w env \<Rightarrow> Node \<Rightarrow> ('w, unit) ccm" where
  "ReleaseCIDR E node = releaseLoop E (node_Name node) 0 (node_PodCIDRs node)"

section \<open>The IPv6 network of a node\<close>

definition firstIPv6Range :: "InterfaceIPv6 \<Rightarrow> string" where
  "firstIPv6Range ipv6 =
     (case if6_SLAAC ipv6 of
        r # _ \<Rightarrow> r
      | [] \<Rightarrow> (case if6_Ranges ipv6 of r # _ \<Rightarrow> r | [] \<Rightarrow> []))"

definition getIPv6RangeFromInterface :: "InstanceConfigInterface \<Rightarrow> string" where
  "getIPv6RangeFromInterface iface =
     (case ici_IPv6 iface of None \<Rightarrow> [] | Some ipv6 \<Rightarrow> firstIPv6Range ipv6)"

definition getIPv6RangeFromLinodeInterface :: "LinodeInterface \<Rightarrow> string res" where
  "getIPv6RangeFromLinodeInterface iface = bindR (derefR (li_VPC_IPv6 iface)) (\<lambda>ipv6. Ok (firstIPv6Range ipv6))"

text \<open>The loops over the interfaces stop at the first range that is not empty.\<close>

fun linodeInterfaceRange :: "LinodeInterface list \<Rightarrow> string res" where
  "linodeInterfaceRange [] = Ok []"
| "linodeInterfaceRange (iface # ifaces) =
     (if li_VPC_IPv6 iface \<noteq> None then
        bindR (getIPv6RangeFromLinodeInterface iface) (\<lambda>r. if r \<noteq> [] then Ok r else linodeInterfaceRange ifaces)
      else linodeInterfaceRange ifaces)"

fun configInterfaceRange :: "InstanceConfigInterface list \<Rightarrow> string" where
  "configInterfaceRange [] = []"
| "configInterfaceRange (iface # ifaces) =
     (if ici_Purpose iface = InterfacePurposeVPC \<and> getIPv6RangeFromInterface iface \<noteq> []
      then getIPv6RangeFromInterface iface else configInterfaceRange ifaces)"

definition getIPv6PodCIDR :: "IP \<Rightarrow> int \<Rightarrow> IPNet option res" where
  "getIPv6PodCIDR ip desiredMask =
     (if ip = [] \<or> desiredMask \<noteq> ipv6PodCIDRMaskSize then Ok None
      else if length ip < 14 then Panic
      else
        let ipCopy = ip[8 := 0, 9 := 0, 10 := 0, 11 := 0x0c, 12 := 0, 13 := 0];
            podMask = CIDRMask desiredMask ipv6BitLen
        in Ok (Some \<lparr>ipnet_IP = IPMask ipCopy podMask, ipnet_Mask = podMask\<rparr>))"

text \<open>\<open>fmt.Errorf\<close> with \<open>%w\<close> and a nil error.\<close>

definition wrapsNil :: "string \<Rightarrow> gerr" where
  "wrapsNil format = Errorf format [''%!w(<nil>)'']"

definition ipv6RangeOf :: "'w env \<Rightarrow> int \<Rightarrow> Instance \<Rightarrow> ('w, string) ccm" where
  "ipv6RangeOf E i inst =
     (if inst_InterfaceGeneration inst = GenerationLinode then
        bindE (wrapE (Wrapf ''failed to list interfaces: %w'' []) (api_ListInterfaces E i)) (\<lambda>ifaces.
        if ifaces = [] then throwE (wrapsNil ''failed to list interfaces: %w'')
        else
          bindE (liftR (linodeInterfaceRange ifaces)) (\<lambda>ipv6Range.
          if ipv6Range = [] then throwE (Errorf ''failed to find ipv6 range in Linode interfaces: %v'' [])
          else retE ipv6Range))
      else
        bindE (wrapE (Wrapf ''failed to list instance configs: %w'' []) (api_ListInstanceConfigs E i)) (\<lambda>configs.
        case configs of
          [] \<Rightarrow> throwE (wrapsNil ''failed to list instance configs: %w'')
        | interfaces # _ \<Rightarrow>
            if configInterfaceRange interfaces = [] then
              throwE (Errorf ''failed to find ipv6 range in instance config: %v'' [])
            else retE (configInterfaceRange interfaces)))"

definition podCIDRInRange :: "cloudAllocator \<Rightarrow> string \<Rightarrow> IPNet res" where
  "podCIDRInRange ca ipv6Range =
     bindR (mapErr (Wrapf ''failed parsing ipv6 range %s: %w'' [ipv6Range]) (ParseCIDR ipv6Range)) (\<lambda>(ip, base).
     bindR (getIPv6PodCIDR ip (ca_nodeCIDRMaskSizeIPv6 ca)) (\<lambda>podCIDR.
     case podCIDR of
       Some podCIDR \<Rightarrow>
         if \<not> IPNet_Contains base (ipnet_IP podCIDR) then
           Err (Errorf ''stable IPv6 PodCIDR %s is not contained in base range %s''
             [IPNet_String podCIDR, IPNet_String base])
         else Ok podCIDR
     | None \<Rightarrow>
         let podMask = CIDRMask (ca_nodeCIDRMaskSizeIPv6 ca) 128
         in Ok \<lparr>ipnet_IP = IPMask ip podMask, ipnet_Mask = podMask\<rparr>))"

definition allocateIPv6CIDR :: "'w env \<Rightarrow> cloudAllocator \<Rightarrow> Node \<Rightarrow> ('w, IPNet) ccm" where
  "allocateIPv6CIDR E ca node =
     (if node_ProviderID node = [] then
        throwE (Errorf ''node %s has no ProviderID set, cannot calculate ipv6 range for it'' [node_Name node])
      else if \<not> HasPrefix (node_ProviderID node) providerIDPrefix then
        throwE (Errorf ''node %s has invalid ProviderID %s, expected prefix %s''
          [node_Name node, node_ProviderID node, providerIDPrefix])
      else
        bindE (liftR (mapErr (Wrapf ''failed to parse Linode ID from ProviderID %s: %w'' [node_ProviderID node])
          (Atoi (TrimPrefix (node_ProviderID node) providerIDPrefix)))) (\<lambda>i.
        bindE (wrapE (Wrapf ''failed get linode with id %d: %w'' [Itoa i]) (api_GetInstance E i)) (\<lambda>inst.
        bindE (ipv6RangeOf E i inst) (\<lambda>ipv6Range.
        liftR (podCIDRInRange ca ipv6Range)))))"

section \<open>Allocation\<close>

text \<open>The loop that writes the CIDRs: up to \<open>n\<close> attempts, the error of the last one.\<close>

fun patchLoop :: "'w env \<Rightarrow> string \<Rightarrow> string list \<Rightarrow> nat \<Rightarrow> gerr option \<Rightarrow> ('w, gerr option) ccm" where
  "patchLoop E name cidrs 0 err = retE err"
| "patchLoop E name cidrs (Suc n) err =
     handleE (api_PatchNodeCIDRs E name cidrs) (\<lambda>e. patchLoop E name cidrs n (Some e)) (\<lambda>_. retE None)"

definition releaseFirst :: "'w env \<Rightarrow> IPNet list \<Rightarrow> ('w, unit) ccm" where
  "releaseFirst E allocatedCIDRs = bindE (liftR (indexR allocatedCIDRs 0)) (\<lambda>c. ignoreE (api_Release E c))"

definition updateCIDRsAllocation :: "'w env \<Rightarrow> string \<Rightarrow> IPNet list \<Rightarrow> ('w, unit) ccm" where
  "updateCIDRsAllocation E nodeName allocatedCIDRs =
     (let cidrsString = ipnetToStringList allocatedCIDRs in
      bindE (nodeListerE E nodeName) (\<lambda>node.
      if node_PodCIDRs node = cidrsString then retE ()
      else if node_PodCIDRs node \<noteq> [] then releaseFirst E allocatedCIDRs
      else
        bindE (patchLoop E (node_Name node) cidrsString cidrUpdateRetries None) (\<lambda>err.
        case err of
          None \<Rightarrow> retE ()
        | Some e \<Rightarrow>
            thenE (if isKubeReason KubeServerTimeout e then retE () else releaseFirst E allocatedCIDRs)
              (throwE e))))"

definition enqueueCIDRUpdate :: "'w env \<Rightarrow> string \<Rightarrow> IPNet list \<Rightarrow> ('w, unit) ccm" where
  "enqueueCIDRUpdate E nodeName cidrs = updateCIDRsAllocation E nodeName cidrs"

definition AllocateOrOccupyCIDR :: "'w env \<Rightarrow> cloudAllocator \<Rightarrow> Node \<Rightarrow> ('w, unit) ccm" where
  "AllocateOrOccupyCIDR E ca node =
     (if node_PodCIDRs node \<noteq> [] then occupyCIDRs E node
      else
        bindE (wrapE (Wrapf ''failed to allocate cidr from cluster cidr: %w'' []) (api_AllocateNext E)) (\<lambda>podCIDR.
        if ca_disableIPv6NodeCIDRAllocation ca then enqueueCIDRUpdate E (node_Name node) [podCIDR]
        else
          bindE (wrapE (Wrapf ''failed to assign IPv6 CIDR: %w'' []) (allocateIPv6CIDR E ca node)) (\<lambda>ipv6CIDR.
          enqueueCIDRUpdate E (node_Name node) [podCIDR, ipv6CIDR])))"

section \<open>The worker\<close>

definition syncNode :: "'w env \<Rightarrow> cloudAllocator \<Rightarrow> string \<Rightarrow> ('w, unit) ccm" where
  "syncNode E ca key =
     handleE (nodeListerE E key)
       (\<lambda>err. if isKubeReason KubeNotFound err then retE () else throwE err)
       (\<lambda>node. if node_Deleting node then retE () else AllocateOrOccupyCIDR E ca node)"

definition processNextNodeWorkItem :: "'w env \<Rightarrow> cloudAllocator \<Rightarrow> ('w, bool) ccm" where
  "processNextNodeWorkItem E ca =
     bindE (api_QueueGet E CidrQueue) (\<lambda>got. case got of
       None \<Rightarrow> retE False
     | Some obj \<Rightarrow>
         thenE (deferE
           (case obj of
              QKey key \<Rightarrow>
                handleE (syncNode E ca key)
                  (\<lambda>err. api_QueueAddRateLimited E CidrQueue (QKey key))
                  (\<lambda>_. api_QueueForget E CidrQueue obj)
            | _ \<Rightarrow> api_QueueForget E CidrQueue obj)
           (api_QueueDone E CidrQueue obj))
         (retE True))"

definition runWorker :: "'w env \<Rightarrow> cloudAllocator \<Rightarrow> nat \<Rightarrow> ('w, bool) ccm" where
  "runWorker E ca n = workerLoop n (processNextNodeWorkItem E ca)"

definition onNodeAdded :: "'w env \<Rightarrow> Node informerObj \<Rightarrow> ('w, unit) ccm" where
  "onNodeAdded E obj =
     (case ku_MetaNamespaceKeyFunc (ev_kube E) obj of
        Inl _ \<Rightarrow> retE ()
      | Inr key \<Rightarrow> api_QueueAdd E CidrQueue (QKey key))"

definition onNodeUpdated :: "'w env \<Rightarrow> Node informerObj \<Rightarrow> Node informerObj \<Rightarrow> ('w, unit) ccm" where
  "onNodeUpdated E oldObj newObj = onNodeAdded E newObj"

definition onNodeDeleted :: "'w env \<Rightarrow> Node informerObj \<Rightarrow> ('w, unit) ccm" where
  "onNodeDeleted E obj =
     (case obj of
        Obj node \<Rightarrow> ignoreE (ReleaseCIDR E node)
      | Tombstone (Some node) \<Rightarrow> ignoreE (ReleaseCIDR E node)
      | _ \<Rightarrow> retE ())"

section \<open>Creation\<close>

definition lastIPForCIDR :: "'w env \<Rightarrow> IPNet \<Rightarrow> ('w, IP) ccm" where
  "lastIPForCIDR E cidr =
     (case ku_GetIndexedIP (ev_kube E) cidr (ku_RangeSize (ev_kube E) cidr - 1) of
        Inl e \<Rightarrow> throwE e | Inr ip \<Rightarrow> retE ip)"

definition shouldReserveFinalIPv4Block :: "'w env \<Rightarrow> IPNet \<Rightarrow> ('w, bool) ccm" where
  "shouldReserveFinalIPv4Block E clusterCIDR =
     (case (opt_VPCNames (ev_opts E), opt_SubnetNames (ev_opts E)) of
        (vpcName # _, subnetName # _) \<Rightarrow>
          bindE (GetVPCID E vpcName) (\<lambda>vpcID.
          bindE (GetSubnetID E vpcID subnetName) (\<lambda>subnetID.
          bindE (api_GetVPCSubnet E vpcID subnetID) (\<lambda>subnet.
          bindE (liftR (mapErr (Wrapf ''failed to parse subnet cidr %s: %w'' [sn_IPv4 subnet])
            (ParseCIDR (sn_IPv4 subnet)))) (\<lambda>(_, subnetCIDR).
          bindE (lastIPForCIDR E clusterCIDR) (\<lambda>clusterLastIP.
          bindE (lastIPForCIDR E subnetCIDR) (\<lambda>subnetLastIP.
          retE (IP_Equal clusterLastIP subnetLastIP)))))))
      | _ \<Rightarrow> retE False)"

text \<open>Reserving the last block by occupying its last address.\<close>

definition reserveFinalBlock :: "'w env \<Rightarrow> IPNet \<Rightarrow> ('w, unit) ccm" where
  "reserveFinalBlock E clusterCIDR =
     bindE (lastIPForCIDR E clusterCIDR) (\<lambda>lastIP.
     api_Occupy E \<lparr>ipnet_IP = (case To4 lastIP of Some ip \<Rightarrow> ip | None \<Rightarrow> []), ipnet_Mask = CIDRMask 32 32\<rparr>)"

definition filterOutServiceRange :: "'w env \<Rightarrow> cloudAllocator \<Rightarrow> IPNet \<Rightarrow> ('w, unit) ccm" where
  "filterOutServiceRange E ca serviceCIDR =
     (if \<not> IPNet_Contains (ca_clusterCIDR ca) (IPMask (ipnet_IP serviceCIDR) (ipnet_Mask (ca_clusterCIDR ca))) \<and>
         \<not> IPNet_Contains serviceCIDR (IPMask (ipnet_IP (ca_clusterCIDR ca)) (ipnet_Mask serviceCIDR))
      then retE () else ignoreE (api_Occupy E serviceCIDR))"

definition occupyServiceCIDR :: "'w env \<Rightarrow> IPNet \<Rightarrow> IPNet \<Rightarrow> ('w, unit) ccm" where
  "occupyServiceCIDR E clusterCIDR serviceCIDR =
     (if IPNet_Contains clusterCIDR (ipnet_IP serviceCIDR) \<or> IPNet_Contains serviceCIDR (ipnet_IP clusterCIDR)
      then api_Occupy E serviceCIDR else retE ())"

definition NewLinodeCIDRAllocator ::
  "'w env \<Rightarrow> CIDRAllocatorParams \<Rightarrow> Node list \<Rightarrow> ('w, cloudAllocator) ccm" where
  "NewLinodeCIDRAllocator E params nodeList =
     bindE (liftR (indexR (ap_ClusterCIDRs params) 0)) (\<lambda>clusterCIDR.
     bindE (liftR (indexR (ap_NodeCIDRMaskSizes params) 0)) (\<lambda>maskSize.
     bindE (api_NewCIDRSet E clusterCIDR maskSize) (\<lambda>_.
     bindE (shouldReserveFinalIPv4Block E clusterCIDR) (\<lambda>reserveFinalIPv4Block.
     bindE (if reserveFinalIPv4Block then reserveFinalBlock E clusterCIDR else retE ()) (\<lambda>_.
     bindE (liftR (indexR (ap_NodeCIDRMaskSizes params) 1)) (\<lambda>maskSizeIPv6.
     let ca = \<lparr>ca_clusterCIDR = clusterCIDR, ca_nodeCIDRMaskSizeIPv6 = maskSizeIPv6,
               ca_disableIPv6NodeCIDRAllocation = ap_DisableIPv6NodeCIDRAllocation params\<rparr>;
         filterOut = (\<lambda>service. case service of None \<Rightarrow> retE () | Some c \<Rightarrow> filterOutServiceRange E ca c)
     in bindE (filterOut (ap_ServiceCIDR params)) (\<lambda>_.
        bindE (filterOut (ap_SecondaryServiceCIDR params)) (\<lambda>_.
        bindE (forE nodeList (\<lambda>node. if node_PodCIDRs node = [] then retE () else occupyCIDRs E node)) (\<lambda>_.
        bindE (api_AddNodeEventHandler E) (\<lambda>_. retE ca))))))))))"

definition listNodes :: "'w env \<Rightarrow> ('w, Node list) ccm" where
  "listNodes E =
     wrapE (\<lambda>_. Errorf ''failed to list all nodes in %v, cannot proceed without updating CIDR map'' [''10m0s''])
       (ku_PollNodeList (ev_kube E) (handleE (api_ListNodes E) (\<lambda>_. retE None) (\<lambda>nodeList. retE (Some nodeList))))"

definition NewCIDRAllocator :: "'w env \<Rightarrow> string \<Rightarrow> CIDRAllocatorParams \<Rightarrow> ('w, cloudAllocator) ccm" where
  "NewCIDRAllocator E allocatorType params =
     bindE (listNodes E) (\<lambda>nodeList.
     if allocatorType = CloudAllocatorType then NewLinodeCIDRAllocator E params nodeList
     else if allocatorType = RangeAllocatorType then throwE (Errorf ''RangeAllocatorType is not supported'' [])
     else throwE (Errorf ''invalid or unsupported CIDR allocator type: %v'' [allocatorType]))"

section \<open>The controller\<close>

definition maxAllowedNodeCIDRsIPv4 :: nat where "maxAllowedNodeCIDRsIPv4 = 1"
definition defaultNodeMaskCIDRIPv4 :: int where "defaultNodeMaskCIDRIPv4 = 24"
definition defaultNodeMaskCIDRIPv6 :: int where "defaultNodeMaskCIDRIPv6 = 112"

fun checkMaskSizes :: "IPNet list \<Rightarrow> int list \<Rightarrow> unit res" where
  "checkMaskSizes [] _ = Ok ()"
| "checkMaskSizes (cidr # cidrs) [] = Panic"
| "checkMaskSizes (cidr # cidrs) (maskSize # sizes) =
     (if MaskSize (ipnet_Mask cidr) > maskSize then
        Err (Errorf ''Controller: Invalid --cluster-cidr, mask size of cluster CIDR must be less than or equal to --node-cidr-mask-size configured for CIDR family'' [])
      else checkMaskSizes cidrs sizes)"

definition NewNodeIpamController ::
  "'w env \<Rightarrow> bool \<Rightarrow> CIDRAllocatorParams \<Rightarrow> string \<Rightarrow> ('w, cloudAllocator) ccm" where
  "NewNodeIpamController E hasKubeClient params allocatorType =
     (if \<not> hasKubeClient then throwE (Errorf ''kubeClient is nil when starting Controller'' [])
      else if ap_ClusterCIDRs params = [] then
        throwE (Errorf ''Controller: Must specify --cluster-cidr if --allocate-node-cidrs is set'' [])
      else
        bindE (liftR (checkMaskSizes (ap_ClusterCIDRs params) (ap_NodeCIDRMaskSizes params))) (\<lambda>_.
        NewCIDRAllocator E allocatorType params))"

definition processCIDRs :: "'w env \<Rightarrow> string \<Rightarrow> ('w, IPNet list) ccm" where
  "processCIDRs E cidrsList =
     (case ku_ParseCIDRs (ev_kube E) (Split (TrimSpace cidrsList) CHR '','') of
        Inl e \<Rightarrow> throwE e | Inr cidrs \<Rightarrow> retE cidrs)"

definition setNodeCIDRMaskSizes :: "Options \<Rightarrow> int list" where
  "setNodeCIDRMaskSizes opts =
     [if opt_NodeCIDRMaskSizeIPv4 opts \<noteq> 0 then opt_NodeCIDRMaskSizeIPv4 opts else defaultNodeMaskCIDRIPv4,
      if opt_NodeCIDRMaskSizeIPv6 opts \<noteq> 0 then opt_NodeCIDRMaskSizeIPv6 opts else defaultNodeMaskCIDRIPv6]"

definition startNodeIpamController :: "'w env \<Rightarrow> ('w, cloudAllocator option) ccm" where
  "startNodeIpamController E =
     (if \<not> opt_AllocateNodeCIDRs (ev_opts E) then retE None
      else
        bindE (wrapE (Wrapf ''processCIDRs failed: %w'' []) (processCIDRs E (opt_ClusterCIDRIPv4 (ev_opts E)))) (\<lambda>clusterCIDRs.
        if clusterCIDRs = [] then
          throwE (Errorf ''no clusterCIDR specified. Must specify --cluster-cidr if --allocate-node-cidrs is set'' [])
        else if length clusterCIDRs > maxAllowedNodeCIDRsIPv4 then
          throwE (Errorf ''too many clusterCIDRs specified for ipv4, max allowed is %d'' [Itoa (int maxAllowedNodeCIDRsIPv4)])
        else if To4 (ipnet_IP (hd clusterCIDRs)) = None then
          throwE (Errorf ''clusterCIDR %s is not ipv4'' [IPNet_String (hd clusterCIDRs)])
        else
          bindE (NewNodeIpamController E True
            \<lparr>ap_ClusterCIDRs = clusterCIDRs, ap_ServiceCIDR = None, ap_SecondaryServiceCIDR = None,
             ap_NodeCIDRMaskSizes = setNodeCIDRMaskSizes (ev_opts E),
             ap_DisableIPv6NodeCIDRAllocation = opt_DisableIPv6NodeCIDRAllocation (ev_opts E)\<rparr>
            CloudAllocatorType) (\<lambda>ca. retE (Some ca))))"


section \<open>What an allocation does\<close>

lemma getIPv6PodCIDR_16:
  assumes "length ip = 16"
  shows "getIPv6PodCIDR ip 112 =
    Ok (Some \<lparr>ipnet_IP = take 8 ip @ [0, 0, 0, 0x0c, 0, 0, 0, 0], ipnet_Mask = CIDRMask 112 128\<rparr>)"
proof -
  obtain a0 a1 a2 a3 a4 a5 a6 a7 a8 a9 a10 a11 a12 a13 a14 a15 where
    ip: "ip = [a0, a1, a2, a3, a4, a5, a6, a7, a8, a9, a10, a11, a12, a13, a14, a15]"
    using assms by (auto simp: numeral_eq_Suc length_Suc_conv)
  have m: "CIDRMask 112 128 = [255, 255, 255, 255, 255, 255, 255, 255, 255, 255, 255, 255, 255, 255, 0, 0]"
    by code_simp
  show ?thesis
    unfolding getIPv6PodCIDR_def ipv6PodCIDRMaskSize_def ipv6BitLen_def m ip
    by (simp add: IPMask_def and_bytes_def)
qed


lemma podCIDRInRange_no_panic: "podCIDRInRange ca r \<noteq> Panic"
  using ParseCIDR_length [of r] ParseCIDR_no_panic [of r]
  by (auto simp: podCIDRInRange_def res_simps getIPv6PodCIDR_def Let_def split: prod.splits if_splits option.splits)

lemma linodeInterfaceRange_no_panic: "linodeInterfaceRange ifaces \<noteq> Panic"
  by (induction ifaces) (auto simp: getIPv6RangeFromLinodeInterface_def split: if_splits)

lemma safe_allocateIPv6CIDR [safe_intros]: "safe (allocateIPv6CIDR E ca node)"
  unfolding allocateIPv6CIDR_def ipv6RangeOf_def api_defs
  by (intro safe_intros podCIDRInRange_no_panic linodeInterfaceRange_no_panic) (simp add: res_simps strconv_no_panic)

lemma safe_patchLoop [safe_intros]: "safe (patchLoop E name cidrs n err)"
  by (induction n arbitrary: err) (auto simp: api_defs intro!: safe_intros)

lemma safe_occupyLoop [safe_intros]: "safe (occupyLoop E name idx cidrs)"
  by (induction cidrs arbitrary: idx) (auto simp: api_defs intro!: safe_intros)

lemma safe_updateCIDRsAllocation [safe_intros]: "safe (updateCIDRsAllocation E name (cidr # cidrs))"
  unfolding updateCIDRsAllocation_def releaseFirst_def api_defs
  by (intro safe_intros) (simp_all add: indexR_def)

lemma safe_syncNode [safe_intros]: "safe (syncNode E ca key)"
  unfolding syncNode_def AllocateOrOccupyCIDR_def occupyCIDRs_def enqueueCIDRUpdate_def api_AllocateNext_def
  by (intro safe_intros)

lemma patchLoop_calls:
  "patchLoop E name cidrs n err s = (r, t) \<Longrightarrow>
   \<exists>k. calls t = calls s @ replicate k (Kube (Call_PatchNodeCIDRs name cidrs)) \<and> k \<le> n \<and>
     (r = Ok None \<and> (n = 0 \<longrightarrow> err = None) \<and> (n > 0 \<longrightarrow> k > 0) \<or> k = n \<and> (\<exists>e. r = Ok (Some e)))"
proof (induction n arbitrary: err s)
  case 0
  then show ?case by (cases err) (auto simp: eff_simps)
next
  case (Suc n)
  show ?case
  proof (cases "ku_PatchNodeCIDRs (ev_kube E) name cidrs (world s)")
    case (Pair res w)
    show ?thesis
    proof (cases res)
      case (Inl e)
      let ?s = "s\<lparr>world := w, calls := calls s @ [Kube (Call_PatchNodeCIDRs name cidrs)]\<rparr>"
      have "patchLoop E name cidrs n (Some e) ?s = (r, t)"
        using Suc.prems Pair Inl by (simp add: api_defs eff_simps)
      from Suc.IH [OF this] obtain k where
        "calls t = calls ?s @ replicate k (Kube (Call_PatchNodeCIDRs name cidrs))" "k \<le> n"
        "r = Ok None \<and> n > 0 \<and> k > 0 \<or> k = n \<and> (\<exists>e. r = Ok (Some e))" by auto
      then show ?thesis by (auto intro!: exI [of _ "Suc k"])
    next
      case (Inr u)
      then show ?thesis
        using Suc.prems Pair by (auto simp: api_defs eff_simps intro!: exI [of _ 1])
    qed
  qed
qed


text \<open>How an allocated CIDR ends: released or not, after \<open>k\<close> attempts to write it.\<close>

definition cidr_fate :: "'w env \<Rightarrow> string \<Rightarrow> string list \<Rightarrow> nat \<Rightarrow> bool \<Rightarrow> unit res \<Rightarrow> bool" where
  "cidr_fate E name cidrs k released r \<longleftrightarrow>
     (if released then
        k = 0 \<and> r = Ok () \<or> k = cidrUpdateRetries \<and> (\<exists>e. r = Err e \<and> \<not> isKubeReason KubeServerTimeout e)
      else
        r = Ok () \<and> (k \<in> {1..cidrUpdateRetries} \<or>
          (\<exists>w listed. ku_nodeLister (ev_kube E) name w = Inr listed \<and> node_PodCIDRs listed = cidrs)) \<or>
        (\<exists>e. r = Err e \<and> (k = 0 \<or> k = cidrUpdateRetries \<and> isKubeReason KubeServerTimeout e)))"

lemma releaseFirst_apply:
  "\<exists>w. releaseFirst E (cidr # cidrs) s = (Ok (), s\<lparr>world := w, calls := calls s @ [Cidr (Call_Release cidr)]\<rparr>)"
  by (auto simp: releaseFirst_def indexR_def api_defs eff_simps split: prod.split sum.split)

lemma updateCIDRsAllocation_fate:
  assumes "updateCIDRsAllocation E name (cidr # cidrs) s = (r, t)"
  shows "\<exists>n k released. calls t = calls s @
      replicate k (Kube (Call_PatchNodeCIDRs n (ipnetToStringList (cidr # cidrs)))) @
      (if released then [Cidr (Call_Release cidr)] else []) \<and>
    cidr_fate E name (ipnetToStringList (cidr # cidrs)) k released r"
proof (cases "ku_nodeLister (ev_kube E) name (world s)")
  case (Inl e)
  then show ?thesis
    using assms by (auto simp: updateCIDRsAllocation_def nodeListerE_def eff_simps cidr_fate_def Let_def
        intro!: exI [of _ 0] exI [of _ False])
next
  case (Inr node)
  let ?cidrs = "ipnetToStringList (cidr # cidrs)"
  consider "node_PodCIDRs node = ?cidrs" | "node_PodCIDRs node \<noteq> ?cidrs" "node_PodCIDRs node \<noteq> []"
    | "node_PodCIDRs node = []" "node_PodCIDRs node \<noteq> ?cidrs" by (cases "node_PodCIDRs node = []") auto
  then show ?thesis
  proof cases
    case 1
    then show ?thesis
      using assms Inr by (auto simp: updateCIDRsAllocation_def nodeListerE_def eff_simps cidr_fate_def Let_def
          intro!: exI [of _ 0] exI [of _ False])
  next
    case 2
    then have "releaseFirst E (cidr # cidrs) s = (r, t)"
      using assms Inr by (simp add: updateCIDRsAllocation_def nodeListerE_def eff_simps Let_def)
    then show ?thesis
      using releaseFirst_apply [of E cidr cidrs s]
      by (auto simp: cidr_fate_def intro!: exI [of _ 0] exI [of _ True])
  next
    case 3
    obtain err u where loop: "patchLoop E (node_Name node) ?cidrs cidrUpdateRetries None s = (err, u)" by fastforce
    from patchLoop_calls [OF this] obtain k where
      k: "calls u = calls s @ replicate k (Kube (Call_PatchNodeCIDRs (node_Name node) ?cidrs))" "k \<le> cidrUpdateRetries"
      "err = Ok None \<and> k > 0 \<or> k = cidrUpdateRetries \<and> (\<exists>e. err = Ok (Some e))"
      by (auto simp: cidrUpdateRetries_def)
    have run: "(case err of
        Ok None \<Rightarrow> (Ok (), u)
      | Ok (Some e) \<Rightarrow> thenE (if isKubeReason KubeServerTimeout e then retE () else releaseFirst E (cidr # cidrs))
            (throwE e) u
      | _ \<Rightarrow> (r, t)) = (r, t)"
      using assms 3 Inr loop k(3)
      by (auto simp: updateCIDRsAllocation_def nodeListerE_def eff_apply bindE_apply Let_def)
    obtain w where release: "releaseFirst E (cidr # cidrs) u = (Ok (), u\<lparr>world := w, calls := calls u @ [Cidr (Call_Release cidr)]\<rparr>)"
      using releaseFirst_apply [of E cidr cidrs u] by auto
    have "\<exists>released. calls t = calls u @ (if released then [Cidr (Call_Release cidr)] else []) \<and>
        cidr_fate E name ?cidrs k released r"
    proof (cases "err = Ok None")
      case True
      then show ?thesis using run k(2,3) by (auto simp: cidr_fate_def intro!: exI [of _ False])
    next
      case False
      then obtain e where "err = Ok (Some e)" "k = cidrUpdateRetries" using k(3) by blast
      then show ?thesis
        using run release
        by (cases "isKubeReason KubeServerTimeout e")
          (auto simp: cidr_fate_def thenE_apply eff_apply
            intro!: exI [of _ "\<not> isKubeReason KubeServerTimeout e"])
    qed
    with k(1) show ?thesis by (metis append_assoc)
  qed
qed

lemma emits_allocateIPv6CIDR: "emits (\<lambda>c. \<exists>i. c = Inst i \<and> \<not> instWrite i) (allocateIPv6CIDR E ca node)"
  unfolding allocateIPv6CIDR_def ipv6RangeOf_def api_defs by (intro emits_intros) auto


lemma emits_syncNode:
  assumes "\<And>c. \<not> instWrite c \<Longrightarrow> P (Inst c)" "\<And>c. P (Kube c)" "\<And>c. P (Cidr c)"
  shows "emits P (syncNode E ca key)"
proof -
  have "emits P (patchLoop E name cidrs n err)" for name cidrs n err
    by (induction n arbitrary: err) (auto simp: api_defs assms intro!: emits_intros)
  moreover have "emits P (occupyLoop E name idx cidrs)" for name idx cidrs
    by (induction cidrs arbitrary: idx) (auto simp: api_defs assms intro!: emits_intros split: sum.split)
  moreover have "emits P (allocateIPv6CIDR E ca node)" for node
    by (rule emits_weaken [OF emits_allocateIPv6CIDR]) (auto simp: assms)
  ultimately show ?thesis
    unfolding syncNode_def AllocateOrOccupyCIDR_def occupyCIDRs_def enqueueCIDRUpdate_def
      updateCIDRsAllocation_def releaseFirst_def Let_def api_AllocateNext_def api_Release_def
    by (intro emits_intros) (auto simp: assms)
qed

lemma later_loops:
  "idx \<ge> 1 \<Longrightarrow> snd (occupyLoop E name idx cidrs s) = s"
  "idx \<ge> 1 \<Longrightarrow> snd (releaseLoop E name idx cidrs s) = s"
  by (induction cidrs arbitrary: idx) (auto simp: eff_apply split: sum.split)

text \<open>The CIDR of a node that the set of CIDRs knows: the first one, when it is an IPv4 CIDR.\<close>

definition trackedCIDR :: "'w env \<Rightarrow> Node \<Rightarrow> IPNet list" where
  "trackedCIDR E node =
     (case node_PodCIDRs node of
        [] \<Rightarrow> []
      | c # _ \<Rightarrow>
          (case ku_ParseCIDRSloppy (ev_kube E) c of
             Inl _ \<Rightarrow> []
           | Inr n \<Rightarrow> if To4 (ipnet_IP n) = None then [] else [n]))"

section \<open>Properties\<close>


definition podNet :: IPNet where
  "podNet = \<lparr>ipnet_IP = [10, 192, 0, 0], ipnet_Mask = [255, 255, 255, 0]\<rparr>"

definition sampleAllocator :: cloudAllocator where
  "sampleAllocator = \<lparr>ca_clusterCIDR = podNet, ca_nodeCIDRMaskSizeIPv6 = 112, ca_disableIPv6NodeCIDRAllocation = False\<rparr>"

definition ipv6Linode :: Instance where
  "ipv6Linode = \<lparr>inst_ID = 42, inst_Label = ''n1'', inst_Status = ''running'', inst_IPv4 = [],
     inst_IPv6 = [], inst_HostUUID = [], inst_Type = [], inst_Region = ''us-ord'',
     inst_InterfaceGeneration = GenerationLinode\<rparr>"

definition rangeClient :: "string \<Rightarrow> unit client" where
  "rangeClient r = offlineClient\<lparr>cl_GetInstance := (\<lambda>_ w. (Inr ipv6Linode, w)),
     cl_ListInterfaces := (\<lambda>_ w. (Inr [\<lparr>li_VPC_IPv6 = Some \<lparr>if6_SLAAC = [r], if6_Ranges = []\<rparr>\<rparr>], w))\<rparr>"

definition allocEnv :: "unit env" where
  "allocEnv = sampleEnv\<lparr>ev_client := rangeClient ''2600:3c06:0:1::/64'',
     ev_kube := offlineKube\<lparr>ku_AllocateNext := (\<lambda>w. (Inr podNet, w)),
       ku_nodeLister := (\<lambda>_ _. Inr (sampleNode\<lparr>node_PodCIDRs := []\<rparr>)),
       ku_PatchNodeCIDRs := (\<lambda>_ _ w. (Inr (), w))\<rparr>\<rparr>"


text \<open>C24: Occupying and releasing agree. Of a node's CIDRs, the same one, the first if it is an IPv4
  CIDR, is marked as used when the node is seen and given back when the node is deleted; nothing
  else is asked of the set of CIDRs, whatever the list holds.\<close>

theorem occupied_is_released:
  "issued (occupyCIDRs E node) s = map (\<lambda>n. Cidr (Call_Occupy n)) (trackedCIDR E node) \<and>
   issued (ReleaseCIDR E node) s = map (\<lambda>n. Cidr (Call_Release n)) (trackedCIDR E node)"
  by (cases "node_PodCIDRs node")
    (auto simp: issued_def occupyCIDRs_def ReleaseCIDR_def trackedCIDR_def later_loops api_defs eff_simps
      split: sum.split prod.split)

text \<open>C22: Work items are never lost. The worker never panics and goes on after every item. An item is
  put back, with a delay, exactly when the node could not be served; otherwise its history of
  failures is forgotten. Last it is marked as done.\<close>

theorem cidr_worker_protocol:
  assumes "api_QueueGet E CidrQueue s = (Ok (Some item), s1)"
  shows "fst (processNextNodeWorkItem E ca s) = Ok True \<and>
    filter isQueue (calls (snd (processNextNodeWorkItem E ca s))) = filter isQueue (calls s1) @
      [if \<exists>key err. item = QKey key \<and> fst (syncNode E ca key s1) = Err err
       then Queue (Call_QueueAddRateLimited CidrQueue item) else Queue (Call_QueueForget CidrQueue item),
       Queue (Call_QueueDone CidrQueue item)]"
proof (cases "\<exists>key. item = QKey key")
  case True
  then obtain key where item: "item = QKey key" ..
  obtain r u where sync: "syncNode E ca key s1 = (r, u)" by fastforce
  have "emits (\<lambda>c. \<not> isQueue c) (syncNode E ca key)" by (rule emits_syncNode) auto
  then have u: "filter isQueue (calls u) = filter isQueue (calls s1)" using sync by (rule emits_filter)
  have "r \<noteq> Panic" using safe_syncNode [of E ca key] sync unfolding safe_def by (metis fst_conv)
  then show ?thesis
    using assms item sync u
    by (cases r) (auto simp: processNextNodeWorkItem_def eff_simps api_QueueAddRateLimited_def
        api_QueueForget_def api_QueueDone_def queueE_def)
next
  case False
  then show ?thesis
    using assms
    by (cases item) (auto simp: processNextNodeWorkItem_def eff_simps
        api_QueueForget_def api_QueueDone_def queueE_def)
qed


definition goneEnv :: "unit env" where
  "goneEnv = sampleEnv\<lparr>ev_kube := offlineKube\<lparr>ku_QueueGet := (\<lambda>_ w. (Some (QKey ''n1''), w))\<rparr>\<rparr>"

theorem cidr_worker_protocol_witness: "fst (processNextNodeWorkItem goneEnv sampleAllocator (sampleState ())) = Ok True"
proof -
  have "api_QueueGet goneEnv CidrQueue (sampleState ()) = (Ok (Some (QKey ''n1'')),
      (sampleState ())\<lparr>calls := [Queue (Call_QueueGet CidrQueue)]\<rparr>)"
    by (simp add: api_QueueGet_def eff_simps goneEnv_def sampleState_def)
  from cidr_worker_protocol [OF this] show ?thesis by simp
qed

text \<open>C15: The IPv6 network of a node lies in its own range. With the default mask size, the network is
  the first half of the address of the range that Linode gave the node's interface, followed by
  \<open>:0:c::\<close>, with 112 bits; its address is in the range, and when the range is not smaller than
  the network, so is every address of the network.\<close>

theorem ipv6_pod_cidr_in_range:
  assumes "allocateIPv6CIDR E ca node s = (Ok net, t)" "ca_nodeCIDRMaskSizeIPv6 ca = 112"
  shows "\<exists>i inst s1 r ip base.
    Atoi (TrimPrefix (node_ProviderID node) providerIDPrefix) = Ok i \<and> ipv6RangeOf E i inst s1 = (Ok r, t) \<and>
    ParseCIDR r = Ok (ip, base) \<and>
    net = \<lparr>ipnet_IP = take 8 ip @ [0, 0, 0, 0x0c, 0, 0, 0, 0], ipnet_Mask = CIDRMask 112 128\<rparr> \<and>
    IPNet_Contains base (ipnet_IP net) \<and>
    (\<forall>n a. 0 \<le> n \<and> n \<le> 112 \<and> ipnet_Mask base = CIDRMask n 128 \<and> length a = 16 \<and> IPNet_Contains net a \<longrightarrow>
       IPNet_Contains base a)"
proof -
  from assms(1) obtain i inst s1 r where
    i: "Atoi (TrimPrefix (node_ProviderID node) providerIDPrefix) = Ok i" "ipv6RangeOf E i inst s1 = (Ok r, t)"
    and net: "podCIDRInRange ca r = Ok net"
    by (auto simp: allocateIPv6CIDR_def eff_ok res_simps split: if_splits)
  from net obtain ip base where parse: "ParseCIDR r = Ok (ip, base)"
    by (auto simp: podCIDRInRange_def res_simps)
  note len = ParseCIDR_length [OF parse]
  let ?p = "take 8 ip @ [0, 0, 0, 0x0c, 0, 0, 0, 0]"
  have pod: "net = \<lparr>ipnet_IP = ?p, ipnet_Mask = CIDRMask 112 128\<rparr>" "IPNet_Contains base ?p"
    using net parse assms(2) getIPv6PodCIDR_16 [OF len] by (auto simp: podCIDRInRange_def split: if_splits)
  have p: "length ?p = 16" "To4 ?p = None" using len by (auto simp: To4_def v4InV6Prefix_def)
  have "\<forall>n a. 0 \<le> n \<and> n \<le> 112 \<and> ipnet_Mask base = CIDRMask n 128 \<and> length a = 16 \<and> IPNet_Contains net a \<longrightarrow>
      IPNet_Contains base a"
    using contains_subnet [of "ipnet_IP base" _ ?p 112] pod p by (cases base) auto
  with i parse pod show ?thesis
    by (intro exI [of _ i] exI [of _ inst] exI [of _ s1] exI [of _ r] exI [of _ ip] exI [of _ base] conjI) simp_all
qed

theorem ipv6_pod_cidr_in_range_witness:
  "\<exists>r ip base. ParseCIDR r = Ok (ip, base) \<and>
     IPNet_Contains base (ipnet_IP \<lparr>ipnet_IP = [0x26, 0, 0x3c, 6, 0, 0, 0, 1, 0, 0, 0, 0x0c, 0, 0, 0, 0], ipnet_Mask = CIDRMask 112 128\<rparr>)"
proof -
  have "fst (allocateIPv6CIDR allocEnv sampleAllocator sampleNode (sampleState ())) =
      Ok \<lparr>ipnet_IP = [0x26, 0, 0x3c, 6, 0, 0, 0, 1, 0, 0, 0, 0x0c, 0, 0, 0, 0], ipnet_Mask = CIDRMask 112 128\<rparr>"
    by code_simp
  then obtain t where "allocateIPv6CIDR allocEnv sampleAllocator sampleNode (sampleState ()) =
      (Ok \<lparr>ipnet_IP = [0x26, 0, 0x3c, 6, 0, 0, 0, 1, 0, 0, 0, 0x0c, 0, 0, 0, 0], ipnet_Mask = CIDRMask 112 128\<rparr>, t)"
    by (metis prod.collapse)
  from ipv6_pod_cidr_in_range [OF this] show ?thesis unfolding sampleAllocator_def by (simp, blast)
qed

section \<open>Corner cases\<close>

text \<open>When the IPv6 network of a node cannot be found, the IPv4 CIDR taken for it is not given back. The
  item is put back, and every new attempt takes another one.\<close>

definition noRangeEnv :: "unit env" where
  "noRangeEnv = allocEnv\<lparr>ev_client := offlineClient\<rparr>"

lemma ipv6_failure_leaks:
  "calls (snd (forE [(), ()] (\<lambda>_. ignoreE (syncNode noRangeEnv sampleAllocator ''n1'')) (sampleState ()))) =
     [Cidr Call_AllocateNext, Inst (Call_GetInstance 42), Cidr Call_AllocateNext, Inst (Call_GetInstance 42)]"
  by code_simp

text \<open>Only the address of the network is looked up in the range. A range smaller than the network can
  pass, although the network is not contained in it.\<close>

lemma pod_cidr_exceeds_range:
  "let net = \<lparr>ipnet_IP = [0x26, 0, 0, 0, 0, 0, 0, 0, 0, 0, 0, 0x0c, 0, 0, 0, 0], ipnet_Mask = CIDRMask 112 128\<rparr>;
       a = [0x26, 0, 0, 0, 0, 0, 0, 0, 0, 0, 0, 0x0c, 0, 0, 1, 0]
   in podCIDRInRange sampleAllocator ''2600::c:0:0/120'' = Ok net \<and> IPNet_Contains net a \<and>
      (case ParseCIDR ''2600::c:0:0/120'' of Ok (_, base) \<Rightarrow> \<not> IPNet_Contains base a | _ \<Rightarrow> False)"
  by code_simp

end
