(* ===== verification/Cloud_Provider.thy ===== *)
theory Cloud_Provider
  imports Route_Controller Cloud_Allocator
begin

text \<open>
  \<open>cloud.go\<close>, \<open>health_check.go\<close>, and the parts of \<open>client.go\<close> and \<open>main.go\<close> that
  are not wiring: the API token, the check that it is valid, and the start of the program. The
  client of the environment is the one that \<open>newCloud\<close> creates.
\<close>

section \<open>The API token\<close>

definition ProviderName :: string where "ProviderName = ''linode''"
definition accessTokenEnv :: string where "accessTokenEnv = ''LINODE_API_TOKEN''"
definition regionEnv :: string where "regionEnv = ''LINODE_REGION''"
definition tokenFilePathEnv :: string where "tokenFilePathEnv = ''LINODE_API_TOKEN_FILE''"
definition defaultTokenFilePath :: string where "defaultTokenFilePath = ''/var/run/secrets/linode/api-token''"
definition tokenCacheTTLEnv :: string where "tokenCacheTTLEnv = ''LINODE_API_TOKEN_CACHE_TTL_SECONDS''"
definition defaultTokenFileCacheTTL :: int where "defaultTokenFileCacheTTL = 60 * Second"
definition ciliumLBType :: string where "ciliumLBType = ''cilium-bgp''"
definition nodeBalancerLBType :: string where "nodeBalancerLBType = ''nodebalancer''"
definition tokenHealthCheckPeriod :: int where "tokenHealthCheckPeriod = 300 * Second"
definition supportedLoadBalancerTypes :: "string list" where "supportedLoadBalancerTypes = [nodeBalancerLBType]"
definition NodeBalancerPrefixCharLimit :: nat where "NodeBalancerPrefixCharLimit = 19"
definition DefaultClientTimeout :: int where "DefaultClientTimeout = 120"
definition DefaultLinodeAPIURL :: string where "DefaultLinodeAPIURL = ''https://api.linode.com''"

record tokenFileProvider =
  tp_path :: string
  tp_cacheTTL :: int
  tp_cachedToken :: string
  tp_expiresAt :: int

record staticTokenProvider =
  sp_token :: string

datatype tokenProvider = FileToken tokenFileProvider | EnvToken staticTokenProvider

definition tokenTTL :: "tokenFileProvider \<Rightarrow> int" where
  "tokenTTL t = (if tp_cacheTTL t \<le> 0 then defaultTokenFileCacheTTL else tp_cacheTTL t)"

definition fileGetToken :: "'w env \<Rightarrow> tokenFileProvider \<Rightarrow> ('w, string \<times> tokenFileProvider) ccm" where
  "fileGetToken E t =
     bindE (nowE E) (\<lambda>now.
     if tp_cachedToken t \<noteq> [] \<and> now < tp_expiresAt t then retE (tp_cachedToken t, t)
     else
       bindE (wrapE (Wrapf ''failed to read token file %q: %w'' [tp_path t]) (readFileE E (tp_path t))) (\<lambda>rawToken.
       let token = TrimSpace rawToken in
       if token = [] then throwE (Errorf ''token file %q is empty'' [tp_path t])
       else
         bindE (nowE E) (\<lambda>now'.
         retE (token, t\<lparr>tp_cachedToken := token, tp_expiresAt := now' + tokenTTL t\<rparr>))))"

definition staticGetToken :: "staticTokenProvider \<Rightarrow> string res" where
  "staticGetToken t =
     (if sp_token t = [] then
        Err (Errorf ''%s must be set in the environment (use a k8s secret)'' [accessTokenEnv])
      else Ok (sp_token t))"

definition GetToken :: "'w env \<Rightarrow> tokenProvider \<Rightarrow> ('w, string \<times> tokenProvider) ccm" where
  "GetToken E p =
     (case p of
        FileToken t \<Rightarrow> bindE (fileGetToken E t) (\<lambda>(token, t'). retE (token, FileToken t'))
      | EnvToken t \<Rightarrow> bindE (liftR (staticGetToken t)) (\<lambda>token. retE (token, EnvToken t)))"

definition tokenFileCacheTTLFromEnv :: "'w env \<Rightarrow> ('w, int) ccm" where
  "tokenFileCacheTTLFromEnv E =
     bindE (lookupEnvE E tokenCacheTTLEnv) (\<lambda>raw. retE (Seconds (ttlSeconds raw 60)))"

definition tokenProviderFromFileOrEnv :: "'w env \<Rightarrow> ('w, tokenProvider \<times> string) ccm" where
  "tokenProviderFromFileOrEnv E =
     bindE (getenvE E tokenFilePathEnv) (\<lambda>path.
     let tokenFilePath = (if TrimSpace path = [] then defaultTokenFilePath else TrimSpace path) in
     bindE (tokenFileCacheTTLFromEnv E) (\<lambda>ttl.
     handleE (fileGetToken E \<lparr>tp_path = tokenFilePath, tp_cacheTTL = ttl, tp_cachedToken = [], tp_expiresAt = 0\<rparr>)
       (\<lambda>fileErr.
          bindE (getenvE E accessTokenEnv) (\<lambda>envToken.
          if TrimSpace envToken \<noteq> [] then
            retE (EnvToken \<lparr>sp_token = TrimSpace envToken\<rparr>, ''environment variable '' @ accessTokenEnv)
          else throwE (Wrapf ''failed to load linode api token from %s=%q: %w; fallback %s is not set''
            [tokenFilePathEnv, tokenFilePath, accessTokenEnv] fileErr)))
       (\<lambda>(_, provider). retE (FileToken provider, ''file '' @ tokenFilePath))))"

section \<open>Requests\<close>

record httpRequest =
  req_URL :: string
  req_Header :: go_map

text \<open>\<open>tokenTransport.RoundTrip\<close>: the request that is sent is a copy with the token; the provider
  keeps what it cached also when the request fails.\<close>

definition RoundTrip ::
  "'w env \<Rightarrow> (httpRequest \<Rightarrow> ('w, 'a) ccm) \<Rightarrow> tokenProvider \<Rightarrow> httpRequest \<Rightarrow> ('w, 'a res \<times> tokenProvider) ccm" where
  "RoundTrip E base provider req =
     handleE (GetToken E provider) (\<lambda>err. retE (Err err, provider)) (\<lambda>(token, provider').
     let clone = req\<lparr>req_Header := AList.update ''Authorization'' (''Bearer '' @ token) (req_Header req)\<rparr> in
     handleE (base clone) (\<lambda>err. retE (Err err, provider')) (\<lambda>resp. retE (Ok resp, provider')))"

definition newClient :: "'w env \<Rightarrow> int \<Rightarrow> ('w, unit) ccm" where
  "newClient E timeout =
     bindE (getenvE E ''LINODE_URL'') (\<lambda>url.
     case ev_NewClient E timeout (if url = [] then DefaultLinodeAPIURL else url) of
       Inl err \<Rightarrow> throwE err
     | Inr _ \<Rightarrow> retE ())"

text \<open>The client of the environment is the one with counters; the debug flag only affects its log.\<close>

definition newLinodeClientWithPrometheus :: "'w env \<Rightarrow> int \<Rightarrow> ('w, unit) ccm" where
  "newLinodeClientWithPrometheus E timeout =
     wrapE (Wrapf ''client was not created successfully: %w'' []) (newClient E timeout)"

definition CheckClientAuthenticated :: "'w env \<Rightarrow> ('w, bool) ccm" where
  "CheckClientAuthenticated E =
     handleE (api_GetProfile E)
       (\<lambda>err. case asLinodeError err of
          None \<Rightarrow> throwE err
        | Some code \<Rightarrow> if code = 401 then retE False else throwE err)
       (\<lambda>_. retE True)"

section \<open>The health checker\<close>

text \<open>The field \<open>stopCh\<close> is nil or the channel that stops the program; that channel is open or
  closed, and closing it again panics.\<close>

record healthChecker =
  hc_period :: int
  hc_stopCh :: bool

definition newHealthChecker :: "int \<Rightarrow> healthChecker" where
  "newHealthChecker period = \<lparr>hc_period = period, hc_stopCh = True\<rparr>"

definition healthCheck :: "'w env \<Rightarrow> healthChecker \<times> bool \<Rightarrow> ('w, healthChecker \<times> bool) ccm" where
  "healthCheck E = (\<lambda>(r, closed).
     if \<not> hc_stopCh r then retE (r, closed)
     else
       handleE (CheckClientAuthenticated E) (\<lambda>_. retE (r, closed)) (\<lambda>authenticated.
       if authenticated then retE (r, closed)
       else if closed then panicE
       else retE (r\<lparr>hc_stopCh := False\<rparr>, True)))"

text \<open>The first \<open>n\<close> rounds of \<open>Run\<close>.\<close>

definition healthChecks :: "'w env \<Rightarrow> nat \<Rightarrow> healthChecker \<times> bool \<Rightarrow> ('w, healthChecker \<times> bool) ccm" where
  "healthChecks E n st = foldE (\<lambda>st _. healthCheck E st) st [0..<n]"

section \<open>The start of the program\<close>

definition externalNetwork :: "string option \<Rightarrow> Options \<Rightarrow> Options res" where
  "externalNetwork externalSubnet opts =
     (case externalSubnet of
        None \<Rightarrow> Ok opts
      | Some subnet \<Rightarrow>
          if subnet = [] then Ok opts
          else bindR (mapErr (Wrapf ''Unable to parse %s as network subnet: %v'' [subnet]) (ParseCIDR subnet))
            (\<lambda>(_, network). Ok (opts\<lparr>opt_LinodeExternalNetwork := Some network\<rparr>)))"

definition cloudInitializer :: "bool \<Rightarrow> string \<Rightarrow> Options \<Rightarrow> Options res" where
  "cloudInitializer allocateNodeCIDRs clusterCIDR opts =
     (if allocateNodeCIDRs then
        if clusterCIDR = [] then
          Err (Errorf ''--cluster-cidr is not set. This is required if --allocate-node-cidrs is set.'' [])
        else Ok (opts\<lparr>opt_AllocateNodeCIDRs := True, opt_ClusterCIDRIPv4 := clusterCIDR\<rparr>)
      else Ok opts)"

record linodeCloud =
  cloud_options :: Options
  cloud_zone :: string
  cloud_tokenProvider :: tokenProvider
  cloud_healthChecker :: "healthChecker option"

definition startHealthChecker :: "'w env \<Rightarrow> string \<Rightarrow> ('w, healthChecker option) ccm" where
  "startHealthChecker E tokenSourceDescription =
     (if \<not> opt_EnableTokenHealthChecker (ev_opts E) then retE None
      else
        bindE (wrapE (Wrapf ''linode client authenticated connection error: %w'' []) (CheckClientAuthenticated E))
          (\<lambda>authenticated.
        if \<not> authenticated then throwE (Errorf ''linode api token from %s is invalid'' [tokenSourceDescription])
        else retE (Some (newHealthChecker tokenHealthCheckPeriod))))"

definition backendSubnetOptions :: "'w env \<Rightarrow> Options \<Rightarrow> ('w, Options) ccm" where
  "backendSubnetOptions E opts =
     (if opt_NodeBalancerBackendIPv4SubnetID opts \<noteq> 0 \<and> opt_NodeBalancerBackendIPv4SubnetName opts \<noteq> [] then
        throwE (Errorf ''cannot have both --nodebalancer-backend-ipv4-subnet-id and --nodebalancer-backend-ipv4-subnet-name set'' [])
      else if opt_DisableNodeBalancerVPCBackends opts then
        retE (opts\<lparr>opt_NodeBalancerBackendIPv4SubnetID := 0, opt_NodeBalancerBackendIPv4SubnetName := []\<rparr>)
      else if opt_NodeBalancerBackendIPv4SubnetName opts \<noteq> [] then
        bindE (wrapE (Wrapf ''failed to get backend IPv4 subnet ID for subnet name %s: %w''
          [opt_NodeBalancerBackendIPv4SubnetName opts]) (GetNodeBalancerBackendIPv4SubnetID E opts)) (\<lambda>i.
        retE (opts\<lparr>opt_NodeBalancerBackendIPv4SubnetID := i\<rparr>))
      else retE opts)"

text \<open>The pattern \<open>[a-zA-Z0-9_-]+\<close>.\<close>

definition prefixChar :: "char \<Rightarrow> bool" where
  "prefixChar c =
     (let n = of_char c :: nat in
      97 \<le> n \<and> n \<le> 122 \<or> 65 \<le> n \<and> n \<le> 90 \<or> 48 \<le> n \<and> n \<le> 57 \<or> n = 95 \<or> n = 45)"

definition validPrefix :: "string \<Rightarrow> bool" where
  "validPrefix s = (s \<noteq> [] \<and> list_all prefixChar s)"

definition checkLoadBalancerOptions :: "Options \<Rightarrow> Options res" where
  "checkLoadBalancerOptions opts0 =
     (let opts = (if opt_LoadBalancerType opts0 = ciliumLBType
                  then opts0\<lparr>opt_LoadBalancerType := nodeBalancerLBType\<rparr> else opts0) in
      if opt_LoadBalancerType opts \<noteq> [] \<and> opt_LoadBalancerType opts \<notin> set supportedLoadBalancerTypes then
        Err (Errorf ''unsupported default load-balancer type %s. options.Options are %v''
          (opt_LoadBalancerType opts # supportedLoadBalancerTypes))
      else if length (opt_NodeBalancerPrefix opts) > NodeBalancerPrefixCharLimit then
        Err (Errorf ''nodebalancer-prefix must be %d characters or less: %s is %d characters''
          [Itoa (int NodeBalancerPrefixCharLimit), opt_NodeBalancerPrefix opts, Itoa (int (length (opt_NodeBalancerPrefix opts)))])
      else if \<not> validPrefix (opt_NodeBalancerPrefix opts) then
        Err (Errorf ''nodebalancer-prefix must be no empty and use only letters, numbers, underscores, and dashes: %s''
          [opt_NodeBalancerPrefix opts])
      else Ok opts)"

definition newCloud :: "'w env \<Rightarrow> ('w, linodeCloud) ccm" where
  "newCloud E =
     bindE (getenvE E regionEnv) (\<lambda>region.
     if region = [] then throwE (Errorf ''%s must be set in the environment (use a k8s secret)'' [regionEnv])
     else
       bindE (tokenProviderFromFileOrEnv E) (\<lambda>(tokenProvider, tokenSourceDescription).
       bindE (lookupEnvE E ''LINODE_REQUEST_TIMEOUT_SECONDS'') (\<lambda>rawTimeout.
       bindE (newLinodeClientWithPrometheus E (Seconds (ttlSeconds rawTimeout DefaultClientTimeout))) (\<lambda>_.
       bindE (startHealthChecker E tokenSourceDescription) (\<lambda>checker.
       bindE (wrapE (Wrapf ''failed to validate VPC and subnet flags: %w'' [])
         (ValidateAndSetVPCSubnetFlags E (ev_opts E))) (\<lambda>opts.
       bindE (backendSubnetOptions E opts) (\<lambda>opts.
       bindE (lookupEnvE E ''LINODE_INSTANCE_CACHE_TTL'') (\<lambda>rawInstances.
       bindE (modifyE (\<lambda>s. s\<lparr>st_nodeCache := NewInstances rawInstances\<rparr>)) (\<lambda>_.
       bindE (lookupEnvE E ''LINODE_ROUTES_CACHE_TTL_SECONDS'') (\<lambda>rawRoutes.
       bindE (liftR (mapErr (Wrapf ''routes client was not created successfully: %w'' []) (newRoutes opts rawRoutes))) (\<lambda>routes.
       bindE (modifyE (\<lambda>s. s\<lparr>st_routeCache := routes\<rparr>)) (\<lambda>_.
       bindE (liftR (checkLoadBalancerOptions opts)) (\<lambda>opts.
       retE \<lparr>cloud_options = opts, cloud_zone = region, cloud_tokenProvider = tokenProvider,
             cloud_healthChecker = checker\<rparr>)))))))))))))"

text \<open>What \<open>Initialize\<close> starts: the allocator, if any, the health checker, if any, and the two other
  controllers, of which the node controller has a time to live. A failure of the allocator ends the
  program.\<close>

definition Initialize :: "'w env \<Rightarrow> linodeCloud \<Rightarrow> ('w, cloudAllocator option \<times> healthChecker option \<times> int) ccm" where
  "Initialize E c =
     bindE (startNodeIpamController E) (\<lambda>allocator.
     bindE (lookupEnvE E ''LINODE_METADATA_TTL'') (\<lambda>raw.
     retE (allocator, cloud_healthChecker c, metadataTTL raw)))"

text \<open>The interfaces of the cloud provider, and which of them the program offers.\<close>

datatype cloudInterface = LoadBalancerI | InstancesI | InstancesV2I | ZonesI | ClustersI | RoutesI

fun offers :: "Options \<Rightarrow> cloudInterface \<Rightarrow> bool" where
  "offers opts LoadBalancerI = True"
| "offers opts InstancesI = False"
| "offers opts InstancesV2I = True"
| "offers opts ZonesI = False"
| "offers opts ClustersI = False"
| "offers opts RoutesI = opt_EnableRouteController opts"

definition cloudRoutes :: "Options \<Rightarrow> routeCache \<Rightarrow> routeCache option" where
  "cloudRoutes opts routes = (if opt_EnableRouteController opts then Some routes else None)"

definition HasClusterID :: bool where "HasClusterID = True"


section \<open>Tokens over time\<close>

lemma fileGetToken_cases:
  assumes "fileGetToken E p s = (r, t)"
  shows "t = s \<and> (case r of
      Ok (tok, p') \<Rightarrow> tok \<noteq> [] \<and>
        (p' = p \<and> tok = tp_cachedToken p \<and> ev_Now E (world s) < tp_expiresAt p \<or>
         (\<exists>raw. ev_ReadFile E (world s) (tp_path p) = Inr raw \<and> tok = TrimSpace raw \<and>
            p' = p\<lparr>tp_cachedToken := tok, tp_expiresAt := ev_Now E (world s) + tokenTTL p\<rparr>))
    | Err _ \<Rightarrow> True | Panic \<Rightarrow> False)"
  using assms
  by (auto simp: fileGetToken_def nowE_def readFileE_def eff_simps Let_def split: if_splits sum.splits)

text \<open>The answers to requests for a token made in the given states.\<close>

fun tokens :: "'w env \<Rightarrow> tokenFileProvider \<Rightarrow> 'w sys list \<Rightarrow> string res list" where
  "tokens E p [] = []"
| "tokens E p (s # ss) =
     (case fst (fileGetToken E p s) of
        Ok (tok, p') \<Rightarrow> Ok tok # tokens E p' ss
      | Err e \<Rightarrow> Err e # tokens E p ss
      | Panic \<Rightarrow> Panic # tokens E p ss)"

text \<open>\<open>tok\<close> is what the file held in state \<open>u\<close>, and is not used later than \<open>limit\<close>.\<close>

definition token_of :: "'w env \<Rightarrow> string \<Rightarrow> 'w sys \<Rightarrow> string \<Rightarrow> bool" where
  "token_of E path u tok \<longleftrightarrow> (\<exists>raw. ev_ReadFile E (world u) path = Inr raw \<and> tok = TrimSpace raw)"

definition cached_from :: "'w env \<Rightarrow> tokenFileProvider \<Rightarrow> 'w sys list \<Rightarrow> bool" where
  "cached_from E p past \<longleftrightarrow> tp_cachedToken p = [] \<or>
     (\<exists>u \<in> set past. token_of E (tp_path p) u (tp_cachedToken p) \<and> tp_expiresAt p = ev_Now E (world u) + tokenTTL p)"

lemma tokens_fresh:
  assumes "cached_from E p past" "i < length ss" "tokens E p ss ! i = Ok tok"
  shows "tok \<noteq> [] \<and> (\<exists>u \<in> set past \<union> set (take (Suc i) ss). token_of E (tp_path p) u tok \<and>
    (u = ss ! i \<or> ev_Now E (world (ss ! i)) < ev_Now E (world u) + tokenTTL p))"
  using assms
proof (induction ss arbitrary: p past i)
  case (Cons s ss)
  obtain r t where run: "fileGetToken E p s = (r, t)" by fastforce
  note step = fileGetToken_cases [OF run]
  show ?case
  proof (cases r)
    case (Ok x)
    then obtain tok' p' where x: "x = (tok', p')" by fastforce
    have same: "tp_path p' = tp_path p" "tokenTTL p' = tokenTTL p"
      using step Ok x by (auto simp: tokenTTL_def)
    have cached: "cached_from E p' (s # past)"
      using step Ok x Cons.prems(1) by (auto simp: cached_from_def token_of_def tokenTTL_def)
    show ?thesis
    proof (cases i)
      case 0
      then have "tok = tok'" using Cons.prems(3) run Ok x by simp
      then show ?thesis
        using step Ok x 0 Cons.prems(1) by (auto simp: cached_from_def token_of_def)
    next
      case (Suc j)
      then show ?thesis
        using Cons.IH [OF cached, of j] Cons.prems(2,3) run Ok x same by auto
    qed
  next
    case (Err e)
    then obtain j where "i = Suc j" using Cons.prems(3) run by (cases i) auto
    moreover have "cached_from E p (s # past)" using Cons.prems(1) by (auto simp: cached_from_def)
    ultimately show ?thesis using Cons.IH [of p "s # past" j] Cons.prems(2,3) run Err by auto
  qed (use step in simp)
qed simp

section \<open>Health checks\<close>

text \<open>Linode may answer that the token is not valid.\<close>

definition rejects :: "'w env \<Rightarrow> bool" where
  "rejects E \<longleftrightarrow> (\<exists>w w' e. cl_GetProfile (ev_client E) w = (Inl e, w') \<and> asLinodeError e = Some 401)"

lemma rejectsI: "cl_GetProfile (ev_client E) w = (Inl e, w') \<Longrightarrow> asLinodeError e = Some 401 \<Longrightarrow> rejects E"
  by (auto simp: rejects_def)

lemma healthCheck_cases:
  assumes "healthCheck E (r, \<not> hc_stopCh r) s = (res, t)"
  shows "\<exists>r'. res = Ok (r', \<not> hc_stopCh r') \<and>
    (if hc_stopCh r then calls t = calls s @ [Inst Call_GetProfile] \<and>
       (hc_stopCh r' \<or> rejects E)
     else r' = r \<and> t = s)"
  using assms
  by (auto simp: healthCheck_def CheckClientAuthenticated_def api_GetProfile_def eff_simps
      split: if_splits prod.splits sum.splits option.splits) (rule rejectsI)

lemma healthChecks_run:
  assumes "foldE (\<lambda>st _. healthCheck E st) (r, \<not> hc_stopCh r) xs s = (res, t)"
  shows "\<exists>r' k. res = Ok (r', \<not> hc_stopCh r') \<and> calls t = calls s @ replicate k (Inst Call_GetProfile) \<and>
    k \<le> length xs \<and> (hc_stopCh r' \<longrightarrow> hc_stopCh r \<and> k = length xs) \<and>
    (hc_stopCh r \<and> \<not> hc_stopCh r' \<longrightarrow> 0 < k \<and>
       rejects E)"
  using assms
proof (induction xs arbitrary: r s)
  case Nil
  then show ?case by (auto simp: eff_simps intro!: exI [of _ 0])
next
  case (Cons x xs)
  obtain r1 s1 where one: "healthCheck E (r, \<not> hc_stopCh r) s = (Ok (r1, \<not> hc_stopCh r1), s1)"
    using healthCheck_cases [of E r s] by (metis prod.collapse)
  then have rest: "foldE (\<lambda>st _. healthCheck E st) (r1, \<not> hc_stopCh r1) xs s1 = (res, t)"
    using Cons.prems by (simp add: eff_simps)
  from Cons.IH [OF rest] obtain r' k where k: "res = Ok (r', \<not> hc_stopCh r')"
    "calls t = calls s1 @ replicate k (Inst Call_GetProfile)" "k \<le> length xs"
    "hc_stopCh r' \<longrightarrow> hc_stopCh r1 \<and> k = length xs"
    "hc_stopCh r1 \<and> \<not> hc_stopCh r' \<longrightarrow> 0 < k \<and>
       rejects E" by blast
  show ?case
    using healthCheck_cases [OF one] k
    by (intro exI [of _ r'] exI [of _ "if hc_stopCh r then Suc k else k"]) (auto split: if_splits)
qed


section \<open>Start-up\<close>

lemma emits_newCloud:
  assumes "\<And>c. apiRead c \<Longrightarrow> P c"
  shows "emits P (newCloud E)"
proof -
  have token: "emits P (tokenProviderFromFileOrEnv E)"
    unfolding tokenProviderFromFileOrEnv_def fileGetToken_def tokenFileCacheTTLFromEnv_def Let_def
    by (intro emits_intros)
  have checker: "emits P (startHealthChecker E d)" for d
    unfolding startHealthChecker_def CheckClientAuthenticated_def api_GetProfile_def
    by (intro emits_intros) (simp add: assms)
  have flags: "emits P (ValidateAndSetVPCSubnetFlags E opts)" for opts
    unfolding ValidateAndSetVPCSubnetFlags_def flagsStep_def resolveSubnetNames_def api_defs Let_def
    by (intro emits_intros) (auto simp: assms)
  have subnet: "emits P (backendSubnetOptions E opts)" for opts
    unfolding backendSubnetOptions_def GetNodeBalancerBackendIPv4SubnetID_def
    by (intro emits_intros) (auto simp: assms)
  show ?thesis
    unfolding newCloud_def newLinodeClientWithPrometheus_def newClient_def
    by (intro emits_intros token checker flags subnet) (auto intro!: emits_intros split: sum.split)
qed

lemma startHealthChecker_Ok:
  assumes "startHealthChecker E d s = (Ok hc, t)"
  shows "if opt_EnableTokenHealthChecker (ev_opts E)
    then hc = Some (newHealthChecker tokenHealthCheckPeriod) \<and> (\<exists>w. cl_GetProfile (ev_client E) (world s) = (Inr (), w))
    else hc = None"
  using assms
  by (auto simp: startHealthChecker_def CheckClientAuthenticated_def api_GetProfile_def eff_simps
      split: if_splits prod.splits sum.splits option.splits)

lemma ValidateAndSetVPCSubnetFlags_frame:
  assumes "ValidateAndSetVPCSubnetFlags E opts s = (Ok opts', t)"
  shows "\<exists>vpcs subnets. opts' = opts\<lparr>opt_VPCNames := vpcs, opt_SubnetNames := subnets\<rparr>"
  using assms by (auto simp: ValidateAndSetVPCSubnetFlags_def Let_def eff_ok split: if_splits)

lemma checkLoadBalancerOptions_Ok:
  assumes "checkLoadBalancerOptions opts = Ok opts'"
  shows "opts' = opts\<lparr>opt_LoadBalancerType := opt_LoadBalancerType opts'\<rparr> \<and>
    opt_LoadBalancerType opts' \<in> {[], nodeBalancerLBType} \<and> validPrefix (opt_NodeBalancerPrefix opts') \<and>
    length (opt_NodeBalancerPrefix opts') \<le> NodeBalancerPrefixCharLimit"
  using assms
  by (auto simp: checkLoadBalancerOptions_def Let_def supportedLoadBalancerTypes_def not_less split: if_splits)

section \<open>Properties\<close>



definition startEnv :: "unit env" where
  "startEnv = sampleEnv\<lparr>ev_LookupEnv := (\<lambda>_ k. if k = regionEnv then Some ''us-ord'' else None),
     ev_ReadFile := (\<lambda>_ _. Inr ''secret ''), ev_opts := defaultOptions\<lparr>opt_LoadBalancerType := ciliumLBType\<rparr>\<rparr>"


text \<open>C20: A new token is seen in time. Whenever a token is handed out for a request, it is not empty,
  and it is the trimmed content that the token file has now or had at an earlier request, less than
  the time to live ago.\<close>

theorem token_rotation_seen:
  assumes "tp_cachedToken p = []" "i < length requests" "tokens E p requests ! i = Ok tok"
  shows "tok \<noteq> [] \<and> (\<exists>j \<le> i. token_of E (tp_path p) (requests ! j) tok \<and>
    (j = i \<or> ev_Now E (world (requests ! i)) < ev_Now E (world (requests ! j)) + tokenTTL p))"
proof -
  have "cached_from E p []" using assms(1) by (simp add: cached_from_def)
  from tokens_fresh [OF this assms(2,3)] obtain u where
    u: "tok \<noteq> []" "u \<in> set (take (Suc i) requests)" "token_of E (tp_path p) u tok"
      "u = requests ! i \<or> ev_Now E (world (requests ! i)) < ev_Now E (world u) + tokenTTL p" by auto
  from u(2) obtain j where "j \<le> i" "u = requests ! j" by (auto simp: in_set_conv_nth less_Suc_eq_le)
  with u show ?thesis by (metis order_refl)
qed

theorem token_rotation_seen_witness:
  "tokens (startEnv\<lparr>ev_ReadFile := (\<lambda>_ _. Inr ''t'')\<rparr>)
     \<lparr>tp_path = ''p'', tp_cacheTTL = 0, tp_cachedToken = [], tp_expiresAt = 0\<rparr> [sampleState ()] ! 0 = Ok ''t'' \<and>
   token_of (startEnv\<lparr>ev_ReadFile := (\<lambda>_ _. Inr ''t'')\<rparr>) ''p'' (sampleState ()) ''t''"
proof -
  have "tokens (startEnv\<lparr>ev_ReadFile := (\<lambda>_ _. Inr ''t'')\<rparr>)
     \<lparr>tp_path = ''p'', tp_cacheTTL = 0, tp_cachedToken = [], tp_expiresAt = 0\<rparr> [sampleState ()] ! 0 = Ok ''t''"
    by code_simp
  with token_rotation_seen [OF _ _ this] show ?thesis by auto
qed

text \<open>C21: The program is stopped once, for a rejected token. Any number of health checks neither fails nor
  panics. Each asks Linode once, until the token is rejected; then the stop channel is closed, once,
  and no further check is made. Without a rejection, the channel stays open.\<close>

theorem health_check_stops_once:
  assumes "hc_stopCh r" "healthChecks E n (r, False) s = (res, t)"
  shows "\<exists>r' closed k. res = Ok (r', closed) \<and> closed = (\<not> hc_stopCh r') \<and>
    calls t = calls s @ replicate k (Inst Call_GetProfile) \<and>
    (if closed then 0 < k \<and> k \<le> n \<and> rejects E else k = n)"
  using healthChecks_run [of E r "[0..<n]" s res t] assms by (fastforce simp: healthChecks_def)

definition rejectEnv :: "unit env" where
  "rejectEnv = sampleEnv\<lparr>ev_client := offlineClient\<lparr>cl_GetProfile := (\<lambda>w. (Inl (LinodeError 401 []), w))\<rparr>\<rparr>"

theorem health_check_stops_once_witness:
  "\<exists>r' closed. fst (healthChecks rejectEnv 3 (newHealthChecker 0, False) (sampleState ())) = Ok (r', closed) \<and>
     closed = (\<not> hc_stopCh r')"
  using health_check_stops_once [OF _ prod.collapse [symmetric], of "newHealthChecker 0" rejectEnv 3 "sampleState ()"]
  by (auto simp: newHealthChecker_def)

section \<open>Corner cases\<close>

text \<open>A token from the environment is read once: a later change is not seen.\<close>

lemma env_token_fixed: "GetToken E (EnvToken \<lparr>sp_token = tok\<rparr>) s =
    (if tok = [] then (Err (Errorf ''%s must be set in the environment (use a k8s secret)'' [accessTokenEnv]), s)
     else (Ok (tok, EnvToken \<lparr>sp_token = tok\<rparr>), s))"
  by (simp add: GetToken_def staticGetToken_def eff_simps)

end
