(* ===== verification/Controllers.thy ===== *)
theory Controllers
  imports Service_Controller Cloud_Provider
begin

text \<open>
  The process as a whole. The controllers, the calls of the Kubernetes framework and everything
  outside the process take steps in any order. A step is one operation of a component; the state
  they share is the one of \<open>CCM_System\<close>.
\<close>

section \<open>What every step keeps\<close>

definition ipv6Route :: "Route \<Rightarrow> bool" where
  "ipv6Route r = (case ParseCIDR (rt_DestinationCIDR r) of Ok (ip, _) \<Rightarrow> To4 ip = None | _ \<Rightarrow> False)"

text \<open>The two caches of nodes stay consistent, the trace only grows, the remembered routes only grow,
  by IPv6 routes, and the Kubernetes client is set once.\<close>

definition good_step :: "'w sys \<Rightarrow> 'w sys \<Rightarrow> bool" where
  "good_step s t \<longleftrightarrow>
     (kc_wf (registeredK8sNodeCache s) \<longrightarrow> kc_wf (registeredK8sNodeCache t)) \<and>
     (cache_wf (nc_nodes (st_nodeCache s)) \<longrightarrow> cache_wf (nc_nodes (st_nodeCache t))) \<and>
     (\<exists>cs. calls t = calls s @ cs) \<and>
     (\<exists>rs. ipv6ConfiguredRoutes t = ipv6ConfiguredRoutes s @ rs \<and> list_all ipv6Route rs) \<and>
     (lb_kubeClient s \<noteq> NoKubeClient \<longrightarrow> lb_kubeClient t = lb_kubeClient s)"

interpretation good_steps: eff_preorder "good_step :: 'w sys \<Rightarrow> 'w sys \<Rightarrow> bool"
proof unfold_locales
  show "good_step s s" for s :: "'w sys" by (simp add: good_step_def)
  show "good_step s u" if "good_step s t" "good_step t u" for s t u :: "'w sys"
    using that by (auto simp: good_step_def)
qed

named_theorems good_intros "operations whose steps are good"

lemmas [good_intros] = good_steps.keeps_rules

lemma good_sum [good_intros]:
  "(\<And>a. z = Inl a \<Longrightarrow> keeps good_step (f a)) \<Longrightarrow> (\<And>b. z = Inr b \<Longrightarrow> keeps good_step (g b)) \<Longrightarrow>
   keeps good_step (case z of Inl a \<Rightarrow> f a | Inr b \<Rightarrow> g b)"
  by (cases z) simp_all

lemma good_callE [good_intros]: "keeps good_step (callE c f)" "keeps good_step (queueE q g)"
  by (auto simp: keeps_def queueE_def good_step_def callE_def Let_def split: prod.splits)

lemma good_reads [good_intros]:
  "keeps good_step (nowE E)" "keeps good_step (lookupEnvE E k)" "keeps good_step (nodeListerE E k)"
  "keeps good_step (getenvE E k)" "keeps good_step (readFileE E k)"
  unfolding nowE_def lookupEnvE_def nodeListerE_def getenvE_def readFileE_def by (intro good_intros)+

lemma good_modifyE [good_intros]:
  "keeps good_step (modifyE (\<lambda>s. s\<lparr>VpcIDs := vpcs s\<rparr>))"
  "keeps good_step (modifyE (\<lambda>s. s\<lparr>SubnetIDs := subnets s\<rparr>))"
  "keeps good_step (modifyE (\<lambda>s. s\<lparr>metadataLastUpdate := updates s\<rparr>))"
  "keeps good_step (modifyE (\<lambda>s. s\<lparr>nodeLastAdded := added s\<rparr>))"
  "keeps good_step (modifyE (\<lambda>s. s\<lparr>st_routeCache := routes s\<rparr>))"
  "keeps good_step (modifyE (\<lambda>s. s\<lparr>st_nodeCache := NewInstances raw\<rparr>))"
  "keeps good_step (modifyE (\<lambda>s. s\<lparr>registeredK8sNodeCache := cacheNode node (registeredK8sNodeCache s)\<rparr>))"
  by (rule good_steps.keeps_modifyE; simp add: good_step_def NewInstances_def cache_wf_def kc_wf_cacheNode)+

section \<open>VPCs and instances\<close>

lemma good_vpc [good_intros]:
  "keeps good_step (GetAllVPCIDs E)" "keeps good_step (GetVPCID E n)" "keeps good_step (GetSubnetID E v n)"
  "keeps good_step (GetVPCIPAddresses E n)" "keeps good_step (GetVPCIPv6Addresses E n)"
  unfolding GetAllVPCIDs_def GetVPCID_def GetSubnetID_def GetVPCIPAddresses_def GetVPCIPv6Addresses_def
    getVPCIDAndFilter_def handleNotFoundError_def resolveSubnetNames_def api_defs Let_def
  by (intro good_intros)+

lemma good_refreshInstances [good_intros]: "keeps good_step (refreshInstances E)"
proof (rule keepsI)
  fix s
  obtain r t where run: "refreshInstances E s = (r, t)" by fastforce
  have "leaves registeredK8sNodeCache (refreshInstances E)" "leaves ipv6ConfiguredRoutes (refreshInstances E)"
    "leaves lb_kubeClient (refreshInstances E)"
    by (rule leaves_refreshInstances; simp)+
  note same = this [THEN leavesD, OF run]
  have "emits (\<lambda>_. True) (refreshInstances E)" by (rule emits_refreshInstances) simp_all
  from emitsD [OF this run] obtain cs where "calls t = calls s @ cs" by blast
  then show "good_step s (snd (refreshInstances E s))"
    using refreshInstances_wf [OF run] by (simp add: good_step_def run same)
qed

lemma good_instances [good_intros]:
  "keeps good_step (LookupLinode E node)" "keeps good_step (ListAllInstances E)"
  "keeps good_step (InstanceExists E node)" "keeps good_step (InstanceShutdown E node)"
  "keeps good_step (InstanceMetadata E node)"
proof -
  have lookups: "keeps good_step (findInCache E node)" for node
    unfolding findInCache_def linodeByID_def linodeByName_def linodeByIP_def rangeNodes_def Let_def
    by (intro good_intros)
  show lookup: "keeps good_step (LookupLinode E node)" for node
    unfolding LookupLinode_def by (intro good_intros lookups)
  show "keeps good_step (ListAllInstances E)"
    unfolding ListAllInstances_def rangeNodes_def by (intro good_intros)
  show "keeps good_step (InstanceExists E node)" "keeps good_step (InstanceShutdown E node)"
    "keeps good_step (InstanceMetadata E node)"
    unfolding InstanceExists_def InstanceShutdown_def InstanceMetadata_def getLinodeAddresses_def Let_def
    by (intro good_intros lookup)+
qed

section \<open>Load balancers\<close>

lemma good_retrieveKubeClient [good_intros]: "keeps good_step (retrieveKubeClient E)"
  by (rule keepsI) (auto simp: retrieveKubeClient_def api_defs eff_simps good_step_def Let_def
    split: prod.split sum.split)

lemma good_kube [good_intros]: "keeps good_step m \<Longrightarrow> keeps good_step (withKubeClient m)"
  unfolding withKubeClient_def by (intro good_intros)

lemma good_firewalls [good_intros]:
  "keeps good_step (DeleteNodeBalancerFirewall E svc nb)"
  "keeps good_step (UpdateNodeBalancerFirewall E name tags svc nb)"
  unfolding DeleteNodeBalancerFirewall_def DeleteFirewall_def UpdateNodeBalancerFirewall_def
    updateServiceFirewall_def updateNodeBalancerFirewallWithACL_def getNodeBalancerDeviceID_def api_defs
  by (intro good_intros)+

lemma good_config [good_intros]:
  "keeps good_step (buildNodeBalancerConfig E svc port)" "keeps good_step (GetLoadBalancerName E)"
  "keeps good_step (getSubnetIDForSVC E svc)" "keeps good_step (getBackendSubnetID E svc v6)"
proof -
  show subnet: "keeps good_step (getSubnetIDForSVC E svc)"
    unfolding getSubnetIDForSVC_def Let_def by (intro good_intros)
  show "keeps good_step (buildNodeBalancerConfig E svc port)" "keeps good_step (GetLoadBalancerName E)"
    "keeps good_step (getBackendSubnetID E svc v6)"
    unfolding buildNodeBalancerConfig_def addTLSCert_def getTLSCertInfo_def GetLoadBalancerName_def
      getBackendSubnetID_def api_defs
    by (intro good_intros subnet)+
qed

lemma good_create [good_intros]: "keeps good_step (buildLoadBalancerRequest E cluster svc nodes)"
  unfolding buildLoadBalancerRequest_def createNodeBalancer_def getVPCCreateOptions_def
    getFrontendVPCCreateOptions_def getSubnetIDByVPCAndSubnetNames_def api_defs
  by (intro good_intros)

lemma good_nodeBalancerFromIngress: "keeps good_step (nodeBalancerFromIngress E svc ingress)"
  by (induction ingress) (auto simp: getNodeBalancerByHostname_def getNodeBalancerByIP_def api_defs Let_def
    intro!: good_intros)

lemma good_status [good_intros]:
  "keeps good_step (getLatestServiceLoadBalancerStatus E svc)" "keeps good_step (statusOf E svc nb)"
  unfolding getLatestServiceLoadBalancerStatus_def statusOf_def api_defs by (intro good_intros)+

lemma good_find [good_intros]:
  "keeps good_step (getNodeBalancerByStatus E svc)" "keeps good_step (getNodeBalancerForService E svc)"
  unfolding getNodeBalancerForService_def getNodeBalancerByStatus_def getNodeBalancerByID_def api_defs
  by (intro good_intros good_nodeBalancerFromIngress)+

lemma good_update [good_intros]:
  "keeps good_step (updateNodeBalancer E cluster svc nodes nb)" "keeps good_step (cleanupOldNodeBalancer E svc)"
  unfolding updateNodeBalancer_def createIPChangeWarningEvent_def deleteUnusedConfigs_def updatePort_def
    currentNodes_def rebuildTarget_def syncThrottle_def syncTags_def cleanupOldNodeBalancer_def api_defs
  by (intro good_intros)+

lemma good_loadbalancers [good_intros]:
  "keeps good_step (GetLoadBalancer E cluster svc)" "keeps good_step (EnsureLoadBalancer E cluster svc nodes)"
  "keeps good_step (UpdateLoadBalancer E cluster svc nodes)" "keeps good_step (EnsureLoadBalancerDeleted E cluster svc)"
  unfolding GetLoadBalancer_def EnsureLoadBalancer_def ensureNodeBalancer_def UpdateLoadBalancer_def
    EnsureLoadBalancerDeleted_def api_defs
  by (intro good_intros)+

section \<open>Controllers\<close>

lemma good_services [good_intros]:
  "keeps good_step (onServiceDelete E obj)" "keeps good_step (onServiceUpdate E old new)"
  "keeps good_step (processNextDeletion E)"
proof -
  have queue: "keeps good_step (api_QueueAdd E q i)" "keeps good_step (api_QueueGet E q)"
    "keeps good_step (api_QueueAddAfter E q i d)" "keeps good_step (api_QueueDone E q i)" for q i d
    unfolding api_defs by (intro good_intros)+
  show "keeps good_step (onServiceDelete E obj)" "keeps good_step (onServiceUpdate E old new)"
    unfolding onServiceDelete_def onServiceUpdate_def
    by (cases obj; cases old; cases new; simp add: good_intros queue)+
  have "keeps good_step (handleServiceItem E item)" for item
    unfolding handleServiceItem_def handleServiceDeleted_def by (cases item) (simp_all add: good_intros)
  then show "keeps good_step (processNextDeletion E)"
    unfolding service_worker.step by (intro good_intros queue)
qed

lemma good_updateCache [good_intros]: "keeps good_step (updateCache E)"
  by (rule keepsI) (auto simp: updateCache_alt good_step_def Let_def kc_wf_fold kc_wf_empty
    split: prod.split sum.split)

lemma good_handleNode [good_intros]: "keeps good_step (handleNode (withRetries n E) ttl node)"
  unfolding handleNode_def withRetries_kube updateOnce_def LastMetadataUpdate_def SetLastMetadataUpdate_def
    addNodeToCache_def api_defs
  by (intro good_intros good_steps.keeps_retryRuns)

lemma good_nodes [good_intros]:
  "keeps good_step (addNodeToQueue E node)" "keeps good_step (processNext (withRetries n E) ttl)"
proof -
  show "keeps good_step (addNodeToQueue E node)"
    unfolding addNodeToQueue_def api_defs by (intro good_intros)
  have "keeps good_step (handleNodeItem (withRetries n E) ttl item)" for item
    unfolding handleNodeItem_def by (cases item) (simp_all add: good_intros)
  then show "keeps good_step (processNext (withRetries n E) ttl)"
    unfolding node_worker.step api_defs by (intro good_intros)
qed

lemma good_CreateRoute: "keeps good_step (CreateRoute E route)"
proof (cases "ParseCIDR (rt_DestinationCIDR route)")
  case (Ok r)
  obtain ip net where r: "r = (ip, net)" by fastforce
  have "keeps good_step (modifyE (\<lambda>s. s\<lparr>ipv6ConfiguredRoutes := ipv6ConfiguredRoutes s @ [route]\<rparr>))"
    if "To4 ip = None"
    by (rule good_steps.keeps_modifyE) (simp add: good_step_def ipv6Route_def Ok r that)
  then show ?thesis
    unfolding CreateRoute_def Ok r liftR_simps bindE_retE prod.case getInstanceFromName_def getInstanceRoutes_def
      refreshRoutes_def collectRoutes_def instanceRoutesByID_def handleInterfaces_def Let_def api_defs
    by (intro good_intros)
qed (simp_all add: CreateRoute_def good_intros)

lemma good_routes [good_intros]:
  "keeps good_step (CreateRoute E route)" "keeps good_step (DeleteRoute E route)" "keeps good_step (ListRoutes E)"
  by (rule good_CreateRoute)
    (unfold DeleteRoute_def ListRoutes_def listInstanceRoutes_def getInstanceFromName_def getInstanceRoutes_def
      refreshRoutes_def collectRoutes_def instanceRoutesByID_def handleInterfaces_def Let_def api_defs,
     (intro good_intros)+)

section \<open>The allocator\<close>

lemma good_occupyLoop: "keeps good_step (occupyLoop E name idx cidrs)"
  by (induction E name idx cidrs rule: occupyLoop.induct) (auto simp: api_defs intro!: good_intros)

lemma good_releaseLoop: "keeps good_step (releaseLoop E name idx cidrs)"
  by (induction E name idx cidrs rule: releaseLoop.induct) (auto simp: api_defs intro!: good_intros)

lemma good_patchLoop: "keeps good_step (patchLoop E name cidrs n err)"
  by (induction E name cidrs n err rule: patchLoop.induct) (auto simp: api_defs intro!: good_intros)

lemma good_cidrs [good_intros]:
  "keeps good_step (occupyCIDRs E node)" "keeps good_step (ReleaseCIDR E node)"
  "keeps good_step (AllocateOrOccupyCIDR E ca node)"
proof -
  show occupy: "keeps good_step (occupyCIDRs E node)" for node
    unfolding occupyCIDRs_def by (rule good_occupyLoop)
  show "keeps good_step (ReleaseCIDR E node)" unfolding ReleaseCIDR_def by (rule good_releaseLoop)
  show "keeps good_step (AllocateOrOccupyCIDR E ca node)"
    unfolding AllocateOrOccupyCIDR_def enqueueCIDRUpdate_def updateCIDRsAllocation_def releaseFirst_def
      allocateIPv6CIDR_def ipv6RangeOf_def api_defs
    by (intro good_intros good_patchLoop occupy)
qed

lemma good_allocator [good_intros]:
  "keeps good_step (onNodeAdded E obj)" "keeps good_step (onNodeDeleted E obj)"
  "keeps good_step (processNextNodeWorkItem E ca)"
proof -
  show "keeps good_step (onNodeAdded E obj)" unfolding onNodeAdded_def api_defs by (intro good_intros)
  show "keeps good_step (onNodeDeleted E obj)"
    unfolding onNodeDeleted_def by (auto split: informerObj.split option.split intro!: good_intros)
  have "keeps good_step (syncNode E ca key)" for key unfolding syncNode_def by (intro good_intros)
  then show "keeps good_step (processNextNodeWorkItem E ca)"
    unfolding processNextNodeWorkItem_def api_defs by (auto split: queue_item.split intro!: good_intros)
qed

section \<open>Start-up\<close>

text \<open>What \<open>wait.PollUntilContextTimeout\<close> is documented to do: run the function until it reports
  that it is done, a bounded number of times before the deadline.\<close>

fun pollRuns :: "nat \<Rightarrow> ('s, 'a option) eff \<Rightarrow> ('s, 'a) eff" where
  "pollRuns 0 m = throwE (Errorf ''context deadline exceeded'' [])"
| "pollRuns (Suc n) m = bindE m (\<lambda>r. case r of Some a \<Rightarrow> retE a | None \<Rightarrow> pollRuns n m)"

lemma good_pollRuns: "keeps good_step m \<Longrightarrow> keeps good_step (pollRuns n m)"
  by (induction n) (auto intro!: good_intros)

lemma good_newCloud: "keeps good_step (newCloud E)"
proof -
  have "keeps good_step (ValidateAndSetVPCSubnetFlags E opts)" for opts
    unfolding ValidateAndSetVPCSubnetFlags_def flagsStep_def resolveSubnetNames_def api_defs by (intro good_intros)
  then show ?thesis
    unfolding newCloud_def tokenProviderFromFileOrEnv_def tokenFileCacheTTLFromEnv_def fileGetToken_def
      newLinodeClientWithPrometheus_def newClient_def startHealthChecker_def CheckClientAuthenticated_def backendSubnetOptions_def
      GetNodeBalancerBackendIPv4SubnetID_def api_defs
    by (intro good_intros)
qed

lemma good_NewLinodeCIDRAllocator: "keeps good_step (NewLinodeCIDRAllocator E params nodes)"
proof -
  have last: "keeps good_step (lastIPForCIDR E cidr)" for cidr
    unfolding lastIPForCIDR_def by (intro good_intros)
  show ?thesis
    unfolding NewLinodeCIDRAllocator_def shouldReserveFinalIPv4Block_def reserveFinalBlock_def
      filterOutServiceRange_def api_defs
    by (intro good_intros last)
qed

lemma good_Initialize:
  assumes "ku_PollNodeList (ev_kube E) = pollRuns k"
  shows "keeps good_step (Initialize E c)"
proof -
  have "keeps good_step (listNodes E)"
    unfolding listNodes_def assms api_defs by (intro good_intros good_pollRuns)
  then show ?thesis
    unfolding Initialize_def startNodeIpamController_def processCIDRs_def NewNodeIpamController_def NewCIDRAllocator_def
    by (intro good_intros good_NewLinodeCIDRAllocator)
qed

section \<open>The process\<close>

text \<open>The operations that the framework, the informers and the workers call; a worker considers any
  number of items.\<close>

datatype operation =
    ServiceDeleted "Service informerObj" | ServiceUpdated "Service informerObj" "Service informerObj"
  | ServiceWorker nat
  | NodeAdded "Node informerObj" | NodeUpdated "Node informerObj" "Node informerObj" | NodeWorker nat
  | CidrNodeAdded "Node informerObj" | CidrNodeUpdated "Node informerObj" "Node informerObj"
  | CidrNodeDeleted "Node informerObj" | CidrWorker nat
  | LoadBalancerGet string Service | LoadBalancerEnsure string Service "Node list"
  | LoadBalancerUpdate string Service "Node list" | LoadBalancerDelete string Service
  | NodeExists Node | NodeShutdown Node | NodeMetadata Node
  | RouteList | RouteCreate Route | RouteDelete Route

definition void :: "('s, 'a) eff \<Rightarrow> ('s, unit) eff" where
  "void m = bindE m (\<lambda>_. retE ())"

text \<open>The allocator runs when it has been started, the routes when they are offered.\<close>

fun perform :: "'w env \<Rightarrow> cloudAllocator option \<Rightarrow> int \<Rightarrow> operation \<Rightarrow> ('w, unit) ccm" where
  "perform E ca ttl (ServiceDeleted obj) = onServiceDelete E obj"
| "perform E ca ttl (ServiceUpdated old new) = onServiceUpdate E old new"
| "perform E ca ttl (ServiceWorker n) = void (serviceWorker E n)"
| "perform E ca ttl (NodeAdded obj) = nodeAddFunc E obj"
| "perform E ca ttl (NodeUpdated old new) = nodeUpdateFunc E old new"
| "perform E ca ttl (NodeWorker n) = void (nodeWorker E ttl n)"
| "perform E ca ttl (CidrNodeAdded obj) = (case ca of None \<Rightarrow> retE () | Some _ \<Rightarrow> onNodeAdded E obj)"
| "perform E ca ttl (CidrNodeUpdated old new) = (case ca of None \<Rightarrow> retE () | Some _ \<Rightarrow> onNodeUpdated E old new)"
| "perform E ca ttl (CidrNodeDeleted obj) = (case ca of None \<Rightarrow> retE () | Some _ \<Rightarrow> onNodeDeleted E obj)"
| "perform E ca ttl (CidrWorker n) = (case ca of None \<Rightarrow> retE () | Some a \<Rightarrow> void (runWorker E a n))"
| "perform E ca ttl (LoadBalancerGet cluster svc) = void (GetLoadBalancer E cluster svc)"
| "perform E ca ttl (LoadBalancerEnsure cluster svc nodes) = void (EnsureLoadBalancer E cluster svc nodes)"
| "perform E ca ttl (LoadBalancerUpdate cluster svc nodes) = UpdateLoadBalancer E cluster svc nodes"
| "perform E ca ttl (LoadBalancerDelete cluster svc) = EnsureLoadBalancerDeleted E cluster svc"
| "perform E ca ttl (NodeExists node) = void (InstanceExists E node)"
| "perform E ca ttl (NodeShutdown node) = void (InstanceShutdown E node)"
| "perform E ca ttl (NodeMetadata node) = void (InstanceMetadata E node)"
| "perform E ca ttl RouteList = (if offers (ev_opts E) RoutesI then void (ListRoutes E) else retE ())"
| "perform E ca ttl (RouteCreate r) = (if offers (ev_opts E) RoutesI then CreateRoute E r else retE ())"
| "perform E ca ttl (RouteDelete r) = (if offers (ev_opts E) RoutesI then DeleteRoute E r else retE ())"

record 'w process =
  pr_sys :: "'w sys"
  pr_health :: "(healthChecker \<times> bool) option"

text \<open>A step is an operation that returns, possibly with an error, a health check, or a change of the
  world outside. A panic ends the process: no step leads out of it.\<close>

inductive process_step :: "'w env \<Rightarrow> cloudAllocator option \<Rightarrow> int \<Rightarrow> 'w process \<Rightarrow> 'w process \<Rightarrow> bool"
  for E ca ttl where
  outside: "process_step E ca ttl P (P\<lparr>pr_sys := (pr_sys P)\<lparr>world := w\<rparr>\<rparr>)"
| operation: "perform E ca ttl oper (pr_sys P) = (r, t) \<Longrightarrow> r \<noteq> Panic \<Longrightarrow> process_step E ca ttl P (P\<lparr>pr_sys := t\<rparr>)"
| health: "pr_health P = Some hc \<Longrightarrow> healthCheck E hc (pr_sys P) = (Ok hc', t) \<Longrightarrow>
    process_step E ca ttl P (P\<lparr>pr_sys := t, pr_health := Some hc'\<rparr>)"

text \<open>The state in which the program starts: the caches of the packages are empty.\<close>

definition bootState :: "'w \<Rightarrow> nodeCache \<Rightarrow> routeCache \<Rightarrow> string option \<Rightarrow> 'w sys" where
  "bootState w nodes routes raw = \<lparr>world = w, calls = [], VpcIDs = [], SubnetIDs = [],
     st_nodeCache = nodes, registeredK8sNodeCache = newK8sNodeCache raw, st_routeCache = routes,
     ipv6ConfiguredRoutes = [], lb_kubeClient = NoKubeClient, metadataLastUpdate = [], nodeLastAdded = []\<rparr>"

text \<open>The options and the zone are those that \<open>newCloud\<close> has determined.\<close>

definition runEnv :: "'w env \<Rightarrow> linodeCloud \<Rightarrow> 'w env" where
  "runEnv E c = E\<lparr>ev_opts := cloud_options c, ev_zone := cloud_zone c\<rparr>"

inductive running :: "'w env \<Rightarrow> linodeCloud \<Rightarrow> cloudAllocator option \<Rightarrow> int \<Rightarrow> 'w process \<Rightarrow> bool"
  for E c ca ttl where
  boot: "newCloud E (bootState w nodes routes raw) = (Ok c, s) \<Longrightarrow>
    Initialize (runEnv E c) c s = (Ok (ca, hc, ttl), t) \<Longrightarrow>
    running E c ca ttl \<lparr>pr_sys = t, pr_health = map_option (\<lambda>r. (r, False)) hc\<rparr>"
| step: "running E c ca ttl P \<Longrightarrow> process_step (runEnv E c) ca ttl P Q \<Longrightarrow> running E c ca ttl Q"

section \<open>What holds in every state\<close>

lemma good_perform:
  assumes "ku_RetryOnConflict (ev_kube E) = retryRuns n"
  shows "keeps good_step (perform E ca ttl oper)"
proof -
  have "keeps good_step (processNext E ttl)"
    using good_nodes(2) [of n E ttl] by (simp add: withRetries_id [OF assms])
  then show ?thesis
    by (cases oper) (auto simp: void_def onNodeUpdated_def nodeAddFunc_def nodeUpdateFunc_def serviceWorker_def
      nodeWorker_def runWorker_def split: option.split informerObj.split
      intro!: good_intros good_steps.keeps_workerLoop)
qed

text \<open>The stop channel is closed if and only if the health checker has given it up.\<close>

definition health_ok :: "(healthChecker \<times> bool) option \<Rightarrow> bool" where
  "health_ok h = (case h of None \<Rightarrow> True | Some (r, closed) \<Rightarrow> closed = (\<not> hc_stopCh r))"

definition process_ok :: "'w process \<Rightarrow> bool" where
  "process_ok P \<longleftrightarrow>
     kc_wf (registeredK8sNodeCache (pr_sys P)) \<and> cache_wf (nc_nodes (st_nodeCache (pr_sys P))) \<and>
     list_all ipv6Route (ipv6ConfiguredRoutes (pr_sys P)) \<and> health_ok (pr_health P)"

lemma good_step_ok:
  "good_step (pr_sys P) t \<Longrightarrow> process_ok P \<Longrightarrow> health_ok h \<Longrightarrow> process_ok (P\<lparr>pr_sys := t, pr_health := h\<rparr>)"
  by (auto simp: good_step_def process_ok_def)

lemma healthCheck_good: "keeps good_step (healthCheck E hc)"
  unfolding healthCheck_def CheckClientAuthenticated_def api_defs by (cases hc) (auto intro!: good_intros)

lemma process_step_ok:
  assumes "process_step E ca ttl P Q" "process_ok P" "ku_RetryOnConflict (ev_kube E) = retryRuns n"
  shows "process_ok Q"
  using assms(1)
proof cases
  case (outside w)
  then show ?thesis using assms(2) by (simp add: process_ok_def)
next
  case (operation oper r t)
  have "good_step (pr_sys P) t" using keepsD [OF good_perform [OF assms(3)] operation(2)] .
  from good_step_ok [OF this assms(2), of "pr_health P"] show ?thesis
    using assms(2) operation(1) by (simp add: process_ok_def)
next
  case (health hc hc' t)
  obtain r where r: "hc = (r, \<not> hc_stopCh r)"
    using assms(2) health(2) by (cases hc) (auto simp: process_ok_def health_ok_def)
  from healthCheck_cases [OF health(3) [unfolded r]] have "health_ok (Some hc')" by (auto simp: health_ok_def)
  from good_step_ok [OF keepsD [OF healthCheck_good health(3)] assms(2) this] show ?thesis
    using health(1) by simp
qed

lemma newCloud_checker:
  assumes "newCloud E s = (Ok c, t)"
  shows "nc_nodes (st_nodeCache t) = []" "cloud_healthChecker c = Some r \<Longrightarrow> hc_stopCh r"
proof -
  from assms obtain d hc u u' raw where "startHealthChecker E d u = (Ok hc, u')" "cloud_healthChecker c = hc"
    "st_nodeCache t = NewInstances raw"
    by (auto simp: newCloud_def eff_ok res_simps lookupEnvE_def split: if_splits prod.splits)
  then show "nc_nodes (st_nodeCache t) = []" "cloud_healthChecker c = Some r \<Longrightarrow> hc_stopCh r"
    by (auto simp: NewInstances_def startHealthChecker_def newHealthChecker_def eff_ok split: if_splits)
qed

lemma boot_ok:
  assumes "newCloud E (bootState w nodes routes raw) = (Ok c, s)"
    and "Initialize (runEnv E c) c s = (Ok (ca, hc, ttl), t)"
    and "ku_PollNodeList (ev_kube E) = pollRuns k"
  shows "process_ok \<lparr>pr_sys = t, pr_health = map_option (\<lambda>r. (r, False)) hc\<rparr>"
proof -
  have "kc_wf (newK8sNodeCache raw)" by (simp add: kc_wf_def newK8sNodeCache_def)
  then have "process_ok \<lparr>pr_sys = s, pr_health = None\<rparr>"
    using keepsD [OF good_newCloud assms(1)] newCloud_checker(1) [OF assms(1)]
    by (auto simp: good_step_def process_ok_def bootState_def cache_wf_def health_ok_def)
  moreover have "good_step s t"
    using keepsD [OF good_Initialize assms(2)] assms(3) by (simp add: runEnv_def)
  moreover have "hc = cloud_healthChecker c" using assms(2) by (auto simp: Initialize_def eff_ok)
  then have "health_ok (map_option (\<lambda>r. (r, False)) hc)"
    using newCloud_checker(2) [OF assms(1)] by (cases "cloud_healthChecker c") (simp_all add: health_ok_def)
  ultimately show ?thesis
    using good_step_ok [of "\<lparr>pr_sys = s, pr_health = None\<rparr>" t] by simp
qed

text \<open>C3: The process stays consistent. In every state that the program reaches after its start, by
  operations of the framework, of the informers and of its workers in any order, by health checks and by
  changes outside: the two maps of registered nodes agree, every cached Linode is stored under its own
  ID, only IPv6 routes are remembered, and a health check does not panic, whatever Linode answers.\<close>

theorem process_invariant:
  assumes "running E c ca ttl P"
    and "ku_RetryOnConflict (ev_kube E) = retryRuns n" "ku_PollNodeList (ev_kube E) = pollRuns k"
  shows "kc_wf (registeredK8sNodeCache (pr_sys P)) \<and> cache_wf (nc_nodes (st_nodeCache (pr_sys P))) \<and>
    list_all ipv6Route (ipv6ConfiguredRoutes (pr_sys P)) \<and>
    (\<forall>hc s. pr_health P = Some hc \<longrightarrow> fst (healthCheck E hc s) \<noteq> Panic)"
proof -
  have "process_ok P"
    using assms(1)
  proof induction
    case (boot w nodes routes raw s hc t)
    then show ?case using assms(3) by (rule boot_ok)
  next
    case (step P Q)
    then show ?case using process_step_ok [of "runEnv E c" ca ttl P Q n] assms(2) by (simp add: runEnv_def)
  qed
  moreover have "fst (healthCheck E (r, \<not> hc_stopCh r) s) \<noteq> Panic" for r s
    using healthCheck_cases [of E r s] by (metis prod.collapse res.distinct(3))
  ultimately show ?thesis by (auto simp: process_ok_def health_ok_def)
qed

text \<open>A program with routes, health checks and an allocator that has started and been asked for an IPv6
  route.\<close>

definition processEnv :: "unit env" where
  "processEnv = startEnv
     \<lparr>ev_opts := defaultOptions\<lparr>opt_EnableRouteController := True, opt_VPCNames := [''vpc''], opt_SubnetNames := [],
        opt_EnableTokenHealthChecker := True, opt_AllocateNodeCIDRs := True, opt_ClusterCIDRIPv4 := ''10.192.0.0/10''\<rparr>,
      ev_client := offlineClient\<lparr>cl_GetProfile := (\<lambda>w. (Inr (), w))\<rparr>,
      ev_kube := offlineKube\<lparr>ku_RetryOnConflict := retryRuns 4, ku_PollNodeList := pollRuns 60,
        ku_ListNodes := (\<lambda>w. (Inr [], w)), ku_NewCIDRSet := (\<lambda>_ _ w. (Inr (), w)),
        ku_AddNodeEventHandler := (\<lambda>w. (Inr (), w))\<rparr>\<rparr>"

definition processRoute :: Route where
  "processRoute = routeTo ''fd00::/64''"

definition processCall :: call where
  "processCall = Cidr (Call_NewCIDRSet \<lparr>ipnet_IP = [10, 192, 0, 0], ipnet_Mask = [255, 192, 0, 0]\<rparr> 24)"

definition processTrial :: "(unit, bool) ccm" where
  "processTrial = bindE (newCloud processEnv) (\<lambda>c. bindE (Initialize (runEnv processEnv c) c) (\<lambda>(ca, hc, ttl).
    bindE (perform (runEnv processEnv c) ca ttl (RouteCreate processRoute)) (\<lambda>_. retE (hc \<noteq> None))))"

lemma processTrial_result:
  "(let (r, t) = processTrial (bootState () (NewInstances None) \<lparr>rc_routes = [], rc_lastUpdate = 0, rc_ttl = 0\<rparr> None)
    in r = Ok True \<and> ipv6ConfiguredRoutes t = [processRoute] \<and> processCall \<in> set (calls t))"
  by code_simp

lemma processEnv_contract:
  "ku_RetryOnConflict (ev_kube processEnv) = retryRuns 4" "ku_PollNodeList (ev_kube processEnv) = pollRuns 60"
  by (simp_all add: processEnv_def)

lemma processEnv_runs:
  "\<exists>c ca ttl P. running processEnv c ca ttl P \<and> pr_health P \<noteq> None \<and>
     ipv6ConfiguredRoutes (pr_sys P) = [processRoute] \<and> processCall \<in> set (calls (pr_sys P))"
proof -
  let ?b = "bootState () (NewInstances None) \<lparr>rc_routes = [], rc_lastUpdate = 0, rc_ttl = 0\<rparr> None"
  obtain t' where trial: "processTrial ?b = (Ok True, t')" and
    result: "ipv6ConfiguredRoutes t' = [processRoute]" "processCall \<in> set (calls t')"
    using processTrial_result by (auto simp: Let_def split: prod.splits)
  from trial obtain c s ca hc ttl t where
    "newCloud processEnv ?b = (Ok c, s)" "Initialize (runEnv processEnv c) c s = (Ok (ca, hc, ttl), t)"
    and create: "perform (runEnv processEnv c) ca ttl (RouteCreate processRoute) t = (Ok (), t')" "hc \<noteq> None"
    unfolding processTrial_def bindE_Ok_iff
    by (auto split: prod.splits simp: pure_Ok_iff bindE_Ok_iff simp del: perform.simps)
  then have boot: "running processEnv c ca ttl \<lparr>pr_sys = t, pr_health = map_option (\<lambda>r. (r, False)) hc\<rparr>"
    by (intro running.boot)
  from running.step [OF this process_step.operation [of _ _ _ "RouteCreate processRoute"]] create(1)
  have "running processEnv c ca ttl \<lparr>pr_sys = t', pr_health = map_option (\<lambda>r. (r, False)) hc\<rparr>" by simp
  with result create(2) show ?thesis
    by (intro exI [of _ c] exI [of _ ca] exI [of _ ttl]
      exI [of _ "\<lparr>pr_sys = t', pr_health = map_option (\<lambda>r. (r, False)) hc\<rparr>"]) simp
qed

theorem process_invariant_witness:
  "\<exists>c ca ttl P. running processEnv c ca ttl P \<and> pr_health P \<noteq> None \<and>
     ipv6ConfiguredRoutes (pr_sys P) = [processRoute] \<and> list_all ipv6Route (ipv6ConfiguredRoutes (pr_sys P))"
  using processEnv_runs process_invariant [OF _ processEnv_contract] by blast

end
