(* ===== verification/Remits.thy ===== *)
theory Remits
  imports Controllers
begin

text \<open>
  Which operation of the process changes what. Every operation has a remit: the calls that change
  something at Linode, or in the set of CIDRs, which it may issue. The remits of all operations
  bound what a run of the process can do under its options.
\<close>

section \<open>Remits\<close>

fun isInstWrite :: "call \<Rightarrow> bool" where
  "isInstWrite (Inst c) = instWrite c"
| "isInstWrite _ = False"

fun isCidr :: "call \<Rightarrow> bool" where
  "isCidr (Cidr _) = True"
| "isCidr _ = False"

fun isDeletion :: "call \<Rightarrow> bool" where
  "isDeletion (NB (Call_DeleteNodeBalancer _)) = True"
| "isDeletion (NB (Call_DeleteReservedIPAddress _)) = True"
| "isDeletion (FW (Call_DeleteFirewall _)) = True"
| "isDeletion _ = False"

fun isAddressRelease :: "call \<Rightarrow> bool" where
  "isAddressRelease (NB (Call_DeleteReservedIPAddress _)) = True"
| "isAddressRelease _ = False"

definition changes :: "call \<Rightarrow> bool" where
  "changes c \<longleftrightarrow> linodeWrite c \<or> isCidr c"

fun remit :: "Options \<Rightarrow> cloudAllocator option \<Rightarrow> operation \<Rightarrow> call \<Rightarrow> bool" where
  "remit opts ca (ServiceWorker _) c = isDeletion c"
| "remit opts ca (LoadBalancerDelete _ _) c = isDeletion c"
| "remit opts ca (LoadBalancerEnsure _ _ _) c = (\<not> isInstWrite c \<and> \<not> isCidr c \<and> \<not> isAddressRelease c)"
| "remit opts ca (LoadBalancerUpdate _ _ _) c =
     (\<not> isInstWrite c \<and> \<not> isCidr c \<and> \<not> isAddressRelease c \<and> \<not> isCreateNB c)"
| "remit opts ca (RouteCreate _) c = (isInstWrite c \<and> offers opts RoutesI)"
| "remit opts ca (RouteDelete _) c = (isInstWrite c \<and> offers opts RoutesI)"
| "remit opts ca (CidrNodeDeleted _) c = (\<exists>net. c = Cidr (Call_Release net) \<and> ca \<noteq> None)"
| "remit opts ca (CidrWorker _) c = (isCidr c \<and> ca \<noteq> None)"
| "remit opts ca _ c = False"

section \<open>Operations keep to their remit\<close>

definition within :: "(call \<Rightarrow> bool) \<Rightarrow> call \<Rightarrow> bool" where
  "within P c \<longleftrightarrow> (changes c \<longrightarrow> P c)"

lemmas within_defs = within_def changes_def

lemma emits_within: "emits (within P) m \<Longrightarrow> (\<And>c. P c \<Longrightarrow> Q c) \<Longrightarrow> emits (within Q) m"
  by (erule emits_weaken) (simp add: within_def)

lemma not_isCidr: "(case c of Queue _ \<Rightarrow> False | Cidr _ \<Rightarrow> False | _ \<Rightarrow> True) \<Longrightarrow> \<not> isCidr c"
  by (cases c) simp_all

lemma emits_deletions: "emits (within isDeletion) (EnsureLoadBalancerDeleted E cluster svc)"
  unfolding EnsureLoadBalancerDeleted_def DeleteNodeBalancerFirewall_def DeleteFirewall_def api_defs
  by (intro emits_intros) (auto simp: within_defs dest: not_isCidr)

lemma emits_serviceWorker: "emits (within isDeletion) (serviceWorker E n)"
proof -
  have handle: "emits (within isDeletion) (handleServiceItem E item)" for item
    unfolding handleServiceItem_def handleServiceDeleted_def
    by (cases item) (simp_all add: emits_deletions emits_intros)
  show ?thesis
    unfolding serviceWorker_def service_worker.step api_defs
    by (intro emits.keeps_workerLoop emits_intros handle) (simp_all add: within_defs)
qed

lemma emits_nodeWorker: "emits (within P) (nodeWorker (withRetries n E) ttl k)"
proof -
  have handle: "emits (within P) (handleNodeItem (withRetries n E) ttl item)" for item
    unfolding handleNodeItem_def
    by (cases item) (auto intro!: emits_intros emits_handleNode simp: within_defs dest: not_isCidr)
  show ?thesis
    unfolding nodeWorker_def node_worker.step api_defs
    by (intro emits.keeps_workerLoop emits_intros emits_updateCache handle) (simp_all add: within_defs)
qed

lemma emits_instances: "emits (within P) (InstanceExists E node)" "emits (within P) (InstanceShutdown E node)"
    "emits (within P) (InstanceMetadata E node)"
  unfolding InstanceExists_def InstanceShutdown_def InstanceMetadata_def getLinodeAddresses_def
  by (intro emits_intros; simp add: within_defs)+

lemma emits_routes:
  "emits (within isInstWrite) (CreateRoute E route)" "emits (within isInstWrite) (DeleteRoute E route)"
  "emits (within P) (ListRoutes E)"
proof -
  show "emits (within isInstWrite) (CreateRoute E route)" "emits (within isInstWrite) (DeleteRoute E route)"
    unfolding CreateRoute_def DeleteRoute_def getInstanceFromName_def GetAllVPCIDs_def handleInterfaces_def api_defs
    by (intro emits_intros; simp add: within_defs)+
  show "emits (within P) (ListRoutes E)"
    unfolding ListRoutes_def ListAllInstances_def rangeNodes_def listInstanceRoutes_def GetAllVPCIDs_def
    by (intro emits_intros; simp add: within_defs)
qed

lemma emits_allocation:
  "emits (within isCidr) (runWorker E ca n)"
  "emits (within (\<lambda>c. \<exists>net. c = Cidr (Call_Release net))) (onNodeDeleted E obj)"
  "emits (within P) (onNodeAdded E obj)"
proof -
  have "emits (within isCidr) (processNextNodeWorkItem E ca)"
    unfolding processNextNodeWorkItem_def api_defs
    by (auto simp: within_defs split: queue_item.split intro!: emits_intros emits_syncNode)
  then show "emits (within isCidr) (runWorker E ca n)"
    unfolding runWorker_def by (rule emits.keeps_workerLoop)
  have "emits (within (\<lambda>c. \<exists>net. c = Cidr (Call_Release net))) (releaseLoop E name idx cidrs)" for name idx cidrs
    by (induction E name idx cidrs rule: releaseLoop.induct) (auto simp: api_defs within_defs split: sum.split intro!: emits_intros)
  then show "emits (within (\<lambda>c. \<exists>net. c = Cidr (Call_Release net))) (onNodeDeleted E obj)"
    unfolding onNodeDeleted_def ReleaseCIDR_def by (auto split: informerObj.split option.split intro!: emits_intros)
  show "emits (within P) (onNodeAdded E obj)"
    unfolding onNodeAdded_def api_defs by (auto simp: within_defs split: sum.split intro!: emits_intros)
qed

definition balancing :: "call \<Rightarrow> bool" where
  "balancing c \<longleftrightarrow> \<not> isInstWrite c \<and> \<not> isCidr c \<and> \<not> isAddressRelease c"

lemma emits_balancing:
  "emits (within P) (GetLoadBalancer E cluster svc)"
  "emits (within balancing) (EnsureLoadBalancer E cluster svc nodes)"
  "emits (within (\<lambda>c. balancing c \<and> \<not> isCreateNB c)) (UpdateLoadBalancer E cluster svc nodes)"
proof -
  have upd: "within (\<lambda>c. balancing c \<and> \<not> isCreateNB c) c" if "updateCall c" for c
    using that by (cases c rule: updateCall.cases) (auto simp: within_defs balancing_def)
  show "emits (within P) (GetLoadBalancer E cluster svc)"
    unfolding GetLoadBalancer_def statusOf_def by (intro emits_intros) (auto simp: within_defs dest: not_isCidr)
  show "emits (within balancing) (EnsureLoadBalancer E cluster svc nodes)"
    unfolding EnsureLoadBalancer_def ensureNodeBalancer_def statusOf_def cleanupOldNodeBalancer_def api_defs
    by (intro emits_intros emits_buildLoadBalancerRequest)
      (use upd in \<open>auto simp: within_defs balancing_def dest: not_isCidr\<close>)
  show "emits (within (\<lambda>c. balancing c \<and> \<not> isCreateNB c)) (UpdateLoadBalancer E cluster svc nodes)"
    unfolding UpdateLoadBalancer_def cleanupOldNodeBalancer_def api_defs
    by (intro emits_intros) (use upd in \<open>auto simp: within_defs balancing_def dest: not_isCidr\<close>)
qed

lemma emits_perform:
  assumes "ku_RetryOnConflict (ev_kube E) = retryRuns n"
  shows "emits (within (remit (ev_opts E) ca oper)) (perform E ca ttl oper)"
proof -
  have node: "emits (within P) (nodeWorker E ttl k)" for P k
    using emits_nodeWorker [of P n E ttl k] by (simp add: withRetries_id [OF assms])
  have queue: "emits (within P) (onServiceDelete E obj)" "emits (within P) (onServiceUpdate E obj obj')"
    "emits (within P) (nodeAddFunc E nobj)" "emits (within P) (nodeUpdateFunc E nobj nobj')" for P obj obj' nobj nobj'
    unfolding onServiceDelete_def onServiceUpdate_def nodeAddFunc_def nodeUpdateFunc_def addNodeToQueue_def api_defs
    by (auto simp: within_defs split: informerObj.split intro!: emits_intros)
  have void: "emits (within P) (void m)" if "emits (within P) m" for P and m :: "('w, 'x) ccm"
    unfolding void_def by (intro emits_intros that)
  note reads = node queue emits_instances emits_routes(3) emits_allocation(3) emits_balancing(1)
  note quiet = reads [where P = "\<lambda>_. False", THEN emits_within]
  note busy = emits_serviceWorker emits_deletions emits_routes(1,2) emits_allocation(1,2) emits_balancing(2,3)
  show ?thesis
    by (cases oper; cases ca) (auto simp: onNodeUpdated_def balancing_def simp del: offers.simps
      intro!: void emits.keeps_pure emits.keeps_if intro: quiet busy [THEN emits_within])
qed

section \<open>Runs keep to the options\<close>

text \<open>What the options allow a process to change.\<close>

definition allowed :: "Options \<Rightarrow> call \<Rightarrow> bool" where
  "allowed opts c \<longleftrightarrow>
     (isInstWrite c \<longrightarrow> opt_EnableRouteController opts) \<and> (isCidr c \<longrightarrow> opt_AllocateNodeCIDRs opts)"

lemma isInstWrite_changes [simp]: "isInstWrite c \<Longrightarrow> changes c" "isCidr c \<Longrightarrow> changes c"
  by (cases c; simp add: changes_def)+

lemma isDeletion_kinds [simp]: "isDeletion c \<Longrightarrow> \<not> isInstWrite c" "isDeletion c \<Longrightarrow> \<not> isCidr c"
  by (cases c; simp)+

lemma isInstWrite_not_isCidr [simp]: "isInstWrite c \<Longrightarrow> \<not> isCidr c"
  by (cases c) simp_all

lemma remit_allowed:
  assumes "within (remit opts ca oper) c" "ca \<noteq> None \<longrightarrow> opt_AllocateNodeCIDRs opts"
  shows "allowed opts c"
proof (cases "changes c")
  case True
  with assms(1) have "remit opts ca oper c" by (simp add: within_def)
  then show ?thesis
    using assms(2) by (cases oper) (auto simp: allowed_def)
qed (auto simp: allowed_def)

lemma read_allowed: "apiRead c \<Longrightarrow> allowed opts c"
  by (cases c) (simp_all add: allowed_def)

lemma emits_Initialize:
  assumes "ku_PollNodeList (ev_kube E) = pollRuns k"
  shows "emits (allowed (ev_opts E)) (Initialize E c)"
proof (cases "opt_AllocateNodeCIDRs (ev_opts E)")
  case True
  have poll: "emits P (pollRuns j m)" if "emits P m" for P j and m :: "('w, Node list option) ccm"
    using that by (induction j) (auto intro!: emits_intros)
  have calls: "allowed (ev_opts E) (Cidr d)" "allowed (ev_opts E) (Kube d')" "allowed (ev_opts E) (Vpc d'')" for d d' d''
    by (simp_all add: allowed_def True)
  have occupy: "emits (allowed (ev_opts E)) (occupyLoop E name idx cidrs)" for name idx cidrs
    by (induction cidrs arbitrary: idx) (auto simp: api_defs calls intro!: emits_intros split: sum.split)
  show ?thesis
    unfolding Initialize_def startNodeIpamController_def processCIDRs_def NewNodeIpamController_def
      NewCIDRAllocator_def NewLinodeCIDRAllocator_def listNodes_def assms shouldReserveFinalIPv4Block_def
      reserveFinalBlock_def filterOutServiceRange_def lastIPForCIDR_def occupyCIDRs_def api_defs
    by (intro emits_intros poll occupy) (auto simp: calls split: sum.split intro!: emits_intros)
next
  case False
  then show ?thesis
    unfolding Initialize_def startNodeIpamController_def by (auto intro!: emits_intros)
qed

text \<open>The trace of a process, and whether the allocator may run.\<close>

definition run_ok :: "Options \<Rightarrow> cloudAllocator option \<Rightarrow> 'w process \<Rightarrow> bool" where
  "run_ok opts ca P \<longleftrightarrow> list_all (allowed opts) (calls (pr_sys P)) \<and> (ca \<noteq> None \<longrightarrow> opt_AllocateNodeCIDRs opts)"

lemma emits_list_all:
  "emits P m \<Longrightarrow> m s = (r, t) \<Longrightarrow> list_all P (calls s) \<Longrightarrow> list_all P (calls t)"
  by (drule (1) emitsD) (auto simp: list_all_iff)

lemma run_ok_boot:
  assumes "newCloud E (bootState w nodes routes raw) = (Ok c, s)"
    and "Initialize (runEnv E c) c s = (Ok (ca, hc, ttl), t)"
    and "ku_PollNodeList (ev_kube E) = pollRuns k"
  shows "run_ok (cloud_options c) ca \<lparr>pr_sys = t, pr_health = h\<rparr>"
proof -
  have "list_all (allowed (cloud_options c)) (calls s)"
    using emits_list_all [OF emits_newCloud assms(1)] by (simp add: read_allowed bootState_def)
  moreover have "emits (allowed (cloud_options c)) (Initialize (runEnv E c) c)"
    using emits_Initialize [of "runEnv E c" k c] assms(3) by (simp add: runEnv_def)
  ultimately have "list_all (allowed (cloud_options c)) (calls t)" using emits_list_all assms(2) by blast
  moreover have "ca \<noteq> None \<longrightarrow> opt_AllocateNodeCIDRs (cloud_options c)"
    using assms(2) by (auto simp: Initialize_def startNodeIpamController_def runEnv_def eff_ok split: if_splits)
  ultimately show ?thesis by (simp add: run_ok_def)
qed

lemma run_ok_step:
  assumes "process_step E ca ttl P Q" "run_ok (ev_opts E) ca P" "ku_RetryOnConflict (ev_kube E) = retryRuns n"
  shows "run_ok (ev_opts E) ca Q"
  using assms(1)
proof cases
  case (outside w)
  then show ?thesis using assms(2) by (simp add: run_ok_def)
next
  case (operation oper r t)
  have "emits (allowed (ev_opts E)) (perform E ca ttl oper)"
    using emits_weaken [OF emits_perform [OF assms(3)]] remit_allowed assms(2) by (metis run_ok_def)
  from emits_list_all [OF this operation(2)] show ?thesis
    using assms(2) operation(1) by (simp add: run_ok_def)
next
  case (health hc hc' t)
  have "emits (allowed (ev_opts E)) (healthCheck E hc)"
    unfolding healthCheck_def CheckClientAuthenticated_def api_defs
    by (cases hc) (auto simp: allowed_def intro!: emits_intros)
  from emits_list_all [OF this health(3)] show ?thesis
    using assms(2) health(1) by (simp add: run_ok_def)
qed

section \<open>Properties\<close>

text \<open>C12: Every operation keeps to its remit. Only route operations change instances, and only when
  routes are offered; only the allocator changes the set of CIDRs, and after the deletion of a node it
  only releases; the deletion of a service, in either controller, only deletes; updating a load
  balancer never creates one and never releases a reserved address; everything else, also the metadata
  controller and the event handlers, changes nothing at Linode.\<close>

theorem operation_remit:
  assumes "ku_RetryOnConflict (ev_kube E) = retryRuns n"
    and "call \<in> set (issued (perform E ca ttl oper) s)" "changes call"
  shows "remit (ev_opts E) ca oper call"
  using emits_issued [OF emits_perform [OF assms(1)] assms(2)] assms(3) by (simp add: within_def)

definition remitEnv :: "unit env" where
  "remitEnv = routeEnv\<lparr>ev_opts := defaultOptions\<lparr>opt_EnableRouteController := True\<rparr>,
     ev_kube := offlineKube\<lparr>ku_RetryOnConflict := retryRuns 4\<rparr>\<rparr>"

theorem operation_remit_witness:
  "remit (ev_opts remitEnv) None (RouteCreate (routeTo ''10.192.1.0/24''))
     (last (issued (perform remitEnv None 0 (RouteCreate (routeTo ''10.192.1.0/24''))) routeState))"
proof -
  let ?calls = "issued (perform remitEnv None 0 (RouteCreate (routeTo ''10.192.1.0/24''))) routeState"
  have "?calls = [Inst (Call_UpdateInstanceConfigInterface 42 6 8 [''10.192.0.0/24'', ''10.192.1.0/24''])]"
    by code_simp
  moreover have "ku_RetryOnConflict (ev_kube remitEnv) = retryRuns 4" by (simp add: remitEnv_def)
  from operation_remit [OF this, of "last ?calls" None 0 "RouteCreate (routeTo ''10.192.1.0/24'')" routeState]
  have "last ?calls \<in> set ?calls \<Longrightarrow> changes (last ?calls) \<Longrightarrow> ?thesis" .
  ultimately show ?thesis by (simp add: changes_def)
qed

text \<open>C11: A process keeps to its options. Whatever the framework asks for and in whichever order, and
  whatever Linode and Kubernetes answer: a process never changes an instance unless the route
  controller is enabled, and never touches the set of CIDRs unless it allocates CIDRs.\<close>

theorem process_respects_options:
  assumes "running E c ca ttl P" "call \<in> set (calls (pr_sys P))"
    and "ku_RetryOnConflict (ev_kube E) = retryRuns n" "ku_PollNodeList (ev_kube E) = pollRuns k"
  shows "(isInstWrite call \<longrightarrow> opt_EnableRouteController (cloud_options c)) \<and>
    (isCidr call \<longrightarrow> opt_AllocateNodeCIDRs (cloud_options c))"
proof -
  have "run_ok (cloud_options c) ca P"
    using assms(1)
  proof induction
    case (boot w nodes routes raw s hc t)
    then show ?case using assms(4) by (rule run_ok_boot)
  next
    case (step P Q)
    then show ?case using run_ok_step [of "runEnv E c" ca ttl P Q n] assms(3) by (simp add: runEnv_def)
  qed
  then show ?thesis using assms(2) by (auto simp: run_ok_def list_all_iff allowed_def)
qed

theorem process_respects_options_witness:
  "\<exists>c ca ttl P. running processEnv c ca ttl P \<and> processCall \<in> set (calls (pr_sys P)) \<and>
     opt_AllocateNodeCIDRs (cloud_options c)"
proof -
  have "isCidr processCall" by (simp add: processCall_def)
  with processEnv_runs process_respects_options [OF _ _ processEnv_contract] show ?thesis by blast
qed

end
