(* ===== verification/Sentry.thy ===== *)
theory Sentry
  imports CCM_Prelude
begin

text \<open>
  \<open>sentry/sentry.go\<close>: error reporting. The library behind it is a parameter: contexts, hubs and
  its own state are types of which nothing is known. The state has the flag of the package, the state
  of the library, and the errors that were handed to it.
\<close>

record ('c, 'h, 'x) sentryLib =
  se_Init :: "string \<Rightarrow> string \<Rightarrow> string \<Rightarrow> 'x \<Rightarrow> (gerr + unit) \<times> 'x"
  se_CloneCurrentHub :: "'x \<Rightarrow> 'h \<times> 'x"
  se_SetHubOnContext :: "'c \<Rightarrow> 'h \<Rightarrow> 'c"
  se_HasHubOnContext :: "'c \<Rightarrow> bool"
  se_GetHubFromContext :: "'c \<Rightarrow> 'h option"
  se_SetTag :: "'h \<Rightarrow> string \<Rightarrow> string \<Rightarrow> 'x \<Rightarrow> 'x"
  se_CaptureException :: "'h \<Rightarrow> gerr \<Rightarrow> 'x \<Rightarrow> 'x"

record 'x sentry =
  initialized :: bool
  sentryState :: 'x
  sent :: "gerr list"

section \<open>Operations\<close>

definition sentryInitialize ::
  "('c, 'h, 'x) sentryLib \<Rightarrow> string \<Rightarrow> string \<Rightarrow> string \<Rightarrow> ('x sentry, unit) eff" where
  "sentryInitialize L dsn environment release =
     bindE (getsE initialized) (\<lambda>i.
     if i then throwE (Errorf ''sentry Initialize called after initialization'' [])
     else
       bindE (getsE (\<lambda>s. se_Init L dsn environment release (sentryState s))) (\<lambda>(r, x).
       thenE (modifyE (\<lambda>s. s\<lparr>sentryState := x\<rparr>))
       (case r of
          Inl err \<Rightarrow> throwE err
        | Inr _ \<Rightarrow> modifyE (\<lambda>s. s\<lparr>initialized := True\<rparr>))))"

definition SetHubOnContext :: "('c, 'h, 'x) sentryLib \<Rightarrow> 'c \<Rightarrow> ('x sentry, 'c) eff" where
  "SetHubOnContext L ctx =
     bindE (getsE (\<lambda>s. se_CloneCurrentHub L (sentryState s))) (\<lambda>(hub, x).
     thenE (modifyE (\<lambda>s. s\<lparr>sentryState := x\<rparr>)) (retE (se_SetHubOnContext L ctx hub)))"

definition getHubFromContext :: "('c, 'h, 'x) sentryLib \<Rightarrow> 'c \<Rightarrow> ('x sentry, 'h option) eff" where
  "getHubFromContext L ctx =
     bindE (getsE initialized) (\<lambda>i.
     if \<not> i then retE None
     else if \<not> se_HasHubOnContext L ctx then retE None
     else retE (se_GetHubFromContext L ctx))"

definition SetTag :: "('c, 'h, 'x) sentryLib \<Rightarrow> 'c \<Rightarrow> string \<Rightarrow> string \<Rightarrow> ('x sentry, unit) eff" where
  "SetTag L ctx key v =
     bindE (getHubFromContext L ctx) (\<lambda>hub. case hub of
       None \<Rightarrow> retE ()
     | Some h \<Rightarrow> modifyE (\<lambda>s. s\<lparr>sentryState := se_SetTag L h key v (sentryState s)\<rparr>))"

definition CaptureError :: "('c, 'h, 'x) sentryLib \<Rightarrow> 'c \<Rightarrow> gerr \<Rightarrow> ('x sentry, unit) eff" where
  "CaptureError L ctx err =
     bindE (getHubFromContext L ctx) (\<lambda>hub. case hub of
       None \<Rightarrow> retE ()
     | Some h \<Rightarrow> modifyE (\<lambda>s.
         s\<lparr>sentryState := se_CaptureException L h err (sentryState s), sent := sent s @ [err]\<rparr>))"

section \<open>What they do\<close>

text \<open>Initialization succeeds at most once, and a failed one leaves Sentry disabled.\<close>

lemma sentryInitialize_once:
  "sentryInitialize L dsn environment release s = (Ok (), t) \<Longrightarrow> \<not> initialized s \<and> initialized t"
  "sentryInitialize L dsn environment release s = (Err e, t) \<Longrightarrow> initialized t = initialized s"
  by (auto simp: sentryInitialize_def eff_simps split: if_splits prod.splits sum.splits)

lemma sentryInitialize_sent: "sent (snd (sentryInitialize L dsn environment release s)) = sent s"
  by (auto simp: sentryInitialize_def eff_simps split: prod.splits sum.splits)

text \<open>Until then, nothing reaches the library.\<close>

lemma disabled_inert:
  assumes "\<not> initialized s"
  shows "CaptureError L ctx err s = (Ok (), s)" "SetTag L ctx key v s = (Ok (), s)"
  using assms by (simp_all add: CaptureError_def SetTag_def getHubFromContext_def eff_simps)

text \<open>A context with a hub, by the documented behaviour of the library.\<close>

definition hub_laws :: "('c, 'h, 'x) sentryLib \<Rightarrow> bool" where
  "hub_laws L \<longleftrightarrow> (\<forall>ctx hub. se_HasHubOnContext L (se_SetHubOnContext L ctx hub) \<and>
     se_GetHubFromContext L (se_SetHubOnContext L ctx hub) = Some hub)"

lemma SetHubOnContext_run:
  assumes "SetHubOnContext L ctx s = (r, t)"
  shows "\<exists>hub x. r = Ok (se_SetHubOnContext L ctx hub) \<and> t = s\<lparr>sentryState := x\<rparr>"
  using assms by (auto simp: SetHubOnContext_def eff_simps split: prod.splits)

lemma CaptureError_run:
  assumes "hub_laws L"
  shows "fst (CaptureError L (se_SetHubOnContext L ctx hub) err s) = Ok ()"
    "sent (snd (CaptureError L (se_SetHubOnContext L ctx hub) err s)) =
       (if initialized s then sent s @ [err] else sent s)"
    "initialized (snd (CaptureError L (se_SetHubOnContext L ctx hub) err s)) = initialized s"
  using assms by (simp_all add: CaptureError_def getHubFromContext_def hub_laws_def eff_simps)

end
