(* ===== verification/Program.thy ===== *)
theory Program
  imports Controllers Sentry
begin

text \<open>
  \<open>main.go\<close>: error reporting is set up, flags are given their fixed values, the options that do not
  come from flags are filled in, and the command of the Kubernetes framework is executed, which calls
  \<open>cloudInitializer\<close> and then runs the controllers. The framework is a parameter.
\<close>

section \<open>The framework\<close>

text \<open>Its flags as \<open>VisitAll\<close> visits them, setting a flag, the flag \<open>kubeconfig\<close>, the creation of a
  registered provider, and the execution of the command under the given options.\<close>

record 'w framework =
  fr_NewOptions :: "gerr + unit"
  fr_flags :: "string list"
  fr_Set :: "string \<Rightarrow> string \<Rightarrow> gerr + unit"
  fr_kubeconfig :: "string option"
  fr_InitCloudProvider :: "string \<Rightarrow> ('w, linodeCloud) ccm \<Rightarrow> ('w, linodeCloud option) ccm"
  fr_Execute :: "Options \<Rightarrow> ('w, unit) ccm"

record ('w, 'x) program =
  pg_sys :: "'w sys"
  pg_sentry :: "'x sentry"

definition onSys :: "('w, 'a) ccm \<Rightarrow> (('w, 'x) program, 'a) eff" where
  "onSys m = (\<lambda>s. case m (pg_sys s) of (r, t) \<Rightarrow> (r, s\<lparr>pg_sys := t\<rparr>))"

definition onSentry :: "('x sentry, 'a) eff \<Rightarrow> (('w, 'x) program, 'a) eff" where
  "onSentry m = (\<lambda>s. case m (pg_sentry s) of (r, t) \<Rightarrow> (r, s\<lparr>pg_sentry := t\<rparr>))"

section \<open>main.go\<close>

definition sentryDSNVariable :: string where "sentryDSNVariable = ''SENTRY_DSN''"
definition sentryEnvironmentVariable :: string where "sentryEnvironmentVariable = ''SENTRY_ENVIRONMENT''"
definition sentryReleaseVariable :: string where "sentryReleaseVariable = ''SENTRY_RELEASE''"
definition linodeExternalSubnetVariable :: string where "linodeExternalSubnetVariable = ''LINODE_EXTERNAL_SUBNET''"

definition initializeSentry ::
  "'w env \<Rightarrow> ('c, 'h, 'x) sentryLib \<Rightarrow> (('w, 'x) program, unit) eff" where
  "initializeSentry E L =
     bindE (onSys (lookupEnvE E sentryDSNVariable)) (\<lambda>dsn. case dsn of
       None \<Rightarrow> retE ()
     | Some dsn \<Rightarrow>
         bindE (onSys (lookupEnvE E sentryEnvironmentVariable)) (\<lambda>environment. case environment of
           None \<Rightarrow> retE ()
         | Some environment \<Rightarrow>
             bindE (onSys (lookupEnvE E sentryReleaseVariable)) (\<lambda>release.
             ignoreE (onSentry (sentryInitialize L dsn environment
               (case release of Some r \<Rightarrow> r | None \<Rightarrow> ''unknown''))))))"

text \<open>The flags with fixed values.\<close>

definition setStaticFlags :: "'w framework \<Rightarrow> unit res" where
  "setStaticFlags F =
     bindR (mapR (\<lambda>name.
       let set = (\<lambda>v. case fr_Set F name v of Inl err \<Rightarrow> Err err | Inr _ \<Rightarrow> Ok ()) in
       if name = ''cloud-provider'' then set ProviderName
       else if name = ''authentication-skip-lookup'' then set ''true''
       else Ok ()) (fr_flags F)) (\<lambda>_. Ok ())"

text \<open>How the program ends: with an exit code, or with a fatal log message.\<close>

datatype exit = Exit int | FatalLog

definition command_run ::
  "'w framework \<Rightarrow> 'w env \<Rightarrow> ('c, 'h, 'x) sentryLib \<Rightarrow> 'c \<Rightarrow> (('w, 'x) program, exit) eff" where
  "command_run F E L ctx =
     (let failed = (\<lambda>err. thenE (onSentry (CaptureError L ctx err)) (retE (Exit 1))) in
      case fr_NewOptions F of
        Inl _ \<Rightarrow> retE FatalLog
      | Inr _ \<Rightarrow>
          handleE (liftR (setStaticFlags F)) (\<lambda>_. retE (Exit 1)) (\<lambda>_.
          case fr_kubeconfig F of
            None \<Rightarrow> failed (Errorf ''%s'' [''kubeconfig missing from CCM flag set''])
          | Some kubeconfig \<Rightarrow>
              bindE (onSys (lookupEnvE E linodeExternalSubnetVariable)) (\<lambda>externalSubnet.
              case externalNetwork externalSubnet (defaultOptions\<lparr>opt_KubeconfigFlag := Some kubeconfig\<rparr>) of
                Err err \<Rightarrow> failed err
              | Panic \<Rightarrow> panicE
              | Ok opts \<Rightarrow> handleE (onSys (fr_Execute F opts)) failed (\<lambda>_. retE (Exit 0)))))"

definition main_program ::
  "'w framework \<Rightarrow> 'w env \<Rightarrow> ('c, 'h, 'x) sentryLib \<Rightarrow> 'c \<Rightarrow> (('w, 'x) program, exit) eff" where
  "main_program F E L background =
     thenE (initializeSentry E L)
     (bindE (onSentry (SetHubOnContext L background)) (\<lambda>ctx. command_run F E L ctx))"

text \<open>\<open>cloudInitializer\<close>: the settings of the command line (in \<open>Cloud_Provider\<close>), the creation of
  the provider, and the checks of it. A fatal message is an error here.\<close>

definition initializeCloud ::
  "'w framework \<Rightarrow> 'w env \<Rightarrow> bool \<Rightarrow> string \<Rightarrow> bool \<Rightarrow> ('w, linodeCloud) ccm" where
  "initializeCloud F E allocateNodeCIDRs clusterCIDR allowUntagged =
     bindE (liftR (cloudInitializer allocateNodeCIDRs clusterCIDR (ev_opts E))) (\<lambda>opts.
     handleE (fr_InitCloudProvider F ProviderName (newCloud (E\<lparr>ev_opts := opts\<rparr>)))
       (\<lambda>err. throwE (Wrapf ''Cloud provider could not be initialized: %v'' [] err))
       (\<lambda>cloud. case cloud of
          None \<Rightarrow> throwE (Errorf ''Cloud provider is nil'' [])
        | Some c \<Rightarrow>
            if HasClusterID \<or> allowUntagged then retE c
            else throwE (Errorf ''no ClusterID found.  A ClusterID is required for the cloud provider to function properly.  This check can be bypassed by setting the allow-untagged-cloud option'' [])))"

section \<open>Lemmas\<close>

lemma on_apply [eff_simps]:
  "onSys m s = (case m (pg_sys s) of (r, t) \<Rightarrow> (r, s\<lparr>pg_sys := t\<rparr>))"
  "onSentry m' s' = (case m' (pg_sentry s') of (r, t) \<Rightarrow> (r, s'\<lparr>pg_sentry := t\<rparr>))"
  by (simp_all add: onSys_def onSentry_def)

lemma sentryInitialize_no_panic: "fst (sentryInitialize L dsn environment release x) \<noteq> Panic"
  by (auto simp: sentryInitialize_def eff_simps split: prod.splits sum.splits)

lemma initializeSentry_run:
  "\<exists>x. initializeSentry E L s = (Ok (), s\<lparr>pg_sentry := x\<rparr>) \<and> sent x = sent (pg_sentry s)"
proof (cases "ev_LookupEnv E (world (pg_sys s)) sentryDSNVariable")
  case None
  then show ?thesis by (intro exI [of _ "pg_sentry s"]) (simp add: initializeSentry_def lookupEnvE_def eff_simps)
next
  case dsn: (Some dsn)
  show ?thesis
  proof (cases "ev_LookupEnv E (world (pg_sys s)) sentryEnvironmentVariable")
    case None
    with dsn show ?thesis
      by (intro exI [of _ "pg_sentry s"]) (simp add: initializeSentry_def lookupEnvE_def eff_simps)
  next
    case (Some environment)
    let ?release = "case ev_LookupEnv E (world (pg_sys s)) sentryReleaseVariable of Some r \<Rightarrow> r | None \<Rightarrow> ''unknown''"
    obtain r x where init: "sentryInitialize L dsn environment ?release (pg_sentry s) = (r, x)" by fastforce
    have "sent x = sent (pg_sentry s)" "r \<noteq> Panic"
      using sentryInitialize_sent [of L dsn environment ?release "pg_sentry s"]
        sentryInitialize_no_panic [of L dsn environment ?release "pg_sentry s"] by (simp_all add: init)
    with dsn Some init show ?thesis
      by (intro exI [of _ x]) (cases r; simp add: initializeSentry_def lookupEnvE_def eff_simps)
  qed
qed

lemma setStaticFlags_no_panic: "setStaticFlags F \<noteq> Panic"
  unfolding setStaticFlags_def bindR_Panic_iff
  by (auto dest!: mapR_no_panic [THEN notE, rotated] simp: Let_def split: sum.splits if_splits)

lemma failed_run:
  assumes "hub_laws L"
  shows "thenE (onSentry (CaptureError L (se_SetHubOnContext L ctx hub) err)) (retE (Exit 1)) s =
    (Ok (Exit 1), s\<lparr>pg_sentry := snd (CaptureError L (se_SetHubOnContext L ctx hub) err (pg_sentry s))\<rparr>)"
  using CaptureError_run(1) [OF assms, of ctx hub err "pg_sentry s"]
  by (auto simp: thenE_apply on_apply eff_apply split: prod.splits)

text \<open>The command runs in a context with a hub.\<close>

lemma main_program_context:
  "\<exists>hub x. sent x = sent (pg_sentry s) \<and>
     main_program F E L background s = command_run F E L (se_SetHubOnContext L background hub) (s\<lparr>pg_sentry := x\<rparr>)"
proof -
  obtain x where init: "initializeSentry E L s = (Ok (), s\<lparr>pg_sentry := x\<rparr>)" "sent x = sent (pg_sentry s)"
    using initializeSentry_run by blast
  obtain hub y where "SetHubOnContext L background x = (Ok (se_SetHubOnContext L background hub), x\<lparr>sentryState := y\<rparr>)"
    using SetHubOnContext_run [of L background x] by (metis prod.collapse)
  then show ?thesis
    using init by (intro exI [of _ hub] exI [of _ "x\<lparr>sentryState := y\<rparr>"])
      (simp add: main_program_def thenE_apply bindE_apply on_apply)
qed

lemma externalNetwork_no_panic: "externalNetwork sub opts \<noteq> Panic"
  using ParseCIDR_no_panic by (auto simp: externalNetwork_def res_simps split: option.splits)

text \<open>The program panics only where the framework does.\<close>

lemma main_program_no_panic:
  assumes "hub_laws L" "\<And>opts s. fst (fr_Execute F opts s) \<noteq> Panic"
  shows "fst (main_program F E L background s) \<noteq> Panic"
proof -
  obtain hub x where run: "main_program F E L background s =
      command_run F E L (se_SetHubOnContext L background hub) (s\<lparr>pg_sentry := x\<rparr>)"
    using main_program_context [of s F E L background] by blast
  show ?thesis
    using setStaticFlags_no_panic [of F] externalNetwork_no_panic assms(2) unfolding run command_run_def Let_def
    by (auto simp: handleE_apply bindE_apply on_apply eff_apply lookupEnvE_def failed_run [OF assms(1)]
      split: sum.splits option.splits res.splits prod.splits) (metis fst_conv)+
qed

text \<open>The provider that the framework gets is the one of \<open>newCloud\<close>, under the settings of the command
  line; the check for a cluster ID never fails.\<close>

lemma initializeCloud_boots:
  assumes "\<And>name m. fr_InitCloudProvider F name m = bindE m (\<lambda>c. retE (Some c))"
  shows "initializeCloud F E allocate cidr untagged s = (Ok c, t) \<longleftrightarrow>
    (\<exists>opts. cloudInitializer allocate cidr (ev_opts E) = Ok opts \<and> newCloud (E\<lparr>ev_opts := opts\<rparr>) s = (Ok c, t))"
  by (auto simp: initializeCloud_def assms eff_ok HasClusterID_def split: option.splits)

section \<open>Properties\<close>


definition failingFramework :: "unit framework" where
  "failingFramework = \<lparr>fr_NewOptions = Inr (), fr_flags = [''cloud-provider'', ''v''], fr_Set = (\<lambda>_ _. Inr ()),
     fr_kubeconfig = Some [], fr_InitCloudProvider = (\<lambda>_ m. bindE m (\<lambda>c. retE (Some c))),
     fr_Execute = (\<lambda>_. throwE (Errorf ''unknown flag'' []))\<rparr>"

text \<open>A library whose contexts are lists of hubs, and which counts.\<close>

definition countingSentry :: "(nat list, nat, nat) sentryLib" where
  "countingSentry = \<lparr>se_Init = (\<lambda>_ _ _ x. (Inr (), x)), se_CloneCurrentHub = (\<lambda>x. (x, Suc x)),
     se_SetHubOnContext = (\<lambda>c h. h # c), se_HasHubOnContext = (\<lambda>c. c \<noteq> []),
     se_GetHubFromContext = (\<lambda>c. case c of [] \<Rightarrow> None | h # _ \<Rightarrow> Some h), se_SetTag = (\<lambda>_ _ _ x. x),
     se_CaptureException = (\<lambda>_ _ x. Suc x)\<rparr>"

definition freshProgram :: "(unit, nat) program" where
  "freshProgram = \<lparr>pg_sys = sampleState (), pg_sentry = \<lparr>initialized = False, sentryState = 0, sent = []\<rparr>\<rparr>"

definition sentryEnv :: "unit env" where
  "sentryEnv = sampleEnv\<lparr>ev_LookupEnv := (\<lambda>_ k.
     if k \<in> set [sentryDSNVariable, sentryEnvironmentVariable] then Some ''x'' else None)\<rparr>"


section \<open>Corner cases\<close>

text \<open>A flag that cannot be set ends the program without a report.\<close>

lemma flag_failure_unreported:
  assumes "fr_NewOptions F = Inr ()" "setStaticFlags F = Err e"
  shows "\<exists>t. main_program F E L background s = (Ok (Exit 1), t) \<and> sent (pg_sentry t) = sent (pg_sentry s)"
proof -
  obtain hub x where "sent x = sent (pg_sentry s)" "main_program F E L background s =
      command_run F E L (se_SetHubOnContext L background hub) (s\<lparr>pg_sentry := x\<rparr>)"
    using main_program_context [of s F E L background] by blast
  then show ?thesis using assms by (simp add: command_run_def Let_def handleE_apply eff_apply)
qed

end
