(* ===== verification/Spec2Isabelle.thy ===== *)
theory Spec2Isabelle
  imports Client_Metrics Remits Program
begin

text \<open>
  A model of the Linode cloud controller manager, with theorems on what it does.

  The program connects a Kubernetes cluster to Linode. The Kubernetes framework calls its cloud
  provider, and it runs four controllers of its own. It gives each service of type
  \<open>LoadBalancer\<close> a NodeBalancer with a firewall, tells Kubernetes about the Linode behind each
  node, writes metadata and pod networks to nodes, and routes pod networks in VPCs.

  \<^bold>\<open>How a run is modelled.\<close> \<open>CCM_Prelude\<close> has Go's errors and the type \<open>('s, 'a) eff\<close> of
  computations that end with a value, an error or a panic and a new state. \<open>CCM_System\<close> has the
  state of the process (its caches, the trace of calls, and a world of which nothing is known) and
  the environment: the Linode client, Kubernetes, the clock, files, environment variables and
  options. Every operation of the environment is an arbitrary function on the world that may fail.
  \<open>CCM_Calls\<close> defines one \<open>api_\<close> operation per call, which appends the call to the trace,
  and calculi for traces: \<open>emits\<close> (only such calls), \<open>at_most\<close> (at most so many),
  \<open>traces\<close> (in such an order), \<open>leaves\<close> (a part of the state is not touched). A theorem without
  a hypothesis on the environment holds for every behaviour of Linode and Kubernetes. What the code
  runs under a lock is one step; goroutines appear as the operations they repeat, and the process as
  any sequence of such operations.

  \<^bold>\<open>Standard library.\<close> \<open>Go_Lib\<close> (\<open>strconv\<close>, \<open>strings\<close>, \<open>time\<close>),
  \<open>Go_Net\<close> (\<open>net\<close>, \<open>net/netip\<close>), \<open>Go_Json\<close> (\<open>encoding/json\<close> for the types
  used). \<open>Linode_Types\<close> has the data of the APIs, \<open>CCM_Config\<close> the annotations
  (\<open>annotations.go\<close>), the options (\<open>options.go\<close>) and their defaults (\<open>main.go\<close>).

  \<^bold>\<open>Components.\<close> Paths are below \<open>src/cloud/linode\<close> unless another one is given. Definitions keep
  the names of the functions they translate; parts of a long function have names of their own.
  \<^item> \<open>Vpc_Service\<close>: \<open>utils/common.go\<close> and \<open>services/vpc.go\<close>. Provider IDs; the caches of VPC
    and subnet names, which satisfy the contract \<open>memo_lookup\<close>; validation of the VPC flags.
  \<^item> \<open>Firewalls\<close>: \<open>services/firewalls.go\<close>. From access lists to rules within the limits of the
    API; reconciliation stops at a fixed point, attaches before it detaches, and deletes only unused
    firewalls.
  \<^item> \<open>Port_Config\<close>: \<open>loadbalancers_helpers.go\<close> and the pure part of \<open>loadbalancers.go\<close>. The
    settings of a port, each an instance of \<open>validated_setting\<close>; only supported combinations are
    accepted, with a fixed precedence of annotations.
  \<^item> \<open>NB_Config\<close>: \<open>loadbalancers.go\<close>, requests for a NodeBalancer: configs, certificates,
    subnets, backends, labels.
  \<^item> \<open>NodeBalancers\<close>: \<open>loadbalancers.go\<close>, finding, ensuring, updating and deleting the
    NodeBalancer of a service: which calls, in which order, how often, and never for which
    NodeBalancers.
  \<^item> \<open>Service_Controller\<close>: \<open>service_controller.go\<close>; \<open>Node_Controller\<close>:
    \<open>node_controller.go\<close>. Both workers satisfy \<open>retry_worker\<close> (in \<open>Retry_Worker\<close>): an item
    is put back exactly after errors that may pass, and always marked as done. The cache of
    registered nodes keeps its two maps in agreement; metadata converge.
  \<^item> \<open>Instances\<close>: \<open>services/instances.go\<close>; \<open>Route_Controller\<close>: \<open>route_controller.go\<close>. Their
    caches, and the one of registered nodes, satisfy \<open>ttl_cache\<close> (in \<open>Ttl_Cache\<close>). Lookups
    and metadata are sound; route updates are exact with respect to the cache.
  \<^item> \<open>Cloud_Allocator\<close>: \<open>src/cloud/nodeipam\<close> and \<open>nodeipamcontroller.go\<close>. What becomes of an
    allocated CIDR, that occupying and releasing agree, where IPv6 networks lie, and that the worker
    does not lose items.
  \<^item> \<open>Client_Metrics\<close>: \<open>client/client_with_metrics.go\<close>. The client with counters refines the client
    it wraps (\<open>metered\<close>).
  \<^item> \<open>Cloud_Provider\<close>: \<open>cloud.go\<close>, \<open>health_check.go\<close>, \<open>client/client.go\<close> and parts of
    \<open>main.go\<close>. Tokens, start-up, health checks, the interfaces that are offered.
  \<^item> \<open>Controllers\<close>: the process. A run starts with \<open>newCloud\<close> and \<open>Initialize\<close> and goes on with the
    operations of the framework, the event handlers (in the \<open>Run\<close> functions), the loops of the
    workers, health checks and changes outside, in any order (\<open>running\<close>). Every operation is shown to
    keep a preorder on states (\<open>good_step\<close>, an instance of \<open>eff_preorder\<close>), from which the
    invariant of all reachable states follows by rule induction.
  \<^item> \<open>Remits\<close>: which operation may change what (\<open>remit\<close>), and that a run keeps to the options.
  \<^item> \<open>Sentry\<close>: \<open>src/sentry/sentry.go\<close>; \<open>Program\<close>: \<open>src/main.go\<close>. Error reporting, the
    flags with fixed values, the options that do not come from flags, and how the program ends.
  \<^item> \<open>Sample_Env\<close>: an environment in which nothing works, from which concrete runs start.

  Each component ends with its properties, numbered C1 to C40, each with a concrete instance where it
  has hypotheses, and with corner cases: lemmas on behaviour that is easily overlooked.

  \<^bold>\<open>Loops and bounds.\<close> Loops are structural recursion over the data the code ranges over, or
  recursive functions with a termination proof (\<open>coerceString\<close>, \<open>chunkLoop\<close>). The JSON
  parser has fuel, the length of its input, which is enough since each level of nesting takes a
  character; \<open>pvalue_fuel\<close> shows that more changes nothing. Go's \<open>int\<close> is bounded where numbers are
  parsed and where durations are computed (\<open>Seconds\<close> wraps at 64 bits, \<open>Since\<close> saturates);
  addresses and masks are lists of 8-bit words. Iteration over a Go map is in an order that the
  environment chooses. \<open>retry.RetryOnConflict\<close> and polling are parameters; where a property
  depends on the former, it is assumed to run its function a bounded number of times
  (\<open>retryRuns\<close>), and likewise the polling at start-up (\<open>pollRuns\<close>). The loop of a worker runs until
  its queue is shut down; \<open>workerLoop\<close> bounds the items considered, \<open>workerLoop_fuel\<close> shows that a
  higher bound does not change a loop that has ended, and \<open>workerLoop_ends\<close> that it ends when the
  queue is drained.

  \<^bold>\<open>Not modelled.\<close> Logging and event recording, which do not influence the program. The registration
  of handlers, the starting of goroutines, contexts and timeouts, and the parsing of flags, which are
  calls of Kubernetes libraries; so is what the \<open>Run\<close> functions do besides. A step of the process is a
  whole operation: two operations that run at the same time are not interleaved call by call, although
  the locks of the caches allow this between their own critical sections. The texts that the error
  types format. The registration of the counters (\<open>metrics.go\<close>). The mock client, which is generated
  for tests. Libraries (\<open>linodego\<close>, \<open>client-go\<close>, \<open>cidrset\<close>, work queues, Prometheus, Sentry,
  the framework of cloud controllers) are parameters.
\<close>

end
